(* ===== verification/Go_Prelude.thy ===== *)
theory Go_Prelude
  imports Main "HOL-Library.Word" "HOL-Library.AList" "HOL-Library.Char_ord" "HOL-Library.List_Lexorder"
begin

text \<open>
  What the components share: names for the machine integers and times of the Go sources, the
  parts of the Go library the sources call (package strings, encoding/hex, maps, slices), and
  the lemmas on them that carry the component proofs.

  A Go string is a sequence of bytes, a HOL \<^typ>\<open>string\<close> is a list of 8-bit characters. A
  \<open>time.Time\<close> is the number of nanoseconds since Go's zero time, so \<open>IsZero\<close> is equality
  with 0 and \<open>UTC\<close>, which changes the presentation only, is the identity. A Go map is an
  association list with distinct keys: \<open>len\<close> is the length, and where the source ranges over
  a map the development proves its result independent of the order, or the order is an argument.
\<close>

unbundle bit_operations_syntax

named_theorems go_simps \<open>equations for the Go library functions\<close>

type_synonym uint8 = "8 word"
type_synonym uint16 = "16 word"
type_synonym uint32 = "32 word"
type_synonym uint64 = "64 word"
type_synonym time = int
type_synonym duration = int
type_synonym ('k, 'v) gomap = "('k \<times> 'v) list"
type_synonym 'v strmap = "(string, 'v) gomap"

abbreviation nanosecond :: duration where "nanosecond \<equiv> 1"
abbreviation millisecond :: duration where "millisecond \<equiv> 1000000"
abbreviation second :: duration where "second \<equiv> 1000000000"
abbreviation minute :: duration where "minute \<equiv> 60000000000"
abbreviation hour :: duration where "hour \<equiv> 3600000000000"

section \<open>Times\<close>

text \<open>\<open>Time.Sub\<close> saturates at the bounds of a 64-bit duration.\<close>

definition max_duration :: duration where
  "max_duration = 2 ^ 63 - 1"

definition min_duration :: duration where
  "min_duration = - (2 ^ 63)"

definition time_sub :: "time \<Rightarrow> time \<Rightarrow> duration" where
  "time_sub t u = max min_duration (min max_duration (t - u))"

text \<open>The Unix epoch, in nanoseconds since the zero time.\<close>

definition unix_epoch :: time where
  "unix_epoch = 62135596800 * second"

definition unix_milli :: "time \<Rightarrow> int" where
  "unix_milli t = (t - unix_epoch) div millisecond"

definition time_of_unix_milli :: "int \<Rightarrow> time" where
  "time_of_unix_milli ms = unix_epoch + ms * millisecond"

section \<open>Strings\<close>

text \<open>\<open>strings.Cut\<close> at a one-byte separator.\<close>

fun cut :: "char \<Rightarrow> string \<Rightarrow> (string \<times> string) option" where
  "cut c [] = None"
| "cut c (x # xs) =
     (if x = c then Some ([], xs)
      else map_option (\<lambda>(a, b). (x # a, b)) (cut c xs))"

definition has_prefix :: "string \<Rightarrow> string \<Rightarrow> bool" where
  "has_prefix s p \<longleftrightarrow> take (length p) s = p"

definition has_suffix :: "string \<Rightarrow> string \<Rightarrow> bool" where
  "has_suffix s p \<longleftrightarrow> has_prefix (rev s) (rev p)"

definition trim_prefix :: "string \<Rightarrow> string \<Rightarrow> string" where
  "trim_prefix s p = (if has_prefix s p then drop (length p) s else s)"

definition trim_suffix :: "string \<Rightarrow> string \<Rightarrow> string" where
  "trim_suffix s p = (if has_suffix s p then take (length s - length p) s else s)"

fun contains_str :: "string \<Rightarrow> string \<Rightarrow> bool" where
  "contains_str [] p \<longleftrightarrow> p = []"
| "contains_str (x # xs) p \<longleftrightarrow> has_prefix (x # xs) p \<or> contains_str xs p"

text \<open>\<open>strings.Split\<close> at a one-byte separator: never the empty list.\<close>

fun split_on :: "char \<Rightarrow> string \<Rightarrow> string list" where
  "split_on c [] = [[]]"
| "split_on c (x # xs) =
     (if x = c then [] # split_on c xs
      else (case split_on c xs of [] \<Rightarrow> [[x]] | y # ys \<Rightarrow> (x # y) # ys))"

text \<open>\<open>strings.ToLower\<close> on ASCII; the bytes of a character beyond ASCII are left alone.\<close>

definition lower_char :: "char \<Rightarrow> char" where
  "lower_char c = (if of_char c \<ge> (65::nat) \<and> of_char c \<le> (90::nat)
                   then char_of (of_char c + (32::nat)) else c)"

definition to_lower :: "string \<Rightarrow> string" where
  "to_lower s = map lower_char s"

text \<open>Go's three-way comparison of strings is bytewise.\<close>

definition str_compare :: "string \<Rightarrow> string \<Rightarrow> int" where
  "str_compare a b = (if a < b then - 1 else if a = b then 0 else 1)"

section \<open>Character classes of the regular expressions\<close>

definition in_range :: "char \<Rightarrow> char \<Rightarrow> char \<Rightarrow> bool" where
  "in_range lo hi c \<longleftrightarrow> (of_char lo :: nat) \<le> of_char c \<and> (of_char c :: nat) \<le> of_char hi"

definition is_digit :: "char \<Rightarrow> bool" where
  "is_digit c \<longleftrightarrow> in_range CHR ''0'' CHR ''9'' c"

definition is_lower :: "char \<Rightarrow> bool" where
  "is_lower c \<longleftrightarrow> in_range CHR ''a'' CHR ''z'' c"

definition is_upper :: "char \<Rightarrow> bool" where
  "is_upper c \<longleftrightarrow> in_range CHR ''A'' CHR ''Z'' c"

definition is_lower_hex :: "char \<Rightarrow> bool" where
  "is_lower_hex c \<longleftrightarrow> is_digit c \<or> in_range CHR ''a'' CHR ''f'' c"

text \<open>\<^verbatim>\<open>^sha256:[0-9a-f]{64}$\<close>, used by every component.\<close>

definition digest_pattern :: "string \<Rightarrow> bool" where
  "digest_pattern s \<longleftrightarrow>
     has_prefix s ''sha256:'' \<and> length s = 71 \<and> list_all is_lower_hex (drop 7 s)"

text \<open>\<^verbatim>\<open>^[0-9a-f]{64}$\<close>.\<close>

definition hex64_pattern :: "string \<Rightarrow> bool" where
  "hex64_pattern s \<longleftrightarrow> length s = 64 \<and> list_all is_lower_hex s"

section \<open>Hexadecimal\<close>

definition hex_digit :: "nat \<Rightarrow> char" where
  "hex_digit n = (if n < 10 then char_of (48 + n) else char_of (87 + n))"

text \<open>\<open>encoding/hex\<close> decodes digits of either case.\<close>

definition hex_value :: "char \<Rightarrow> nat option" where
  "hex_value c =
     (if is_digit c then Some (of_char c - 48)
      else if in_range CHR ''a'' CHR ''f'' c then Some (of_char c - 87)
      else if in_range CHR ''A'' CHR ''F'' c then Some (of_char c - 55)
      else None)"

definition hex_byte :: "uint8 \<Rightarrow> string" where
  "hex_byte b = [hex_digit (unat b div 16), hex_digit (unat b mod 16)]"

definition hex_encode :: "uint8 list \<Rightarrow> string" where
  "hex_encode bs = concat (map hex_byte bs)"

fun hex_decode :: "string \<Rightarrow> uint8 list option" where
  "hex_decode [] = Some []"
| "hex_decode [c] = None"
| "hex_decode (a # b # cs) =
     (case hex_value a of None \<Rightarrow> None
      | Some h \<Rightarrow> (case hex_value b of None \<Rightarrow> None
        | Some l \<Rightarrow> map_option (\<lambda>bs. of_nat (16 * h + l) # bs) (hex_decode cs)))"

text \<open>\<open>fmt\<close>'s \<^verbatim>\<open>%0nx\<close> of a value of at most \<open>n\<close> digits.\<close>

definition hex_fixed :: "nat \<Rightarrow> nat \<Rightarrow> string" where
  "hex_fixed n v = map (\<lambda>i. hex_digit (v div 16 ^ i mod 16)) (rev [0..<n])"

text \<open>A big-endian unsigned integer.\<close>

definition big_endian :: "uint8 list \<Rightarrow> nat" where
  "big_endian bs = foldl (\<lambda>acc b. 256 * acc + unat b) 0 bs"

text \<open>\<open>strconv.ParseInt\<close> in base 16, on digits only, without the 64-bit bound.\<close>

definition parse_hex :: "string \<Rightarrow> nat option" where
  "parse_hex s =
     (if s = [] then None
      else foldl (\<lambda>acc c. case acc of None \<Rightarrow> None
                   | Some v \<Rightarrow> map_option (\<lambda>d. 16 * v + d) (hex_value c)) (Some 0) s)"

section \<open>Maps\<close>

abbreviation mget :: "('k, 'v) gomap \<Rightarrow> 'k \<Rightarrow> 'v option" where
  "mget m k \<equiv> map_of m k"

abbreviation mput :: "'k \<Rightarrow> 'v \<Rightarrow> ('k, 'v) gomap \<Rightarrow> ('k, 'v) gomap" where
  "mput k v m \<equiv> AList.update k v m"

abbreviation mdel :: "'k \<Rightarrow> ('k, 'v) gomap \<Rightarrow> ('k, 'v) gomap" where
  "mdel k m \<equiv> AList.delete k m"

text \<open>Every Go map has one entry per key.\<close>

definition wf_map :: "('k, 'v) gomap \<Rightarrow> bool" where
  "wf_map m \<longleftrightarrow> distinct (map fst m)"

section \<open>Slices\<close>

text \<open>
  A loop that rejects a repeated key: it carries the set of keys it has seen, and ends when
  \<open>f\<close> reports an error or the key repeats.
\<close>

fun check_unique :: "('a \<Rightarrow> 'e option) \<Rightarrow> ('a \<Rightarrow> 'k) \<Rightarrow> 'e \<Rightarrow> 'k list \<Rightarrow> 'a list \<Rightarrow> 'e option" where
  "check_unique f key dup seen [] = None"
| "check_unique f key dup seen (x # xs) =
     (case f x of Some e \<Rightarrow> Some e
      | None \<Rightarrow> if key x \<in> set seen then Some dup
                else check_unique f key dup (key x # seen) xs)"

text \<open>A loop over a slice that ends at the first error.\<close>

fun check_each :: "('a \<Rightarrow> 'e option) \<Rightarrow> 'a list \<Rightarrow> 'e option" where
  "check_each f [] = None"
| "check_each f (x # xs) = (case f x of Some e \<Rightarrow> Some e | None \<Rightarrow> check_each f xs)"

text \<open>Stable insertion sort by a three-way comparison, for \<open>slices.SortStableFunc\<close>.\<close>

fun insert_by :: "('a \<Rightarrow> 'a \<Rightarrow> int) \<Rightarrow> 'a \<Rightarrow> 'a list \<Rightarrow> 'a list" where
  "insert_by cmp x [] = [x]"
| "insert_by cmp x (y # ys) = (if cmp x y \<le> 0 then x # y # ys else y # insert_by cmp x ys)"

definition sort_by :: "('a \<Rightarrow> 'a \<Rightarrow> int) \<Rightarrow> 'a list \<Rightarrow> 'a list" where
  "sort_by cmp xs = foldr (insert_by cmp) xs []"

section \<open>Contexts and durable bytes\<close>

text \<open>\<open>ctx.Err()\<close>: nothing while the context lives, one of two errors afterwards.\<close>

datatype ctx_error = Canceled | DeadlineExceeded

text \<open>
  Package \<open>canonicaljson\<close> and the strict decoders (unknown fields and trailing data refused) are
  used through a pair of functions over a type of byte strings. What the stores rely on is that
  decoding what was encoded gives the value back; \<open>identity_codec\<close> shows it can hold.
\<close>

record ('a, 'b) codec =
  cd_encode :: "'a \<Rightarrow> 'b option"
  cd_decode :: "'b \<Rightarrow> 'a option"
  cd_size :: "'b \<Rightarrow> nat"

definition codec_ok :: "('a, 'b) codec \<Rightarrow> bool" where
  "codec_ok c \<longleftrightarrow> (\<forall>x y. cd_encode c x = Some y \<longrightarrow> cd_decode c y = Some x)"

definition identity_codec :: "('a, 'a) codec" where
  "identity_codec = \<lparr>cd_encode = Some, cd_decode = Some, cd_size = (\<lambda>_. 0)\<rparr>"

text \<open>A file as \<open>os.Lstat\<close> and \<open>os.Open\<close> see it.\<close>

record 'b disk_file =
  df_regular :: bool
  df_perm :: nat
  df_contents :: "'b"

text \<open>
  The steps of an atomic replacement (temporary file of mode 0600, rename, directory sync), to say where a
  failure strikes. Up to the rename the old file is in place; after it the new one is.
\<close>

datatype write_step =
    CreateTempStep | ChmodStep | WriteStep | SyncStep | CloseStep | RenameStep | DirOpenStep | DirSyncStep

definition after_rename :: "write_step \<Rightarrow> bool" where
  "after_rename st \<longleftrightarrow> st = DirOpenStep \<or> st = DirSyncStep"

definition replace_file :: "write_step option \<Rightarrow> 'b \<Rightarrow> 'b disk_file option \<Rightarrow> bool \<times> 'b disk_file option" where
  "replace_file fault new old =
     (let written = Some \<lparr>df_regular = True, df_perm = 384, df_contents = new\<rparr> in
      case fault of
        None \<Rightarrow> (True, written)
      | Some st \<Rightarrow> (False, if after_rename st then written else old))"

section \<open>Lemmas on times and strings\<close>

lemma time_sub_gt [go_simps]:
  "min_duration \<le> d \<Longrightarrow> d < max_duration \<Longrightarrow> time_sub t u > d \<longleftrightarrow> t - u > d"
  by (auto simp: time_sub_def min_duration_def max_duration_def)

lemma time_sub_le:
  "min_duration \<le> d \<Longrightarrow> d < max_duration \<Longrightarrow> time_sub t u \<le> d \<longleftrightarrow> t - u \<le> d"
  by (auto simp: time_sub_def min_duration_def max_duration_def)

lemma cut_Some_append: "cut c s = Some (a, b) \<Longrightarrow> s = a @ c # b \<and> c \<notin> set a"
  by (induction s arbitrary: a) (auto split: if_splits)

lemma cut_append: "c \<notin> set a \<Longrightarrow> cut c (a @ c # b) = Some (a, b)"
  by (induction a) auto

lemma cut_iff: "cut c s = Some (a, b) \<longleftrightarrow> s = a @ c # b \<and> c \<notin> set a"
  using cut_Some_append cut_append by metis

lemma cut_None_iff: "cut c s = None \<longleftrightarrow> c \<notin> set s"
  by (induction s) auto

lemma has_prefix_append [simp]: "has_prefix (p @ s) p"
  by (simp add: has_prefix_def)

lemma has_prefix_iff: "has_prefix s p \<longleftrightarrow> (\<exists>t. s = p @ t)"
  by (metis append_eq_conv_conj append_take_drop_id has_prefix_def)

lemma trim_prefix_append [simp]: "trim_prefix (p @ s) p = s"
  by (simp add: trim_prefix_def)

lemma has_suffix_append [simp]: "has_suffix (s @ p) p"
  by (simp add: has_suffix_def)

lemma has_suffix_iff: "has_suffix s p \<longleftrightarrow> (\<exists>t. s = t @ p)"
proof -
  have "(\<exists>t. rev s = rev p @ t) \<longleftrightarrow> (\<exists>t. s = t @ p)"
    by (metis rev_append rev_rev_ident)
  then show ?thesis by (simp add: has_suffix_def has_prefix_iff)
qed

lemma str_compare_0 [simp]: "str_compare a b = 0 \<longleftrightarrow> a = b"
  by (simp add: str_compare_def)

lemma str_compare_le: "str_compare a b \<le> 0 \<longleftrightarrow> a \<le> b"
  by (auto simp: str_compare_def)

lemma split_on_not_Nil [simp]: "split_on c s \<noteq> []"
  by (cases s) (auto split: list.splits)

section \<open>Lemmas on hexadecimal text\<close>

lemma of_char_hex_digit [simp]:
  "n < 16 \<Longrightarrow> of_char (hex_digit n) = (if n < 10 then 48 + n else 87 + n)"
  by (simp add: hex_digit_def)

lemma hex_digit_numerals:
  "hex_digit 0 = CHR ''0''" "hex_digit 1 = CHR ''1''" "hex_digit 2 = CHR ''2''" "hex_digit 3 = CHR ''3''"
  "hex_digit 4 = CHR ''4''" "hex_digit 5 = CHR ''5''" "hex_digit 6 = CHR ''6''" "hex_digit 7 = CHR ''7''"
  "hex_digit 8 = CHR ''8''" "hex_digit 9 = CHR ''9''" "hex_digit 10 = CHR ''a''" "hex_digit 11 = CHR ''b''"
  "hex_digit 12 = CHR ''c''" "hex_digit 13 = CHR ''d''" "hex_digit 14 = CHR ''e''" "hex_digit 15 = CHR ''f''"
  by (simp_all add: hex_digit_def char_of_def bit_Suc_0_iff)

lemma of_char_consts [simp]:
  "of_char CHR ''0'' = (48::nat)" "of_char CHR ''9'' = (57::nat)"
  "of_char CHR ''a'' = (97::nat)" "of_char CHR ''f'' = (102::nat)"
  "of_char CHR ''z'' = (122::nat)" "of_char CHR ''A'' = (65::nat)"
  "of_char CHR ''F'' = (70::nat)" "of_char CHR ''Z'' = (90::nat)"
  by simp_all

lemma is_lower_hex_hex_digit [simp]: "n < 16 \<Longrightarrow> is_lower_hex (hex_digit n)"
  by (auto simp: is_lower_hex_def is_digit_def in_range_def)

lemma hex_value_hex_digit [simp]: "n < 16 \<Longrightarrow> hex_value (hex_digit n) = Some n"
  by (auto simp: hex_value_def is_digit_def in_range_def)

lemma hex_value_less: "hex_value c = Some v \<Longrightarrow> v < 16"
  by (auto simp: hex_value_def is_digit_def in_range_def split: if_splits)

lemma hex_digit_hex_value:
  "is_lower_hex c \<Longrightarrow> \<exists>v. hex_value c = Some v \<and> v < 16 \<and> hex_digit v = c"
  by (auto simp: is_lower_hex_def hex_value_def is_digit_def in_range_def hex_digit_def)

lemma is_lower_hex_not_dash [simp]: "is_lower_hex c \<Longrightarrow> c \<noteq> CHR ''-''"
  by (auto simp: is_lower_hex_def is_digit_def in_range_def)

lemma lower_char_hex [simp]: "is_lower_hex c \<Longrightarrow> lower_char c = c"
  by (auto simp: lower_char_def is_lower_hex_def is_digit_def in_range_def)

lemma unat_uint8_less [simp]: "unat (b :: uint8) < 256"
  using unsigned_less[of b, where ?'a = nat] by simp

lemma unat_of_nat_small: "n < 2 ^ LENGTH('a) \<Longrightarrow> unat (of_nat n :: 'a::len word) = n"
  by (simp add: unat_of_nat)

lemma length_hex_byte [simp]: "length (hex_byte b) = 2"
  by (simp add: hex_byte_def)

lemma length_hex_encode [simp]: "length (hex_encode bs) = 2 * length bs"
  by (induction bs) (auto simp: hex_encode_def)

lemma hex_encode_Nil [simp]: "hex_encode [] = []"
  by (simp add: hex_encode_def)

lemma hex_encode_Cons [simp]: "hex_encode (b # bs) = hex_byte b @ hex_encode bs"
  by (simp add: hex_encode_def)

lemma hex_encode_append [simp]: "hex_encode (as @ bs) = hex_encode as @ hex_encode bs"
  by (induction as) auto

lemma hex_encode_lower: "c \<in> set (hex_encode bs) \<Longrightarrow> is_lower_hex c"
  by (induction bs) (auto simp: hex_byte_def less_mult_imp_div_less)

lemma hex_byte_roundtrip: "of_nat (16 * (unat (b::uint8) div 16) + unat b mod 16) = b"
  by (simp only: mult_div_mod_eq) simp

lemma hex_decode_encode [simp]: "hex_decode (hex_encode bs) = Some bs"
proof (induction bs)
  case Nil
  then show ?case by simp
next
  case (Cons b bs)
  have "unat b div 16 < 16" by (simp add: less_mult_imp_div_less)
  with Cons show ?case by (simp add: hex_byte_def hex_byte_roundtrip del: of_nat_add of_nat_mult)
qed

lemma hex_decode_length: "hex_decode s = Some bs \<Longrightarrow> length s = 2 * length bs"
  by (induction s arbitrary: bs rule: hex_decode.induct) (auto split: option.splits)

lemma hex_decode_lower:
  "list_all is_lower_hex s \<Longrightarrow> even (length s) \<Longrightarrow> \<exists>bs. hex_decode s = Some bs \<and> hex_encode bs = s"
proof (induction s rule: hex_decode.induct)
  case (3 a b cs)
  obtain h where h: "hex_value a = Some h" "h < 16" "hex_digit h = a"
    using 3 hex_digit_hex_value by fastforce
  obtain l where l: "hex_value b = Some l" "l < 16" "hex_digit l = b"
    using 3 hex_digit_hex_value by fastforce
  from 3 h l obtain bs where bs: "hex_decode cs = Some bs" "hex_encode bs = cs" by auto
  have "unat (of_nat (16 * h + l) :: uint8) = 16 * h + l"
    using h l by (intro unat_of_nat_small) simp
  then have "hex_byte (of_nat (16 * h + l)) = [a, b]"
    using h l by (simp add: hex_byte_def)
  with bs h l show ?case by simp
qed auto

lemma digest_pattern_encode:
  "length bs = 32 \<Longrightarrow> digest_pattern (''sha256:'' @ hex_encode bs)"
  using hex_encode_lower[of _ bs]
  by (auto simp: digest_pattern_def has_prefix_def list_all_iff)

section \<open>Lemmas on maps\<close>

lemma wf_map_Nil [simp]: "wf_map []"
  by (simp add: wf_map_def)

lemma wf_map_mput [simp, intro]: "wf_map m \<Longrightarrow> wf_map (mput k v m)"
  by (simp add: wf_map_def distinct_update)

lemma wf_map_mdel [simp, intro]: "wf_map m \<Longrightarrow> wf_map (mdel k m)"
  by (simp add: wf_map_def distinct_delete)

lemma mget_mput [simp]: "mget (mput k v m) j = (if j = k then Some v else mget m j)"
  by (simp add: update_conv)

lemma mget_mput_upd: "mget (mput k v m) = (mget m)(k \<mapsto> v)"
  by (simp add: fun_eq_iff)

lemma mget_mdel [simp]: "mget (mdel k m) j = (if j = k then None else mget m j)"
  by (simp add: delete_conv)

lemma length_mput: "length (mput k v m) = (if mget m k = None then Suc (length m) else length m)"
  by (induction m) (auto simp: map_of_eq_None_iff)

lemma wf_map_in_set: "wf_map m \<Longrightarrow> (k, v) \<in> set m \<longleftrightarrow> mget m k = Some v"
  by (simp add: wf_map_def)

lemma set_mput: "wf_map m \<Longrightarrow> (j, w) \<in> set (mput k v m) \<longleftrightarrow> (if j = k then w = v else (j, w) \<in> set m)"
  by (metis map_of_is_SomeI map_of_SomeD mget_mput option.inject wf_map_def wf_map_mput)

lemma length_eq_card_keys: "wf_map m \<Longrightarrow> length m = card (fst ` set m)"
  by (metis distinct_card length_map list.set_map wf_map_def)

lemma codec_okD: "codec_ok c \<Longrightarrow> cd_encode c x = Some y \<Longrightarrow> cd_decode c y = Some x"
  by (simp add: codec_ok_def)

lemma identity_codec_simps [simp]:
  "cd_encode identity_codec = Some" "cd_decode identity_codec = Some" "cd_size identity_codec = (\<lambda>_. 0)"
  by (simp_all add: identity_codec_def)

lemma codec_ok_identity [simp]: "codec_ok identity_codec"
  by (simp add: codec_ok_def identity_codec_def)

lemma set_mput_subset: "set (mput k v m) \<subseteq> insert (k, v) (set m)"
  by (induction m) auto

lemma list_all_mput: "list_all P m \<Longrightarrow> P (k, v) \<Longrightarrow> list_all P (mput k v m)"
  using set_mput_subset [of k v m] by (auto simp: list_all_iff)

lemma list_all2_mget:
  assumes "list_all2 (\<lambda>x y. fst x = fst y \<and> R (snd x) (snd y)) m m'"
  shows "rel_option R (mget m k) (mget m' k)"
  using assms by (induction rule: list_all2_induct) (auto split: prod.splits)

lemma list_all2_mput:
  assumes "list_all2 (\<lambda>x y. fst x = fst y \<and> R (snd x) (snd y)) m m'" "R v v'"
  shows "list_all2 (\<lambda>x y. fst x = fst y \<and> R (snd x) (snd y)) (mput k v m) (mput k v' m')"
  using assms(1) by (induction rule: list_all2_induct) (auto simp: assms(2))

lemma keyset_mput: "fst ` set (mput k v m) = insert k (fst ` set m)"
proof -
  have "dom (mget (mput k v m)) = insert k (dom (mget m))" by (auto simp: dom_def)
  then show ?thesis unfolding dom_map_of_conv_image_fst .
qed

lemma keys_mdel: "fst ` set (mdel k m) = fst ` set m - {k}"
proof -
  have "dom (mget (mdel k m)) = dom (mget m) - {k}" by (auto simp: dom_def)
  then show ?thesis unfolding dom_map_of_conv_image_fst .
qed

lemma mget_None_keys: "map fst m = map fst m' \<Longrightarrow> mget m k = None \<longleftrightarrow> mget m' k = None"
  by (metis list.set_map map_of_eq_None_iff)

lemma keys_mput: "map fst m = map fst m' \<Longrightarrow> map fst (mput k v m) = map fst (mput k v' m')"
  by (simp add: update_keys)

lemma all_true_mget: "\<forall>kv \<in> set m. snd kv \<Longrightarrow> mget m k = Some True \<longleftrightarrow> mget m k \<noteq> None"
  by (cases "mget m k") (auto dest!: map_of_SomeD bspec)

section \<open>Lemmas on slices\<close>

lemma check_each_None [simp]: "check_each f xs = None \<longleftrightarrow> (\<forall>x \<in> set xs. f x = None)"
  by (induction xs) (auto split: option.splits)

lemma check_unique_None:
  "check_unique f key dup seen xs = None \<longleftrightarrow>
     (\<forall>x \<in> set xs. f x = None) \<and> distinct (map key xs) \<and> set (map key xs) \<inter> set seen = {}"
  by (induction xs arbitrary: seen) (auto split: option.splits if_splits)

lemma set_insert_by [simp]: "set (insert_by cmp x ys) = insert x (set ys)"
  by (induction ys) auto

lemma set_sort_by [simp]: "set (sort_by cmp xs) = set xs"
  by (induction xs) (auto simp: sort_by_def)

lemma length_insert_by [simp]: "length (insert_by cmp x ys) = Suc (length ys)"
  by (induction ys) auto

lemma length_sort_by [simp]: "length (sort_by cmp xs) = length xs"
  by (induction xs) (auto simp: sort_by_def)

lemma sort_by_Cons [simp]: "sort_by cmp (x # xs) = insert_by cmp x (sort_by cmp xs)"
  by (simp add: sort_by_def)

lemma sort_by_Nil [simp]: "sort_by cmp [] = []"
  by (simp add: sort_by_def)

end
