(* ===== verification/Platform_Id.thy ===== *)
theory Platform_Id
  imports Go_Prelude
begin

text \<open>
  Prefixed UUIDv7 resource identifiers: \<^verbatim>\<open>src/internal/platformid/id.go\<close>. The reader
  \<open>randomness\<close> is the bytes it can deliver (\<open>None\<close> for a nil reader), and the error values
  keep the branch that raised them. The main facts are that an identifier made by \<open>NewAt\<close>
  parses, and gives back its prefix and its millisecond, and what \<open>Parse\<close> accepts.
\<close>

datatype id_error =
    MissingSeparator
  | UnsupportedPrefix string
  | NilRandomness
  | TimestampRange
  | ShortRandomness
  | NotLowercase
  | BadSeparators
  | MalformedUUID
  | BadVersion
  | BadVariant
  | NotCanonical
  | BadTimestampText

type_synonym ID = string

definition uuidTextLength :: nat where
  "uuidTextLength = 36"

definition allowedPrefixes :: "string list" where
  "allowedPrefixes =
     [''acct'', ''org'', ''mbr'', ''inv'', ''prj'', ''env'',
      ''svc'', ''src'', ''snp'', ''bld'', ''rev'', ''dep'',
      ''rel'', ''op'', ''dom'', ''crt'', ''rte'', ''add'',
      ''att'', ''bkp'', ''rst'', ''sch'', ''wh'', ''whd'',
      ''key'', ''evt'', ''tgt'', ''edg'', ''cell'', ''pop'',
      ''use'', ''sec'', ''var'', ''vol'', ''job'', ''run'',
      ''pol'', ''inc'', ''ses'', ''tok'',
      ''upl'', ''fet'', ''psb'']"

text \<open>The assignments to \<open>raw\<close>: six timestamp bytes, then version and variant bits.\<close>

definition uuid_raw :: "int \<Rightarrow> uint8 list \<Rightarrow> uint8 list" where
  "uuid_raw milliseconds raw =
     (let ms = (word_of_int milliseconds :: uint64) in
      raw[0 := ucast (drop_bit 40 ms), 1 := ucast (drop_bit 32 ms), 2 := ucast (drop_bit 24 ms),
          3 := ucast (drop_bit 16 ms), 4 := ucast (drop_bit 8 ms), 5 := ucast ms,
          6 := 0x70 OR (raw ! 6 AND 0x0f),
          8 := 0x80 OR (raw ! 8 AND 0x3f)])"

definition subslice :: "nat \<Rightarrow> nat \<Rightarrow> 'a list \<Rightarrow> 'a list" where
  "subslice i j xs = take (j - i) (drop i xs)"

definition format_uuid :: "uint8 list \<Rightarrow> string" where
  "format_uuid raw =
     hex_fixed 8 (big_endian (subslice 0 4 raw)) @ ''-'' @
     hex_fixed 4 (big_endian (subslice 4 6 raw)) @ ''-'' @
     hex_fixed 4 (big_endian (subslice 6 8 raw)) @ ''-'' @
     hex_fixed 4 (big_endian (subslice 8 10 raw)) @ ''-'' @
     hex_encode (subslice 10 16 raw)"

definition NewAt :: "string \<Rightarrow> time \<Rightarrow> uint8 list option \<Rightarrow> id_error + ID" where
  "NewAt prefix now randomness =
     (if prefix \<notin> set allowedPrefixes then Inl (UnsupportedPrefix prefix)
      else case randomness of
        None \<Rightarrow> Inl NilRandomness
      | Some bytes \<Rightarrow>
          let milliseconds = unix_milli now in
          if milliseconds < 0 \<or> milliseconds > 2 ^ 48 - 1 then Inl TimestampRange
          else if length bytes < 16 then Inl ShortRandomness
          else Inr (prefix @ ''_'' @ format_uuid (uuid_raw milliseconds (take 16 bytes))))"

text \<open>
  \<open>hex.Decode\<close> fills the front of the 16-byte array; \<open>decode_raw\<close> leaves the rest zero, and
  \<open>parse_no_overrun\<close> below shows that it never writes past the end.
\<close>

definition decode_raw :: "string \<Rightarrow> uint8 list option" where
  "decode_raw compact =
     map_option (\<lambda>bs. bs @ replicate (16 - length bs) 0) (hex_decode compact)"

definition canonical_uuid :: "uint8 list \<Rightarrow> string" where
  "canonical_uuid raw =
     hex_encode (subslice 0 4 raw) @ ''-'' @ hex_encode (subslice 4 6 raw) @ ''-'' @
     hex_encode (subslice 6 8 raw) @ ''-'' @ hex_encode (subslice 8 10 raw) @ ''-'' @
     hex_encode (subslice 10 16 raw)"

definition strip_dashes :: "string \<Rightarrow> string" where
  "strip_dashes s = filter (\<lambda>c. c \<noteq> CHR ''-'') s"

definition Parse :: "string \<Rightarrow> id_error + ID" where
  "Parse value =
     (case cut CHR ''_'' value of
        None \<Rightarrow> Inl MissingSeparator
      | Some (prefix, uuid) \<Rightarrow>
          if prefix \<notin> set allowedPrefixes then Inl (UnsupportedPrefix prefix)
          else if length uuid \<noteq> uuidTextLength \<or> uuid \<noteq> to_lower uuid then Inl NotLowercase
          else if uuid ! 8 \<noteq> CHR ''-'' \<or> uuid ! 13 \<noteq> CHR ''-'' \<or> uuid ! 18 \<noteq> CHR ''-'' \<or>
                  uuid ! 23 \<noteq> CHR ''-'' then Inl BadSeparators
          else case decode_raw (strip_dashes uuid) of
                 None \<Rightarrow> Inl MalformedUUID
               | Some raw \<Rightarrow>
                   if drop_bit 4 (raw ! 6) \<noteq> 7 then Inl BadVersion
                   else if raw ! 8 AND 0xc0 \<noteq> 0x80 then Inl BadVariant
                   else if uuid \<noteq> canonical_uuid raw then Inl NotCanonical
                   else Inr value)"

definition Prefix :: "ID \<Rightarrow> string" where
  "Prefix ident = (case cut CHR ''_'' ident of None \<Rightarrow> ident | Some (prefix, _) \<Rightarrow> prefix)"

definition Time :: "ID \<Rightarrow> id_error + time" where
  "Time ident =
     (case Parse ident of
        Inl e \<Rightarrow> Inl e
      | Inr parsed \<Rightarrow>
          let uuid = (case cut CHR ''_'' parsed of None \<Rightarrow> [] | Some (_, u) \<Rightarrow> u);
              compact = strip_dashes (take 13 uuid)
          in case parse_hex compact of
               None \<Rightarrow> Inl BadTimestampText
             | Some ms \<Rightarrow> if ms \<ge> 2 ^ 63 then Inl BadTimestampText
                         else Inr (time_of_unix_milli (int ms)))"

text \<open>The check most callers make: the text parses and carries the expected prefix.\<close>

definition has_id_prefix :: "string \<Rightarrow> string \<Rightarrow> bool" where
  "has_id_prefix value prefix \<longleftrightarrow> Parse value = Inr value \<and> Prefix value = prefix"

section \<open>Formatting\<close>

lemma hex_fixed_Suc2:
  "hex_fixed (Suc (Suc n)) v = hex_fixed n (v div 256) @ [hex_digit (v div 16 mod 16), hex_digit (v mod 16)]"
proof -
  have "map (\<lambda>i. hex_digit (v div 16 ^ i mod 16)) (rev [0..<Suc (Suc n)]) =
        map (\<lambda>i. hex_digit (v div 16 ^ Suc (Suc i) mod 16)) (rev [0..<n]) @
        [hex_digit (v div 16 mod 16), hex_digit (v mod 16)]"
    by (simp add: upt_conv_Cons map_Suc_upt [symmetric] rev_map del: upt_Suc)
  also have "map (\<lambda>i. hex_digit (v div 16 ^ Suc (Suc i) mod 16)) (rev [0..<n]) =
             map (\<lambda>i. hex_digit (v div 256 div 16 ^ i mod 16)) (rev [0..<n])"
    by (simp add: div_mult2_eq [symmetric])
  finally show ?thesis by (simp add: hex_fixed_def)
qed

lemma big_endian_snoc: "big_endian (bs @ [b]) = 256 * big_endian bs + unat b"
  by (simp add: big_endian_def)

lemma hex_fixed_big_endian: "hex_fixed (2 * length bs) (big_endian bs) = hex_encode bs"
proof (induction bs rule: rev_induct)
  case Nil
  then show ?case by (simp add: hex_fixed_def)
next
  case (snoc b bs)
  have "(256 * big_endian bs + unat b) div 16 mod 16 = unat b div 16"
    using unat_uint8_less [of b]
    by (simp add: div_plus_div_distrib_dvd_left div_mult2_eq [symmetric] mod_eq_self_iff_div_eq_0)
  moreover have "(16 * (16 * big_endian bs) + unat b) mod 16 = unat b mod 16"
    by (rule mod_mult_self4)
  then have "(256 * big_endian bs + unat b) mod 16 = unat b mod 16"
    by simp
  ultimately show ?case
    using snoc by (simp add: hex_fixed_Suc2 big_endian_snoc hex_byte_def)
qed

lemma length_16_conv:
  "length raw = 16 \<longleftrightarrow> (\<exists>b0 b1 b2 b3 b4 b5 b6 b7 b8 b9 b10 b11 b12 b13 b14 b15.
     raw = [b0, b1, b2, b3, b4, b5, b6, b7, b8, b9, b10, b11, b12, b13, b14, b15])"
  by (auto simp: numeral_eq_Suc length_Suc_conv)

lemma format_uuid_canonical: "length raw = 16 \<Longrightarrow> format_uuid raw = canonical_uuid raw"
  using hex_fixed_big_endian [of "subslice 0 4 raw"] hex_fixed_big_endian [of "subslice 4 6 raw"]
    hex_fixed_big_endian [of "subslice 6 8 raw"] hex_fixed_big_endian [of "subslice 8 10 raw"]
  by (simp add: format_uuid_def canonical_uuid_def subslice_def)

lemma length_uuid_raw [simp]: "length (uuid_raw ms raw) = length raw"
  by (simp add: uuid_raw_def Let_def)

lemma version_bits: "drop_bit 4 (0x70 OR (x AND 0x0f)) = (7 :: uint8)"
  by (simp add: drop_bit_or drop_bit_and)

lemma variant_bits: "(0x80 OR (x AND 0x3f)) AND 0xc0 = (0x80 :: uint8)"
  by (simp add: bit.conj_disj_distrib2 and.assoc)

lemma uuid_raw_version: "length raw = 16 \<Longrightarrow> drop_bit 4 (uuid_raw ms raw ! 6) = 7"
  by (simp add: uuid_raw_def Let_def version_bits)

lemma uuid_raw_variant: "length raw = 16 \<Longrightarrow> uuid_raw ms raw ! 8 AND 0xc0 = 0x80"
  by (simp add: uuid_raw_def Let_def variant_bits)

section \<open>The canonical text of a UUID\<close>

lemma strip_dashes_append [simp]: "strip_dashes (a @ b) = strip_dashes a @ strip_dashes b"
  by (simp add: strip_dashes_def)

lemma strip_dashes_dash [simp]: "strip_dashes (CHR ''-'' # s) = strip_dashes s"
  by (simp add: strip_dashes_def)

lemma strip_dashes_hex [simp]: "strip_dashes (hex_encode bs) = hex_encode bs"
  using hex_encode_lower [of _ bs] is_lower_hex_not_dash
  by (auto simp: strip_dashes_def filter_id_conv)

lemma slices_16: "length raw = 16 \<Longrightarrow>
  subslice 0 4 raw @ subslice 4 6 raw @ subslice 6 8 raw @ subslice 8 10 raw @ subslice 10 16 raw = raw"
  by (auto simp: length_16_conv subslice_def)

lemma strip_dashes_canonical: "length raw = 16 \<Longrightarrow> strip_dashes (canonical_uuid raw) = hex_encode raw"
proof -
  assume "length raw = 16"
  then have "hex_encode raw = hex_encode (subslice 0 4 raw @ subslice 4 6 raw @ subslice 6 8 raw @ subslice 8 10 raw @ subslice 10 16 raw)"
    by (simp only: slices_16)
  then show ?thesis by (simp add: canonical_uuid_def)
qed

lemma length_canonical: "length raw = 16 \<Longrightarrow> length (canonical_uuid raw) = 36"
  by (auto simp: canonical_uuid_def subslice_def)

lemma canonical_dashes:
  assumes "length raw = 16"
  shows "canonical_uuid raw ! 8 = CHR ''-''" "canonical_uuid raw ! 13 = CHR ''-''"
    "canonical_uuid raw ! 18 = CHR ''-''" "canonical_uuid raw ! 23 = CHR ''-''"
  using assms by (auto simp: canonical_uuid_def subslice_def nth_append)

lemma canonical_chars: "c \<in> set (canonical_uuid raw) \<Longrightarrow> is_lower_hex c \<or> c = CHR ''-''"
  by (auto simp: canonical_uuid_def dest: hex_encode_lower)

lemma lower_canonical: "to_lower (canonical_uuid raw) = canonical_uuid raw"
proof -
  have "lower_char CHR ''-'' = CHR ''-''" by (simp add: lower_char_def)
  then show ?thesis
    by (auto simp: to_lower_def intro!: map_idI dest: canonical_chars)
qed

lemma decode_raw_canonical:
  "length raw = 16 \<Longrightarrow> decode_raw (strip_dashes (canonical_uuid raw)) = Some raw"
  by (simp add: decode_raw_def strip_dashes_canonical)

lemma allowed_no_separator: "p \<in> set allowedPrefixes \<Longrightarrow> CHR ''_'' \<notin> set p"
  by (auto simp: allowedPrefixes_def)

text \<open>Four of the 36 characters are dashes, so at most 16 bytes are decoded.\<close>

lemma parse_no_overrun:
  assumes "length uuid = 36" "uuid ! 8 = CHR ''-''" "uuid ! 13 = CHR ''-''" "uuid ! 18 = CHR ''-''"
    "uuid ! 23 = CHR ''-''" "hex_decode (strip_dashes uuid) = Some bs"
  shows "length bs \<le> 16"
proof -
  let ?d = "filter (\<lambda>i. uuid ! i \<noteq> CHR ''-'') [0..<36]"
  have "strip_dashes uuid = map ((!) uuid) ?d"
    unfolding strip_dashes_def using assms(1)
    by (metis (no_types, lifting) comp_apply filter_cong filter_map map_nth)
  moreover have "set ?d \<subseteq> {0..<36} - {8, 13, 18, 23}"
    using assms(2-5) by auto
  then have "card (set ?d) \<le> 32"
    by (rule order_trans [OF card_mono, rotated]) (simp_all add: card_Diff_subset)
  then have "length ?d \<le> 32"
    by (metis distinct_card distinct_filter distinct_upt)
  ultimately have "length (strip_dashes uuid) \<le> 32" by simp
  with hex_decode_length [OF assms(6)] show ?thesis by simp
qed

section \<open>What Parse accepts\<close>

lemma Parse_canonical:
  assumes "p \<in> set allowedPrefixes" "length raw = 16" "drop_bit 4 (raw ! 6) = 7" "raw ! 8 AND 0xc0 = 0x80"
  shows "Parse (p @ ''_'' @ canonical_uuid raw) = Inr (p @ ''_'' @ canonical_uuid raw)"
  using assms allowed_no_separator [OF assms(1)]
  by (simp add: Parse_def cut_append uuidTextLength_def length_canonical lower_canonical
      canonical_dashes decode_raw_canonical)

lemma Parse_InrD:
  assumes "Parse v = Inr w"
  obtains p raw where "w = v" "p \<in> set allowedPrefixes" "length raw = 16" "drop_bit 4 (raw ! 6) = 7"
    "raw ! 8 AND 0xc0 = 0x80" "v = p @ ''_'' @ canonical_uuid raw"
proof -
  obtain p uuid where c: "cut CHR ''_'' v = Some (p, uuid)"
    using assms by (auto simp: Parse_def split: option.splits)
  then have v: "v = p @ CHR ''_'' # uuid" by (simp add: cut_iff)
  obtain raw where d: "decode_raw (strip_dashes uuid) = Some raw"
    using assms c by (auto simp: Parse_def split: option.splits if_splits)
  note checks = assms [unfolded Parse_def c option.case prod.case d, simplified]
  from d obtain bs where bs: "hex_decode (strip_dashes uuid) = Some bs" "raw = bs @ replicate (16 - length bs) 0"
    by (auto simp: decode_raw_def)
  have "length bs \<le> 16"
    using checks parse_no_overrun [OF _ _ _ _ _ bs(1)]
    by (auto simp: uuidTextLength_def split: if_splits)
  then have "length raw = 16" by (simp add: bs)
  with checks v that show thesis by (auto split: if_splits)
qed

lemma Parse_Inr_same: "Parse v = Inr w \<Longrightarrow> w = v"
  by (auto elim: Parse_InrD)

lemma Prefix_append: "p \<in> set allowedPrefixes \<Longrightarrow> Prefix (p @ ''_'' @ u) = p"
  by (simp add: Prefix_def cut_append allowed_no_separator)

lemma has_id_prefix_iff:
  "has_id_prefix v p \<longleftrightarrow> p \<in> set allowedPrefixes \<and>
     (\<exists>raw. length raw = 16 \<and> drop_bit 4 (raw ! 6) = 7 \<and> raw ! 8 AND 0xc0 = 0x80 \<and>
            v = p @ ''_'' @ canonical_uuid raw)"
proof
  assume "has_id_prefix v p"
  then have "Parse v = Inr v" "Prefix v = p" by (auto simp: has_id_prefix_def)
  then show "p \<in> set allowedPrefixes \<and> (\<exists>raw. length raw = 16 \<and> drop_bit 4 (raw ! 6) = 7 \<and>
     raw ! 8 AND 0xc0 = 0x80 \<and> v = p @ ''_'' @ canonical_uuid raw)"
    by (metis Parse_InrD Prefix_append)
next
  assume "p \<in> set allowedPrefixes \<and> (\<exists>raw. length raw = 16 \<and> drop_bit 4 (raw ! 6) = 7 \<and>
     raw ! 8 AND 0xc0 = 0x80 \<and> v = p @ ''_'' @ canonical_uuid raw)"
  then show "has_id_prefix v p"
    using Parse_canonical Prefix_append by (auto simp: has_id_prefix_def)
qed

lemma has_id_prefix_unique: "has_id_prefix v p \<Longrightarrow> has_id_prefix v q \<Longrightarrow> p = q"
  by (simp add: has_id_prefix_def)

text \<open>An identifier contains neither a colon nor a slash: joins with them can be undone.\<close>

lemma has_id_prefix_chars:
  assumes "has_id_prefix v p"
  shows "CHR '':'' \<notin> set v" "CHR ''/'' \<notin> set v"
proof -
  obtain raw where v: "v = p @ ''_'' @ canonical_uuid raw" "p \<in> set allowedPrefixes"
    using assms by (auto simp: has_id_prefix_iff)
  have "CHR '':'' \<notin> set p" "CHR ''/'' \<notin> set p"
    using v(2) by (auto simp: allowedPrefixes_def)
  moreover have "CHR '':'' \<notin> set (canonical_uuid raw)" "CHR ''/'' \<notin> set (canonical_uuid raw)"
    using canonical_chars [of "CHR '':''" raw] canonical_chars [of "CHR ''/''" raw]
    by (auto simp: is_lower_hex_def is_digit_def in_range_def)
  ultimately show "CHR '':'' \<notin> set v" "CHR ''/'' \<notin> set v" by (simp_all add: v)
qed

section \<open>Timestamps\<close>

lemma parse_hex_encode_aux:
  "foldl (\<lambda>acc c. case acc of None \<Rightarrow> None | Some v \<Rightarrow> map_option (\<lambda>d. 16 * v + d) (hex_value c))
     (Some a) (hex_encode bs) = Some (foldl (\<lambda>acc b. 256 * acc + unat b) a bs)"
proof (induction bs arbitrary: a)
  case Nil
  then show ?case by simp
next
  case (Cons b bs)
  have "unat b div 16 < 16" by (simp add: less_mult_imp_div_less)
  moreover have "16 * (16 * a + unat b div 16) + unat b mod 16 = 256 * a + unat b"
    by (simp add: algebra_simps)
  ultimately show ?case using Cons [of "256 * a + unat b"] by (simp add: hex_byte_def add.commute)
qed

lemma parse_hex_encode: "bs \<noteq> [] \<Longrightarrow> parse_hex (hex_encode bs) = Some (big_endian bs)"
  using parse_hex_encode_aux [of 0 bs]
  by (cases bs) (simp_all add: parse_hex_def big_endian_def hex_byte_def)

lemma take_13_canonical:
  assumes "length raw = 16"
  shows "strip_dashes (take 13 (canonical_uuid raw)) = hex_encode (take 6 raw)"
proof -
  have "take 13 (canonical_uuid raw) = hex_encode (subslice 0 4 raw) @ ''-'' @ hex_encode (subslice 4 6 raw)"
    using assms by (simp add: canonical_uuid_def subslice_def)
  then have "strip_dashes (take 13 (canonical_uuid raw)) = hex_encode (subslice 0 4 raw @ subslice 4 6 raw)"
    by simp
  also have "subslice 0 4 raw @ subslice 4 6 raw = take 6 raw"
    by (simp add: subslice_def take_add [symmetric])
  finally show ?thesis .
qed

lemma unat_byte_at:
  "unat (ucast (drop_bit n (w :: uint64)) :: uint8) = unat w div 2 ^ n mod 256"
proof -
  have "unat w < 2 ^ 64" using unsigned_less [of w, where ?'a = nat] by simp
  then show ?thesis
    by (simp add: unsigned_ucast_eq unsigned_drop_bit_eq take_bit_eq_mod flip: drop_bit_eq_div)
qed

lemma big_endian_six:
  assumes "n < (2::nat) ^ 48"
  shows "256 * (256 * (256 * (256 * (256 * (n div 2 ^ 40 mod 256) + n div 2 ^ 32 mod 256) +
    n div 2 ^ 24 mod 256) + n div 2 ^ 16 mod 256) + n div 2 ^ 8 mod 256) + n mod 256 = n"
proof -
  have a: "n div 2 ^ 40 mod 256 = n div 2 ^ 40"
    using assms by (simp add: less_mult_imp_div_less)
  have step: "256 * (n div 2 ^ (k + 8)) + n div 2 ^ k mod 256 = n div 2 ^ k" for k
  proof -
    have "n div 2 ^ (k + 8) = n div 2 ^ k div 256"
      by (simp add: power_add div_mult2_eq)
    then show ?thesis by simp
  qed
  show ?thesis
    using a step [of 32] step [of 24] step [of 16] step [of 8] step [of 0] by simp
qed

lemma take_6_uuid_raw:
  assumes "length raw = 16"
  shows "take 6 (uuid_raw ms raw) =
    (let w = word_of_int ms :: uint64 in
     [ucast (drop_bit 40 w), ucast (drop_bit 32 w), ucast (drop_bit 24 w), ucast (drop_bit 16 w),
      ucast (drop_bit 8 w), ucast (drop_bit 0 w)])"
proof -
  have "take 6 (uuid_raw ms raw) = map ((!) (uuid_raw ms raw)) [0..<6]"
    using assms by (intro nth_equalityI) simp_all
  also have "[0..<6] = [0, 1, 2, 3, 4, 5::nat]" by (simp add: upt_rec)
  finally show ?thesis using assms by (simp add: uuid_raw_def Let_def)
qed

lemma big_endian_timestamp:
  assumes "length raw = 16" "0 \<le> ms" "ms < 2 ^ 48"
  shows "big_endian (take 6 (uuid_raw ms raw)) = nat ms"
proof -
  have u: "unat (word_of_int ms :: uint64) = nat ms"
    using assms by (simp add: unsigned_of_int take_bit_int_eq_self)
  have "nat ms < 2 ^ 48" using assms by (simp add: nat_less_iff)
  from big_endian_six [OF this] show ?thesis
    unfolding take_6_uuid_raw [OF assms(1)] big_endian_def Let_def foldl.simps unat_byte_at u
    by simp
qed

section \<open>Sample values for the witnesses\<close>

definition sample_id :: "string \<Rightarrow> string" where
  "sample_id p = p @ ''_00000000-0000-7000-8000-000000000000''"

definition sample_digest :: string where
  "sample_digest = ''sha256:'' @ replicate 64 CHR ''0''"

definition sample_nonce :: string where
  "sample_nonce = replicate 64 CHR ''0''"

lemma sample_id [simp]: "p \<in> set allowedPrefixes \<Longrightarrow> has_id_prefix (sample_id p) p"
proof -
  let ?raw = "[0, 0, 0, 0, 0, 0, 0x70, 0, 0x80, 0, 0, 0, 0, 0, 0, 0] :: uint8 list"
  have "sample_id p = p @ ''_'' @ canonical_uuid ?raw"
    by (simp add: sample_id_def canonical_uuid_def subslice_def hex_byte_def hex_digit_numerals)
  moreover have "length ?raw = 16" "drop_bit 4 (?raw ! 6) = 7" "?raw ! 8 AND 0xc0 = 0x80" by simp_all
  moreover assume "p \<in> set allowedPrefixes"
  ultimately show ?thesis unfolding has_id_prefix_iff by blast
qed

lemma sample_digest [simp]: "digest_pattern sample_digest"
  by (simp add: digest_pattern_def sample_digest_def has_prefix_def list_all_iff
      is_lower_hex_def is_digit_def in_range_def)

lemma sample_nonce [simp]: "hex64_pattern sample_nonce"
  by (simp add: hex64_pattern_def sample_nonce_def list_all_iff is_lower_hex_def is_digit_def in_range_def)

section \<open>Properties\<close>

lemma NewAt_InrD:
  assumes "NewAt p now r = Inr i"
  obtains bytes where "p \<in> set allowedPrefixes" "r = Some bytes" "16 \<le> length bytes"
    "0 \<le> unix_milli now" "unix_milli now < 2 ^ 48"
    "i = p @ ''_'' @ canonical_uuid (uuid_raw (unix_milli now) (take 16 bytes))"
  using assms by (auto simp: NewAt_def Let_def format_uuid_canonical split: option.splits if_splits)

lemma NewAt_succeeds_iff:
  "(\<exists>i. NewAt p now r = Inr i) \<longleftrightarrow>
     p \<in> set allowedPrefixes \<and> (\<exists>bytes. r = Some bytes \<and> 16 \<le> length bytes) \<and>
     0 \<le> unix_milli now \<and> unix_milli now < 2 ^ 48"
  by (auto simp: NewAt_def Let_def split: option.splits if_splits)

lemma Time_canonical:
  assumes "p \<in> set allowedPrefixes" "length raw = 16" "drop_bit 4 (raw ! 6) = 7" "raw ! 8 AND 0xc0 = 0x80"
    and "big_endian (take 6 raw) < 2 ^ 63"
  shows "Time (p @ ''_'' @ canonical_uuid raw) = Inr (time_of_unix_milli (int (big_endian (take 6 raw))))"
proof -
  have "take 6 raw \<noteq> []" using assms(2) by auto
  then show ?thesis
    using assms Parse_canonical [OF assms(1-4)] cut_append [OF allowed_no_separator [OF assms(1)]]
    by (simp add: Time_def Let_def take_13_canonical parse_hex_encode)
qed

text \<open>
  C40: an identifier that \<open>NewAt\<close> returns is accepted by \<open>Parse\<close>, has the requested prefix, and
  its \<open>Time\<close> is the creation time truncated to the millisecond.
\<close>

theorem NewAt_roundtrip:
  assumes "NewAt p now r = Inr i"
  shows "Parse i = Inr i \<and> Prefix i = p \<and> Time i = Inr (time_of_unix_milli (unix_milli now))"
proof -
  obtain bytes where b: "p \<in> set allowedPrefixes" "16 \<le> length bytes" "0 \<le> unix_milli now"
    "unix_milli now < 2 ^ 48" and i: "i = p @ ''_'' @ canonical_uuid (uuid_raw (unix_milli now) (take 16 bytes))"
    using assms by (auto elim: NewAt_InrD)
  let ?raw = "uuid_raw (unix_milli now) (take 16 bytes)"
  have raw: "length ?raw = 16" "drop_bit 4 (?raw ! 6) = 7" "?raw ! 8 AND 0xc0 = 0x80"
    using b(2) by (simp_all add: uuid_raw_version uuid_raw_variant)
  have ms: "big_endian (take 6 ?raw) = nat (unix_milli now)"
    using b by (intro big_endian_timestamp) auto
  then have "big_endian (take 6 ?raw) < 2 ^ 63" using b by (simp add: nat_less_iff)
  then show ?thesis
    using Parse_canonical [OF b(1) raw] Prefix_append [OF b(1)] Time_canonical [OF b(1) raw] b(3) ms
    by (simp add: i)
qed

theorem NewAt_roundtrip_witness:
  "NewAt ''org'' unix_epoch (Some [0, 0, 0, 0, 0, 0, 0, 0, 0, 0, 0, 0, 0, 0, 0, 0]) = Inr ''org_00000000-0000-7000-8000-000000000000'' \<and>
   Time ''org_00000000-0000-7000-8000-000000000000'' = Inr (time_of_unix_milli (unix_milli unix_epoch))"
proof -
  have h: "NewAt ''org'' unix_epoch (Some [0, 0, 0, 0, 0, 0, 0, 0, 0, 0, 0, 0, 0, 0, 0, 0]) = Inr ''org_00000000-0000-7000-8000-000000000000''"
    by (simp add: NewAt_def allowedPrefixes_def unix_milli_def Let_def format_uuid_canonical
        canonical_uuid_def subslice_def uuid_raw_def hex_byte_def hex_digit_numerals)
  show ?thesis using h NewAt_roundtrip [OF h] by simp
qed

text \<open>
  \<open>Parse\<close> accepts exactly the texts made of an allowed prefix, an underscore and the canonical
  lowercase form of sixteen bytes whose version is 7 and whose variant is that of RFC 9562, and it
  returns its argument unchanged.
\<close>

theorem Parse_accepts_iff:
  "Parse v = Inr w \<longleftrightarrow>
     w = v \<and> (\<exists>p raw. p \<in> set allowedPrefixes \<and> length raw = 16 \<and> drop_bit 4 (raw ! 6) = 7 \<and>
       raw ! 8 AND 0xc0 = 0x80 \<and> v = p @ ''_'' @ canonical_uuid raw)"
  using Parse_canonical by (auto elim!: Parse_InrD) blast

end
