(* ===== verification/Replay_Store.thy ===== *)
theory Replay_Store
  imports Platform_Id
begin

text \<open>
  Replay protection of signed build assignments: \<^verbatim>\<open>replay.go\<close>, \<^verbatim>\<open>replay_file.go\<close> and
  \<^verbatim>\<open>replay_bolt.go\<close> of \<^verbatim>\<open>src/services/build-plane/internal/buildcell\<close>. A reservation carries a
  cell, a build, a generation and a nonce; a store remembers the last generation of every build
  and every nonce it accepted. The in-memory store, the file store and the Bolt store are modelled
  each with its own representation; the locale \<open>replay_store\<close> states what they promise, and the
  file and Bolt stores are shown to refine the in-memory one. Mutexes and file locks make each
  \<open>Reserve\<close> one step, so a concurrent history is a sequence of reservations.
\<close>

section \<open>Reservations\<close>

datatype replay_error =
    ReplayCtx ctx_error
  | ReplayScope
  | ReplayIdentity
  | ReplayExpired
  | ReplayCapacity
  | ReplayConfig
  | ReplayLock
  | ReplayState
  | ReplayWrite

record Reservation =
  rs_CellID :: string
  rs_BuildID :: string
  rs_Generation :: uint64
  rs_Nonce :: string
  rs_PayloadDigest :: string
  rs_ExpiresAt :: time

datatype ReservationOutcome =
    ReservationAccepted | ReservationReplay | ReservationStale | ReservationConflict

record replayEntry =
  en_Generation :: uint64
  en_Nonce :: string
  en_PayloadDigest :: string

type_synonym build_map = "replayEntry strmap"
type_synonym nonce_map = "bool strmap"

definition build_key :: "Reservation \<Rightarrow> string" where
  "build_key r = rs_CellID r @ '':'' @ rs_BuildID r"

definition nonce_key :: "Reservation \<Rightarrow> string" where
  "nonce_key r = rs_CellID r @ '':'' @ rs_Nonce r"

definition entry_of :: "Reservation \<Rightarrow> replayEntry" where
  "entry_of r = \<lparr>en_Generation = rs_Generation r, en_Nonce = rs_Nonce r,
                 en_PayloadDigest = rs_PayloadDigest r\<rparr>"

definition validateReservation :: "Reservation \<Rightarrow> replay_error option" where
  "validateReservation r =
     (if \<not> has_id_prefix (rs_CellID r) ''cell'' then Some ReplayScope
      else if \<not> has_id_prefix (rs_BuildID r) ''bld'' then Some ReplayScope
      else if rs_Generation r = 0 \<or> \<not> hex64_pattern (rs_Nonce r) \<or>
              \<not> digest_pattern (rs_PayloadDigest r) \<or> rs_ExpiresAt r = 0 then Some ReplayIdentity
      else None)"

definition reserveReplayState ::
  "build_map \<Rightarrow> nonce_map \<Rightarrow> int \<Rightarrow> Reservation \<Rightarrow>
   (replay_error + ReservationOutcome) \<times> build_map \<times> nonce_map" where
  "reserveReplayState builds nonces maxEntries r =
     (let bk = build_key r; nk = nonce_key r;
          reserve =
            (if mget nonces nk = Some True then (Inr ReservationConflict, builds, nonces)
             else if int (length builds) \<ge> maxEntries \<or> int (length nonces) \<ge> maxEntries
             then (Inl ReplayCapacity, builds, nonces)
             else (Inr ReservationAccepted, mput bk (entry_of r) builds, mput nk True nonces))
      in case mget builds bk of
           None \<Rightarrow> reserve
         | Some existing \<Rightarrow>
             if rs_Generation r < en_Generation existing then (Inr ReservationStale, builds, nonces)
             else if rs_Generation r = en_Generation existing then
               (if rs_Nonce r = en_Nonce existing \<and> rs_PayloadDigest r = en_PayloadDigest existing
                then (Inr ReservationReplay, builds, nonces)
                else (Inr ReservationConflict, builds, nonces))
             else reserve)"

section \<open>The in-memory store\<close>

record MemoryReplayStore =
  mr_maxEntries :: int
  mr_builds :: build_map
  mr_nonces :: nonce_map

definition NewMemoryReplayStore :: "int \<Rightarrow> replay_error + MemoryReplayStore" where
  "NewMemoryReplayStore maxEntries =
     (if maxEntries < 1 \<or> maxEntries > 1000000 then Inl ReplayConfig
      else Inr \<lparr>mr_maxEntries = maxEntries, mr_builds = [], mr_nonces = []\<rparr>)"

definition MemoryReserve ::
  "ctx_error option \<Rightarrow> time \<Rightarrow> Reservation \<Rightarrow> MemoryReplayStore \<Rightarrow>
   (replay_error + ReservationOutcome) \<times> MemoryReplayStore" where
  "MemoryReserve ctx now r store =
     (case ctx of Some e \<Rightarrow> (Inl (ReplayCtx e), store)
      | None \<Rightarrow>
        (case validateReservation r of Some e \<Rightarrow> (Inl e, store)
         | None \<Rightarrow>
           if \<not> rs_ExpiresAt r > now then (Inl ReplayExpired, store)
           else (case reserveReplayState (mr_builds store) (mr_nonces store) (mr_maxEntries store) r of
                   (out, b, n) \<Rightarrow> (out, store\<lparr>mr_builds := b, mr_nonces := n\<rparr>))))"

section \<open>The file store\<close>

record replayState =
  st_Version :: int
  st_Builds :: build_map
  st_Nonces :: nonce_map

definition newReplayState :: replayState where
  "newReplayState = \<lparr>st_Version = 1, st_Builds = [], st_Nonces = []\<rparr>"

definition valid_build_entry :: "nonce_map \<Rightarrow> string \<times> replayEntry \<Rightarrow> bool" where
  "valid_build_entry nonces kv =
     (case cut CHR '':'' (fst kv) of None \<Rightarrow> False
      | Some (cellID, buildID) \<Rightarrow>
          has_id_prefix cellID ''cell'' \<and> has_id_prefix buildID ''bld'' \<and> en_Generation (snd kv) \<noteq> 0 \<and>
          hex64_pattern (en_Nonce (snd kv)) \<and> digest_pattern (en_PayloadDigest (snd kv)) \<and>
          mget nonces (cellID @ '':'' @ en_Nonce (snd kv)) = Some True)"

definition valid_nonce_entry :: "string \<times> bool \<Rightarrow> bool" where
  "valid_nonce_entry kv =
     (snd kv \<and> (case cut CHR '':'' (fst kv) of None \<Rightarrow> False
       | Some (cellID, nonce) \<Rightarrow> has_id_prefix cellID ''cell'' \<and> hex64_pattern nonce))"

definition validateReplayState :: "replayState \<Rightarrow> int \<Rightarrow> bool" where
  "validateReplayState s maxEntries \<longleftrightarrow>
     st_Version s = 1 \<and> int (length (st_Builds s)) \<le> maxEntries \<and> int (length (st_Nonces s)) \<le> maxEntries \<and>
     list_all (valid_build_entry (st_Nonces s)) (st_Builds s) \<and> list_all valid_nonce_entry (st_Nonces s)"

definition readReplayState ::
  "(replayState, 'b) codec \<Rightarrow> int \<Rightarrow> 'b disk_file option \<Rightarrow> replay_error + replayState" where
  "readReplayState c maxEntries file =
     (case file of None \<Rightarrow> Inl ReplayState
      | Some f \<Rightarrow>
          if \<not> df_regular f then Inl ReplayState
          else if take_bit 6 (df_perm f) \<noteq> 0 then Inl ReplayState
          else if int (cd_size c (df_contents f)) > maxEntries * 512 + 1024 then Inl ReplayState
          else (case cd_decode c (df_contents f) of None \<Rightarrow> Inl ReplayState
                | Some s \<Rightarrow> if validateReplayState s maxEntries then Inr s else Inl ReplayState))"

definition writeReplayState ::
  "(replayState, 'b) codec \<Rightarrow> int \<Rightarrow> write_step option \<Rightarrow> replayState \<Rightarrow> 'b disk_file option \<Rightarrow>
   replay_error option \<times> 'b disk_file option" where
  "writeReplayState c maxEntries fault s file =
     (if \<not> validateReplayState s maxEntries then (Some ReplayState, file)
      else case cd_encode c s of None \<Rightarrow> (Some ReplayState, file)
        | Some text \<Rightarrow> (case replace_file fault text file of
            (ok, file') \<Rightarrow> (if ok then None else Some ReplayWrite, file')))"

text \<open>
  \<open>FileReplayStore.Reserve\<close> under its lock: \<open>locked\<close> is whether \<open>TryLockContext\<close> got the lock,
  \<open>fault\<close> where the replacement of the file fails, if it does.
\<close>

definition FileReserve ::
  "(replayState, 'b) codec \<Rightarrow> int \<Rightarrow> ctx_error option \<Rightarrow> bool \<Rightarrow> write_step option \<Rightarrow> time \<Rightarrow> Reservation \<Rightarrow>
   'b disk_file option \<Rightarrow> (replay_error + ReservationOutcome) \<times> 'b disk_file option" where
  "FileReserve c maxEntries ctx locked fault now r file =
     (case ctx of Some e \<Rightarrow> (Inl (ReplayCtx e), file)
      | None \<Rightarrow>
        (case validateReservation r of Some e \<Rightarrow> (Inl e, file)
         | None \<Rightarrow>
           if \<not> rs_ExpiresAt r > now then (Inl ReplayExpired, file)
           else if \<not> locked then (Inl ReplayLock, file)
           else (case readReplayState c maxEntries file of Inl e \<Rightarrow> (Inl e, file)
             | Inr s \<Rightarrow>
               (case reserveReplayState (st_Builds s) (st_Nonces s) maxEntries r of
                  (Inl e, _, _) \<Rightarrow> (Inl e, file)
                | (Inr out, b, n) \<Rightarrow>
                    if out \<noteq> ReservationAccepted then (Inr out, file)
                    else (case writeReplayState c maxEntries fault (s\<lparr>st_Builds := b, st_Nonces := n\<rparr>) file of
                            (Some e, file') \<Rightarrow> (Inl e, file')
                          | (None, file') \<Rightarrow> (Inr out, file'))))))"

definition NewFileReplayStore ::
  "(replayState, 'b) codec \<Rightarrow> int \<Rightarrow> write_step option \<Rightarrow> 'b disk_file option \<Rightarrow>
   replay_error option \<times> 'b disk_file option" where
  "NewFileReplayStore c maxEntries fault file =
     (if maxEntries < 1 \<or> maxEntries > 1000000 then (Some ReplayConfig, file)
      else case file of
        None \<Rightarrow> writeReplayState c maxEntries fault newReplayState file
      | Some _ \<Rightarrow> (case readReplayState c maxEntries file of Inl e \<Rightarrow> (Some e, file) | Inr _ \<Rightarrow> (None, file)))"

section \<open>The Bolt store\<close>

text \<open>
  Two buckets of byte strings. A transaction commits all its puts or none; \<open>commit\<close> is whether
  the commit succeeds. \<open>KeyN\<close> is the number of keys of the bucket.
\<close>

record 'b BoltReplayDB =
  bo_builds :: "'b strmap"
  bo_nonces :: "uint8 list strmap"

definition decodeReplayEntry :: "(replayEntry, 'b) codec \<Rightarrow> 'b \<Rightarrow> replay_error + replayEntry" where
  "decodeReplayEntry c text =
     (case cd_decode c text of None \<Rightarrow> Inl ReplayState
      | Some e \<Rightarrow> if en_Generation e = 0 \<or> \<not> hex64_pattern (en_Nonce e) \<or> \<not> digest_pattern (en_PayloadDigest e)
                 then Inl ReplayState else Inr e)"

definition boltReserveTx ::
  "(replayEntry, 'b) codec \<Rightarrow> int \<Rightarrow> Reservation \<Rightarrow> 'b BoltReplayDB \<Rightarrow>
   replay_error + ReservationOutcome \<times> 'b BoltReplayDB" where
  "boltReserveTx c maxEntries r db =
     (let bk = build_key r; nk = nonce_key r;
          reserve =
            (if mget (bo_nonces db) nk \<noteq> None then Inr (ReservationConflict, db)
             else if int (length (bo_builds db)) \<ge> maxEntries \<or> int (length (bo_nonces db)) \<ge> maxEntries
             then Inl ReplayCapacity
             else case cd_encode c (entry_of r) of None \<Rightarrow> Inl ReplayState
               | Some text \<Rightarrow> Inr (ReservationAccepted,
                   db\<lparr>bo_builds := mput bk text (bo_builds db), bo_nonces := mput nk [1] (bo_nonces db)\<rparr>))
      in case mget (bo_builds db) bk of
           None \<Rightarrow> reserve
         | Some text \<Rightarrow>
             (case decodeReplayEntry c text of Inl e \<Rightarrow> Inl e
              | Inr existing \<Rightarrow>
                  if rs_Generation r < en_Generation existing then Inr (ReservationStale, db)
                  else if rs_Generation r = en_Generation existing then
                    (if rs_Nonce r = en_Nonce existing \<and> rs_PayloadDigest r = en_PayloadDigest existing
                     then Inr (ReservationReplay, db) else Inr (ReservationConflict, db))
                  else reserve))"

definition BoltReserve ::
  "(replayEntry, 'b) codec \<Rightarrow> int \<Rightarrow> ctx_error option \<Rightarrow> bool \<Rightarrow> time \<Rightarrow> Reservation \<Rightarrow> 'b BoltReplayDB \<Rightarrow>
   (replay_error + ReservationOutcome) \<times> 'b BoltReplayDB" where
  "BoltReserve c maxEntries ctx commit now r db =
     (case ctx of Some e \<Rightarrow> (Inl (ReplayCtx e), db)
      | None \<Rightarrow>
        (case validateReservation r of Some e \<Rightarrow> (Inl e, db)
         | None \<Rightarrow>
           if \<not> rs_ExpiresAt r > now then (Inl ReplayExpired, db)
           else (case boltReserveTx c maxEntries r db of
                   Inl e \<Rightarrow> (Inl e, db)
                 | Inr (out, db') \<Rightarrow> if commit then (Inr out, db') else (Inl ReplayWrite, db))))"

definition NewBoltReplayStore :: "int \<Rightarrow> replay_error + 'b BoltReplayDB" where
  "NewBoltReplayStore maxEntries =
     (if maxEntries < 1 \<or> maxEntries > 10000000 then Inl ReplayConfig
      else Inr \<lparr>bo_builds = [], bo_nonces = []\<rparr>)"

section \<open>What a replay store promises\<close>

text \<open>The reservations a sequence of calls accepts, in order.\<close>

fun accepted_run ::
  "(ctx_error option \<Rightarrow> time \<Rightarrow> Reservation \<Rightarrow> 's \<Rightarrow> (replay_error + ReservationOutcome) \<times> 's) \<Rightarrow> 's \<Rightarrow>
   (ctx_error option \<times> time \<times> Reservation) list \<Rightarrow> Reservation list" where
  "accepted_run reserve s [] = []"
| "accepted_run reserve s ((ctx, now, r) # calls) =
     (case reserve ctx now r s of (out, s') \<Rightarrow>
        if out = Inr ReservationAccepted then r # accepted_run reserve s' calls
        else accepted_run reserve s' calls)"

locale replay_store =
  fixes reserve :: "ctx_error option \<Rightarrow> time \<Rightarrow> Reservation \<Rightarrow> 's \<Rightarrow> (replay_error + ReservationOutcome) \<times> 's"
    and watermark :: "'s \<Rightarrow> string \<Rightarrow> replayEntry option"
    and used :: "'s \<Rightarrow> string \<Rightarrow> bool"
    and invar :: "'s \<Rightarrow> bool"
  assumes accepted_fresh: "invar s \<Longrightarrow> reserve ctx now r s = (Inr ReservationAccepted, s') \<Longrightarrow>
        \<not> used s (nonce_key r) \<and> (\<forall>e. watermark s (build_key r) = Some e \<longrightarrow> en_Generation e < rs_Generation r)"
    and accepted_recorded: "invar s \<Longrightarrow> reserve ctx now r s = (Inr ReservationAccepted, s') \<Longrightarrow>
        watermark s' = (watermark s)(build_key r \<mapsto> entry_of r) \<and> used s' = (used s)(nonce_key r := True)"
    and otherwise_unchanged: "invar s \<Longrightarrow> reserve ctx now r s = (out, s') \<Longrightarrow> out \<noteq> Inr ReservationAccepted \<Longrightarrow>
        watermark s' = watermark s \<and> used s' = used s"
    and repeated_is_replay: "invar s \<Longrightarrow> reserve ctx now r s = (Inr oc, s') \<Longrightarrow>
        watermark s (build_key r) = Some (entry_of r) \<Longrightarrow> oc = ReservationReplay"
    and invar_reserve: "invar s \<Longrightarrow> invar (snd (reserve ctx now r s))"
begin

lemma invar_step: "invar s \<Longrightarrow> reserve ctx now r s = (out, s') \<Longrightarrow> invar s'"
  using invar_reserve [of s ctx now r] by simp

lemma accepted_run_unused:
  "invar s \<Longrightarrow> r \<in> set (accepted_run reserve s calls) \<Longrightarrow> \<not> used s (nonce_key r)"
proof (induction calls arbitrary: s)
  case (Cons call calls)
  obtain ctx now r0 where c: "call = (ctx, now, r0)" by (cases call) auto
  obtain out s' where step: "reserve ctx now r0 s = (out, s')" by fastforce
  note IH = Cons.IH [OF invar_step [OF Cons.prems(1) step]]
  show ?case
  proof (cases "out = Inr ReservationAccepted")
    case True
    note acc = accepted_fresh [OF Cons.prems(1) step [unfolded True]]
      accepted_recorded [OF Cons.prems(1) step [unfolded True]]
    have "r = r0 \<or> r \<in> set (accepted_run reserve s' calls)"
      using Cons.prems(2) c step True by simp
    then show ?thesis using acc IH by (auto split: if_splits)
  next
    case False
    then have "r \<in> set (accepted_run reserve s' calls)" using Cons.prems(2) c step by simp
    then show ?thesis using IH otherwise_unchanged [OF Cons.prems(1) step False] by simp
  qed
qed simp

lemma accepted_run_newer:
  "invar s \<Longrightarrow> r \<in> set (accepted_run reserve s calls) \<Longrightarrow> watermark s (build_key r) = Some e \<Longrightarrow>
   en_Generation e < rs_Generation r"
proof (induction calls arbitrary: s e)
  case (Cons call calls)
  obtain ctx now r0 where c: "call = (ctx, now, r0)" by (cases call) auto
  obtain out s' where step: "reserve ctx now r0 s = (out, s')" by fastforce
  note IH = Cons.IH [OF invar_step [OF Cons.prems(1) step]]
  show ?case
  proof (cases "out = Inr ReservationAccepted")
    case True
    note acc = accepted_fresh [OF Cons.prems(1) step [unfolded True]]
      accepted_recorded [OF Cons.prems(1) step [unfolded True]]
    consider "r = r0" | "r \<in> set (accepted_run reserve s' calls)" "build_key r = build_key r0"
      | "r \<in> set (accepted_run reserve s' calls)" "build_key r \<noteq> build_key r0"
      using Cons.prems(2) c step True by auto
    then show ?thesis
    proof cases
      case 1
      then show ?thesis using acc Cons.prems(3) by simp
    next
      case 2
      then have "rs_Generation r0 < rs_Generation r"
        using IH [of "entry_of r0"] acc by (simp add: entry_of_def)
      moreover have "en_Generation e < rs_Generation r0" using acc Cons.prems(3) 2 by simp
      ultimately show ?thesis by simp
    next
      case 3
      then show ?thesis using IH [of e] acc Cons.prems(3) by simp
    qed
  next
    case False
    then have "r \<in> set (accepted_run reserve s' calls)" using Cons.prems(2) c step by simp
    then show ?thesis using IH otherwise_unchanged [OF Cons.prems(1) step False] Cons.prems(3) by simp
  qed
qed simp

lemma accepted_run_order:
  assumes "invar s"
  shows "distinct (map nonce_key (accepted_run reserve s calls)) \<and>
    sorted_wrt (\<lambda>a b. build_key a = build_key b \<longrightarrow> rs_Generation a < rs_Generation b)
      (accepted_run reserve s calls)"
  using assms
proof (induction calls arbitrary: s)
  case Nil
  then show ?case by simp
next
  case (Cons call calls)
  obtain ctx now r0 where c: "call = (ctx, now, r0)" by (cases call) auto
  obtain out s' where step: "reserve ctx now r0 s = (out, s')" by fastforce
  have inv: "invar s'" using invar_step [OF Cons.prems step] .
  show ?case
  proof (cases "out = Inr ReservationAccepted")
    case True
    note acc = accepted_recorded [OF Cons.prems step [unfolded True]]
    have "nonce_key r0 \<noteq> nonce_key r" "build_key r0 = build_key r \<longrightarrow> rs_Generation r0 < rs_Generation r"
      if "r \<in> set (accepted_run reserve s' calls)" for r
      using accepted_run_unused [OF inv that] accepted_run_newer [OF inv that, of "entry_of r0"] acc
      by (auto simp: entry_of_def)
    then show ?thesis using Cons.IH [OF inv] c step True by auto
  next
    case False
    then show ?thesis using Cons.IH [OF inv] c step by simp
  qed
qed

lemma accepted_then_replay:
  assumes "invar s" "reserve ctx now r s = (Inr ReservationAccepted, s')" "reserve ctx' now' r s' = (Inr out, s'')"
  shows "out = ReservationReplay"
  using assms accepted_recorded [OF assms(1,2)] invar_reserve [OF assms(1), of ctx now r]
  by (intro repeated_is_replay [OF _ assms(3)]) auto

end

section \<open>The in-memory store keeps the promise\<close>

lemma entry_of_eq_iff:
  "e = entry_of r \<longleftrightarrow>
     en_Generation e = rs_Generation r \<and> en_Nonce e = rs_Nonce r \<and> en_PayloadDigest e = rs_PayloadDigest r"
  by (cases e) (auto simp: entry_of_def)

lemmas reserve_splits = option.splits if_splits sum.splits prod.splits

lemma reserveReplayState_cases:
  assumes "reserveReplayState b n m r = (out, b', n')"
  obtains (accepted) "out = Inr ReservationAccepted" "mget n (nonce_key r) \<noteq> Some True"
      "int (length b) < m" "int (length n) < m" "b' = mput (build_key r) (entry_of r) b"
      "n' = mput (nonce_key r) True n"
      "\<And>e. mget b (build_key r) = Some e \<Longrightarrow> en_Generation e < rs_Generation r"
  | (kept) "out \<noteq> Inr ReservationAccepted" "b' = b" "n' = n"
  using assms by (fastforce simp: reserveReplayState_def Let_def not_less split: reserve_splits)

lemma reserveReplayState_repeat:
  "mget b (build_key r) = Some (entry_of r) \<Longrightarrow> reserveReplayState b n m r = (Inr ReservationReplay, b, n)"
  by (simp add: reserveReplayState_def Let_def entry_of_def)

lemma MemoryReserve_run:
  "MemoryReserve ctx now r s = (Inr out, s') \<longleftrightarrow>
     ctx = None \<and> validateReservation r = None \<and> now < rs_ExpiresAt r \<and>
     (\<exists>b n. reserveReplayState (mr_builds s) (mr_nonces s) (mr_maxEntries s) r = (Inr out, b, n) \<and>
            s' = s\<lparr>mr_builds := b, mr_nonces := n\<rparr>)"
  by (auto simp: MemoryReserve_def split: reserve_splits)

lemma MemoryReserve_same_max: "mr_maxEntries (snd (MemoryReserve ctx now r s)) = mr_maxEntries s"
  by (auto simp: MemoryReserve_def split: reserve_splits)

lemma MemoryReserve_kept:
  "MemoryReserve ctx now r s = (out, s') \<Longrightarrow> out \<noteq> Inr ReservationAccepted \<Longrightarrow> s' = s"
  by (auto simp: MemoryReserve_def elim: reserveReplayState_cases split: reserve_splits)

definition memory_invar :: "MemoryReplayStore \<Rightarrow> bool" where
  "memory_invar s \<longleftrightarrow> wf_map (mr_builds s) \<and> wf_map (mr_nonces s) \<and>
     int (length (mr_builds s)) \<le> mr_maxEntries s \<and> int (length (mr_nonces s)) \<le> mr_maxEntries s"

lemma memory_invar_reserve: "memory_invar s \<Longrightarrow> memory_invar (snd (MemoryReserve ctx now r s))"
proof -
  assume inv: "memory_invar s"
  obtain out s' where step: "MemoryReserve ctx now r s = (out, s')" by fastforce
  show ?thesis
  proof (cases "out = Inr ReservationAccepted")
    case True
    with step obtain b n where "reserveReplayState (mr_builds s) (mr_nonces s) (mr_maxEntries s) r = (Inr ReservationAccepted, b, n)"
      "s' = s\<lparr>mr_builds := b, mr_nonces := n\<rparr>" by (auto simp: MemoryReserve_run)
    then show ?thesis using inv step
      by (auto simp: memory_invar_def length_mput elim!: reserveReplayState_cases)
  next
    case False
    then show ?thesis using inv step MemoryReserve_kept [OF step False] by simp
  qed
qed

definition memory_used :: "MemoryReplayStore \<Rightarrow> string \<Rightarrow> bool" where
  "memory_used s k \<longleftrightarrow> mget (mr_nonces s) k = Some True"

interpretation mem_replay: replay_store MemoryReserve "\<lambda>s. mget (mr_builds s)" memory_used memory_invar
proof unfold_locales
  fix s ctx now r s' assume step: "MemoryReserve ctx now r s = (Inr ReservationAccepted, s')"
  then obtain b n where "reserveReplayState (mr_builds s) (mr_nonces s) (mr_maxEntries s) r = (Inr ReservationAccepted, b, n)"
    "s' = s\<lparr>mr_builds := b, mr_nonces := n\<rparr>" by (auto simp: MemoryReserve_run)
  then show "\<not> memory_used s (nonce_key r) \<and>
      (\<forall>e. mget (mr_builds s) (build_key r) = Some e \<longrightarrow> en_Generation e < rs_Generation r)"
    "mget (mr_builds s') = (mget (mr_builds s))(build_key r \<mapsto> entry_of r) \<and>
      memory_used s' = (memory_used s)(nonce_key r := True)"
    by (auto simp: memory_used_def fun_eq_iff elim!: reserveReplayState_cases)
next
  fix s ctx now r out s' assume "MemoryReserve ctx now r s = (out, s')" "out \<noteq> Inr ReservationAccepted"
  then show "mget (mr_builds s') = mget (mr_builds s) \<and> memory_used s' = memory_used s"
    using MemoryReserve_kept by blast
next
  fix s ctx now r out s' assume "MemoryReserve ctx now r s = (Inr out, s')"
    "mget (mr_builds s) (build_key r) = Some (entry_of r)"
  then show "out = ReservationReplay"
    by (auto simp: MemoryReserve_run reserveReplayState_repeat)
next
  fix s ctx now r assume "memory_invar s"
  then show "memory_invar (snd (MemoryReserve ctx now r s))" by (rule memory_invar_reserve)
qed

lemma memory_invar_new: "NewMemoryReplayStore m = Inr s \<Longrightarrow> memory_invar s"
  by (auto simp: NewMemoryReplayStore_def memory_invar_def split: if_splits)

section \<open>Durable states stay valid\<close>

lemma cut_build_key:
  "validateReservation r = None \<Longrightarrow> cut CHR '':'' (build_key r) = Some (rs_CellID r, rs_BuildID r)"
  by (auto simp: validateReservation_def build_key_def cut_append has_id_prefix_chars split: if_splits)

lemma cut_nonce_key:
  "validateReservation r = None \<Longrightarrow> cut CHR '':'' (nonce_key r) = Some (rs_CellID r, rs_Nonce r)"
  by (auto simp: validateReservation_def nonce_key_def cut_append has_id_prefix_chars split: if_splits)

lemma valid_build_entry_mput:
  "valid_build_entry n kv \<Longrightarrow> valid_build_entry (mput k True n) kv"
  by (auto simp: valid_build_entry_def split: option.splits)

text \<open>A reservation that passes its checks and is accepted turns a valid state into a valid state.\<close>

lemma validateReplayState_accepted:
  assumes "validateReplayState s m" "validateReservation r = None"
    and "reserveReplayState (st_Builds s) (st_Nonces s) m r = (Inr ReservationAccepted, b, n)"
  shows "validateReplayState (s\<lparr>st_Builds := b, st_Nonces := n\<rparr>) m"
  using assms(3)
proof (cases rule: reserveReplayState_cases)
  case accepted
  have "valid_build_entry n (build_key r, entry_of r)" "valid_nonce_entry (nonce_key r, True)"
    using assms(2) cut_build_key [OF assms(2)] cut_nonce_key [OF assms(2)] accepted(6)
    by (auto simp: valid_build_entry_def valid_nonce_entry_def entry_of_def nonce_key_def validateReservation_def
        split: if_splits)
  moreover have "list_all (valid_build_entry n) (st_Builds s)"
    using assms(1) valid_build_entry_mput accepted(6) by (auto simp: validateReplayState_def list_all_iff)
  ultimately show ?thesis
    using assms(1) accepted by (auto simp: validateReplayState_def list_all_mput length_mput)
qed simp

section \<open>The file store refines the in-memory store\<close>

definition memory_of :: "int \<Rightarrow> replayState \<Rightarrow> MemoryReplayStore" where
  "memory_of m s = \<lparr>mr_maxEntries = m, mr_builds = st_Builds s, mr_nonces = st_Nonces s\<rparr>"

text \<open>The size bound that \<open>readState\<close> applies, as a fact about the encoder.\<close>

definition fits :: "(replayState, 'b) codec \<Rightarrow> int \<Rightarrow> bool" where
  "fits c m \<longleftrightarrow> (\<forall>s. validateReplayState s m \<longrightarrow>
     (\<exists>t. cd_encode c s = Some t \<and> int (cd_size c t) \<le> m * 512 + 1024))"

lemma readReplayState_valid: "readReplayState c m f = Inr s \<Longrightarrow> validateReplayState s m"
  by (auto simp: readReplayState_def split: option.splits if_splits)

lemma readReplayState_written:
  assumes "codec_ok c" "fits c m" "validateReplayState s m" "cd_encode c s = Some t"
  shows "readReplayState c m (Some \<lparr>df_regular = True, df_perm = 384, df_contents = t\<rparr>) = Inr s"
proof -
  have "int (cd_size c t) \<le> m * 512 + 1024"
    using assms by (auto simp: fits_def)
  then show ?thesis
    using assms by (simp add: readReplayState_def codec_okD take_bit_eq_mod)
qed

text \<open>
  Writing a valid state: without a fault the file reads back as that state; with one, the file is
  as before or reads back as that state.
\<close>

lemma writeReplayState_cases:
  assumes "codec_ok c" "fits c m" "validateReplayState s m" "writeReplayState c m fault s f = (e, f')"
  shows "(fault = None \<longrightarrow> e = None) \<and> (e = None \<longrightarrow> readReplayState c m f' = Inr s) \<and>
         (f' = f \<or> readReplayState c m f' = Inr s)"
proof -
  obtain t where t: "cd_encode c s = Some t" using assms(2,3) by (auto simp: fits_def)
  note r = readReplayState_written [OF assms(1-3) t]
  show ?thesis
    using assms(3,4) t r
    by (auto simp: writeReplayState_def replace_file_def Let_def split: option.splits if_splits)
qed

text \<open>The two stores, compared on the state that the file holds.\<close>

lemma FileReserve_steps:
  assumes "codec_ok c" "fits c m" "readReplayState c m f = Inr s"
    and "FileReserve c m None True fault now r f = (out, f')"
    and "MemoryReserve None now r (memory_of m s) = (mout, mem')"
  shows "(mout \<noteq> Inr ReservationAccepted \<longrightarrow> out = mout \<and> f' = f \<and> mem' = memory_of m s) \<and>
         (mout = Inr ReservationAccepted \<longrightarrow>
            (\<exists>s'. mem' = memory_of m s' \<and> (f' = f \<and> out \<noteq> Inr ReservationAccepted \<or> readReplayState c m f' = Inr s') \<and>
                  (out = Inr ReservationAccepted \<longrightarrow> readReplayState c m f' = Inr s') \<and>
                  (out = Inr ReservationAccepted \<or> (\<exists>e. out = Inl e)) \<and>
                  (fault = None \<longrightarrow> out = Inr ReservationAccepted)))"
proof (cases "mout = Inr ReservationAccepted")
  case False
  then have "mem' = memory_of m s" using MemoryReserve_kept [OF assms(5)] by simp
  moreover have "out = mout \<and> f' = f"
    using assms(3-5) False by (auto simp: FileReserve_def MemoryReserve_def memory_of_def split: reserve_splits)
  ultimately show ?thesis using False by simp
next
  case True
  then obtain b n where v: "validateReservation r = None" "now < rs_ExpiresAt r"
    and st: "reserveReplayState (st_Builds s) (st_Nonces s) m r = (Inr ReservationAccepted, b, n)"
    and mem': "mem' = memory_of m (s\<lparr>st_Builds := b, st_Nonces := n\<rparr>)"
    using assms(5) by (auto simp: MemoryReserve_run memory_of_def)
  let ?s = "s\<lparr>st_Builds := b, st_Nonces := n\<rparr>"
  obtain e g where w: "writeReplayState c m fault ?s f = (e, g)" by fastforce
  note ok = writeReplayState_cases [OF assms(1,2)
      validateReplayState_accepted [OF readReplayState_valid [OF assms(3)] v(1) st] w]
  have "f' = g" "out = (case e of None \<Rightarrow> Inr ReservationAccepted | Some x \<Rightarrow> Inl x)"
    using assms(3,4) v st w by (auto simp: FileReserve_def split: option.splits)
  then show ?thesis using True mem' ok by (cases e) auto
qed

lemma FileReserve_simulates:
  assumes "codec_ok c" "fits c m" "readReplayState c m f = Inr s"
    and "FileReserve c m None True None now r f = (out, f')"
  shows "\<exists>s'. MemoryReserve None now r (memory_of m s) = (out, memory_of m s') \<and> readReplayState c m f' = Inr s'"
proof -
  obtain mout mem' where mem: "MemoryReserve None now r (memory_of m s) = (mout, mem')" by fastforce
  note step = FileReserve_steps [OF assms mem]
  show ?thesis
  proof (cases "mout = Inr ReservationAccepted")
    case True
    then show ?thesis using step mem by auto
  next
    case False
    then show ?thesis using step mem assms(3) by auto
  qed
qed

text \<open>The same for every context, lock and fault.\<close>

definition reserve_outcome ::
  "bool \<Rightarrow> replay_error + ReservationOutcome \<Rightarrow> replay_error + ReservationOutcome \<Rightarrow> bool \<Rightarrow> bool \<Rightarrow> bool" where
  "reserve_outcome undisturbed out mout kept written \<longleftrightarrow>
     (undisturbed \<longrightarrow> out = mout) \<and> (out = mout \<and> written \<or> (\<exists>e. out = Inl e) \<and> (kept \<or> written))"

lemma FileReserve_outcome:
  assumes "codec_ok c" "fits c m" "readReplayState c m f = Inr s"
    and "FileReserve c m ctx locked fault now r f = (out, f')"
    and "MemoryReserve ctx now r (memory_of m s) = (mout, mem')"
  shows "\<exists>s'. mem' = memory_of m s' \<and>
    reserve_outcome (locked \<and> fault = None) out mout (f' = f) (readReplayState c m f' = Inr s')"
proof (cases ctx)
  case (Some e)
  then show ?thesis using assms(3-5) by (auto simp: FileReserve_def MemoryReserve_def reserve_outcome_def)
next
  case None
  obtain out1 f1 where locked: "FileReserve c m None True fault now r f = (out1, f1)" by fastforce
  note step = FileReserve_steps [OF assms(1-3) locked assms(5) [unfolded None]]
  then obtain s' where s': "mem' = memory_of m s'" "mout \<noteq> Inr ReservationAccepted \<longrightarrow> s' = s" by (metis (full_types))
  show ?thesis
  proof (cases locked)
    case True
    then show ?thesis using step s' assms(3,4) locked None unfolding reserve_outcome_def by (metis Pair_inject)
  next
    case False
    then have "(\<exists>e. out = Inl e) \<and> f' = f" using assms(4) None by (auto simp: FileReserve_def split: option.splits if_splits)
    then show ?thesis using s'(1) False by (auto simp: reserve_outcome_def)
  qed
qed

section \<open>The Bolt store refines the in-memory store\<close>

definition bolt_rel :: "(replayEntry, 'b) codec \<Rightarrow> 'b BoltReplayDB \<Rightarrow> MemoryReplayStore \<Rightarrow> bool" where
  "bolt_rel c db mem \<longleftrightarrow>
     list_all2 (\<lambda>x y. fst x = fst y \<and> decodeReplayEntry c (snd x) = Inr (snd y)) (bo_builds db) (mr_builds mem) \<and>
     map fst (bo_nonces db) = map fst (mr_nonces mem) \<and> (\<forall>kv \<in> set (mr_nonces mem). snd kv)"

lemma decode_entry_of:
  assumes "codec_ok c" "cd_encode c (entry_of r) = Some t" "validateReservation r = None"
  shows "decodeReplayEntry c t = Inr (entry_of r)"
  using assms by (auto simp: decodeReplayEntry_def codec_okD entry_of_def validateReservation_def split: if_splits)

lemma boltReserveTx_refines:
  assumes "codec_ok c" "cd_encode c (entry_of r) \<noteq> None" "bolt_rel c db mem" "validateReservation r = None"
    and "reserveReplayState (mr_builds mem) (mr_nonces mem) m r = (out, b, n)"
  shows "case out of Inl e \<Rightarrow> boltReserveTx c m r db = Inl e
         | Inr oc \<Rightarrow> \<exists>db'. boltReserveTx c m r db = Inr (oc, db') \<and>
                          bolt_rel c db' (mem\<lparr>mr_builds := b, mr_nonces := n\<rparr>)"
proof -
  obtain t where t: "cd_encode c (entry_of r) = Some t" using assms(2) by auto
  have rel: "list_all2 (\<lambda>x y. fst x = fst y \<and> (\<lambda>a b. decodeReplayEntry c a = Inr b) (snd x) (snd y))
      (bo_builds db) (mr_builds mem)"
    and keys: "map fst (bo_nonces db) = map fst (mr_nonces mem)"
    and true: "\<forall>kv \<in> set (mr_nonces mem). snd kv"
    using assms(3) by (simp_all add: bolt_rel_def)
  have len: "length (bo_builds db) = length (mr_builds mem)" "length (bo_nonces db) = length (mr_nonces mem)"
    using list_all2_lengthD [OF rel] keys by (auto dest: map_eq_imp_length_eq)
  have nonce: "mget (mr_nonces mem) (nonce_key r) = Some True \<longleftrightarrow> mget (bo_nonces db) (nonce_key r) \<noteq> None"
    using all_true_mget [OF true] mget_None_keys [OF keys] by metis
  let ?db = "db\<lparr>bo_builds := mput (build_key r) t (bo_builds db), bo_nonces := mput (nonce_key r) [1] (bo_nonces db)\<rparr>"
  let ?mem = "mem\<lparr>mr_builds := mput (build_key r) (entry_of r) (mr_builds mem), mr_nonces := mput (nonce_key r) True (mr_nonces mem)\<rparr>"
  have new: "bolt_rel c ?db ?mem"
    using list_all2_mput [OF rel, of t "entry_of r" "build_key r"] decode_entry_of [OF assms(1) t assms(4)]
      keys_mput [OF keys, of "nonce_key r" "[1]" True] true set_mput_subset [of "nonce_key r" True "mr_nonces mem"]
    by (auto simp: bolt_rel_def)
  show ?thesis
    using list_all2_mget [OF rel, of "build_key r"] assms(3,5) new nonce len t
    by (auto simp: reserveReplayState_def boltReserveTx_def Let_def option_rel_Some2
        split: if_splits option.splits)
qed

section \<open>Properties\<close>

text \<open>Values for the witnesses.\<close>

definition sample_reservation :: "uint64 \<Rightarrow> Reservation" where
  "sample_reservation g = \<lparr>rs_CellID = sample_id ''cell'', rs_BuildID = sample_id ''bld'', rs_Generation = g,
     rs_Nonce = sample_nonce, rs_PayloadDigest = sample_digest, rs_ExpiresAt = 100\<rparr>"

lemma sample_reservation [simp]: "g \<noteq> 0 \<Longrightarrow> validateReservation (sample_reservation g) = None"
  by (simp add: validateReservation_def sample_reservation_def allowedPrefixes_def)

lemma fits_identity: "0 \<le> m \<Longrightarrow> fits identity_codec m"
  by (simp add: fits_def identity_codec_def)

lemma newReplayState_valid: "0 \<le> m \<Longrightarrow> validateReplayState newReplayState m"
  by (simp add: validateReplayState_def newReplayState_def)

definition sample_file :: "replayState disk_file option" where
  "sample_file = Some \<lparr>df_regular = True, df_perm = 384, df_contents = newReplayState\<rparr>"

lemma read_sample_file: "readReplayState identity_codec 8 sample_file = Inr newReplayState"
  using readReplayState_written [of identity_codec 8 newReplayState newReplayState] fits_identity [of 8]
    newReplayState_valid [of 8] by (simp add: sample_file_def identity_codec_def [THEN arg_cong [where f = cd_encode]])

text \<open>
  C4: whatever sequence of reservations is presented to a new store, with whatever clocks and
  contexts, no nonce of a cell is accepted twice, and the generations accepted for a build strictly
  increase.
\<close>

theorem replay_accepted_once:
  assumes "NewMemoryReplayStore m = Inr s"
  shows "distinct (map nonce_key (accepted_run MemoryReserve s calls)) \<and>
    sorted_wrt (\<lambda>a b. build_key a = build_key b \<longrightarrow> rs_Generation a < rs_Generation b)
      (accepted_run MemoryReserve s calls)"
  by (rule mem_replay.accepted_run_order [OF memory_invar_new [OF assms]])

theorem replay_accepted_once_witness:
  "accepted_run MemoryReserve \<lparr>mr_maxEntries = 8, mr_builds = [], mr_nonces = []\<rparr>
     [(None, 0, sample_reservation 1), (None, 0, sample_reservation 2)] = [sample_reservation 1] \<and>
   distinct (map nonce_key (accepted_run MemoryReserve \<lparr>mr_maxEntries = 8, mr_builds = [], mr_nonces = []\<rparr>
     [(None, 0, sample_reservation 1), (None, 0, sample_reservation 2)]))"
proof -
  have h: "NewMemoryReplayStore 8 = Inr \<lparr>mr_maxEntries = 8, mr_builds = [], mr_nonces = []\<rparr>"
    by (simp add: NewMemoryReplayStore_def)
  have "rs_ExpiresAt (sample_reservation g) = 100" for g by (simp add: sample_reservation_def)
  then have "accepted_run MemoryReserve \<lparr>mr_maxEntries = 8, mr_builds = [], mr_nonces = []\<rparr>
     [(None, 0, sample_reservation 1), (None, 0, sample_reservation 2)] = [sample_reservation 1]"
    by (simp add: MemoryReserve_def reserveReplayState_def Let_def build_key_def nonce_key_def entry_of_def)
      (simp add: sample_reservation_def)
  then show ?thesis using replay_accepted_once [OF h] by blast
qed

text \<open>
  C21: the file store implements the in-memory store under every context, lock and fault. On a
  file that holds a valid state, a reservation answers as the in-memory store does on that state and
  leaves a file that holds the in-memory store's new state, or it answers with an error and leaves
  the file as it was or holding the new state. With the lock and no fault in the replacement of the
  file it answers as the in-memory store. This uses that every valid state can be encoded within the
  size that \<open>readState\<close> accepts, 512 bytes per entry.
\<close>

theorem FileReserve_refines_memory:
  assumes "codec_ok c" "fits c m" "readReplayState c m f = Inr s"
    and "FileReserve c m ctx locked fault now r f = (out, f')"
    and "MemoryReserve ctx now r (memory_of m s) = (mout, mem')"
  shows "\<exists>s'. mem' = memory_of m s' \<and> (locked \<and> fault = None \<longrightarrow> out = mout) \<and>
    (out = mout \<and> readReplayState c m f' = Inr s' \<or>
     (\<exists>e. out = Inl e) \<and> (f' = f \<or> readReplayState c m f' = Inr s'))"
  using FileReserve_outcome [OF assms] unfolding reserve_outcome_def .

theorem FileReserve_refines_memory_witness:
  "readReplayState identity_codec 8 sample_file = Inr newReplayState \<and>
   (\<exists>s'. MemoryReserve None 0 (sample_reservation 1) (memory_of 8 newReplayState) =
          (fst (FileReserve identity_codec 8 None True None 0 (sample_reservation 1) sample_file), memory_of 8 s'))"
proof -
  have i: "codec_ok identity_codec" "fits identity_codec 8" by (simp_all add: fits_identity)
  show ?thesis
    using read_sample_file FileReserve_refines_memory [OF i read_sample_file surjective_pairing surjective_pairing,
        where ctx = None and locked = True and fault = None and now = 0 and r = "sample_reservation 1"]
    by (metis surjective_pairing)
qed

text \<open>
  when the replacement of the state file fails at any step, before or after the rename, the
  same reservation can be retried: the retry is accepted or is recognised as a replay, never a
  conflict.
\<close>

theorem FileReserve_retry_after_fault:
  assumes "codec_ok c" "fits c m" "readReplayState c m f = Inr s"
    and "FileReserve c m None True (Some st) now r f = (Inl ReplayWrite, f')" "now' < rs_ExpiresAt r"
  shows "fst (FileReserve c m None True None now' r f') \<in> {Inr ReservationAccepted, Inr ReservationReplay}"
proof -
  obtain mout mem' where mem: "MemoryReserve None now r (memory_of m s) = (mout, mem')" by fastforce
  have acc: "mout = Inr ReservationAccepted"
    using FileReserve_steps [OF assms(1-4) mem] mem
    by (auto simp: MemoryReserve_def reserveReplayState_def Let_def validateReservation_def split: reserve_splits)
  then obtain s' where s': "mem' = memory_of m s'" "f' = f \<or> readReplayState c m f' = Inr s'"
    using FileReserve_steps [OF assms(1-4) mem] by auto
  have v: "validateReservation r = None" using mem acc by (simp add: MemoryReserve_run)
  obtain out f'' where again: "FileReserve c m None True None now' r f' = (out, f'')" by fastforce
  from s'(2) show ?thesis
  proof
    assume "f' = f"
    then obtain s'' where "MemoryReserve None now' r (memory_of m s) = (out, memory_of m s'')"
      using FileReserve_simulates [OF assms(1-3)] again by blast
    then show ?thesis
      using mem acc again v assms(5) by (auto simp: MemoryReserve_def split: reserve_splits)
  next
    assume "readReplayState c m f' = Inr s'"
    then obtain s'' where "MemoryReserve None now' r (memory_of m s') = (out, memory_of m s'')"
      using FileReserve_simulates [OF assms(1,2) _ again] by blast
    moreover have "mget (mr_builds mem') (build_key r) = Some (entry_of r)"
      using mem acc by (auto simp: MemoryReserve_run elim!: reserveReplayState_cases)
    ultimately show ?thesis
      using v assms(5) again s'(1)
      by (auto simp: MemoryReserve_def reserveReplayState_repeat split: reserve_splits)
  qed
qed

theorem FileReserve_retry_after_fault_witness:
  "\<exists>f'. FileReserve identity_codec 8 None True (Some DirSyncStep) 0 (sample_reservation 1) sample_file =
           (Inl ReplayWrite, f') \<and>
         fst (FileReserve identity_codec 8 None True None 0 (sample_reservation 1) f') \<in>
           {Inr ReservationAccepted, Inr ReservationReplay}"
proof -
  let ?r = "sample_reservation 1"
  have i: "codec_ok identity_codec" "fits identity_codec 8" by (simp_all add: fits_identity)
  have v: "validateReservation ?r = None" "0 < rs_ExpiresAt ?r" by (simp_all add: sample_reservation_def [THEN arg_cong [where f = rs_ExpiresAt]])
  obtain b n where st: "reserveReplayState (st_Builds newReplayState) (st_Nonces newReplayState) 8 ?r =
      (Inr ReservationAccepted, b, n)"
    by (simp add: reserveReplayState_def newReplayState_def)
  have "validateReplayState (newReplayState\<lparr>st_Builds := b, st_Nonces := n\<rparr>) 8"
    using validateReplayState_accepted [OF newReplayState_valid v(1) st] by simp
  then obtain f' where "FileReserve identity_codec 8 None True (Some DirSyncStep) 0 ?r sample_file = (Inl ReplayWrite, f')"
    using v st by (simp add: FileReserve_def read_sample_file writeReplayState_def replace_file_def Let_def
        identity_codec_def [THEN arg_cong [where f = cd_encode]])
  then show ?thesis
    using FileReserve_retry_after_fault [OF i read_sample_file _ v(2)] by blast
qed

text \<open>
  C22: the Bolt store and the in-memory store, related by decoding the bucket's entries, give the
  same outcome to every reservation and stay related; a transaction that does not commit changes
  nothing.
\<close>

theorem BoltReserve_refines_memory:
  assumes "codec_ok c" "cd_encode c (entry_of r) \<noteq> None" "bolt_rel c db mem"
    and "MemoryReserve ctx now r mem = (out, mem')"
  shows "(\<exists>db'. BoltReserve c (mr_maxEntries mem) ctx True now r db = (out, db') \<and> bolt_rel c db' mem') \<and>
    snd (BoltReserve c (mr_maxEntries mem) ctx False now r db) = db"
proof
  show "snd (BoltReserve c (mr_maxEntries mem) ctx False now r db) = db"
    by (auto simp: BoltReserve_def split: reserve_splits)
  show "\<exists>db'. BoltReserve c (mr_maxEntries mem) ctx True now r db = (out, db') \<and> bolt_rel c db' mem'"
  proof (cases "ctx = None \<and> validateReservation r = None \<and> now < rs_ExpiresAt r")
    case True
    obtain o' b n where st: "reserveReplayState (mr_builds mem) (mr_nonces mem) (mr_maxEntries mem) r = (o', b, n)"
      by (metis prod_cases3)
    then have out: "out = o'" "mem' = mem\<lparr>mr_builds := b, mr_nonces := n\<rparr>"
      using assms(4) True by (auto simp: MemoryReserve_def)
    show ?thesis
    proof (cases o')
      case (Inl e)
      then have "mem' = mem" using MemoryReserve_kept [OF assms(4)] out by simp
      then show ?thesis using True out Inl assms(3) boltReserveTx_refines [OF assms(1-3) _ st]
        by (auto simp: BoltReserve_def)
    next
      case (Inr oc)
      then show ?thesis using True out boltReserveTx_refines [OF assms(1-3) _ st]
        by (auto simp: BoltReserve_def)
    qed
  next
    case False
    then show ?thesis using assms(3,4)
      by (auto simp: BoltReserve_def MemoryReserve_def split: option.splits)
  qed
qed

theorem BoltReserve_refines_memory_witness:
  "\<exists>db'. BoltReserve identity_codec 8 None True 0 (sample_reservation 1) \<lparr>bo_builds = [], bo_nonces = []\<rparr> =
     (fst (MemoryReserve None 0 (sample_reservation 1) \<lparr>mr_maxEntries = 8, mr_builds = [], mr_nonces = []\<rparr>), db')"
proof -
  let ?mem = "\<lparr>mr_maxEntries = 8, mr_builds = [], mr_nonces = []\<rparr>"
  let ?db = "\<lparr>bo_builds = [], bo_nonces = []\<rparr> :: replayEntry BoltReplayDB"
  have rel: "bolt_rel identity_codec ?db ?mem" by (simp add: bolt_rel_def)
  have enc: "cd_encode identity_codec (entry_of (sample_reservation 1)) \<noteq> None" by (simp add: identity_codec_def)
  show ?thesis
    using BoltReserve_refines_memory [OF codec_ok_identity enc rel surjective_pairing [of "MemoryReserve None 0 (sample_reservation 1) ?mem"]]
    by auto
qed

end
