(* ===== verification/Go_Text.thy ===== *)
theory Go_Text
  imports Go_Prelude
begin

text \<open>
  Text functions of the Go standard library and the regular expressions that several components
  share: decimal text, \<open>strings.Join\<close>, \<open>path.Clean\<close> and \<open>path.Base\<close>, \<open>utf8.ValidString\<close>, semantic
  versions, host names, node identifiers. The lemmas on \<open>path_clean\<close> say what a path that equals its
  own cleaned form cannot contain, which is how the components keep paths inside their roots.
\<close>

section \<open>Decimal text and joining\<close>

text \<open>\<open>strconv.Itoa\<close> of a number that is not negative.\<close>

fun decimal :: "nat \<Rightarrow> string" where
  "decimal n = (if n < 10 then [char_of (48 + n)] else decimal (n div 10) @ [char_of (48 + n mod 10)])"

declare decimal.simps [simp del]

fun join :: "string \<Rightarrow> string list \<Rightarrow> string" where
  "join sep [] = []"
| "join sep [x] = x"
| "join sep (x # y # ys) = x @ sep @ join sep (y # ys)"

text \<open>\<open>strconv.Atoi\<close>: an optional sign and digits. The 64-bit range is not reached by the bounds that
  callers check.\<close>

definition atoi_digits :: "string \<Rightarrow> int option" where
  "atoi_digits s =
     (if s = [] \<or> \<not> list_all is_digit s then None
      else Some (foldl (\<lambda>acc c. 10 * acc + (int (of_char c) - 48)) 0 s))"

definition atoi :: "string \<Rightarrow> int option" where
  "atoi s = (case s of [] \<Rightarrow> None
     | c # cs \<Rightarrow> if c = CHR ''-'' then map_option uminus (atoi_digits cs)
                else if c = CHR ''+'' then atoi_digits cs
                else atoi_digits s)"

section \<open>UTF-8\<close>

definition cont_byte :: "nat \<Rightarrow> bool" where
  "cont_byte b \<longleftrightarrow> 128 \<le> b \<and> b \<le> 191"

text \<open>The accepted ranges of \<open>unicode/utf8\<close> for the byte after a given first byte.\<close>

definition second_byte :: "nat \<Rightarrow> nat \<Rightarrow> bool" where
  "second_byte a b \<longleftrightarrow>
     (if a = 224 then 160 \<le> b \<and> b \<le> 191
      else if a = 237 then 128 \<le> b \<and> b \<le> 159
      else if a = 240 then 144 \<le> b \<and> b \<le> 191
      else if a = 244 then 128 \<le> b \<and> b \<le> 143
      else cont_byte b)"

fun utf8_bytes :: "nat list \<Rightarrow> bool" where
  "utf8_bytes [] \<longleftrightarrow> True"
| "utf8_bytes (a # bs) \<longleftrightarrow>
     (if a < 128 then utf8_bytes bs
      else if 194 \<le> a \<and> a \<le> 223 then
        (case bs of b # cs \<Rightarrow> second_byte a b \<and> utf8_bytes cs | _ \<Rightarrow> False)
      else if 224 \<le> a \<and> a \<le> 239 then
        (case bs of b # c # cs \<Rightarrow> second_byte a b \<and> cont_byte c \<and> utf8_bytes cs | _ \<Rightarrow> False)
      else if 240 \<le> a \<and> a \<le> 244 then
        (case bs of b # c # d # cs \<Rightarrow> second_byte a b \<and> cont_byte c \<and> cont_byte d \<and> utf8_bytes cs | _ \<Rightarrow> False)
      else False)"

definition valid_utf8 :: "string \<Rightarrow> bool" where
  "valid_utf8 s = utf8_bytes (map of_char s)"

text \<open>
  The width of the character at the head as \<open>utf8.DecodeRune\<close> sees it, 0 for an invalid byte, and
  the text that \<open>encoding/json\<close> writes: every invalid byte becomes U+FFFD.
\<close>

definition rune_width :: "nat list \<Rightarrow> nat" where
  "rune_width bs =
     (case bs of [] \<Rightarrow> 0
      | a # rest \<Rightarrow>
          if a < 128 then 1
          else if 194 \<le> a \<and> a \<le> 223 then (case rest of b # _ \<Rightarrow> if second_byte a b then 2 else 0 | _ \<Rightarrow> 0)
          else if 224 \<le> a \<and> a \<le> 239 then
            (case rest of b # c # _ \<Rightarrow> if second_byte a b \<and> cont_byte c then 3 else 0 | _ \<Rightarrow> 0)
          else if 240 \<le> a \<and> a \<le> 244 then
            (case rest of b # c # d # _ \<Rightarrow> if second_byte a b \<and> cont_byte c \<and> cont_byte d then 4 else 0 | _ \<Rightarrow> 0)
          else 0)"

fun replace_bytes :: "nat list \<Rightarrow> nat list" where
  "replace_bytes [] = []"
| "replace_bytes (a # bs) =
     (let w = rune_width (a # bs) in
      if w = 0 then [239, 191, 189] @ replace_bytes bs else take w (a # bs) @ replace_bytes (drop (w - 1) bs))"

definition replace_invalid :: "string \<Rightarrow> string" where
  "replace_invalid s = map char_of (replace_bytes (map of_char s))"

lemma utf8_bytes_rune:
  assumes "utf8_bytes (a # bs)"
  shows "rune_width (a # bs) \<noteq> 0 \<and> utf8_bytes (drop (rune_width (a # bs) - 1) bs)"
proof -
  consider "a < 128" | "\<not> a < 128" "194 \<le> a \<and> a \<le> 223" | "\<not> a < 128" "\<not> (194 \<le> a \<and> a \<le> 223)" "224 \<le> a \<and> a \<le> 239"
    | "\<not> a < 128" "\<not> (194 \<le> a \<and> a \<le> 223)" "\<not> (224 \<le> a \<and> a \<le> 239)" "240 \<le> a \<and> a \<le> 244"
    using assms unfolding utf8_bytes.simps by argo
  then show ?thesis
  proof cases
    case 1
    then show ?thesis using assms by (simp add: rune_width_def)
  next
    case 2
    then obtain b cs where "bs = b # cs" "second_byte a b" "utf8_bytes cs" using assms by (auto split: list.splits)
    then show ?thesis using 2 by (simp add: rune_width_def)
  next
    case 3
    then obtain b c cs where "bs = b # c # cs" "second_byte a b" "cont_byte c" "utf8_bytes cs" using assms by (auto split: list.splits)
    then show ?thesis using 3 by (simp add: rune_width_def numeral_2_eq_2)
  next
    case 4
    then obtain b c d cs where "bs = b # c # d # cs" "second_byte a b" "cont_byte c" "cont_byte d" "utf8_bytes cs"
      using assms by (auto split: list.splits)
    then show ?thesis using 4 by (simp add: rune_width_def numeral_3_eq_3)
  qed
qed

lemma replace_bytes_valid: "utf8_bytes bs \<Longrightarrow> replace_bytes bs = bs"
proof (induction bs rule: replace_bytes.induct)
  case (2 a bs)
  define w where "w = rune_width (a # bs)"
  have w: "w \<noteq> 0" "utf8_bytes (drop (w - 1) bs)" using utf8_bytes_rune [OF 2(3)] by (simp_all add: w_def)
  then have "replace_bytes (drop (w - 1) bs) = drop (w - 1) bs" using 2(2) [OF w_def] by blast
  moreover have "take w (a # bs) @ drop (w - 1) bs = a # bs" using w(1) by (cases w) simp_all
  ultimately show ?case using w(1) by (simp only: replace_bytes.simps Let_def w_def [symmetric] if_False)
qed simp

lemma replace_invalid_valid: "valid_utf8 s \<Longrightarrow> replace_invalid s = s"
  by (simp add: replace_invalid_def valid_utf8_def replace_bytes_valid comp_def)

section \<open>Paths\<close>

text \<open>
  \<open>path.Clean\<close> on the segments of a path, with the reversed segments kept so far: empty and dot
  segments go, a dot-dot segment removes the segment before it, and what is left of dot-dot stays at
  the front of a relative path and vanishes at the root.
\<close>

fun clean_segs :: "bool \<Rightarrow> string list \<Rightarrow> string list \<Rightarrow> string list" where
  "clean_segs rooted out [] = rev out"
| "clean_segs rooted out (s # ss) =
     (if s = [] \<or> s = ''.'' then clean_segs rooted out ss
      else if s = ''..'' then
        (if out \<noteq> [] \<and> hd out \<noteq> ''..'' then clean_segs rooted (tl out) ss
         else if rooted then clean_segs rooted out ss
         else clean_segs rooted (s # out) ss)
      else clean_segs rooted (s # out) ss)"

definition path_clean :: "string \<Rightarrow> string" where
  "path_clean p =
     (if p = [] then ''.''
      else let rooted = has_prefix p ''/''; body = join ''/'' (clean_segs rooted [] (split_on CHR ''/'' p))
           in if rooted then ''/'' @ body else if body = [] then ''.'' else body)"

definition path_base :: "string \<Rightarrow> string" where
  "path_base p =
     (if p = [] then ''.''
      else let t = rev (dropWhile (\<lambda>c. c = CHR ''/'') (rev p))
           in if t = [] then ''/'' else last (split_on CHR ''/'' t))"

section \<open>Regular expressions\<close>

text \<open>One character of a class, then at most \<open>n\<close> of another: \<^verbatim>\<open>^[f][g]{0,n}$\<close>.\<close>

definition token_pattern :: "(char \<Rightarrow> bool) \<Rightarrow> (char \<Rightarrow> bool) \<Rightarrow> nat \<Rightarrow> string \<Rightarrow> bool" where
  "token_pattern f g n s = (case s of [] \<Rightarrow> False | c # cs \<Rightarrow> f c \<and> list_all g cs \<and> length cs \<le> n)"

definition lower_or_digit :: "char \<Rightarrow> bool" where
  "lower_or_digit c \<longleftrightarrow> is_lower c \<or> is_digit c"

definition name_char :: "char \<Rightarrow> bool" where
  "name_char c \<longleftrightarrow> is_lower c \<or> is_digit c \<or> c \<in> set ''._-''"

text \<open>\<^verbatim>\<open>^[a-z][a-z0-9._-]{0,127}$\<close>\<close>

definition capability_pattern :: "string \<Rightarrow> bool" where
  "capability_pattern = token_pattern is_lower name_char 127"

text \<open>\<^verbatim>\<open>^[a-z][a-z0-9-]{0,62}$\<close>\<close>

definition output_name_pattern :: "string \<Rightarrow> bool" where
  "output_name_pattern = token_pattern is_lower (\<lambda>c. lower_or_digit c \<or> c = CHR ''-'') 62"

text \<open>\<^verbatim>\<open>^[A-Z_][A-Z0-9_]{0,127}$\<close>\<close>

definition environment_key_pattern :: "string \<Rightarrow> bool" where
  "environment_key_pattern =
     token_pattern (\<lambda>c. is_upper c \<or> c = CHR ''_'') (\<lambda>c. is_upper c \<or> is_digit c \<or> c = CHR ''_'') 127"

text \<open>\<^verbatim>\<open>^n[1-9][0-9]{0,3}$\<close>\<close>

definition node_id_pattern :: "string \<Rightarrow> bool" where
  "node_id_pattern s =
     (case s of [] \<Rightarrow> False | c # cs \<Rightarrow> c = CHR ''n'' \<and> token_pattern (in_range CHR ''1'' CHR ''9'') is_digit 3 cs)"

text \<open>\<^verbatim>\<open>^[0-9]+\.[0-9]+\.[0-9]+$\<close>\<close>

definition semver_pattern :: "string \<Rightarrow> bool" where
  "semver_pattern s \<longleftrightarrow>
     (let ps = split_on CHR ''.'' s in length ps = 3 \<and> list_all (\<lambda>p. p \<noteq> [] \<and> list_all is_digit p) ps)"

text \<open>\<^verbatim>\<open>[a-z0-9](?:[a-z0-9-]{0,61}[a-z0-9])?\<close>, one label of a host name.\<close>

definition host_label :: "string \<Rightarrow> bool" where
  "host_label s \<longleftrightarrow> s \<noteq> [] \<and> length s \<le> 63 \<and> lower_or_digit (hd s) \<and> lower_or_digit (last s) \<and>
     list_all (\<lambda>c. lower_or_digit c \<or> c = CHR ''-'') s"

definition hostname_pattern :: "string \<Rightarrow> bool" where
  "hostname_pattern s \<longleftrightarrow> list_all host_label (split_on CHR ''.'' s)"

text \<open>The text bound that configuration values share (\<open>boundedString\<close>, \<open>boundedText\<close>, \<open>boundedLockText\<close>).\<close>

definition bounded_text :: "string \<Rightarrow> bool \<Rightarrow> bool" where
  "bounded_text value allowEmpty \<longleftrightarrow>
     (allowEmpty \<or> value \<noteq> []) \<and> length value \<le> 4096 \<and> valid_utf8 value \<and> CHR 0x00 \<notin> set value"

fun strictly_sorted :: "string list \<Rightarrow> bool" where
  "strictly_sorted (x # y # ys) \<longleftrightarrow> x < y \<and> strictly_sorted (y # ys)"
| "strictly_sorted _ \<longleftrightarrow> True"

section \<open>Lemmas\<close>

lemma decimal_not_Nil [simp]: "decimal n \<noteq> []"
  by (subst decimal.simps) simp

lemma decimal_small: "n < 10 \<Longrightarrow> decimal n = [hex_digit n]"
  by (subst decimal.simps) (simp add: hex_digit_def)

lemma contains_str_char: "contains_str s (c # p) \<Longrightarrow> c \<in> set s"
  by (induction s) (auto simp: has_prefix_def)

lemma decimal_digit: "c \<in> set (decimal n) \<Longrightarrow> is_digit c"
proof (induction n rule: decimal.induct)
  case (1 n)
  show ?case
  proof (cases "n < 10")
    case True
    then show ?thesis using 1(2) by (subst (asm) decimal.simps) (auto simp: is_digit_def in_range_def)
  next
    case False
    then show ?thesis using 1 by (subst (asm) (2) decimal.simps) (auto simp: is_digit_def in_range_def)
  qed
qed

definition decimal_value :: "string \<Rightarrow> nat" where
  "decimal_value s = foldl (\<lambda>acc c. 10 * acc + (of_char c - 48)) 0 s"

lemma decimal_value_decimal [simp]: "decimal_value (decimal n) = n"
proof (induction n rule: decimal.induct)
  case (1 n)
  show ?case
  proof (cases "n < 10")
    case True
    then show ?thesis by (subst decimal.simps) (simp add: decimal_value_def)
  next
    case False
    then have "decimal_value (decimal n) = 10 * decimal_value (decimal (n div 10)) + n mod 10"
      by (subst decimal.simps) (simp add: decimal_value_def)
    then show ?thesis using 1 False by simp
  qed
qed

lemma decimal_inject [simp]: "decimal m = decimal n \<longleftrightarrow> m = n"
  by (metis decimal_value_decimal)

lemma strictly_sorted_wrt: "strictly_sorted xs \<longleftrightarrow> sorted_wrt (<) xs"
  by (induction xs rule: strictly_sorted.induct) (auto intro: less_trans)

lemma sorted_wrt_less_distinct: "sorted_wrt (<) (xs :: 'a :: order list) \<Longrightarrow> distinct xs"
  by (induction xs) auto

lemma strictly_sorted_distinct: "strictly_sorted xs \<Longrightarrow> distinct xs"
  by (simp add: strictly_sorted_wrt sorted_wrt_less_distinct)

lemma join_Cons: "ys \<noteq> [] \<Longrightarrow> join sep (x # ys) = x @ sep @ join sep ys"
  by (cases ys) simp_all

lemma join_split [simp]: "join [c] (split_on c s) = s"
proof (induction s)
  case (Cons x s)
  show ?case
  proof (cases "split_on c s")
    case Nil
    then show ?thesis by simp
  next
    case s: (Cons y ys)
    show ?thesis
    proof (cases "x = c")
      case True
      then show ?thesis using Cons.IH by (simp add: join_Cons)
    next
      case False
      then show ?thesis using Cons.IH s by (cases ys) auto
    qed
  qed
qed simp

lemma split_on_no_sep: "x \<in> set (split_on c s) \<Longrightarrow> c \<notin> set x"
proof (induction s arbitrary: x)
  case (Cons a s)
  obtain y ys where "split_on c s = y # ys" by (cases "split_on c s") auto
  then show ?case using Cons by (auto split: if_splits)
qed simp

lemma split_on_plain: "c \<notin> set x \<Longrightarrow> split_on c x = [x]"
  by (induction x) auto

lemma split_on_append: "c \<notin> set x \<Longrightarrow> split_on c (x @ c # ys) = x # split_on c ys"
  by (induction x) (auto split: list.splits)

lemma split_join: "xs \<noteq> [] \<Longrightarrow> \<forall>x \<in> set xs. c \<notin> set x \<Longrightarrow> split_on c (join [c] xs) = xs"
proof (induction xs)
  case (Cons x xs)
  then show ?case by (cases xs) (auto simp: split_on_plain split_on_append)
qed simp

section \<open>What a cleaned path cannot contain\<close>

definition plain_seg :: "string \<Rightarrow> bool" where
  "plain_seg s \<longleftrightarrow> s \<noteq> [] \<and> s \<noteq> ''.'' \<and> s \<noteq> ''..'' \<and> CHR ''/'' \<notin> set s"

definition ups_then_plain :: "string list \<Rightarrow> bool" where
  "ups_then_plain xs \<longleftrightarrow> (\<exists>k ys. xs = replicate k ''..'' @ ys \<and> list_all plain_seg ys)"

lemma clean_segs_rooted:
  "list_all plain_seg out \<Longrightarrow> \<forall>s \<in> set ss. CHR ''/'' \<notin> set s \<Longrightarrow> list_all plain_seg (clean_segs True out ss)"
proof (induction ss arbitrary: out)
  case Nil
  then show ?case by (simp add: list_all_iff)
next
  case (Cons s ss)
  have t: "list_all plain_seg (tl out)" using Cons.prems(1) by (cases out) auto
  have p: "plain_seg s" if "s \<noteq> []" "s \<noteq> ''.''" "s \<noteq> ''..''" using that Cons.prems(2) by (simp add: plain_seg_def)
  show ?case
    using Cons.IH [of out] Cons.IH [of "tl out"] Cons.IH [of "s # out"] Cons.prems p t by auto
qed

lemma ups_then_plain_snoc:
  assumes "ups_then_plain (rev out)" "plain_seg s \<or> s = ''..'' \<and> (out = [] \<or> hd out = ''..'')"
  shows "ups_then_plain (rev (s # out))"
proof -
  obtain k ys where o: "rev out = replicate k ''..'' @ ys" "list_all plain_seg ys"
    using assms(1) by (auto simp: ups_then_plain_def)
  show ?thesis
  proof (cases "plain_seg s")
    case True
    then have "rev (s # out) = replicate k ''..'' @ (ys @ [s])" "list_all plain_seg (ys @ [s])" using o by simp_all
    then show ?thesis unfolding ups_then_plain_def by blast
  next
    case False
    then have s: "s = ''..''" "out = [] \<or> hd out = ''..''" using assms(2) by auto
    have "ys = []"
    proof (rule ccontr)
      assume "ys \<noteq> []"
      then have "out \<noteq> [] \<and> hd out = last ys" using o(1) by (metis append_is_Nil_conv hd_rev last_append rev_is_Nil_conv rev_rev_ident)
      then show False using s(2) o(2) \<open>ys \<noteq> []\<close> last_in_set [of ys] by (auto simp: list_all_iff plain_seg_def)
    qed
    then have "rev (s # out) = replicate (Suc k) ''..'' @ []" using o(1) s(1) by (simp add: replicate_append_same)
    then show ?thesis unfolding ups_then_plain_def by (intro exI [of _ "Suc k"] exI [of _ "[]"]) simp
  qed
qed

lemma ups_then_plain_tl: "ups_then_plain (rev out) \<Longrightarrow> hd out \<noteq> ''..'' \<Longrightarrow> ups_then_plain (rev (tl out))"
proof (cases out)
  case (Cons s ss)
  assume u: "ups_then_plain (rev out)" and h: "hd out \<noteq> ''..''"
  then obtain k ys where o: "rev ss @ [s] = replicate k ''..'' @ ys" "list_all plain_seg ys"
    using Cons by (auto simp: ups_then_plain_def)
  have "ys \<noteq> []"
  proof
    assume "ys = []"
    then have "s \<in> set (replicate k ''..'')" using o(1) by (metis append_Nil2 in_set_conv_decomp)
    then show False using h Cons by simp
  qed
  then have "rev ss = replicate k ''..'' @ butlast ys" "list_all plain_seg (butlast ys)"
    using o by (auto simp: butlast_append list_all_iff dest: in_set_butlastD) (metis butlast_append butlast_snoc)
  then show ?thesis using Cons by (auto simp: ups_then_plain_def)
qed simp

lemma clean_segs_relative:
  "ups_then_plain (rev out) \<Longrightarrow> \<forall>s \<in> set ss. CHR ''/'' \<notin> set s \<Longrightarrow> ups_then_plain (clean_segs False out ss)"
proof (induction ss arbitrary: out)
  case (Cons s ss)
  have p: "plain_seg s" if "s \<noteq> []" "s \<noteq> ''.''" "s \<noteq> ''..''" using that Cons.prems(2) by (simp add: plain_seg_def)
  show ?case
    using Cons.IH [of out] Cons.IH [of "tl out"] Cons.IH [of "s # out"] Cons.prems p
      ups_then_plain_snoc [OF Cons.prems(1), of s] ups_then_plain_tl [OF Cons.prems(1)]
    by auto
qed simp

lemma has_prefix_slash: "has_prefix p ''/'' \<longleftrightarrow> (\<exists>q. p = CHR ''/'' # q)"
  by (cases p) (auto simp: has_prefix_def)

lemma split_segments_no_slash: "\<forall>s \<in> set (split_on CHR ''/'' p). CHR ''/'' \<notin> set s"
  using split_on_no_sep by blast

text \<open>A rooted path equal to its cleaned form, other than the root, is a chain of plain segments.\<close>

lemma path_clean_absolute:
  assumes "path_clean v = v" "has_prefix v ''/''" "v \<noteq> ''/''"
  obtains segs where "segs \<noteq> []" "list_all plain_seg segs" "v = ''/'' @ join ''/'' segs" "split_on CHR ''/'' v = [] # segs"
proof -
  let ?segs = "clean_segs True [] (split_on CHR ''/'' v)"
  have plain: "list_all plain_seg ?segs"
    by (rule clean_segs_rooted) (use split_segments_no_slash in auto)
  have v: "v = ''/'' @ join ''/'' ?segs"
    using assms(1,2) by (auto simp: path_clean_def Let_def has_prefix_slash split: if_splits)
  moreover have ne: "?segs \<noteq> []" using v assms(3) by auto
  moreover have "split_on CHR ''/'' v = [] # ?segs"
    by (subst v) (use split_join [OF ne] plain in \<open>auto simp: list_all_iff plain_seg_def\<close>)
  ultimately show ?thesis using that plain by blast
qed

text \<open>A relative path equal to its cleaned form that does not start with dot-dot is a chain of plain segments.\<close>

lemma path_clean_relative:
  assumes "path_clean v = v" "\<not> has_prefix v ''/''" "v \<noteq> ''.''" "v \<noteq> ''..''" "\<not> has_prefix v ''../''"
  shows "list_all plain_seg (split_on CHR ''/'' v)"
proof -
  let ?segs = "clean_segs False [] (split_on CHR ''/'' v)"
  have "ups_then_plain ?segs"
    by (rule clean_segs_relative) (use split_segments_no_slash in \<open>auto simp: ups_then_plain_def\<close>)
  then obtain k ys where s: "?segs = replicate k ''..'' @ ys" "list_all plain_seg ys"
    by (auto simp: ups_then_plain_def)
  have v: "v = join ''/'' ?segs" "?segs \<noteq> []"
    using assms(1-3) by (auto simp: path_clean_def Let_def split: if_splits)
  have "k = 0"
  proof (rule ccontr)
    assume "k \<noteq> 0"
    then obtain zs where z: "?segs = ''..'' # zs" using s(1) by (cases k) auto
    then have "v = ''..'' \<or> (\<exists>w. v = ''..'' @ ''/'' @ w)" using v by (cases zs) auto
    then show False using assms(4,5) by (auto simp: has_prefix_def)
  qed
  then show ?thesis
    using split_join [OF v(2), of "CHR ''/''"] v(1) s by (auto simp: list_all_iff plain_seg_def)
qed

end
