(* ===== verification/Build_IR.thy ===== *)
theory Build_IR
  imports Go_Text Platform_Id
begin

text \<open>
  The build graph between the build language and the LLB compiler:
  \<^verbatim>\<open>src/services/build-plane/internal/buildir/buildir.go\<close>. An IR is a list of nodes \<open>n1, n2, ...\<close> with
  references to earlier nodes and a list of outputs; \<open>Validate\<close> is the whole check. Attributes are
  untyped JSON values (\<open>anyval\<close>); nil maps and slices, which the code tells from empty ones, are
  \<open>None\<close>. The lemmas show what an accepted graph guarantees: it is acyclic, its network requests
  stay below the ceiling, and its paths stay inside their roots.
\<close>

section \<open>Data\<close>

text \<open>The Go values that an attribute can hold: typed slices and maps, and those decoded from JSON.\<close>

datatype anyval =
    AnyNil
  | AnyString string
  | AnyBool bool
  | AnyNumber string
  | AnyStrings "string list"
  | AnySlice "anyval list"
  | AnyStringMap "string strmap"
  | AnyMap "(string \<times> anyval) list"

record Module =
  md_Name :: string
  md_Kind :: string
  md_Digest :: string

record Node =
  nd_ID :: string
  nd_Operation :: string
  nd_Inputs :: "string list"
  nd_Attributes :: "anyval strmap option"

record Output =
  ot_Name :: string
  ot_Kind :: string
  ot_State :: string
  ot_Entrypoint :: "string list option"
  ot_Command :: "string list option"
  ot_Ports :: "int list option"
  ot_Labels :: "string strmap option"
  ot_Headers :: "string strmap option"

record IR =
  ir_Version :: int
  ir_DSLAPIVersion :: string
  ir_CompilerVersion :: string
  ir_SourceSnapshot :: string
  ir_TargetPlatform :: string
  ir_NetworkProfile :: string
  ir_AllowedHosts :: "string list"
  ir_Modules :: "Module list"
  ir_Nodes :: "Node list"
  ir_Outputs :: "Output list"

datatype ir_error =
    IrVersion | IrAPI | IrCompiler | IrSnapshot | IrPlatform | IrNetwork | IrHosts | IrModules
  | IrNodeCount | IrOutputCount | IrNodeID nat | IrOperation string | IrInputs string
  | IrInput string string | IrNode string | IrOutputName nat | IrOutputOrder
  | IrOutputState string | IrOutput string | IrDecode

definition CurrentVersion :: int where
  "CurrentVersion = 2"

definition CurrentDSLAPIVersion :: string where
  "CurrentDSLAPIVersion = ''lrail.build/v1''"

definition MaxNodes :: nat where
  "MaxNodes = 1024"

definition MaxOutputs :: nat where
  "MaxOutputs = 64"

definition MaxModules :: nat where
  "MaxModules = 64"

definition MaxInputs :: nat where
  "MaxInputs = 32"

definition MaxArguments :: nat where
  "MaxArguments = 128"

definition allowedOperations :: "string list" where
  "allowedOperations = [''cache'', ''copy'', ''image'', ''run'', ''secret'', ''source'']"

definition allowedNetworks :: "string list" where
  "allowedNetworks = [''none'', ''packages'', ''allowlist'', ''private'']"

definition stateOperations :: "string list" where
  "stateOperations = [''copy'', ''image'', ''run'']"

section \<open>Patterns\<close>

definition module_char :: "char \<Rightarrow> bool" where
  "module_char c \<longleftrightarrow> is_upper c \<or> is_lower c \<or> is_digit c \<or> c \<in> set ''._-''"

text \<open>\<^verbatim>\<open>[A-Za-z0-9._-]+(?:/[A-Za-z0-9._-]+)*\.star\<close>\<close>

definition module_path :: "string \<Rightarrow> bool" where
  "module_path s \<longleftrightarrow> has_suffix s ''.star'' \<and>
     list_all (\<lambda>p. p \<noteq> [] \<and> list_all module_char p) (split_on CHR ''/'' (trim_suffix s ''.star''))"

definition repositoryModule :: "string \<Rightarrow> bool" where
  "repositoryModule s \<longleftrightarrow> has_prefix s ''//'' \<and> module_path (drop 2 s)"

text \<open>\<^verbatim>\<open>^@lrail/v[1-9][0-9]*/\<close> and a module path.\<close>

definition standardModule :: "string \<Rightarrow> bool" where
  "standardModule s \<longleftrightarrow> has_prefix s ''@lrail/v'' \<and>
     (case cut CHR ''/'' (drop 8 s) of None \<Rightarrow> False
      | Some (version, path) \<Rightarrow>
          version \<noteq> [] \<and> in_range CHR ''1'' CHR ''9'' (hd version) \<and> list_all is_digit (tl version) \<and> module_path path)"

text \<open>\<^verbatim>\<open>^[a-z0-9][a-z0-9./:_-]{0,511}@sha256:[0-9a-f]{64}$\<close>\<close>

definition pinnedImagePattern :: "string \<Rightarrow> bool" where
  "pinnedImagePattern s =
     (case cut CHR ''@'' s of None \<Rightarrow> False
      | Some (name, digest) \<Rightarrow>
          token_pattern lower_or_digit (\<lambda>c. lower_or_digit c \<or> c \<in> set ''./:_-'') 511 name \<and> digest_pattern digest)"

text \<open>\<^verbatim>\<open>^[1-9][0-9]{0,9}:[1-9][0-9]{0,9}$\<close>\<close>

definition ownerPattern :: "string \<Rightarrow> bool" where
  "ownerPattern s =
     (case cut CHR '':'' s of None \<Rightarrow> False
      | Some (uid, gid) \<Rightarrow> token_pattern (in_range CHR ''1'' CHR ''9'') is_digit 9 uid \<and>
                         token_pattern (in_range CHR ''1'' CHR ''9'') is_digit 9 gid)"

text \<open>\<^verbatim>\<open>^0[0-7]{3}$\<close>\<close>

definition modePattern :: "string \<Rightarrow> bool" where
  "modePattern s \<longleftrightarrow> length s = 4 \<and> hd s = CHR ''0'' \<and> list_all (in_range CHR ''0'' CHR ''7'') (tl s)"

definition labelKeyPattern :: "string \<Rightarrow> bool" where
  "labelKeyPattern = token_pattern lower_or_digit (\<lambda>c. lower_or_digit c \<or> c \<in> set ''./_-'') 127"

definition headerNamePattern :: "string \<Rightarrow> bool" where
  "headerNamePattern =
     token_pattern (\<lambda>c. is_upper c \<or> is_lower c) (\<lambda>c. is_upper c \<or> is_lower c \<or> is_digit c \<or> c = CHR ''-'') 126"

section \<open>Helpers\<close>

definition exactKeys :: "anyval strmap \<Rightarrow> string list \<Rightarrow> bool" where
  "exactKeys attributes expected \<longleftrightarrow>
     length attributes = length expected \<and> list_all (\<lambda>key. mget attributes key \<noteq> None) expected"

fun any_string :: "anyval option \<Rightarrow> string option" where
  "any_string (Some (AnyString s)) = Some s"
| "any_string _ = None"

fun any_bool :: "anyval option \<Rightarrow> bool option" where
  "any_bool (Some (AnyBool b)) = Some b"
| "any_bool _ = None"

fun all_strings :: "anyval list \<Rightarrow> string list option" where
  "all_strings [] = Some []"
| "all_strings (AnyString s # xs) = map_option ((#) s) (all_strings xs)"
| "all_strings (_ # xs) = None"

fun stringSlice :: "anyval option \<Rightarrow> string list option" where
  "stringSlice (Some (AnyStrings ss)) = Some ss"
| "stringSlice (Some (AnySlice xs)) = all_strings xs"
| "stringSlice _ = None"

fun all_string_values :: "(string \<times> anyval) list \<Rightarrow> string strmap option" where
  "all_string_values [] = Some []"
| "all_string_values ((k, AnyString s) # xs) = map_option ((#) (k, s)) (all_string_values xs)"
| "all_string_values (_ # xs) = None"

fun stringMap :: "anyval option \<Rightarrow> string strmap option" where
  "stringMap (Some (AnyStringMap m)) = Some m"
| "stringMap (Some (AnyMap m)) = all_string_values m"
| "stringMap _ = None"

definition boundedString :: "string \<Rightarrow> bool \<Rightarrow> bool" where
  "boundedString value allowEmpty = bounded_text value allowEmpty"

definition validString :: "string \<Rightarrow> bool" where
  "validString value = boundedString value False"

definition validStrings :: "string list \<Rightarrow> bool" where
  "validStrings values = list_all validString values"

definition safePattern :: "string \<Rightarrow> bool" where
  "safePattern value \<longleftrightarrow>
     value \<noteq> [] \<and> \<not> has_prefix value ''/'' \<and> CHR 0x5C \<notin> set value \<and> CHR '':'' \<notin> set value \<and>
     list_all (\<lambda>component. component \<noteq> [] \<and> component \<noteq> ''..'') (split_on CHR ''/'' value)"

definition validPatterns :: "string list \<Rightarrow> bool" where
  "validPatterns values \<longleftrightarrow>
     length values \<le> MaxArguments \<and> strictly_sorted values \<and>
     list_all (\<lambda>value. validString value \<and> safePattern value) values"

definition validStringMap :: "string strmap \<Rightarrow> (string \<Rightarrow> bool) \<Rightarrow> bool \<Rightarrow> bool" where
  "validStringMap values keyPattern rejectNewline \<longleftrightarrow>
     length values \<le> MaxArguments \<and>
     list_all (\<lambda>(key, value). keyPattern key \<and> boundedString value True \<and>
       \<not> (rejectNewline \<and> (CHR 0x0D \<in> set value \<or> CHR 0x0A \<in> set value))) values"

definition safeRelativePath :: "string \<Rightarrow> bool" where
  "safeRelativePath value \<longleftrightarrow>
     value = ''.'' \<or>
     value \<noteq> [] \<and> \<not> has_prefix value ''/'' \<and> CHR 0x5C \<notin> set value \<and> CHR '':'' \<notin> set value \<and>
     path_clean value = value \<and> value \<noteq> ''..'' \<and> \<not> has_prefix value ''../''"

definition safeAbsolutePath :: "string \<Rightarrow> bool" where
  "safeAbsolutePath value \<longleftrightarrow>
     value \<noteq> ''/'' \<and> has_prefix value ''/'' \<and> CHR 0x5C \<notin> set value \<and> CHR 0x00 \<notin> set value \<and> path_clean value = value"

definition safeSecretTarget :: "string \<Rightarrow> bool" where
  "safeSecretTarget value \<longleftrightarrow>
     has_prefix value ''/run/secrets/'' \<and> safeAbsolutePath value \<and> length (trim_prefix value ''/run/secrets/'') > 0"

definition uniqueFoldedKeys :: "string strmap \<Rightarrow> bool" where
  "uniqueFoldedKeys values = distinct (map (\<lambda>kv. to_lower (fst kv)) values)"

text \<open>\<open>slices.Index\<close>: -1 when absent.\<close>

fun index_of :: "string \<Rightarrow> string list \<Rightarrow> int" where
  "index_of x [] = - 1"
| "index_of x (y # ys) = (if x = y then 0 else let i = index_of x ys in if i < 0 then - 1 else i + 1)"

definition networkRank :: "string \<Rightarrow> int" where
  "networkRank network = index_of network allowedNetworks"

definition isShell :: "string \<Rightarrow> bool" where
  "isShell value \<longleftrightarrow> path_base value \<in> set [''ash'', ''bash'', ''cmd.exe'', ''dash'', ''ksh'', ''powershell'', ''pwsh'', ''sh'', ''zsh'']"

definition shellInvocation :: "string list \<Rightarrow> bool" where
  "shellInvocation arguments =
     (case arguments of [] \<Rightarrow> False
      | a # rest \<Rightarrow> isShell a \<or>
          (rest \<noteq> [] \<and> (path_base a = ''env'' \<or> path_base a = ''busybox'') \<and> isShell (hd rest)))"

section \<open>Validation\<close>

definition validateAllowedHosts :: "string \<Rightarrow> string list \<Rightarrow> ir_error option" where
  "validateAllowedHosts profile hosts =
     (if profile \<noteq> ''allowlist'' \<and> length hosts > 0 then Some IrHosts
      else if profile = ''allowlist'' \<and> hosts = [] then Some IrHosts
      else if length hosts > 64 \<or> \<not> strictly_sorted hosts then Some IrHosts
      else check_each (\<lambda>host. if length host > 253 \<or> host \<noteq> to_lower host \<or> \<not> hostname_pattern host
                              then Some IrHosts else None) hosts)"

text \<open>\<open>strings.SplitN(name, "/", 3)\<close>: the rest after the second slash.\<close>

definition third_part :: "string \<Rightarrow> string option" where
  "third_part name =
     (case cut CHR ''/'' name of None \<Rightarrow> None
      | Some (_, rest) \<Rightarrow> (case cut CHR ''/'' rest of None \<Rightarrow> None | Some (_, r) \<Rightarrow> Some r))"

fun check_modules :: "string \<Rightarrow> Module list \<Rightarrow> ir_error option" where
  "check_modules previousName [] = None"
| "check_modules previousName (m # ms) =
     (if md_Name m \<le> previousName then Some IrModules
      else if md_Kind m = ''repository'' then
        (if \<not> repositoryModule (md_Name m) \<or> \<not> safeRelativePath (trim_prefix (md_Name m) ''//'') then Some IrModules
         else if \<not> digest_pattern (md_Digest m) then Some IrModules
         else check_modules (md_Name m) ms)
      else if md_Kind m = ''standard'' then
        (case third_part (md_Name m) of
           None \<Rightarrow> Some IrModules
         | Some rest \<Rightarrow>
             if \<not> standardModule (md_Name m) \<or> \<not> safeRelativePath rest then Some IrModules
             else if \<not> digest_pattern (md_Digest m) then Some IrModules
             else check_modules (md_Name m) ms)
      else Some IrModules)"

definition validateModules :: "Module list \<Rightarrow> ir_error option" where
  "validateModules modules = (if length modules > MaxModules then Some IrModules else check_modules [] modules)"

text \<open>The operation of a node by its identifier; a missing map entry is the zero node.\<close>

definition operation_of :: "Node strmap \<Rightarrow> string \<Rightarrow> string" where
  "operation_of earlier k = (case mget earlier k of None \<Rightarrow> [] | Some n \<Rightarrow> nd_Operation n)"

definition validateRun :: "Node \<Rightarrow> anyval strmap \<Rightarrow> Node strmap \<Rightarrow> string \<Rightarrow> ir_error option" where
  "validateRun node attributes earlier networkCeiling =
     (if nd_Inputs node = [] \<or>
         \<not> exactKeys attributes [''argv'', ''env'', ''mounts'', ''network'', ''shell'', ''user'', ''workdir'']
      then Some (IrNode (nd_ID node))
      else if operation_of earlier (hd (nd_Inputs node)) \<notin> set stateOperations then Some (IrNode (nd_ID node))
      else
        let arguments = stringSlice (mget attributes ''argv''); mounts = stringSlice (mget attributes ''mounts'');
            environment = stringMap (mget attributes ''env''); network = any_string (mget attributes ''network'');
            shell = any_bool (mget attributes ''shell''); user = any_string (mget attributes ''user'');
            workdir = any_string (mget attributes ''workdir'')
        in case arguments of None \<Rightarrow> Some (IrNode (nd_ID node))
        | Some argv \<Rightarrow>
          if argv = [] \<or> length argv > MaxArguments \<or> \<not> validStrings argv then Some (IrNode (nd_ID node))
          else if shell = Some True \<and> (length argv \<noteq> 3 \<or> argv ! 0 \<noteq> ''/bin/sh'' \<or> argv ! 1 \<noteq> ''-euc'')
          then Some (IrNode (nd_ID node))
          else if shell \<noteq> Some True \<and> shellInvocation argv then Some (IrNode (nd_ID node))
          else case mounts of None \<Rightarrow> Some (IrNode (nd_ID node))
          | Some ms \<Rightarrow>
            if \<not> strictly_sorted ms \<or> tl (nd_Inputs node) \<noteq> ms then Some (IrNode (nd_ID node))
            else if \<not> list_all (\<lambda>m. operation_of earlier m = ''cache'' \<or> operation_of earlier m = ''secret'') ms
            then Some (IrNode (nd_ID node))
            else case environment of None \<Rightarrow> Some (IrNode (nd_ID node))
            | Some env \<Rightarrow>
              if \<not> validStringMap env environment_key_pattern False then Some (IrNode (nd_ID node))
              else case network of None \<Rightarrow> Some (IrNode (nd_ID node))
              | Some net \<Rightarrow>
                if net \<notin> set allowedNetworks \<or> networkRank net > networkRank networkCeiling
                then Some (IrNode (nd_ID node))
                else case user of None \<Rightarrow> Some (IrNode (nd_ID node))
                | Some u \<Rightarrow>
                  (case workdir of None \<Rightarrow> Some (IrNode (nd_ID node))
                   | Some w \<Rightarrow>
                     if shell = None \<or> \<not> ownerPattern u \<or> \<not> safeAbsolutePath w
                     then Some (IrNode (nd_ID node)) else None))"

definition validateSource :: "Node \<Rightarrow> anyval strmap \<Rightarrow> bool" where
  "validateSource node attributes \<longleftrightarrow>
     nd_Inputs node = [] \<and> exactKeys attributes [''exclude'', ''include'', ''path''] \<and>
     (case any_string (mget attributes ''path'') of None \<Rightarrow> False | Some p \<Rightarrow> safeRelativePath p) \<and>
     (case stringSlice (mget attributes ''include'') of None \<Rightarrow> False | Some ps \<Rightarrow> validPatterns ps) \<and>
     (case stringSlice (mget attributes ''exclude'') of None \<Rightarrow> False | Some ps \<Rightarrow> validPatterns ps)"

definition validateImage :: "Node \<Rightarrow> anyval strmap \<Rightarrow> bool" where
  "validateImage node attributes \<longleftrightarrow>
     nd_Inputs node = [] \<and> exactKeys attributes [''ref''] \<and>
     (case any_string (mget attributes ''ref'') of None \<Rightarrow> False
      | Some ref \<Rightarrow> pinnedImagePattern ref \<and> \<not> contains_str ref ''..'' \<and> \<not> contains_str ref ''//'')"

definition validateCopy :: "Node \<Rightarrow> anyval strmap \<Rightarrow> Node strmap \<Rightarrow> bool" where
  "validateCopy node attributes earlier \<longleftrightarrow>
     length (nd_Inputs node) = 2 \<and> exactKeys attributes [''dest'', ''mode'', ''owner''] \<and>
     operation_of earlier (nd_Inputs node ! 0) \<in> set stateOperations \<and>
     operation_of earlier (nd_Inputs node ! 1) = ''source'' \<and>
     (case any_string (mget attributes ''dest'') of None \<Rightarrow> False | Some d \<Rightarrow> safeAbsolutePath d) \<and>
     (case any_string (mget attributes ''owner'') of None \<Rightarrow> False | Some w \<Rightarrow> ownerPattern w) \<and>
     (case any_string (mget attributes ''mode'') of None \<Rightarrow> False | Some m \<Rightarrow> modePattern m)"

definition validateCache :: "Node \<Rightarrow> anyval strmap \<Rightarrow> bool" where
  "validateCache node attributes \<longleftrightarrow>
     nd_Inputs node = [] \<and> exactKeys attributes [''name'', ''sharing'', ''target''] \<and>
     (case any_string (mget attributes ''name'') of None \<Rightarrow> False | Some n \<Rightarrow> capability_pattern n) \<and>
     (case any_string (mget attributes ''target'') of None \<Rightarrow> False | Some t \<Rightarrow> safeAbsolutePath t) \<and>
     (case any_string (mget attributes ''sharing'') of None \<Rightarrow> False
      | Some s \<Rightarrow> s \<in> set [''locked'', ''private'', ''shared''])"

definition validateSecret :: "Node \<Rightarrow> anyval strmap \<Rightarrow> bool" where
  "validateSecret node attributes \<longleftrightarrow>
     nd_Inputs node = [] \<and> exactKeys attributes [''name'', ''required'', ''target''] \<and>
     (case any_string (mget attributes ''name'') of None \<Rightarrow> False | Some n \<Rightarrow> capability_pattern n) \<and>
     (case any_string (mget attributes ''target'') of None \<Rightarrow> False | Some t \<Rightarrow> safeSecretTarget t) \<and>
     any_bool (mget attributes ''required'') \<noteq> None"

definition validateNode :: "Node \<Rightarrow> Node strmap \<Rightarrow> string \<Rightarrow> ir_error option" where
  "validateNode node earlier networkCeiling =
     (let err = (\<lambda>ok. if ok then None else Some (IrNode (nd_ID node))) in
      case nd_Attributes node of None \<Rightarrow> Some (IrNode (nd_ID node))
      | Some attributes \<Rightarrow>
          if nd_Operation node = ''source'' then err (validateSource node attributes)
          else if nd_Operation node = ''image'' then err (validateImage node attributes)
          else if nd_Operation node = ''run'' then validateRun node attributes earlier networkCeiling
          else if nd_Operation node = ''copy'' then err (validateCopy node attributes earlier)
          else if nd_Operation node = ''cache'' then err (validateCache node attributes)
          else if nd_Operation node = ''secret'' then err (validateSecret node attributes)
          else None)"

definition validateOutput :: "Output \<Rightarrow> Node \<Rightarrow> ir_error option" where
  "validateOutput output state =
     (case (ot_Entrypoint output, ot_Command output, ot_Ports output, ot_Labels output, ot_Headers output) of
        (Some entrypoint, Some command, Some ports, Some labels, Some headers) \<Rightarrow>
          if length entrypoint > 32 \<or> length command > 64 \<or> length ports > 16 \<or> \<not> validStrings entrypoint \<or>
             \<not> validStrings command \<or> \<not> distinct ports then Some (IrOutput (ot_Name output))
          else if \<not> list_all (\<lambda>port. 1 \<le> port \<and> port \<le> 65535) ports then Some (IrOutput (ot_Name output))
          else if ot_Kind output = ''oci_image'' then
            (if nd_Operation state \<notin> set stateOperations \<or> headers \<noteq> [] \<or> \<not> validStringMap labels labelKeyPattern False
             then Some (IrOutput (ot_Name output)) else None)
          else if ot_Kind output = ''static_bundle'' then
            (if nd_Operation state \<notin> set [''copy'', ''run'', ''source''] \<or> entrypoint \<noteq> [] \<or> command \<noteq> [] \<or> ports \<noteq> [] \<or>
                labels \<noteq> [] \<or> \<not> validStringMap headers headerNamePattern True \<or> \<not> uniqueFoldedKeys headers
             then Some (IrOutput (ot_Name output)) else None)
          else Some (IrOutput (ot_Name output))
      | _ \<Rightarrow> Some (IrOutput (ot_Name output)))"

text \<open>The loop over the nodes, with the index and the nodes seen; \<open>Inl\<close> is the error.\<close>

fun check_nodes :: "string \<Rightarrow> nat \<Rightarrow> Node strmap \<Rightarrow> Node list \<Rightarrow> ir_error + Node strmap" where
  "check_nodes profile index seen [] = Inr seen"
| "check_nodes profile index seen (node # nodes) =
     (if nd_ID node \<noteq> ''n'' @ decimal (index + 1) \<or> \<not> node_id_pattern (nd_ID node) then Inl (IrNodeID index)
      else if nd_Operation node \<notin> set allowedOperations then Inl (IrOperation (nd_ID node))
      else if length (nd_Inputs node) > MaxInputs \<or> \<not> distinct (nd_Inputs node) then Inl (IrInputs (nd_ID node))
      else case find (\<lambda>input. mget seen input = None) (nd_Inputs node) of
             Some input \<Rightarrow> Inl (IrInput (nd_ID node) input)
           | None \<Rightarrow>
               (case validateNode node seen profile of
                  Some e \<Rightarrow> Inl e
                | None \<Rightarrow> check_nodes profile (index + 1) (mput (nd_ID node) node seen) nodes))"

fun check_outputs :: "Node strmap \<Rightarrow> nat \<Rightarrow> string \<Rightarrow> Output list \<Rightarrow> ir_error option" where
  "check_outputs seen index previousName [] = None"
| "check_outputs seen index previousName (output # outputs) =
     (if \<not> output_name_pattern (ot_Name output) then Some (IrOutputName index)
      else if ot_Name output \<le> previousName then Some IrOutputOrder
      else case mget seen (ot_State output) of
             None \<Rightarrow> Some (IrOutputState (ot_Name output))
           | Some state \<Rightarrow>
               (case validateOutput output state of
                  Some e \<Rightarrow> Some e
                | None \<Rightarrow> check_outputs seen (index + 1) (ot_Name output) outputs))"

definition Validate :: "IR \<Rightarrow> ir_error option" where
  "Validate ir =
     (if ir_Version ir \<noteq> CurrentVersion then Some IrVersion
      else if ir_DSLAPIVersion ir \<noteq> CurrentDSLAPIVersion then Some IrAPI
      else if \<not> semver_pattern (ir_CompilerVersion ir) then Some IrCompiler
      else if \<not> digest_pattern (ir_SourceSnapshot ir) then Some IrSnapshot
      else if ir_TargetPlatform ir \<noteq> ''linux/amd64'' \<and> ir_TargetPlatform ir \<noteq> ''linux/arm64'' then Some IrPlatform
      else if ir_NetworkProfile ir \<notin> set allowedNetworks then Some IrNetwork
      else case validateAllowedHosts (ir_NetworkProfile ir) (ir_AllowedHosts ir) of
        Some e \<Rightarrow> Some e
      | None \<Rightarrow>
        (case validateModules (ir_Modules ir) of
           Some e \<Rightarrow> Some e
         | None \<Rightarrow>
           if ir_Nodes ir = [] \<or> length (ir_Nodes ir) > MaxNodes then Some IrNodeCount
           else if ir_Outputs ir = [] \<or> length (ir_Outputs ir) > MaxOutputs then Some IrOutputCount
           else case check_nodes (ir_NetworkProfile ir) 0 [] (ir_Nodes ir) of
                  Inl e \<Rightarrow> Some e
                | Inr seen \<Rightarrow> check_outputs seen 0 [] (ir_Outputs ir)))"

text \<open>\<open>sha\<close> stands for SHA-256 of the canonical JSON, in hexadecimal.\<close>

definition DefinitionDigest :: "(IR, 'b) codec \<Rightarrow> ('b \<Rightarrow> uint8 list) \<Rightarrow> IR \<Rightarrow> ir_error + string" where
  "DefinitionDigest c sha ir =
     (case Validate ir of Some e \<Rightarrow> Inl e
      | None \<Rightarrow> (case cd_encode c ir of None \<Rightarrow> Inl IrDecode
        | Some canonical \<Rightarrow> Inr (''sha256:'' @ hex_encode (sha canonical))))"

definition Decode :: "(IR, 'b) codec \<Rightarrow> 'b \<Rightarrow> ir_error + IR" where
  "Decode c raw =
     (case cd_decode c raw of None \<Rightarrow> Inl IrDecode
      | Some ir \<Rightarrow> (case Validate ir of Some e \<Rightarrow> Inl e | None \<Rightarrow> Inr ir))"

section \<open>What the node loop checks\<close>

definition nodes_wellformed :: "string \<Rightarrow> nat \<Rightarrow> Node strmap \<Rightarrow> Node list \<Rightarrow> bool" where
  "nodes_wellformed profile k seen nodes \<longleftrightarrow>
     (\<forall>i < length nodes.
        nd_ID (nodes ! i) = ''n'' @ decimal (k + i + 1) \<and> nd_Operation (nodes ! i) \<in> set allowedOperations \<and>
        (\<forall>x \<in> set (nd_Inputs (nodes ! i)). mget seen x \<noteq> None \<or> x \<in> nd_ID ` set (take i nodes)) \<and>
        (\<exists>earlier. validateNode (nodes ! i) earlier profile = None))"

lemma nodes_wellformed_Cons:
  assumes "nd_ID node = ''n'' @ decimal (k + 1)" "nd_Operation node \<in> set allowedOperations"
    "\<forall>x \<in> set (nd_Inputs node). mget seen x \<noteq> None" "validateNode node seen profile = None"
    "nodes_wellformed profile (k + 1) (mput (nd_ID node) node seen) nodes"
  shows "nodes_wellformed profile k seen (node # nodes)"
  unfolding nodes_wellformed_def
proof (intro allI impI)
  fix i assume i: "i < length (node # nodes)"
  show "nd_ID ((node # nodes) ! i) = ''n'' @ decimal (k + i + 1) \<and> nd_Operation ((node # nodes) ! i) \<in> set allowedOperations \<and>
      (\<forall>x \<in> set (nd_Inputs ((node # nodes) ! i)). mget seen x \<noteq> None \<or> x \<in> nd_ID ` set (take i (node # nodes))) \<and>
      (\<exists>earlier. validateNode ((node # nodes) ! i) earlier profile = None)"
  proof (cases i)
    case 0
    then show ?thesis using assms(1-4) by auto
  next
    case (Suc j)
    then have "j < length nodes" using i by simp
    then show ?thesis using assms(5) Suc by (fastforce simp: nodes_wellformed_def split: if_splits)
  qed
qed

lemma check_nodes_wellformed:
  "check_nodes profile k seen nodes = Inr seen' \<Longrightarrow> nodes_wellformed profile k seen nodes"
proof (induction profile k seen nodes arbitrary: seen' rule: check_nodes.induct)
  case (1 profile index seen)
  then show ?case by (simp add: nodes_wellformed_def)
next
  case (2 profile index seen node nodes)
  then show ?case
    by (intro nodes_wellformed_Cons) (auto simp: find_None_iff split: if_splits option.splits)
qed

lemma check_nodes_seen:
  "check_nodes profile k seen nodes = Inr seen' \<Longrightarrow> mget seen' x = Some n \<Longrightarrow>
   mget seen x = Some n \<or> n \<in> set nodes \<and> nd_ID n = x"
  by (induction profile k seen nodes arbitrary: seen' rule: check_nodes.induct)
    (fastforce split: if_splits option.splits)+

lemma check_outputs_Cons:
  assumes "check_outputs seen k prev (out # outputs) = None"
  shows "prev < ot_Name out" "\<exists>n. mget seen (ot_State out) = Some n \<and> validateOutput out n = None"
    "check_outputs seen (k + 1) (ot_Name out) outputs = None"
  using assms by (auto simp: not_le split: if_splits option.splits)

lemma check_outputs_sorted:
  "check_outputs seen k prev outputs = None \<Longrightarrow>
   sorted_wrt (<) (prev # map ot_Name outputs) \<and> (\<forall>out \<in> set outputs. \<exists>n. mget seen (ot_State out) = Some n \<and> validateOutput out n = None)"
proof (induction outputs arbitrary: k prev)
  case (Cons out outputs)
  note c = check_outputs_Cons [OF Cons.prems]
  from Cons.IH [OF c(3)] c(1,2) show ?case by (auto intro: less_trans)
qed simp

lemma Validate_parts:
  assumes "Validate ir = None"
  obtains seen where "nodes_wellformed (ir_NetworkProfile ir) 0 [] (ir_Nodes ir)"
    "check_nodes (ir_NetworkProfile ir) 0 [] (ir_Nodes ir) = Inr seen"
    "check_outputs seen 0 [] (ir_Outputs ir) = None" "ir_Nodes ir \<noteq> []" "length (ir_Nodes ir) \<le> MaxNodes"
  using assms by (auto simp: Validate_def dest: check_nodes_wellformed split: if_splits option.splits sum.splits)

lemma wellformed_ids:
  "nodes_wellformed profile k seen nodes \<Longrightarrow> map nd_ID nodes = map (\<lambda>i. ''n'' @ decimal (k + i + 1)) [0..<length nodes]"
  by (rule nth_equalityI) (simp_all add: nodes_wellformed_def)

lemma wellformed_distinct: "nodes_wellformed profile k seen nodes \<Longrightarrow> distinct (map nd_ID nodes)"
  by (simp add: wellformed_ids distinct_map inj_on_def)

section \<open>The graph is acyclic\<close>

definition depends :: "Node list \<Rightarrow> (string \<times> string) set" where
  "depends nodes = {(x, nd_ID n) | x n. n \<in> set nodes \<and> x \<in> set (nd_Inputs n)}"

lemma wellformed_earlier:
  assumes "nodes_wellformed profile 0 [] nodes" "(x, y) \<in> depends nodes"
  shows "\<exists>i j. i < j \<and> j < length nodes \<and> x = ''n'' @ decimal (i + 1) \<and> y = ''n'' @ decimal (j + 1)"
proof -
  obtain j where j: "j < length nodes" "y = nd_ID (nodes ! j)" "x \<in> set (nd_Inputs (nodes ! j))"
    using assms(2) by (auto simp: depends_def in_set_conv_nth)
  then have "x \<in> nd_ID ` set (take j nodes)" using assms(1) by (auto simp: nodes_wellformed_def)
  then obtain i where i: "i < j" "x = nd_ID (nodes ! i)" by (auto simp: in_set_conv_nth)
  have ids: "nd_ID (nodes ! l) = ''n'' @ decimal (l + 1)" if "l < length nodes" for l
    using assms(1) that by (simp add: nodes_wellformed_def)
  show ?thesis using i j ids [of i] ids [of j] by (intro exI [of _ i] exI [of _ j]) simp
qed

lemma depends_acyclic: "nodes_wellformed profile 0 [] nodes \<Longrightarrow> acyclic (depends nodes)"
proof -
  assume w: "nodes_wellformed profile 0 [] nodes"
  have "depends nodes \<subseteq> measure (\<lambda>s. decimal_value (tl s))"
    using wellformed_earlier [OF w] by fastforce
  then show ?thesis by (rule acyclic_subset [OF wf_acyclic [OF wf_measure]])
qed

section \<open>What accepted nodes contain\<close>

lemma Validate_node:
  assumes "Validate ir = None" "node \<in> set (ir_Nodes ir)"
  obtains earlier attributes where "validateNode node earlier (ir_NetworkProfile ir) = None"
    "nd_Attributes node = Some attributes" "nd_Operation node \<in> set allowedOperations"
proof -
  obtain i where "i < length (ir_Nodes ir)" "node = ir_Nodes ir ! i" using assms(2) by (auto simp: in_set_conv_nth)
  moreover have "nodes_wellformed (ir_NetworkProfile ir) 0 [] (ir_Nodes ir)"
    using assms(1) by (rule Validate_parts)
  ultimately obtain earlier where "validateNode node earlier (ir_NetworkProfile ir) = None" "nd_Operation node \<in> set allowedOperations"
    by (auto simp: nodes_wellformed_def)
  then show ?thesis using that by (auto simp: validateNode_def split: option.splits)
qed

lemma validateRun_network:
  assumes "validateRun node attributes earlier ceiling = None"
  shows "\<exists>net. any_string (mget attributes ''network'') = Some net \<and> net \<in> set allowedNetworks \<and> networkRank net \<le> networkRank ceiling"
  using assms by (auto simp: validateRun_def Let_def split: if_splits option.splits)

lemma networkRank_nonneg: "net \<in> set allowedNetworks \<Longrightarrow> 0 \<le> networkRank net"
  by (auto simp: allowedNetworks_def networkRank_def)

lemma networkRank_zero: "net \<in> set allowedNetworks \<Longrightarrow> networkRank net = 0 \<longleftrightarrow> net = ''none''"
  by (auto simp: allowedNetworks_def networkRank_def)

lemma networkRank_none: "networkRank ''none'' = 0"
  by (simp add: networkRank_def allowedNetworks_def)

lemma safeRelativePath_plain: "safeRelativePath p \<Longrightarrow> p = ''.'' \<or> list_all plain_seg (split_on CHR ''/'' p)"
  using path_clean_relative [of p] by (auto simp: safeRelativePath_def)

lemma safeAbsolutePath_plain:
  assumes "safeAbsolutePath p"
  shows "\<exists>segs. segs \<noteq> [] \<and> list_all plain_seg segs \<and> split_on CHR ''/'' p = [] # segs"
  using path_clean_absolute [of p] assms unfolding safeAbsolutePath_def by metis

section \<open>Properties\<close>

definition sample_ref :: string where
  "sample_ref = ''r@'' @ sample_digest"

text \<open>A graph with an image, a source tree, a copy, a run and one output.\<close>

definition sample_ir :: IR where
  "sample_ir = \<lparr>ir_Version = 2, ir_DSLAPIVersion = ''lrail.build/v1'', ir_CompilerVersion = ''0.2.0'',
     ir_SourceSnapshot = sample_digest, ir_TargetPlatform = ''linux/amd64'', ir_NetworkProfile = ''packages'',
     ir_AllowedHosts = [], ir_Modules = [],
     ir_Nodes =
       [\<lparr>nd_ID = ''n1'', nd_Operation = ''image'', nd_Inputs = [],
         nd_Attributes = Some [(''ref'', AnyString sample_ref)]\<rparr>,
        \<lparr>nd_ID = ''n2'', nd_Operation = ''source'', nd_Inputs = [],
         nd_Attributes = Some [(''path'', AnyString ''app''), (''include'', AnySlice []), (''exclude'', AnySlice [])]\<rparr>,
        \<lparr>nd_ID = ''n3'', nd_Operation = ''copy'', nd_Inputs = [''n1'', ''n2''],
         nd_Attributes = Some [(''dest'', AnyString ''/srv/app''), (''mode'', AnyString ''0755''), (''owner'', AnyString ''10:10'')]\<rparr>,
        \<lparr>nd_ID = ''n4'', nd_Operation = ''run'', nd_Inputs = [''n3''],
         nd_Attributes = Some [(''argv'', AnySlice [AnyString ''make'']), (''env'', AnyMap []), (''mounts'', AnySlice []),
           (''network'', AnyString ''none''), (''shell'', AnyBool False), (''user'', AnyString ''10:10''), (''workdir'', AnyString ''/srv/app'')]\<rparr>],
     ir_Outputs = [\<lparr>ot_Name = ''web'', ot_Kind = ''oci_image'', ot_State = ''n4'', ot_Entrypoint = Some [], ot_Command = Some [],
       ot_Ports = Some [], ot_Labels = Some [], ot_Headers = Some []\<rparr>]\<rparr>"

lemmas char_classes = is_digit_def is_lower_def is_upper_def in_range_def lower_or_digit_def name_char_def

lemma sample_paths:
  "safeAbsolutePath ''/srv/app''" "safeRelativePath ''app''"
  by (simp_all add: safeAbsolutePath_def safeRelativePath_def path_clean_def has_prefix_def Let_def)

lemma sample_ref_ok: "pinnedImagePattern sample_ref" "contains_str sample_ref ''..'' = False" "contains_str sample_ref ''//'' = False"
proof -
  show "pinnedImagePattern sample_ref"
    by (simp add: sample_ref_def pinnedImagePattern_def token_pattern_def char_classes)
  have "set sample_ref = set ''r@sha256:0''" by (simp add: sample_ref_def sample_digest_def)
  then show "contains_str sample_ref ''..'' = False" "contains_str sample_ref ''//'' = False"
    using contains_str_char [of sample_ref] by fastforce+
qed

lemma sample_decimals: "decimal (Suc 0) = ''1''" "decimal (Suc (Suc 0)) = ''2''" "decimal (Suc (Suc (Suc 0))) = ''3''" "decimal (Suc (Suc (Suc (Suc 0)))) = ''4''"
  using hex_digit_numerals(2-5) by (simp_all add: decimal_small eval_nat_numeral)

lemma sample_ir_valid: "Validate sample_ir = None"
  by (simp add: Validate_def sample_ir_def CurrentVersion_def CurrentDSLAPIVersion_def semver_pattern_def char_classes
      validateAllowedHosts_def validateModules_def allowedNetworks_def allowedOperations_def stateOperations_def MaxNodes_def MaxOutputs_def MaxModules_def MaxInputs_def
      MaxArguments_def numeral_2_eq_2 numeral_3_eq_3 sample_decimals node_id_pattern_def token_pattern_def validateNode_def validateImage_def validateSource_def validateCopy_def
      validateRun_def exactKeys_def sample_paths sample_ref_ok operation_of_def ownerPattern_def modePattern_def validPatterns_def validStrings_def
      validString_def boundedString_def bounded_text_def valid_utf8_def shellInvocation_def isShell_def path_base_def Let_def
      validStringMap_def networkRank_def output_name_pattern_def validateOutput_def labelKeyPattern_def)

text \<open>
  C25: the nodes of a graph that validation accepts are named \<open>n1, n2, ...\<close> in the order of the list,
  so their identifiers are distinct, every input of a node is the identifier of a node before it,
  and the dependency relation has no cycle.
\<close>

theorem Validate_acyclic:
  assumes "Validate ir = None"
  shows "map nd_ID (ir_Nodes ir) = map (\<lambda>i. ''n'' @ decimal (i + 1)) [0..<length (ir_Nodes ir)] \<and> distinct (map nd_ID (ir_Nodes ir)) \<and>
    (\<forall>i < length (ir_Nodes ir). set (nd_Inputs (ir_Nodes ir ! i)) \<subseteq> nd_ID ` set (take i (ir_Nodes ir))) \<and>
    acyclic (depends (ir_Nodes ir))"
proof -
  have w: "nodes_wellformed (ir_NetworkProfile ir) 0 [] (ir_Nodes ir)" using assms by (rule Validate_parts)
  have "\<forall>i < length (ir_Nodes ir). set (nd_Inputs (ir_Nodes ir ! i)) \<subseteq> nd_ID ` set (take i (ir_Nodes ir))"
    using w by (auto simp: nodes_wellformed_def)
  then show ?thesis using wellformed_ids [OF w] wellformed_distinct [OF w] depends_acyclic [OF w] by simp
qed

theorem Validate_acyclic_witness:
  "Validate sample_ir = None \<and> acyclic (depends (ir_Nodes sample_ir)) \<and> (''n1'', ''n3'') \<in> depends (ir_Nodes sample_ir)"
proof -
  have "(''n1'', ''n3'') \<in> depends (ir_Nodes sample_ir)" 
    by (simp add: depends_def, intro exI [of _ "ir_Nodes sample_ir ! 2"]) (simp add: sample_ir_def)
  then show ?thesis using Validate_acyclic [OF sample_ir_valid] sample_ir_valid by blast
qed

text \<open>
  in an accepted graph every output builds an existing node of a kind that fits it, and the
  output names are strictly increasing, hence distinct.
\<close>

theorem Validate_outputs:
  assumes "Validate ir = None"
  shows "sorted_wrt (<) (map ot_Name (ir_Outputs ir)) \<and>
    (\<forall>out \<in> set (ir_Outputs ir). \<exists>node \<in> set (ir_Nodes ir). nd_ID node = ot_State out \<and> validateOutput out node = None)"
proof -
  obtain seen where c: "check_nodes (ir_NetworkProfile ir) 0 [] (ir_Nodes ir) = Inr seen"
    "check_outputs seen 0 [] (ir_Outputs ir) = None" using assms by (rule Validate_parts)
  show ?thesis using check_outputs_sorted [OF c(2)] check_nodes_seen [OF c(1)] by fastforce
qed

theorem Validate_outputs_witness:
  "sorted_wrt (<) (map ot_Name (ir_Outputs sample_ir)) \<and>
   (\<exists>node \<in> set (ir_Nodes sample_ir). nd_ID node = ''n4'')"
  using Validate_outputs [OF sample_ir_valid] by (auto simp: sample_ir_def)

text \<open>
  no run of an accepted graph asks for more network than the graph's ceiling; under the ceiling
  "none" no run has any network.
\<close>

theorem Validate_network_ceiling:
  assumes "Validate ir = None" "node \<in> set (ir_Nodes ir)" "nd_Operation node = ''run''"
  shows "\<exists>attributes net. nd_Attributes node = Some attributes \<and> mget attributes ''network'' = Some (AnyString net) \<and>
    0 \<le> networkRank net \<and> networkRank net \<le> networkRank (ir_NetworkProfile ir) \<and>
    (ir_NetworkProfile ir = ''none'' \<longrightarrow> net = ''none'')"
proof -
  obtain earlier attributes where v: "validateNode node earlier (ir_NetworkProfile ir) = None"
    "nd_Attributes node = Some attributes" using assms(1,2) by (rule Validate_node)
  then have "validateRun node attributes earlier (ir_NetworkProfile ir) = None"
    using assms(3) by (simp add: validateNode_def Let_def)
  then obtain net where net: "any_string (mget attributes ''network'') = Some net" "net \<in> set allowedNetworks"
    "networkRank net \<le> networkRank (ir_NetworkProfile ir)" using validateRun_network by blast
  then have "mget attributes ''network'' = Some (AnyString net)"
    by (cases "mget attributes ''network''" rule: any_string.cases) auto
  moreover have "ir_NetworkProfile ir = ''none'' \<longrightarrow> net = ''none''"
    using net(3) networkRank_zero [OF net(2)] networkRank_nonneg [OF net(2)] networkRank_none by auto
  ultimately show ?thesis using v(2) net networkRank_nonneg by blast
qed

theorem Validate_network_ceiling_witness:
  "\<exists>node \<in> set (ir_Nodes sample_ir). nd_Operation node = ''run'' \<and>
     (\<exists>attributes net. nd_Attributes node = Some attributes \<and> mget attributes ''network'' = Some (AnyString net) \<and>
        networkRank net \<le> networkRank ''packages'')"
proof -
  let ?node = "ir_Nodes sample_ir ! 3"
  have n: "?node \<in> set (ir_Nodes sample_ir)" "nd_Operation ?node = ''run''" "ir_NetworkProfile sample_ir = ''packages''"
    by (simp_all add: sample_ir_def)
  show ?thesis using Validate_network_ceiling [OF sample_ir_valid n(1,2)] n by (intro bexI [OF _ n(1)]) auto
qed

text \<open>Where a path may lead: a relative path or module stays below its root, a pattern never climbs.\<close>

definition below_root :: "string \<Rightarrow> bool" where
  "below_root p \<longleftrightarrow> p = ''.'' \<or> list_all plain_seg (split_on CHR ''/'' p)"

definition absolute_path :: "string \<Rightarrow> bool" where
  "absolute_path p \<longleftrightarrow> (\<exists>segs. segs \<noteq> [] \<and> list_all plain_seg segs \<and> split_on CHR ''/'' p = [] # segs)"

definition pattern_below :: "string \<Rightarrow> bool" where
  "pattern_below p \<longleftrightarrow> CHR 0x5C \<notin> set p \<and> list_all (\<lambda>seg. seg \<noteq> [] \<and> seg \<noteq> ''..'') (split_on CHR ''/'' p)"

definition module_confined :: "Module \<Rightarrow> bool" where
  "module_confined m \<longleftrightarrow>
     (\<exists>rest. md_Kind m = ''repository'' \<and> md_Name m = ''//'' @ rest \<and> below_root rest) \<or>
     (\<exists>version rest. md_Kind m = ''standard'' \<and> md_Name m = ''@lrail/'' @ version @ ''/'' @ rest \<and> CHR ''/'' \<notin> set version \<and> below_root rest)"

lemma safe_paths:
  "safeRelativePath p \<Longrightarrow> below_root p" "safeAbsolutePath p \<Longrightarrow> absolute_path p" "safePattern p \<Longrightarrow> pattern_below p"
  using safeRelativePath_plain safeAbsolutePath_plain
  by (simp_all add: below_root_def absolute_path_def pattern_below_def safePattern_def)

lemma has_prefix_split: "has_prefix s p \<Longrightarrow> \<exists>rest. s = p @ rest"
  unfolding has_prefix_def by (metis append_take_drop_id)

lemma repository_confined:
  assumes "repositoryModule (md_Name m)" "safeRelativePath (trim_prefix (md_Name m) ''//'')" "md_Kind m = ''repository''"
  shows "module_confined m"
proof -
  have "has_prefix (md_Name m) ''//''" using assms(1) by (simp add: repositoryModule_def)
  then obtain rest where "md_Name m = ''//'' @ rest" using has_prefix_split by blast
  then show ?thesis using assms(2,3) safe_paths(1) by (auto simp: module_confined_def trim_prefix_def has_prefix_def)
qed

lemma standard_confined:
  assumes "standardModule (md_Name m)" "third_part (md_Name m) = Some rest" "safeRelativePath rest" "md_Kind m = ''standard''"
  shows "module_confined m"
proof -
  obtain root tail where cut1: "cut CHR ''/'' (md_Name m) = Some (root, tail)" using assms(2) by (auto simp: third_part_def split: option.splits)
  then obtain version where cut2: "cut CHR ''/'' tail = Some (version, rest)" using assms(2) by (auto simp: third_part_def split: option.splits)
  have n: "md_Name m = root @ CHR ''/'' # version @ CHR ''/'' # rest" "CHR ''/'' \<notin> set root" "CHR ''/'' \<notin> set version"
    using cut_Some_append [OF cut1] cut_Some_append [OF cut2] by auto
  obtain more where "md_Name m = ''@lrail/v'' @ more"
    using assms(1) has_prefix_split unfolding standardModule_def by blast
  then have "md_Name m = ''@lrail'' @ CHR ''/'' # (CHR ''v'' # more)" by simp
  then have "cut CHR ''/'' (md_Name m) = Some (''@lrail'', CHR ''v'' # more)" using cut_append [of "CHR ''/''" "''@lrail''"] by simp
  then have "root = ''@lrail''" using cut1 by simp
  then show ?thesis using n assms(3,4) safe_paths(1) by (auto simp: module_confined_def)
qed

lemma check_modules_confined: "check_modules previousName ms = None \<Longrightarrow> list_all module_confined ms"
  by (induction previousName ms rule: check_modules.induct)
    (auto split: if_splits option.splits intro: repository_confined standard_confined)

lemma Validate_modules: "Validate ir = None \<Longrightarrow> list_all module_confined (ir_Modules ir)"
  by (auto simp: Validate_def validateModules_def split: if_splits option.splits dest: check_modules_confined)

lemma validateRun_workdir: "validateRun node attributes earlier ceiling = None \<Longrightarrow>
    case any_string (mget attributes ''workdir'') of None \<Rightarrow> False | Some w \<Rightarrow> safeAbsolutePath w"
  by (auto simp: validateRun_def Let_def split: if_splits option.splits)

lemma any_string_path: "case any_string x of None \<Rightarrow> False | Some p \<Rightarrow> P p \<Longrightarrow> \<exists>p. x = Some (AnyString p) \<and> P p"
  by (cases x rule: any_string.cases) auto

lemma source_patterns: "case stringSlice x of None \<Rightarrow> False | Some ps \<Rightarrow> validPatterns ps \<Longrightarrow> \<exists>ps. stringSlice x = Some ps \<and> list_all pattern_below ps"
  by (auto simp: validPatterns_def list_all_iff safe_paths split: option.splits)

text \<open>What the check of a node says about its paths, by operation.\<close>

lemma validateNode_paths:
  assumes "validateNode node earlier ceiling = None" "nd_Attributes node = Some attributes"
  shows "nd_Operation node = ''source'' \<Longrightarrow> \<exists>p. mget attributes ''path'' = Some (AnyString p) \<and> safeRelativePath p"
    and "nd_Operation node = ''source'' \<Longrightarrow> \<exists>ps. stringSlice (mget attributes ''include'') = Some ps \<and> list_all pattern_below ps"
    and "nd_Operation node = ''source'' \<Longrightarrow> \<exists>ps. stringSlice (mget attributes ''exclude'') = Some ps \<and> list_all pattern_below ps"
    and "nd_Operation node = ''run'' \<Longrightarrow> \<exists>p. mget attributes ''workdir'' = Some (AnyString p) \<and> safeAbsolutePath p"
    and "nd_Operation node = ''copy'' \<Longrightarrow> \<exists>p. mget attributes ''dest'' = Some (AnyString p) \<and> safeAbsolutePath p"
    and "nd_Operation node = ''cache'' \<Longrightarrow> \<exists>p. mget attributes ''target'' = Some (AnyString p) \<and> safeAbsolutePath p"
    and "nd_Operation node = ''secret'' \<Longrightarrow> \<exists>p. mget attributes ''target'' = Some (AnyString p) \<and> safeSecretTarget p"
  using assms
  by (intro any_string_path source_patterns validateRun_workdir [of node attributes earlier ceiling];
      simp add: validateNode_def Let_def validateSource_def validateCopy_def validateCache_def validateSecret_def split: if_splits)+

text \<open>
  C26: the paths of an accepted graph stay inside their roots. A source path is the tree itself or a
  chain of plain segments (no empty, dot or dot-dot segment); its include and exclude patterns are
  relative, without backslash and without empty or dot-dot segments; a working directory, a copy
  destination, a cache target or a secret target is an absolute chain of plain segments, and a secret
  target lies below \<^verbatim>\<open>/run/secrets/\<close>; a module is named by a path below the repository or below a
  version of the standard library.
\<close>

theorem Validate_paths_confined:
  assumes "Validate ir = None" "node \<in> set (ir_Nodes ir)" "nd_Attributes node = Some attributes"
  shows "(nd_Operation node = ''source'' \<longrightarrow> (\<exists>p include exclude. mget attributes ''path'' = Some (AnyString p) \<and> below_root p \<and>
        stringSlice (mget attributes ''include'') = Some include \<and> list_all pattern_below include \<and>
        stringSlice (mget attributes ''exclude'') = Some exclude \<and> list_all pattern_below exclude)) \<and>
    (nd_Operation node = ''run'' \<longrightarrow> (\<exists>p. mget attributes ''workdir'' = Some (AnyString p) \<and> absolute_path p)) \<and>
    (nd_Operation node = ''copy'' \<longrightarrow> (\<exists>p. mget attributes ''dest'' = Some (AnyString p) \<and> absolute_path p)) \<and>
    (nd_Operation node \<in> {''cache'', ''secret''} \<longrightarrow> (\<exists>p. mget attributes ''target'' = Some (AnyString p) \<and> absolute_path p \<and>
        (nd_Operation node = ''secret'' \<longrightarrow> has_prefix p ''/run/secrets/''))) \<and>
    list_all module_confined (ir_Modules ir)"
proof -
  obtain earlier where v: "validateNode node earlier (ir_NetworkProfile ir) = None"
    using assms(1,2) by (rule Validate_node)
  note paths = validateNode_paths [OF v assms(3)]
  have "\<exists>p. mget attributes ''target'' = Some (AnyString p) \<and> absolute_path p \<and>
      (nd_Operation node = ''secret'' \<longrightarrow> has_prefix p ''/run/secrets/'')" if "nd_Operation node \<in> {''cache'', ''secret''}"
    using that paths(6,7) safe_paths(2) by (fastforce simp: safeSecretTarget_def)
  then show ?thesis using paths(1-5) safe_paths Validate_modules [OF assms(1)] by meson
qed

theorem Validate_paths_confined_witness:
  "\<exists>p. nd_Attributes (ir_Nodes sample_ir ! 1) = Some [(''path'', AnyString p), (''include'', AnySlice []), (''exclude'', AnySlice [])] \<and> below_root p"
proof -
  have n: "ir_Nodes sample_ir ! 1 \<in> set (ir_Nodes sample_ir)" "nd_Operation (ir_Nodes sample_ir ! 1) = ''source''"
    "nd_Attributes (ir_Nodes sample_ir ! 1) = Some [(''path'', AnyString ''app''), (''include'', AnySlice []), (''exclude'', AnySlice [])]"
    by (simp_all add: sample_ir_def)
  show ?thesis using Validate_paths_confined [OF sample_ir_valid n(1,3)] n(2,3) by simp
qed

text \<open>
  \<open>Decode\<close> reads back exactly the graphs that \<open>DefinitionDigest\<close> accepts: the canonical encoding
  of a valid graph decodes to that graph, and whatever decodes is valid.
\<close>

theorem Decode_roundtrip:
  assumes "codec_ok c" "cd_encode c ir = Some text"
  shows "(Decode c text = Inr ir \<longleftrightarrow> (\<exists>d. DefinitionDigest c sha ir = Inr d)) \<and>
    (\<forall>raw ir'. Decode c raw = Inr ir' \<longrightarrow> Validate ir' = None)"
  using codec_okD [OF assms] assms(2)
  by (auto simp: Decode_def DefinitionDigest_def split: option.splits)

theorem Decode_roundtrip_witness: "Decode identity_codec sample_ir = Inr sample_ir"
  using Decode_roundtrip [of identity_codec sample_ir sample_ir "\<lambda>_. []"] sample_ir_valid
  by (simp add: DefinitionDigest_def)

end
