(* ===== verification/Llb_Policy.thy ===== *)
theory Llb_Policy
  imports Build_IR
begin

text \<open>
  Policy and capabilities of the LLB compiler: \<^verbatim>\<open>types.go\<close>, \<^verbatim>\<open>policy.go\<close> and \<^verbatim>\<open>capabilities.go\<close> of
  \<^verbatim>\<open>src/services/build-plane/internal/llbcompiler\<close>. A request is normalized (policy lists sorted,
  base materials matched with the image nodes, build arguments checked) and the network, cache and
  secret capabilities of the nodes are derived from the policy. Digests of Go values are canonical
  JSON under SHA-256; the encoders and the hash are the parameter \<open>hashing\<close>. Errors keep the code and
  the node of \<open>CompileError\<close>; the message is determined by the code.
\<close>

section \<open>Data\<close>

record SupplyChainPolicy =
  sp_Version :: int
  sp_SyftVersion :: string
  sp_TrivyVersion :: string
  sp_SignerKeyID :: string
  sp_AllowedSignerPublicKeyDigests :: "string list"
  sp_DeniedVulnerabilitySeverities :: "string list"
  sp_DeniedConfigurationSeverities :: "string list"
  sp_DeniedLicenseClassifications :: "string list"
  sp_RequireSecretFree :: bool
  sp_RequireImageConfigurationScan :: bool

record BasePolicy =
  bp_AllowedRegistries :: "string list"
  bp_CuratedDigests :: "string list"
  bp_AllowCustomerBases :: bool
  bp_AllowedSignatureIdentities :: "string list"
  bp_RequireSBOM :: bool
  bp_RequireProvenance :: bool

record NetworkPolicy =
  np_AllowedProfiles :: "string list"
  np_PackageHosts :: "string list"
  np_ExternalHosts :: "string list"
  np_PackageGatewayID :: string
  np_AllowlistGatewayID :: string
  np_PrivateGatewayID :: string

record CachePolicy =
  cp_Scope :: string
  cp_TrustDomain :: string
  cp_AllowShared :: bool
  cp_AllowSharedWithSecrets :: bool

record Policy =
  po_APIVersion :: string
  po_ID :: string
  po_Revision :: string
  po_Base :: BasePolicy
  po_Network :: NetworkPolicy
  po_Cache :: CachePolicy
  po_Secrets :: "string list"
  po_BuildArguments :: "string list"
  po_SupplyChain :: SupplyChainPolicy

record BaseMaterial =
  bm_RequestedRef :: string
  bm_ResolvedRef :: string
  bm_Digest :: string
  bm_Registry :: string
  bm_Classification :: string
  bm_Platforms :: "string list"
  bm_SBOMDigest :: string
  bm_ProvenanceDigest :: string
  bm_SignatureIdentity :: string
  bm_ResolutionDigest :: string

record NameValue =
  nv_Name :: string
  nv_Value :: string

record NetworkCapability =
  nc_NodeID :: string
  nc_Profile :: string
  nc_Hosts :: "string list"
  nc_GatewayID :: string

record CacheCapability =
  cc_NodeID :: string
  cc_Name :: string
  cc_Target :: string
  cc_Sharing :: string
  cc_Scope :: string
  cc_Namespace :: string

record SecretCapability =
  sk_NodeID :: string
  sk_Name :: string
  sk_Target :: string
  sk_Required :: bool
  sk_MountID :: string

record OutputLock =
  ol_Name :: string
  ol_Kind :: string
  ol_StateID :: string
  ol_LLBDigest :: string
  ol_ConfigDigest :: string

record DefinitionLock =
  dl_Version :: int
  dl_CompilerVersion :: string
  dl_IRDigest :: string
  dl_PolicyDigest :: string
  dl_SourceSnapshot :: string
  dl_TargetPlatform :: string
  dl_BuildArguments :: "NameValue list"
  dl_BaseMaterials :: "BaseMaterial list"
  dl_Network :: "NetworkCapability list"
  dl_Caches :: "CacheCapability list"
  dl_Secrets :: "SecretCapability list"
  dl_SupplyChain :: SupplyChainPolicy
  dl_Outputs :: "OutputLock list"

record LlbRequest =
  lq_OrganizationID :: string
  lq_ProjectID :: string
  lq_IR :: IR
  lq_ExpectedIRDigest :: string
  lq_Policy :: Policy
  lq_BaseMaterials :: "BaseMaterial list"
  lq_BuildArguments :: "string strmap"

text \<open>The structs that \<open>materialResolutionDigest\<close> and \<open>cacheCapability\<close> digest.\<close>

record resolution_key =
  rk_Version :: int
  rk_RequestedRef :: string
  rk_ResolvedRef :: string
  rk_Digest :: string
  rk_Registry :: string
  rk_Classification :: string
  rk_Platforms :: "string list"
  rk_SBOMDigest :: string
  rk_ProvenanceDigest :: string
  rk_SignatureIdentity :: string

record namespace_key =
  nk_Version :: int
  nk_NodeID :: string
  nk_Scope :: string
  nk_ScopeID :: string
  nk_TrustDomain :: string
  nk_PolicyDigest :: string
  nk_Name :: string
  nk_Target :: string

record 'b hashing =
  hs_sha :: "'b \<Rightarrow> uint8 list"
  hs_ir :: "(IR, 'b) codec"
  hs_policy :: "Policy \<Rightarrow> 'b option"
  hs_lock :: "DefinitionLock \<Rightarrow> 'b option"
  hs_resolution :: "resolution_key \<Rightarrow> 'b option"
  hs_namespace :: "namespace_key \<Rightarrow> 'b option"

record CompileError =
  ce_Code :: string
  ce_NodeID :: string

definition fail :: "string \<Rightarrow> string \<Rightarrow> CompileError" where
  "fail code nodeID = \<lparr>ce_Code = code, ce_NodeID = nodeID\<rparr>"

definition CurrentPolicyAPIVersion :: string where
  "CurrentPolicyAPIVersion = ''lrail.build-policy/v1''"

definition CurrentLockVersion :: int where
  "CurrentLockVersion = 2"

definition CurrentSupplyChainPolicyVersion :: int where
  "CurrentSupplyChainPolicyVersion = 1"

definition maxPolicyValues :: nat where
  "maxPolicyValues = 128"

section \<open>Text and digests\<close>

text \<open>\<^verbatim>\<open>^[a-z0-9](?:[a-z0-9.-]{0,251}[a-z0-9])?(?::[1-9][0-9]{0,4})?$\<close>\<close>

definition registry_host :: "string \<Rightarrow> bool" where
  "registry_host s \<longleftrightarrow> s \<noteq> [] \<and> length s \<le> 253 \<and> lower_or_digit (hd s) \<and> lower_or_digit (last s) \<and>
     list_all (\<lambda>c. lower_or_digit c \<or> c \<in> set ''.-'') s"

definition registryPattern :: "string \<Rightarrow> bool" where
  "registryPattern s =
     (case cut CHR '':'' s of
        None \<Rightarrow> registry_host s
      | Some (host, port) \<Rightarrow> registry_host host \<and> token_pattern (in_range CHR ''1'' CHR ''9'') is_digit 4 port)"

text \<open>\<^verbatim>\<open>(?:AUTH|CREDENTIAL|PASSWORD|PRIVATE_KEY|SECRET|TOKEN)\<close>, anywhere in the name.\<close>

definition suspiciousArgument :: "string \<Rightarrow> bool" where
  "suspiciousArgument s \<longleftrightarrow>
     list_ex (contains_str s) [''AUTH'', ''CREDENTIAL'', ''PASSWORD'', ''PRIVATE_KEY'', ''SECRET'', ''TOKEN'']"

text \<open>\<open>slices.Sort\<close> and \<open>slices.Compact\<close>.\<close>

definition sortedUnique :: "string list \<Rightarrow> string list" where
  "sortedUnique values = remdups_adj (sort values)"

definition sortedDistinct :: "string list \<Rightarrow> bool" where
  "sortedDistinct values \<longleftrightarrow> sorted values \<and> length (remdups_adj values) = length values"

definition digestValue :: "('b \<Rightarrow> uint8 list) \<Rightarrow> ('a \<Rightarrow> 'b option) \<Rightarrow> 'a \<Rightarrow> string option" where
  "digestValue sha encode value = map_option (\<lambda>canonical. ''sha256:'' @ hex_encode (sha canonical)) (encode value)"

definition LockDigest :: "'b hashing \<Rightarrow> DefinitionLock \<Rightarrow> string option" where
  "LockDigest h lock = digestValue (hs_sha h) (hs_lock h) lock"

definition materialResolutionDigest :: "'b hashing \<Rightarrow> BaseMaterial \<Rightarrow> string option" where
  "materialResolutionDigest h m =
     digestValue (hs_sha h) (hs_resolution h)
       \<lparr>rk_Version = 1, rk_RequestedRef = bm_RequestedRef m, rk_ResolvedRef = bm_ResolvedRef m, rk_Digest = bm_Digest m,
        rk_Registry = bm_Registry m, rk_Classification = bm_Classification m, rk_Platforms = bm_Platforms m,
        rk_SBOMDigest = bm_SBOMDigest m, rk_ProvenanceDigest = bm_ProvenanceDigest m,
        rk_SignatureIdentity = bm_SignatureIdentity m\<rparr>"

definition ResolutionDigest :: "'b hashing \<Rightarrow> BaseMaterial \<Rightarrow> string option" where
  "ResolutionDigest h m = materialResolutionDigest h (m\<lparr>bm_Platforms := sortedUnique (bm_Platforms m)\<rparr>)"

definition allDigests :: "string list \<Rightarrow> bool" where
  "allDigests values = list_all digest_pattern values"

definition allBounded :: "string list \<Rightarrow> bool" where
  "allBounded values = list_all (\<lambda>value. bounded_text value False) values"

definition allCapabilities :: "string list \<Rightarrow> bool" where
  "allCapabilities values = list_all capability_pattern values"

definition validCapabilityID :: "string \<Rightarrow> bool" where
  "validCapabilityID value = capability_pattern value"

definition validateResourceID :: "string \<Rightarrow> string \<Rightarrow> CompileError option" where
  "validateResourceID value prefix = (if has_id_prefix value prefix then None else Some (fail ''llb.scope'' []))"

definition validateHosts :: "string list \<Rightarrow> CompileError option" where
  "validateHosts hosts =
     (if length hosts > maxPolicyValues then Some (fail ''llb.policy_network'' [])
      else check_each (\<lambda>host. if \<not> registryPattern host \<or> CHR '':'' \<in> set host
                              then Some (fail ''llb.policy_network'' []) else None) hosts)"

definition registryFromReference :: "string \<Rightarrow> string" where
  "registryFromReference reference =
     (let name = (case cut CHR ''@'' reference of None \<Rightarrow> reference | Some (n, _) \<Rightarrow> n) in
      case cut CHR ''/'' name of
        None \<Rightarrow> ''docker.io''
      | Some (component, _) \<Rightarrow>
          if CHR ''.'' \<in> set component \<or> CHR '':'' \<in> set component \<or> component = ''localhost'' then component
          else ''docker.io'')"

section \<open>Supply-chain policy\<close>

definition severities :: "string list" where
  "severities = [''CRITICAL'', ''HIGH'', ''LOW'', ''MEDIUM'', ''UNKNOWN'']"

definition licenseClassifications :: "string list" where
  "licenseClassifications =
     [''Forbidden'', ''Notice'', ''Permissive'', ''Reciprocal'', ''Restricted'', ''Unencumbered'', ''Unknown'']"

definition denied_ok :: "nat \<Rightarrow> string \<Rightarrow> string list \<Rightarrow> string list \<Rightarrow> bool" where
  "denied_ok limit required known denied \<longleftrightarrow>
     denied \<noteq> [] \<and> length denied \<le> limit \<and> sortedDistinct denied \<and> required \<in> set denied \<and>
     list_all (\<lambda>x. x \<in> set known) denied"

definition ValidateSupplyChainPolicy :: "SupplyChainPolicy \<Rightarrow> CompileError option" where
  "ValidateSupplyChainPolicy p =
     (if sp_Version p \<noteq> CurrentSupplyChainPolicyVersion \<or> \<not> semver_pattern (sp_SyftVersion p) \<or>
         \<not> semver_pattern (sp_TrivyVersion p) \<or> \<not> validCapabilityID (sp_SignerKeyID p) \<or>
         sp_AllowedSignerPublicKeyDigests p = [] \<or> length (sp_AllowedSignerPublicKeyDigests p) > 8 \<or>
         \<not> allDigests (sp_AllowedSignerPublicKeyDigests p) \<or> \<not> sortedDistinct (sp_AllowedSignerPublicKeyDigests p) \<or>
         \<not> sp_RequireSecretFree p \<or> \<not> sp_RequireImageConfigurationScan p
      then Some (fail ''llb.policy_supply_chain'' [])
      else if \<not> denied_ok 5 ''CRITICAL'' severities (sp_DeniedVulnerabilitySeverities p)
      then Some (fail ''llb.policy_supply_chain'' [])
      else if \<not> denied_ok 5 ''CRITICAL'' severities (sp_DeniedConfigurationSeverities p)
      then Some (fail ''llb.policy_supply_chain'' [])
      else if \<not> denied_ok 7 ''Forbidden'' licenseClassifications (sp_DeniedLicenseClassifications p)
      then Some (fail ''llb.policy_supply_chain'' [])
      else None)"

definition PlatformSupplyChainPolicy :: "string list \<Rightarrow> SupplyChainPolicy" where
  "PlatformSupplyChainPolicy digests =
     \<lparr>sp_Version = CurrentSupplyChainPolicyVersion, sp_SyftVersion = ''1.46.0'', sp_TrivyVersion = ''0.72.0'',
      sp_SignerKeyID = ''lrail-build-evidence'', sp_AllowedSignerPublicKeyDigests = sortedUnique digests,
      sp_DeniedVulnerabilitySeverities = [''CRITICAL''], sp_DeniedConfigurationSeverities = [''CRITICAL'', ''HIGH''],
      sp_DeniedLicenseClassifications = [''Forbidden''], sp_RequireSecretFree = True,
      sp_RequireImageConfigurationScan = True\<rparr>"

section \<open>Normalization of the policy\<close>

definition sort_policy :: "Policy \<Rightarrow> Policy" where
  "sort_policy p =
     p\<lparr>po_Base := (po_Base p)\<lparr>bp_AllowedRegistries := sortedUnique (bp_AllowedRegistries (po_Base p)),
         bp_CuratedDigests := sortedUnique (bp_CuratedDigests (po_Base p)),
         bp_AllowedSignatureIdentities := sortedUnique (bp_AllowedSignatureIdentities (po_Base p))\<rparr>,
       po_Network := (po_Network p)\<lparr>np_AllowedProfiles := sortedUnique (np_AllowedProfiles (po_Network p)),
         np_PackageHosts := sortedUnique (np_PackageHosts (po_Network p)),
         np_ExternalHosts := sortedUnique (np_ExternalHosts (po_Network p))\<rparr>,
       po_Secrets := sortedUnique (po_Secrets p),
       po_BuildArguments := sortedUnique (po_BuildArguments p),
       po_SupplyChain := (po_SupplyChain p)\<lparr>
         sp_AllowedSignerPublicKeyDigests := sortedUnique (sp_AllowedSignerPublicKeyDigests (po_SupplyChain p)),
         sp_DeniedVulnerabilitySeverities := sortedUnique (sp_DeniedVulnerabilitySeverities (po_SupplyChain p)),
         sp_DeniedConfigurationSeverities := sortedUnique (sp_DeniedConfigurationSeverities (po_SupplyChain p)),
         sp_DeniedLicenseClassifications := sortedUnique (sp_DeniedLicenseClassifications (po_SupplyChain p))\<rparr>\<rparr>"

definition check_base_policy :: "BasePolicy \<Rightarrow> bool" where
  "check_base_policy b \<longleftrightarrow>
     bp_AllowedRegistries b \<noteq> [] \<and> length (bp_AllowedRegistries b) \<le> maxPolicyValues \<and>
     list_all registryPattern (bp_AllowedRegistries b) \<and>
     length (bp_CuratedDigests b) \<le> maxPolicyValues \<and> allDigests (bp_CuratedDigests b) \<and>
     bp_AllowedSignatureIdentities b \<noteq> [] \<and> length (bp_AllowedSignatureIdentities b) \<le> maxPolicyValues \<and>
     allBounded (bp_AllowedSignatureIdentities b)"

definition check_network_policy :: "NetworkPolicy \<Rightarrow> CompileError option" where
  "check_network_policy n =
     (if np_AllowedProfiles n = [] \<or> length (np_AllowedProfiles n) > 4 then Some (fail ''llb.policy_network'' [])
      else if \<not> list_all (\<lambda>p. p \<in> set [''allowlist'', ''none'', ''packages'', ''private'']) (np_AllowedProfiles n)
      then Some (fail ''llb.policy_network'' [])
      else case validateHosts (np_PackageHosts n) of Some e \<Rightarrow> Some e
      | None \<Rightarrow>
        (case validateHosts (np_ExternalHosts n) of Some e \<Rightarrow> Some e
         | None \<Rightarrow>
           if ''packages'' \<in> set (np_AllowedProfiles n) \<and>
              (np_PackageHosts n = [] \<or> \<not> validCapabilityID (np_PackageGatewayID n))
           then Some (fail ''llb.policy_network'' [])
           else if ''allowlist'' \<in> set (np_AllowedProfiles n) \<and> \<not> validCapabilityID (np_AllowlistGatewayID n)
           then Some (fail ''llb.policy_network'' [])
           else if ''private'' \<in> set (np_AllowedProfiles n) \<and> \<not> validCapabilityID (np_PrivateGatewayID n)
           then Some (fail ''llb.policy_network'' [])
           else None))"

definition normalizePolicy :: "Policy \<Rightarrow> CompileError + Policy" where
  "normalizePolicy policy0 =
     (if po_APIVersion policy0 \<noteq> CurrentPolicyAPIVersion \<or> \<not> semver_pattern (po_Revision policy0)
      then Inl (fail ''llb.policy_version'' [])
      else case validateResourceID (po_ID policy0) ''pol'' of Some e \<Rightarrow> Inl e
      | None \<Rightarrow>
        let p = sort_policy policy0 in
        if \<not> check_base_policy (po_Base p) then Inl (fail ''llb.policy_base'' [])
        else case check_network_policy (po_Network p) of Some e \<Rightarrow> Inl e
        | None \<Rightarrow>
          if cp_Scope (po_Cache p) \<notin> set [''organization'', ''project''] \<or> \<not> validCapabilityID (cp_TrustDomain (po_Cache p))
          then Inl (fail ''llb.policy_cache'' [])
          else if cp_AllowSharedWithSecrets (po_Cache p) \<and> \<not> cp_AllowShared (po_Cache p)
          then Inl (fail ''llb.policy_cache'' [])
          else if length (po_Secrets p) > maxPolicyValues \<or> \<not> allCapabilities (po_Secrets p)
          then Inl (fail ''llb.policy_secret'' [])
          else if length (po_BuildArguments p) > maxPolicyValues then Inl (fail ''llb.policy_argument'' [])
          else if \<not> list_all (\<lambda>n. environment_key_pattern n \<and> \<not> suspiciousArgument n) (po_BuildArguments p)
          then Inl (fail ''llb.policy_argument'' [])
          else case ValidateSupplyChainPolicy (po_SupplyChain p) of Some e \<Rightarrow> Inl e | None \<Rightarrow> Inr p)"

definition ValidatePolicy :: "Policy \<Rightarrow> CompileError option" where
  "ValidatePolicy policy0 = (case normalizePolicy policy0 of Inl e \<Rightarrow> Some e | Inr _ \<Rightarrow> None)"

section \<open>Base materials and build arguments\<close>

text \<open>The image references that the graph expects, each with the last node that uses it.\<close>

definition expected_materials :: "IR \<Rightarrow> string strmap" where
  "expected_materials ir =
     foldl (\<lambda>m node. if nd_Operation node \<noteq> ''image'' then m
              else let reference = (case nd_Attributes node of None \<Rightarrow> []
                     | Some a \<Rightarrow> (case any_string (mget a ''ref'') of None \<Rightarrow> [] | Some r \<Rightarrow> r))
                   in mput reference (nd_ID node) m) [] (ir_Nodes ir)"

definition check_material :: "'b hashing \<Rightarrow> IR \<Rightarrow> Policy \<Rightarrow> string \<Rightarrow> BaseMaterial \<Rightarrow> CompileError option" where
  "check_material h ir policy nodeID m =
     (if \<not> digest_pattern (bm_Digest m) \<or> \<not> has_suffix (bm_RequestedRef m) (''@'' @ bm_Digest m) \<or>
         \<not> has_suffix (bm_ResolvedRef m) (''@'' @ bm_Digest m) then Some (fail ''llb.material_digest'' nodeID)
      else if bm_Registry m \<noteq> registryFromReference (bm_ResolvedRef m) \<or>
              registryFromReference (bm_ResolvedRef m) \<notin> set (bp_AllowedRegistries (po_Base policy))
      then Some (fail ''llb.material_registry'' nodeID)
      else if ir_TargetPlatform ir \<notin> set (bm_Platforms m) then Some (fail ''llb.material_platform'' nodeID)
      else if bm_Classification m = ''curated'' \<and> bm_Digest m \<notin> set (bp_CuratedDigests (po_Base policy))
      then Some (fail ''llb.material_curated'' nodeID)
      else if bm_Classification m = ''customer'' \<and> \<not> bp_AllowCustomerBases (po_Base policy)
      then Some (fail ''llb.material_customer'' nodeID)
      else if bm_Classification m \<noteq> ''curated'' \<and> bm_Classification m \<noteq> ''customer''
      then Some (fail ''llb.material_classification'' nodeID)
      else if bm_SignatureIdentity m \<notin> set (bp_AllowedSignatureIdentities (po_Base policy))
      then Some (fail ''llb.material_signature'' nodeID)
      else if bp_RequireSBOM (po_Base policy) \<and> \<not> digest_pattern (bm_SBOMDigest m)
      then Some (fail ''llb.material_sbom'' nodeID)
      else if bp_RequireProvenance (po_Base policy) \<and> \<not> digest_pattern (bm_ProvenanceDigest m)
      then Some (fail ''llb.material_provenance'' nodeID)
      else if materialResolutionDigest h m \<noteq> Some (bm_ResolutionDigest m)
      then Some (fail ''llb.material_resolution'' nodeID)
      else None)"

fun check_materials ::
  "'b hashing \<Rightarrow> IR \<Rightarrow> Policy \<Rightarrow> string strmap \<Rightarrow> BaseMaterial list \<Rightarrow> CompileError + string strmap \<times> BaseMaterial list" where
  "check_materials h ir policy expected [] = Inr (expected, [])"
| "check_materials h ir policy expected (m0 # ms) =
     (case mget expected (bm_RequestedRef m0) of
        None \<Rightarrow> Inl (fail ''llb.material_extra'' [])
      | Some nodeID \<Rightarrow>
          let m = m0\<lparr>bm_Platforms := sortedUnique (bm_Platforms m0)\<rparr> in
          (case check_material h ir policy nodeID m of
             Some e \<Rightarrow> Inl e
           | None \<Rightarrow>
               (case check_materials h ir policy (mdel (bm_RequestedRef m0) expected) ms of
                  Inl e \<Rightarrow> Inl e
                | Inr (rest, out) \<Rightarrow> Inr (rest, m # out))))"

definition normalizeMaterials ::
  "'b hashing \<Rightarrow> IR \<Rightarrow> BaseMaterial list \<Rightarrow> Policy \<Rightarrow> CompileError + BaseMaterial list" where
  "normalizeMaterials h ir materials policy =
     (let expected = expected_materials ir in
      if length materials \<noteq> length expected then Inl (fail ''llb.material_set'' [])
      else case check_materials h ir policy expected materials of
        Inl e \<Rightarrow> Inl e
      | Inr (rest, result) \<Rightarrow>
          if rest \<noteq> [] then Inl (fail ''llb.material_missing'' [])
          else let sorted = sort_key bm_RequestedRef result in
               if distinct_adj (map bm_RequestedRef sorted) then Inr sorted
               else Inl (fail ''llb.material_duplicate'' []))"

definition normalizeBuildArguments :: "string strmap \<Rightarrow> string list \<Rightarrow> CompileError + NameValue list" where
  "normalizeBuildArguments arguments allowedNames =
     (if length arguments > 64 then Inl (fail ''llb.argument_limit'' [])
      else case check_each (\<lambda>(name, value).
             if \<not> environment_key_pattern name \<or> suspiciousArgument name \<or> name \<notin> set allowedNames
             then Some (fail ''llb.argument_denied'' [])
             else if \<not> bounded_text value True then Some (fail ''llb.argument_value'' [])
             else None) arguments of
        Some e \<Rightarrow> Inl e
      | None \<Rightarrow> Inr (sort_key nv_Name (map (\<lambda>(name, value). \<lparr>nv_Name = name, nv_Value = value\<rparr>) arguments)))"

record normalizedRequest =
  nr_organizationID :: string
  nr_projectID :: string
  nr_ir :: IR
  nr_irDigest :: string
  nr_policy :: Policy
  nr_policyDigest :: string
  nr_materials :: "BaseMaterial list"
  nr_buildArguments :: "NameValue list"

definition normalizeRequest :: "'b hashing \<Rightarrow> LlbRequest \<Rightarrow> CompileError + normalizedRequest" where
  "normalizeRequest h request =
     (case validateResourceID (lq_OrganizationID request) ''org'' of Some e \<Rightarrow> Inl e
      | None \<Rightarrow>
     (case validateResourceID (lq_ProjectID request) ''prj'' of Some e \<Rightarrow> Inl e
      | None \<Rightarrow>
     (case DefinitionDigest (hs_ir h) (hs_sha h) (lq_IR request) of Inl _ \<Rightarrow> Inl (fail ''llb.ir_invalid'' [])
      | Inr irDigest \<Rightarrow>
        if lq_ExpectedIRDigest request \<noteq> irDigest then Inl (fail ''llb.ir_digest'' [])
        else
     (case normalizePolicy (lq_Policy request) of Inl e \<Rightarrow> Inl e
      | Inr policy \<Rightarrow>
     (case digestValue (hs_sha h) (hs_policy h) policy of None \<Rightarrow> Inl (fail ''llb.policy_digest'' [])
      | Some policyDigest \<Rightarrow>
     (case normalizeMaterials h (lq_IR request) (lq_BaseMaterials request) policy of Inl e \<Rightarrow> Inl e
      | Inr materials \<Rightarrow>
     (case normalizeBuildArguments (lq_BuildArguments request) (po_BuildArguments policy) of Inl e \<Rightarrow> Inl e
      | Inr arguments \<Rightarrow>
          Inr \<lparr>nr_organizationID = lq_OrganizationID request, nr_projectID = lq_ProjectID request,
               nr_ir = lq_IR request, nr_irDigest = irDigest, nr_policy = policy, nr_policyDigest = policyDigest,
               nr_materials = materials, nr_buildArguments = arguments\<rparr>)))))))"

section \<open>Capabilities\<close>

record capabilitySet =
  ca_network :: "NetworkCapability list"
  ca_caches :: "CacheCapability list"
  ca_secrets :: "SecretCapability list"
  ca_networkByNode :: "NetworkCapability strmap"
  ca_cacheByNode :: "CacheCapability strmap"
  ca_secretByNode :: "SecretCapability strmap"

text \<open>A string attribute of a node; a failed type assertion gives the empty string.\<close>

definition string_attr :: "Node \<Rightarrow> string \<Rightarrow> string" where
  "string_attr node key =
     (case nd_Attributes node of None \<Rightarrow> []
      | Some a \<Rightarrow> (case any_string (mget a key) of None \<Rightarrow> [] | Some s \<Rightarrow> s))"

definition attr :: "Node \<Rightarrow> string \<Rightarrow> anyval option" where
  "attr node key = (case nd_Attributes node of None \<Rightarrow> None | Some a \<Rightarrow> mget a key)"

definition networkCapability :: "normalizedRequest \<Rightarrow> string \<Rightarrow> string \<Rightarrow> CompileError + NetworkCapability" where
  "networkCapability input nodeID profile =
     (let n = po_Network (nr_policy input);
          capability = \<lparr>nc_NodeID = nodeID, nc_Profile = profile, nc_Hosts = [], nc_GatewayID = []\<rparr> in
      if profile \<notin> set (np_AllowedProfiles n) then Inl (fail ''llb.network_denied'' nodeID)
      else if profile = ''none'' then Inr capability
      else if profile = ''packages'' then
        Inr (capability\<lparr>nc_Hosts := np_PackageHosts n, nc_GatewayID := np_PackageGatewayID n\<rparr>)
      else if profile = ''allowlist'' then
        (if \<not> list_all (\<lambda>host. host \<in> set (np_ExternalHosts n)) (ir_AllowedHosts (nr_ir input))
         then Inl (fail ''llb.network_host'' nodeID)
         else Inr (capability\<lparr>nc_Hosts := ir_AllowedHosts (nr_ir input), nc_GatewayID := np_AllowlistGatewayID n\<rparr>))
      else if profile = ''private'' then Inr (capability\<lparr>nc_GatewayID := np_PrivateGatewayID n\<rparr>)
      else Inl (fail ''llb.network_profile'' nodeID))"

definition namespace_of :: "normalizedRequest \<Rightarrow> string \<Rightarrow> string \<Rightarrow> string \<Rightarrow> namespace_key" where
  "namespace_of input nodeID name target =
     \<lparr>nk_Version = 1, nk_NodeID = nodeID, nk_Scope = cp_Scope (po_Cache (nr_policy input)),
      nk_ScopeID = (if cp_Scope (po_Cache (nr_policy input)) = ''organization'' then nr_organizationID input else nr_projectID input),
      nk_TrustDomain = cp_TrustDomain (po_Cache (nr_policy input)), nk_PolicyDigest = nr_policyDigest input,
      nk_Name = name, nk_Target = target\<rparr>"

definition cacheCapability :: "'b hashing \<Rightarrow> normalizedRequest \<Rightarrow> Node \<Rightarrow> CompileError + CacheCapability" where
  "cacheCapability h input node =
     (let name = string_attr node ''name''; target = string_attr node ''target''; sharing = string_attr node ''sharing'' in
      if sharing = ''shared'' \<and> \<not> cp_AllowShared (po_Cache (nr_policy input)) then Inl (fail ''llb.cache_shared'' (nd_ID node))
      else case digestValue (hs_sha h) (hs_namespace h) (namespace_of input (nd_ID node) name target) of
        None \<Rightarrow> Inl (fail ''llb.cache_namespace'' (nd_ID node))
      | Some namespace \<Rightarrow>
          Inr \<lparr>cc_NodeID = nd_ID node, cc_Name = name, cc_Target = target, cc_Sharing = sharing,
               cc_Scope = cp_Scope (po_Cache (nr_policy input)),
               cc_Namespace = ''lrail-cache-'' @ trim_prefix namespace ''sha256:''\<rparr>)"

definition secretCapability :: "normalizedRequest \<Rightarrow> Node \<Rightarrow> CompileError + SecretCapability" where
  "secretCapability input node =
     (let name = string_attr node ''name''; target = string_attr node ''target'';
          required = (case any_bool (attr node ''required'') of Some b \<Rightarrow> b | None \<Rightarrow> False) in
      if name \<notin> set (po_Secrets (nr_policy input)) then Inl (fail ''llb.secret_denied'' (nd_ID node))
      else Inr \<lparr>sk_NodeID = nd_ID node, sk_Name = name, sk_Target = target, sk_Required = required, sk_MountID = name\<rparr>)"

definition emptyCapabilities :: capabilitySet where
  "emptyCapabilities = \<lparr>ca_network = [], ca_caches = [], ca_secrets = [], ca_networkByNode = [],
     ca_cacheByNode = [], ca_secretByNode = []\<rparr>"

definition node_capability ::
  "'b hashing \<Rightarrow> normalizedRequest \<Rightarrow> capabilitySet \<Rightarrow> Node \<Rightarrow> CompileError + capabilitySet" where
  "node_capability h input acc node =
     (if nd_Operation node = ''cache'' then
        (case cacheCapability h input node of Inl e \<Rightarrow> Inl e
         | Inr c \<Rightarrow> Inr (acc\<lparr>ca_cacheByNode := mput (nd_ID node) c (ca_cacheByNode acc), ca_caches := ca_caches acc @ [c]\<rparr>))
      else if nd_Operation node = ''secret'' then
        (case secretCapability input node of Inl e \<Rightarrow> Inl e
         | Inr c \<Rightarrow> Inr (acc\<lparr>ca_secretByNode := mput (nd_ID node) c (ca_secretByNode acc), ca_secrets := ca_secrets acc @ [c]\<rparr>))
      else if nd_Operation node = ''run'' then
        (case networkCapability input (nd_ID node) (string_attr node ''network'') of Inl e \<Rightarrow> Inl e
         | Inr c \<Rightarrow> Inr (acc\<lparr>ca_networkByNode := mput (nd_ID node) c (ca_networkByNode acc), ca_network := ca_network acc @ [c]\<rparr>))
      else Inr acc)"

fun node_capabilities ::
  "'b hashing \<Rightarrow> normalizedRequest \<Rightarrow> capabilitySet \<Rightarrow> Node list \<Rightarrow> CompileError + capabilitySet" where
  "node_capabilities h input acc [] = Inr acc"
| "node_capabilities h input acc (node # nodes) =
     (case node_capability h input acc node of Inl e \<Rightarrow> Inl e
      | Inr acc' \<Rightarrow> node_capabilities h input acc' nodes)"

definition secretIdentifiers :: "capabilitySet \<Rightarrow> string set" where
  "secretIdentifiers c = set (map sk_Name (ca_secrets c)) \<union> set (map sk_MountID (ca_secrets c))"

definition rejectSecretReferences :: "normalizedRequest \<Rightarrow> capabilitySet \<Rightarrow> CompileError option" where
  "rejectSecretReferences input c =
     (if list_ex (\<lambda>a. nv_Value a \<in> secretIdentifiers c) (nr_buildArguments input)
      then Some (fail ''llb.secret_reference'' [])
      else check_each (\<lambda>node.
        if nd_Operation node \<noteq> ''run'' then None
        else if list_ex (\<lambda>a. a \<in> secretIdentifiers c) (case stringSlice (attr node ''argv'') of None \<Rightarrow> [] | Some xs \<Rightarrow> xs)
        then Some (fail ''llb.secret_reference'' (nd_ID node))
        else if list_ex (\<lambda>kv. snd kv \<in> secretIdentifiers c) (case stringMap (attr node ''env'') of None \<Rightarrow> [] | Some xs \<Rightarrow> xs)
        then Some (fail ''llb.secret_reference'' (nd_ID node))
        else None) (ir_Nodes (nr_ir input)))"

definition compileCapabilities :: "'b hashing \<Rightarrow> normalizedRequest \<Rightarrow> CompileError + capabilitySet" where
  "compileCapabilities h input =
     (if ir_NetworkProfile (nr_ir input) \<notin> set (np_AllowedProfiles (po_Network (nr_policy input)))
      then Inl (fail ''llb.network_denied'' [])
      else case node_capabilities h input emptyCapabilities (ir_Nodes (nr_ir input)) of
        Inl e \<Rightarrow> Inl e
      | Inr c \<Rightarrow> (case rejectSecretReferences input c of Some e \<Rightarrow> Inl e | None \<Rightarrow> Inr c))"

definition pathsOverlap :: "string \<Rightarrow> string \<Rightarrow> bool" where
  "pathsOverlap left right \<longleftrightarrow>
     (let l = path_clean left; r = path_clean right in
      l = r \<or> has_prefix l (r @ ''/'') \<or> has_prefix r (l @ ''/''))"

text \<open>The loop over the mounts: targets so far, and whether a secret or a shared cache was seen.\<close>

fun mount_targets ::
  "capabilitySet \<Rightarrow> string list \<Rightarrow> string list \<times> bool \<times> bool \<Rightarrow> (string list \<times> bool \<times> bool) option" where
  "mount_targets c [] acc = Some acc"
| "mount_targets c (mountID # rest) (targets, hasSecret, hasShared) =
     (case mget (ca_cacheByNode c) mountID of
        Some cache \<Rightarrow> mount_targets c rest (targets @ [cc_Target cache], hasSecret, hasShared \<or> cc_Sharing cache = ''shared'')
      | None \<Rightarrow>
          (case mget (ca_secretByNode c) mountID of
             Some secret \<Rightarrow> mount_targets c rest (targets @ [sk_Target secret], True, hasShared)
           | None \<Rightarrow> None))"

fun no_overlap :: "string list \<Rightarrow> bool" where
  "no_overlap [] \<longleftrightarrow> True"
| "no_overlap (t # ts) \<longleftrightarrow> list_all (\<lambda>u. \<not> pathsOverlap t u) ts \<and> no_overlap ts"

definition validateRunMounts :: "Node \<Rightarrow> capabilitySet \<Rightarrow> CachePolicy \<Rightarrow> CompileError option" where
  "validateRunMounts node c policy =
     (case stringSlice (attr node ''mounts'') of None \<Rightarrow> Some (fail ''llb.mount_shape'' (nd_ID node))
      | Some mountIDs \<Rightarrow>
          (case mount_targets c mountIDs ([], False, False) of
             None \<Rightarrow> Some (fail ''llb.mount_unknown'' (nd_ID node))
           | Some (targets, hasSecret, hasShared) \<Rightarrow>
               if \<not> no_overlap targets then Some (fail ''llb.mount_overlap'' (nd_ID node))
               else if hasSecret \<and> hasShared \<and> \<not> cp_AllowSharedWithSecrets policy then Some (fail ''llb.cache_secret'' (nd_ID node))
               else None))"

definition parseOwner :: "string \<Rightarrow> (int \<times> int) option" where
  "parseOwner value =
     (case split_on CHR '':'' value of
        [u, g] \<Rightarrow> (case atoi u of None \<Rightarrow> None | Some uid \<Rightarrow> (case atoi g of None \<Rightarrow> None | Some gid \<Rightarrow> Some (uid, gid)))
      | _ \<Rightarrow> None)"

end
