(* ===== verification/Llb_Audit.thy ===== *)
theory Llb_Audit
  imports Llb_Policy
begin

text \<open>
  The audit of serialized LLB (\<^verbatim>\<open>src/services/build-plane/internal/llbcompiler/audit.go\<close>): before a build
  runs, every operation of its untrusted definitions is compared with the signed definition lock.
  The protobuf messages are records with the fields the audit reads, a nil pointer is \<open>None\<close>; the
  protobuf decoder, the attribute names of package \<open>pb\<close> and the canonical encoders of the three
  authority structs are the fields of \<open>audit_lib\<close>. Byte strings are \<open>string\<close>. Errors are the
  messages of the code.
\<close>

section \<open>Messages\<close>

datatype NetMode = NetMode_UNSET | NetMode_HOST | NetMode_NONE | NetMode_Other

datatype SecurityMode = SecurityMode_SANDBOX | SecurityMode_INSECURE | SecurityMode_Other

datatype MountType = MountType_BIND | MountType_SECRET | MountType_SSH | MountType_CACHE | MountType_TMPFS | MountType_Other

datatype CacheSharingOpt = CacheSharingOpt_SHARED | CacheSharingOpt_PRIVATE | CacheSharingOpt_LOCKED | CacheSharingOpt_Other

record PbPlatform =
  pp_OS :: string
  pp_Architecture :: string
  pp_Variant :: string
  pp_OSVersion :: string
  pp_OSFeatures :: "string list"

record PbSource =
  ps_Identifier :: string
  ps_Attrs :: "string strmap"

record PbSecretOpt =
  so_ID :: string
  so_Mode :: nat
  so_Optional :: bool

record PbCacheOpt =
  co_ID :: string
  co_Sharing :: CacheSharingOpt

record PbMount =
  mo_Dest :: string
  mo_MountType :: MountType
  mo_SecretOpt :: "PbSecretOpt option"
  mo_CacheOpt :: "PbCacheOpt option"

record PbProxyEnv =
  px_HttpProxy :: string
  px_HttpsProxy :: string
  px_FtpProxy :: string
  px_NoProxy :: string
  px_AllProxy :: string

text \<open>Of the repeated fields that must be empty only the length is read.\<close>

record PbMeta =
  me_ExtraHosts :: nat
  me_CgroupParent :: string
  me_Hostname :: string
  me_Ulimit :: nat
  me_ValidExitCodes :: nat
  me_ProxyEnv :: "PbProxyEnv option"

record PbExec =
  ex_Security :: SecurityMode
  ex_Network :: NetMode
  ex_Secretenv :: nat
  ex_CdiDevices :: nat
  ex_Meta :: "PbMeta option"
  ex_Mounts :: "PbMount option list"

datatype PbKind =
    OpNil
  | OpSource "PbSource option"
  | OpExec "PbExec option"
  | OpFile
  | OpMerge
  | OpDiff
  | OpOther

record PbOp =
  op_Inputs :: "string option list"
  op_Kind :: PbKind
  op_Platform :: "PbPlatform option"
  op_ConstraintFilter :: "string list option"

record PbMetadata =
  md_Description :: "string strmap"
  md_LinuxResources :: bool

record PbDefinition =
  pd_Def :: "string list"
  pd_Metadata :: "PbMetadata strmap"

text \<open>The structs whose canonical digests name an authority.\<close>

record network_key =
  nwk_Profile :: string
  nwk_GatewayID :: string
  nwk_Hosts :: "string list"

record secret_key =
  sck_MountID :: string
  sck_Target :: string
  sck_Required :: bool

record cache_key =
  cak_Namespace :: string
  cak_Target :: string
  cak_Sharing :: string

record audit_lib =
  al_hash :: "string hashing"
  al_definition :: "string \<Rightarrow> PbDefinition option"
  al_op :: "string \<Rightarrow> PbOp option"
  al_network :: "network_key \<Rightarrow> string option"
  al_secret :: "secret_key \<Rightarrow> string option"
  al_cache :: "cache_key \<Rightarrow> string option"
  al_AttrLocalUniqueID :: string
  al_AttrSharedKeyHint :: string
  al_AttrImageResolveMode :: string
  al_AttrImageResolveModeForcePull :: string

definition bytesDigest :: "audit_lib \<Rightarrow> string \<Rightarrow> string" where
  "bytesDigest l value = ''sha256:'' @ hex_encode (hs_sha (al_hash l) value)"

text \<open>Reading a Go map of strings: a missing key gives the empty string.\<close>

definition mstr :: "string strmap \<Rightarrow> string \<Rightarrow> string" where
  "mstr m k = (case mget m k of None \<Rightarrow> [] | Some v \<Rightarrow> v)"

text \<open>\<open>strings.Cut\<close> at a separator of several bytes.\<close>

fun cut_str :: "string \<Rightarrow> string \<Rightarrow> (string \<times> string) option" where
  "cut_str sep [] = (if sep = [] then Some ([], []) else None)"
| "cut_str sep (c # s) =
     (if has_prefix (c # s) sep then Some ([], drop (length sep) (c # s))
      else map_option (\<lambda>(a, b). (c # a, b)) (cut_str sep s))"

section \<open>Authorities\<close>

definition BuildEgressProxyURL :: string where
  "BuildEgressProxyURL = ''http://127.0.0.1:3128''"

definition materialAuthority :: "BaseMaterial \<Rightarrow> string" where
  "materialAuthority material = bm_ResolvedRef material @ [CHR 0x00] @ bm_Digest material"

definition networkAuthority :: "audit_lib \<Rightarrow> NetworkCapability \<Rightarrow> string option" where
  "networkAuthority l network =
     digestValue (hs_sha (al_hash l)) (al_network l)
       \<lparr>nwk_Profile = nc_Profile network, nwk_GatewayID = nc_GatewayID network, nwk_Hosts = nc_Hosts network\<rparr>"

definition secretAuthority :: "audit_lib \<Rightarrow> SecretCapability \<Rightarrow> string option" where
  "secretAuthority l secret =
     digestValue (hs_sha (al_hash l)) (al_secret l)
       \<lparr>sck_MountID = sk_MountID secret, sck_Target = sk_Target secret, sck_Required = sk_Required secret\<rparr>"

definition cacheAuthority :: "audit_lib \<Rightarrow> CacheCapability \<Rightarrow> string option" where
  "cacheAuthority l cache =
     digestValue (hs_sha (al_hash l)) (al_cache l)
       \<lparr>cak_Namespace = cc_Namespace cache, cak_Target = cc_Target cache, cak_Sharing = cc_Sharing cache\<rparr>"

definition cacheSharingOption :: "string \<Rightarrow> CacheSharingOpt" where
  "cacheSharingOption value =
     (if value = ''private'' then CacheSharingOpt_PRIVATE
      else if value = ''locked'' then CacheSharingOpt_LOCKED
      else CacheSharingOpt_SHARED)"

definition networkProfileFromName :: "string \<Rightarrow> string" where
  "networkProfileFromName name =
     (case cut_str '' network='' name of
        None \<Rightarrow> []
      | Some (_, remaining) \<Rightarrow> (case cut CHR '' '' remaining of None \<Rightarrow> remaining | Some (profile, _) \<Rightarrow> profile))"

definition network_vertex_name :: "NetworkCapability \<Rightarrow> string" where
  "network_vertex_name network =
     ''lrail run '' @ nc_NodeID network @ '' network='' @ nc_Profile network @ '' gateway='' @ nc_GatewayID network @
     '' hosts='' @ join '','' (nc_Hosts network)"

section \<open>The auditor\<close>

text \<open>Sets of strings are lists without repetition.\<close>

record definitionAuditor =
  da_lock :: DefinitionLock
  da_materials :: "string strmap"
  da_networkNames :: "string strmap"
  da_secrets :: "SecretCapability strmap"
  da_caches :: "CacheCapability strmap"
  da_expectedMaterials :: "string list"
  da_expectedNetwork :: "string list"
  da_expectedSecrets :: "string list"
  da_expectedCaches :: "string list"
  da_observedMaterials :: "string list"
  da_observedNetwork :: "string list"
  da_observedSecrets :: "string list"
  da_observedCaches :: "string list"

text \<open>A loop over a slice that updates the auditor and ends at the first error.\<close>

fun audit_each :: "('a \<Rightarrow> 's \<Rightarrow> string + 's) \<Rightarrow> 'a list \<Rightarrow> 's \<Rightarrow> string + 's" where
  "audit_each f [] s = Inr s"
| "audit_each f (x # xs) s = (case f x s of Inl e \<Rightarrow> Inl e | Inr s' \<Rightarrow> audit_each f xs s')"

definition add_material :: "BaseMaterial \<Rightarrow> definitionAuditor \<Rightarrow> string + definitionAuditor" where
  "add_material material a =
     (let identifier = ''docker-image://'' @ bm_ResolvedRef material; key = materialAuthority material in
      case mget (da_materials a) identifier of
        Some existing \<Rightarrow>
          if existing \<noteq> key then Inl ''LLB base material authority is ambiguous''
          else Inr (a\<lparr>da_materials := mput identifier key (da_materials a),
                      da_expectedMaterials := List.insert key (da_expectedMaterials a)\<rparr>)
      | None \<Rightarrow> Inr (a\<lparr>da_materials := mput identifier key (da_materials a),
                       da_expectedMaterials := List.insert key (da_expectedMaterials a)\<rparr>))"

definition add_network :: "audit_lib \<Rightarrow> NetworkCapability \<Rightarrow> definitionAuditor \<Rightarrow> string + definitionAuditor" where
  "add_network l network a =
     (case networkAuthority l network of
        None \<Rightarrow> Inl ''LLB network authority cannot be canonicalized''
      | Some key \<Rightarrow>
          let name = network_vertex_name network in
          if mget (da_networkNames a) name \<noteq> None then Inl ''LLB network vertex identity is duplicated''
          else Inr (a\<lparr>da_networkNames := mput name key (da_networkNames a),
                      da_expectedNetwork := List.insert key (da_expectedNetwork a)\<rparr>))"

definition add_secret :: "audit_lib \<Rightarrow> SecretCapability \<Rightarrow> definitionAuditor \<Rightarrow> string + definitionAuditor" where
  "add_secret l secret a =
     (case secretAuthority l secret of
        None \<Rightarrow> Inl ''LLB secret authority cannot be canonicalized''
      | Some key \<Rightarrow>
          if mget (da_secrets a) (sk_MountID secret) \<noteq> None then Inl ''LLB secret identity is duplicated''
          else Inr (a\<lparr>da_secrets := mput (sk_MountID secret) secret (da_secrets a),
                      da_expectedSecrets := List.insert key (da_expectedSecrets a)\<rparr>))"

definition add_cache :: "audit_lib \<Rightarrow> CacheCapability \<Rightarrow> definitionAuditor \<Rightarrow> string + definitionAuditor" where
  "add_cache l cache a =
     (case cacheAuthority l cache of
        None \<Rightarrow> Inl ''LLB cache authority cannot be canonicalized''
      | Some key \<Rightarrow>
          if mget (da_caches a) (cc_Namespace cache) \<noteq> None then Inl ''LLB cache identity is duplicated''
          else Inr (a\<lparr>da_caches := mput (cc_Namespace cache) cache (da_caches a),
                      da_expectedCaches := List.insert key (da_expectedCaches a)\<rparr>))"

definition empty_auditor :: "DefinitionLock \<Rightarrow> definitionAuditor" where
  "empty_auditor lock = \<lparr>da_lock = lock, da_materials = [], da_networkNames = [], da_secrets = [], da_caches = [],
     da_expectedMaterials = [], da_expectedNetwork = [], da_expectedSecrets = [], da_expectedCaches = [],
     da_observedMaterials = [], da_observedNetwork = [], da_observedSecrets = [], da_observedCaches = []\<rparr>"

definition newDefinitionAuditor :: "audit_lib \<Rightarrow> DefinitionLock \<Rightarrow> string + definitionAuditor" where
  "newDefinitionAuditor l lock =
     (case audit_each add_material (dl_BaseMaterials lock) (empty_auditor lock) of Inl e \<Rightarrow> Inl e
      | Inr a1 \<Rightarrow>
     (case audit_each (add_network l) (dl_Network lock) a1 of Inl e \<Rightarrow> Inl e
      | Inr a2 \<Rightarrow>
     (case audit_each (add_secret l) (dl_Secrets lock) a2 of Inl e \<Rightarrow> Inl e
      | Inr a3 \<Rightarrow> audit_each (add_cache l) (dl_Caches lock) a3)))"

section \<open>The graph\<close>

text \<open>
  \<open>visit\<close> of \<open>completeLLBGraph\<close>. The set \<open>visiting\<close> is passed down instead of being updated in
  place: a call that succeeds has removed what it added, and after a failure nothing is read any
  more. The result is the new set \<open>visited\<close>, or \<open>None\<close> for false.
\<close>

function visit :: "PbOp strmap \<Rightarrow> string list \<Rightarrow> string list \<Rightarrow> string \<Rightarrow> string list option"
  and visit_inputs :: "PbOp strmap \<Rightarrow> string list \<Rightarrow> string list \<Rightarrow> string option list \<Rightarrow> string list option" where
  "visit operations visiting visited operationDigest =
     (if operationDigest \<in> set visiting then None
      else if operationDigest \<in> set visited then Some visited
      else case mget operations operationDigest of
        None \<Rightarrow> None
      | Some operation \<Rightarrow>
          map_option (List.insert operationDigest)
            (visit_inputs operations (operationDigest # visiting) visited (op_Inputs operation)))"
| "visit_inputs operations visiting visited [] = Some visited"
| "visit_inputs operations visiting visited (None # inputs) = None"
| "visit_inputs operations visiting visited (Some input # inputs) =
     (case visit operations visiting visited input of
        None \<Rightarrow> None
      | Some visited' \<Rightarrow> visit_inputs operations visiting visited' inputs)"
  by pat_completeness auto
termination
proof (relation "inv_image (less_than <*lex*> less_than)
    (\<lambda>p. case p of Inl (ops, visiting, _, _) \<Rightarrow> (card (fst ` set ops - set visiting), 1)
       | Inr (ops, visiting, _, inputs) \<Rightarrow> (card (fst ` set ops - set visiting), 2 * length inputs))", goal_cases)
  case (2 ops visiting visited d operation)
  then have "d \<in> fst ` set ops - set visiting" by (auto dest: map_of_SomeD intro: rev_image_eqI)
  then have "card (fst ` set ops - set (d # visiting)) < card (fst ` set ops - set visiting)"
    by (intro psubset_card_mono) auto
  then show ?case by simp
qed auto

definition completeLLBGraph :: "PbOp strmap \<Rightarrow> string \<Rightarrow> bool" where
  "completeLLBGraph operations outputDigest =
     (case visit operations [] [] outputDigest of None \<Rightarrow> False | Some visited \<Rightarrow> length visited = length operations)"

section \<open>Operations\<close>

definition auditPlatform :: "definitionAuditor \<Rightarrow> PbPlatform option \<Rightarrow> string option" where
  "auditPlatform a platform =
     (case platform of None \<Rightarrow> None
      | Some p \<Rightarrow>
          if pp_OS p @ ''/'' @ pp_Architecture p \<noteq> dl_TargetPlatform (da_lock a) \<or> pp_Variant p \<noteq> [] \<or> pp_OSVersion p \<noteq> [] \<or>
             pp_OSFeatures p \<noteq> []
          then Some ''LLB operation platform exceeds the signed target'' else None)"

definition auditSource :: "audit_lib \<Rightarrow> PbSource option \<Rightarrow> definitionAuditor \<Rightarrow> string + definitionAuditor" where
  "auditSource l source a =
     (case source of None \<Rightarrow> Inl ''LLB source operation is absent''
      | Some s \<Rightarrow>
          if ps_Identifier s = ''local://lrail-source'' then
            (if mstr (ps_Attrs s) (al_AttrLocalUniqueID l) \<noteq> dl_SourceSnapshot (da_lock a) \<or>
                mstr (ps_Attrs s) (al_AttrSharedKeyHint l) \<noteq> dl_SourceSnapshot (da_lock a)
             then Inl ''LLB local source is not bound to the signed snapshot'' else Inr a)
          else
            (case mget (da_materials a) (ps_Identifier s) of
               None \<Rightarrow> Inl ''LLB source is not an exact signed base material''
             | Some key \<Rightarrow>
                 if mstr (ps_Attrs s) (al_AttrImageResolveMode l) \<noteq> al_AttrImageResolveModeForcePull l
                 then Inl ''LLB source is not an exact signed base material''
                 else Inr (a\<lparr>da_observedMaterials := List.insert key (da_observedMaterials a)\<rparr>)))"

definition auditSecretMount :: "audit_lib \<Rightarrow> PbMount \<Rightarrow> definitionAuditor \<Rightarrow> string + definitionAuditor" where
  "auditSecretMount l mount a =
     (case mo_SecretOpt mount of None \<Rightarrow> Inl ''LLB secret mount lacks options''
      | Some opt \<Rightarrow>
          (case mget (da_secrets a) (so_ID opt) of
             None \<Rightarrow> Inl ''LLB secret mount differs from its signed capability''
           | Some secret \<Rightarrow>
               if mo_Dest mount \<noteq> sk_Target secret \<or> so_Mode opt \<noteq> 256 \<or> so_Optional opt = sk_Required secret
               then Inl ''LLB secret mount differs from its signed capability''
               else let key = (case secretAuthority l secret of None \<Rightarrow> [] | Some k \<Rightarrow> k) in
                    Inr (a\<lparr>da_observedSecrets := List.insert key (da_observedSecrets a)\<rparr>)))"

definition auditCacheMount :: "audit_lib \<Rightarrow> PbMount \<Rightarrow> definitionAuditor \<Rightarrow> string + definitionAuditor" where
  "auditCacheMount l mount a =
     (case mo_CacheOpt mount of None \<Rightarrow> Inl ''LLB cache mount lacks options''
      | Some opt \<Rightarrow>
          (case mget (da_caches a) (co_ID opt) of
             None \<Rightarrow> Inl ''LLB cache mount differs from its signed capability''
           | Some cache \<Rightarrow>
               if mo_Dest mount \<noteq> cc_Target cache \<or> co_Sharing opt \<noteq> cacheSharingOption (cc_Sharing cache)
               then Inl ''LLB cache mount differs from its signed capability''
               else let key = (case cacheAuthority l cache of None \<Rightarrow> [] | Some k \<Rightarrow> k) in
                    Inr (a\<lparr>da_observedCaches := List.insert key (da_observedCaches a)\<rparr>)))"

definition audit_mount :: "audit_lib \<Rightarrow> PbMount option \<Rightarrow> definitionAuditor \<Rightarrow> string + definitionAuditor" where
  "audit_mount l mount a =
     (case mount of None \<Rightarrow> Inl ''LLB execution contains an empty mount''
      | Some m \<Rightarrow>
          (case mo_MountType m of
             MountType_BIND \<Rightarrow> Inr a
           | MountType_TMPFS \<Rightarrow> Inr a
           | MountType_SECRET \<Rightarrow> auditSecretMount l m a
           | MountType_CACHE \<Rightarrow> auditCacheMount l m a
           | _ \<Rightarrow> Inl ''LLB execution contains an unsupported SSH or unknown mount''))"

definition policy_proxy :: "PbProxyEnv option \<Rightarrow> bool" where
  "policy_proxy proxy =
     (case proxy of None \<Rightarrow> False
      | Some p \<Rightarrow> px_HttpProxy p = BuildEgressProxyURL \<and> px_HttpsProxy p = BuildEgressProxyURL \<and> px_FtpProxy p = [] \<and>
                  px_NoProxy p = [] \<and> px_AllProxy p = [])"

definition auditExec ::
  "audit_lib \<Rightarrow> PbExec option \<Rightarrow> PbMetadata option \<Rightarrow> definitionAuditor \<Rightarrow> string + definitionAuditor" where
  "auditExec l execution metadata a =
     (case execution of None \<Rightarrow> Inl ''LLB execution requests unsupported ambient authority''
      | Some e \<Rightarrow>
        if ex_Security e \<noteq> SecurityMode_SANDBOX \<or> ex_Network e = NetMode_HOST \<or> ex_Secretenv e \<noteq> 0 \<or> ex_CdiDevices e \<noteq> 0
        then Inl ''LLB execution requests unsupported ambient authority''
        else
     (case ex_Meta e of None \<Rightarrow> Inl ''LLB execution metadata is absent''
      | Some meta \<Rightarrow>
        if me_ExtraHosts meta \<noteq> 0 then Inl ''LLB execution metadata requests unsupported network authority''
        else if me_CgroupParent meta \<noteq> [] \<or> me_Hostname meta \<noteq> [] \<or> me_Ulimit meta \<noteq> 0 \<or> me_ValidExitCodes meta \<noteq> 0
        then Inl ''LLB execution metadata requests unsupported process authority''
        else
     (case metadata of None \<Rightarrow> Inl ''LLB execution metadata is absent or carries resource authority''
      | Some md \<Rightarrow>
        if md_LinuxResources md then Inl ''LLB execution metadata is absent or carries resource authority''
        else let name = mstr (md_Description md) ''llb.customname'' in
     (case mget (da_networkNames a) name of
        None \<Rightarrow> Inl ''LLB execution is not bound to a signed network capability''
      | Some networkKey \<Rightarrow>
        let profile = networkProfileFromName name in
        if (profile = ''none'' \<and> ex_Network e \<noteq> NetMode_NONE) \<or> (profile \<noteq> ''none'' \<and> ex_Network e \<noteq> NetMode_UNSET)
        then Inl ''LLB execution network mode differs from its signed capability''
        else if profile = ''none'' \<and> me_ProxyEnv meta \<noteq> None
        then Inl ''Hermetic LLB execution carries proxy authority''
        else if profile \<noteq> ''none'' \<and> \<not> policy_proxy (me_ProxyEnv meta)
        then Inl ''Networked LLB execution does not use the exact policy proxy''
        else audit_each (audit_mount l) (ex_Mounts e)
               (a\<lparr>da_observedNetwork := List.insert networkKey (da_observedNetwork a)\<rparr>)))))"

text \<open>The first loop of \<open>audit\<close>: the operations by digest and the digest of the output vertex.\<close>

fun collect_operations :: "audit_lib \<Rightarrow> string list \<Rightarrow> PbOp strmap \<times> string \<Rightarrow> string + PbOp strmap \<times> string" where
  "collect_operations l [] acc = Inr acc"
| "collect_operations l (raw # raws) (operations, outputDigest) =
     (case al_op l raw of None \<Rightarrow> Inl ''LLB operation is malformed''
      | Some operation \<Rightarrow>
          let operationDigest = bytesDigest l raw in
          if mget operations operationDigest \<noteq> None then Inl ''LLB definition contains a duplicate operation''
          else if op_Kind operation = OpNil then
            (if outputDigest \<noteq> [] \<or> length (op_Inputs operation) \<noteq> 1
             then Inl ''LLB definition must contain exactly one output vertex''
             else collect_operations l raws (mput operationDigest operation operations, operationDigest))
          else collect_operations l raws (mput operationDigest operation operations, outputDigest))"

definition input_named :: "string option \<Rightarrow> bool" where
  "input_named input = (case input of None \<Rightarrow> False | Some d \<Rightarrow> has_prefix d ''sha256:'')"

definition audit_operation ::
  "audit_lib \<Rightarrow> PbOp \<Rightarrow> PbMetadata option \<Rightarrow> definitionAuditor \<Rightarrow> string + definitionAuditor" where
  "audit_operation l operation metadata a =
     (case auditPlatform a (op_Platform operation) of Some e \<Rightarrow> Inl e
      | None \<Rightarrow>
        if (case op_ConstraintFilter operation of None \<Rightarrow> False | Some f \<Rightarrow> f \<noteq> [])
        then Inl ''LLB operation carries unsupported worker constraints''
        else if \<not> list_all input_named (op_Inputs operation) then Inl ''LLB operation input identity is invalid''
        else
          (case op_Kind operation of
             OpSource source \<Rightarrow> auditSource l source a
           | OpExec execution \<Rightarrow> auditExec l execution metadata a
           | OpFile \<Rightarrow> Inr a
           | OpMerge \<Rightarrow> Inr a
           | OpDiff \<Rightarrow> Inr a
           | OpNil \<Rightarrow> Inr a
           | OpOther \<Rightarrow> Inl ''LLB contains an unsupported privileged operation''))"

text \<open>
  The second loop. Every digest it looks up was entered by the first loop; on a missing one Go
  would dereference a nil pointer, which is the first error below.
\<close>

definition audit_raw ::
  "audit_lib \<Rightarrow> PbDefinition \<Rightarrow> PbOp strmap \<Rightarrow> string \<Rightarrow> definitionAuditor \<Rightarrow> string + definitionAuditor" where
  "audit_raw l definition operations raw a =
     (case mget operations (bytesDigest l raw) of
        None \<Rightarrow> Inl ''nil pointer dereference''
      | Some operation \<Rightarrow> audit_operation l operation (mget (pd_Metadata definition) (bytesDigest l raw)) a)"

definition audit :: "audit_lib \<Rightarrow> string \<Rightarrow> definitionAuditor \<Rightarrow> string + definitionAuditor" where
  "audit l contents a =
     (case al_definition l contents of
        None \<Rightarrow> Inl ''LLB definition is malformed or exceeds graph limits''
      | Some definition \<Rightarrow>
        if pd_Def definition = [] \<or> length (pd_Def definition) > MaxNodes + 1
        then Inl ''LLB definition is malformed or exceeds graph limits''
        else
     (case collect_operations l (pd_Def definition) ([], []) of Inl e \<Rightarrow> Inl e
      | Inr (operations, outputDigest) \<Rightarrow>
        if outputDigest = [] \<or> \<not> completeLLBGraph operations outputDigest
        then Inl ''LLB definition is disconnected, cyclic, or has a missing input''
        else audit_each (audit_raw l definition operations) (pd_Def definition) a))"

definition equalStringSets :: "string list \<Rightarrow> string list \<Rightarrow> bool" where
  "equalStringSets left right \<longleftrightarrow> length left = length right \<and> list_all (\<lambda>key. key \<in> set right) left"

text \<open>
  The four pairs are compared in an unspecified order (a Go map); which of several mismatches is
  reported is not part of the model.
\<close>

definition complete :: "definitionAuditor \<Rightarrow> string option" where
  "complete a =
     (if \<not> equalStringSets (da_expectedMaterials a) (da_observedMaterials a) \<or>
         \<not> equalStringSets (da_expectedNetwork a) (da_observedNetwork a) \<or>
         \<not> equalStringSets (da_expectedSecrets a) (da_observedSecrets a) \<or>
         \<not> equalStringSets (da_expectedCaches a) (da_observedCaches a)
      then Some ''LLB capabilities do not exactly match the signed lock'' else None)"

definition AuditDefinitions :: "audit_lib \<Rightarrow> string list \<Rightarrow> DefinitionLock \<Rightarrow> string option" where
  "AuditDefinitions l definitions lock =
     (if definitions = [] \<or> length definitions \<noteq> length (dl_Outputs lock)
      then Some ''LLB definition set does not match the output lock''
      else case newDefinitionAuditor l lock of Inl e \<Rightarrow> Some e
        | Inr a \<Rightarrow> (case audit_each (audit l) definitions a of Inl e \<Rightarrow> Some e | Inr a' \<Rightarrow> complete a'))"

end
