(* ===== verification/Go_Codec.thy ===== *)
theory Go_Codec
  imports Go_Text
begin

text \<open>
  Two text formats of the Go standard library that the platform parses strictly: unpadded URL-safe
  base64 (\<open>base64.RawURLEncoding\<close>) and RFC 3339 times in UTC without fractions.
\<close>

section \<open>Base64\<close>

definition b64_char :: "nat \<Rightarrow> char" where
  "b64_char n =
     (if n < 26 then char_of (65 + n) else if n < 52 then char_of (71 + n) else if n < 62 then char_of (n - 4)
      else if n = 62 then CHR ''-'' else CHR ''_'')"

definition b64_value :: "char \<Rightarrow> nat option" where
  "b64_value c =
     (if is_upper c then Some (of_char c - 65) else if is_lower c then Some (of_char c - 71)
      else if is_digit c then Some (of_char c + 4) else if c = CHR ''-'' then Some 62 else if c = CHR ''_'' then Some 63 else None)"

fun b64_encode :: "uint8 list \<Rightarrow> string" where
  "b64_encode [] = []"
| "b64_encode [a] = (let n = unat a * 16 in [b64_char (n div 64), b64_char (n mod 64)])"
| "b64_encode [a, b] = (let n = (unat a * 256 + unat b) * 4 in [b64_char (n div 4096), b64_char (n div 64 mod 64), b64_char (n mod 64)])"
| "b64_encode (a # b # c # bs) =
     (let n = (unat a * 256 + unat b) * 256 + unat c in
      [b64_char (n div 262144), b64_char (n div 4096 mod 64), b64_char (n div 64 mod 64), b64_char (n mod 64)] @ b64_encode bs)"

fun b64_values :: "string \<Rightarrow> nat list option" where
  "b64_values [] = Some []"
| "b64_values (c # cs) =
     (case b64_value c of None \<Rightarrow> None | Some v \<Rightarrow> map_option ((#) v) (b64_values cs))"

text \<open>The trailing bits of an incomplete group are ignored, as the non-strict decoder does.\<close>

fun b64_groups :: "nat list \<Rightarrow> uint8 list option" where
  "b64_groups [] = Some []"
| "b64_groups [w] = None"
| "b64_groups [w, x] = Some [of_nat ((w * 64 + x) div 16)]"
| "b64_groups [w, x, y] = (let n = (w * 64 + x) * 64 + y in Some [of_nat (n div 1024), of_nat (n div 4 mod 256)])"
| "b64_groups (w # x # y # z # vs) =
     (let n = ((w * 64 + x) * 64 + y) * 64 + z in
      map_option (\<lambda>bs. of_nat (n div 65536) # of_nat (n div 256 mod 256) # of_nat (n mod 256) # bs) (b64_groups vs))"

text \<open>Carriage returns and newlines are skipped.\<close>

definition b64_decode :: "string \<Rightarrow> uint8 list option" where
  "b64_decode s =
     (case b64_values (filter (\<lambda>c. c \<noteq> CHR 0x0A \<and> c \<noteq> CHR 0x0D) s) of None \<Rightarrow> None | Some vs \<Rightarrow> b64_groups vs)"

lemma b64_value_char: "n < 64 \<Longrightarrow> b64_value (b64_char n) = Some n"
  by (auto simp: b64_char_def b64_value_def is_upper_def is_lower_def is_digit_def in_range_def)

lemma group4:
  assumes "n < 16777216"
  shows "((n div 262144 * 64 + n div 4096 mod 64) * 64 + n div 64 mod 64) * 64 + n mod 64 = (n::nat)"
proof -
  have "n div 262144 = n div 4096 div 64" "n div 4096 = n div 64 div 64" by (simp_all only: div_mult2_eq [symmetric] mult_numeral_left_semiring_numeral arith_simps)
  then show ?thesis by (metis div_mult_mod_eq)
qed

lemma group3: "(n div 4096 * 64 + n div 64 mod 64) * 64 + n mod 64 = (n::nat)"
proof -
  have "n div 4096 = n div 64 div 64" by (simp add: div_mult2_eq [symmetric])
  then show ?thesis by (metis div_mult_mod_eq)
qed

lemma div_mod_pack: "r < k \<Longrightarrow> (q * k + r) div k = q \<and> (q * k + r) mod k = (r::nat)"
  by simp

lemma byte_bounds:
  fixes x y z :: nat
  assumes "x < 256" "y < 256" "z < 256"
  shows "x * 16 < 4096" "(x * 256 + y) * 4 < 262144" "(x * 256 + y) * 256 + z < 16777216"
    "(x * 256 + y) * 4 div 1024 = x" "(x * 256 + y) * 4 div 4 mod 256 = y"
    "((x * 256 + y) * 256 + z) div 65536 = x" "((x * 256 + y) * 256 + z) div 256 mod 256 = y" "((x * 256 + y) * 256 + z) mod 256 = z"
proof -
  have le: "x \<le> 255" "y \<le> 255" "z \<le> 255" using assms by simp_all
  show "x * 16 < 4096" using le by simp
  show "(x * 256 + y) * 4 < 262144" using le by (simp add: algebra_simps)
  show "(x * 256 + y) * 256 + z < 16777216" using le by (simp add: algebra_simps)
  show "(x * 256 + y) * 4 div 1024 = x" using div_mod_pack [of "y * 4" 1024 x] le by (simp add: algebra_simps)
  show "(x * 256 + y) * 4 div 4 mod 256 = y" using div_mod_pack [of y 256 x] assms(2) by simp
  show "((x * 256 + y) * 256 + z) div 65536 = x" using div_mod_pack [of "y * 256 + z" 65536 x] le by (simp add: algebra_simps)
  show "((x * 256 + y) * 256 + z) div 256 mod 256 = y" using div_mod_pack [of z 256 "x * 256 + y"] div_mod_pack [of y 256 x] assms by simp
  show "((x * 256 + y) * 256 + z) mod 256 = z" using div_mod_pack [of z 256 "x * 256 + y"] assms(3) by blast
qed

lemma b64_encode_decode_values:
  "b64_values (b64_encode bs) \<noteq> None \<and> b64_groups (the (b64_values (b64_encode bs))) = Some bs"
proof (induction bs rule: b64_encode.induct)
  case (2 a)
  have n: "unat a * 16 div 64 < 64" using byte_bounds(1) [of "unat a" 0 0] by (simp add: less_mult_imp_div_less)
  have "(unat a * 16 div 64 * 64 + unat a * 16 mod 64) div 16 = unat a" unfolding div_mult_mod_eq by simp
  then show ?case using n unfolding b64_encode.simps Let_def
    by (simp only: b64_values.simps b64_value_char option.simps mod_less_divisor zero_less_numeral b64_groups.simps option.sel) simp
next
  case (3 a b)
  let ?n = "(unat a * 256 + unat b) * 4"
  note n = byte_bounds [of "unat a" "unat b" 0, OF unat_uint8_less unat_uint8_less]
  have "?n div 4096 < 64" using n(2) by (intro less_mult_imp_div_less) simp
  then show ?case unfolding b64_encode.simps Let_def
    by (simp only: b64_values.simps b64_value_char option.simps mod_less_divisor zero_less_numeral b64_groups.simps option.sel Let_def group3 n(4,5)) simp
next
  case (4 a b c bs)
  let ?n = "(unat a * 256 + unat b) * 256 + unat c"
  note n = byte_bounds [of "unat a" "unat b" "unat c", OF unat_uint8_less unat_uint8_less unat_uint8_less]
  have "?n div 262144 < 64" using n(3) by (intro less_mult_imp_div_less) simp
  moreover obtain vs where "b64_values (b64_encode bs) = Some vs" "b64_groups vs = Some bs" using 4 by auto
  ultimately show ?case unfolding b64_encode.simps Let_def
    by (simp only: b64_values.simps b64_value_char option.simps mod_less_divisor zero_less_numeral b64_groups.simps option.sel
        Let_def append.simps group4 [OF n(3)] n(6,7,8)) simp
qed simp

lemma b64_values_no_newline: "b64_values s = Some vs \<Longrightarrow> c \<in> set s \<Longrightarrow> c \<noteq> CHR 0x0A \<and> c \<noteq> CHR 0x0D"
  by (induction s arbitrary: vs)
    (auto simp: b64_value_def is_upper_def is_lower_def is_digit_def in_range_def split: option.splits if_splits)

lemma b64_encode_no_newline: "c \<in> set (b64_encode bs) \<Longrightarrow> c \<noteq> CHR 0x0A \<and> c \<noteq> CHR 0x0D"
  using b64_encode_decode_values [of bs] b64_values_no_newline by blast

lemma b64_roundtrip: "b64_decode (b64_encode bs) = Some bs"
proof -
  have "filter (\<lambda>c. c \<noteq> CHR 0x0A \<and> c \<noteq> CHR 0x0D) (b64_encode bs) = b64_encode bs"
    using b64_encode_no_newline by (auto intro: filter_True)
  then show ?thesis using b64_encode_decode_values [of bs] by (auto simp: b64_decode_def)
qed

section \<open>Padded base64\<close>

text \<open>
  \<open>base64.StdEncoding\<close>: another alphabet for 62 and 63, and padding to a multiple of four. Newlines
  are skipped; a text is refused if padding is missing, misplaced or too long.
\<close>

definition std_char :: "char \<Rightarrow> char" where
  "std_char c = (if c = CHR ''-'' then CHR ''+'' else if c = CHR ''_'' then CHR ''/'' else c)"

definition std_value :: "char \<Rightarrow> nat option" where
  "std_value c =
     (if c = CHR ''+'' then Some 62 else if c = CHR ''/'' then Some 63
      else if c = CHR ''-'' \<or> c = CHR ''_'' then None else b64_value c)"

fun std_values :: "string \<Rightarrow> nat list option" where
  "std_values [] = Some []"
| "std_values (c # cs) = (case std_value c of None \<Rightarrow> None | Some v \<Rightarrow> map_option ((#) v) (std_values cs))"

definition b64std_encode :: "uint8 list \<Rightarrow> string" where
  "b64std_encode bs = map std_char (b64_encode bs) @ replicate ((3 - length bs mod 3) mod 3) CHR ''=''"

definition b64std_decode :: "string \<Rightarrow> uint8 list option" where
  "b64std_decode s =
     (let text = filter (\<lambda>c. c \<noteq> CHR 0x0A \<and> c \<noteq> CHR 0x0D) s;
          body = takeWhile (\<lambda>c. c \<noteq> CHR ''='') text; padding = drop (length body) text in
      if length text mod 4 = 0 \<and> (padding = [] \<or> padding = ''='' \<or> padding = ''=='')
      then case std_values body of None \<Rightarrow> None | Some vs \<Rightarrow> b64_groups vs
      else None)"

lemma std_value_char: "b64_value c = Some v \<Longrightarrow> std_value (std_char c) = Some v"
  by (auto simp: std_value_def std_char_def b64_value_def is_upper_def is_lower_def is_digit_def in_range_def split: if_splits)

lemma std_values_chars: "b64_values s = Some vs \<Longrightarrow> std_values (map std_char s) = Some vs"
  by (induction s arbitrary: vs) (auto simp: std_value_char split: option.splits)

lemma std_char_plain:
  "b64_value c = Some v \<Longrightarrow> std_char c \<noteq> CHR ''='' \<and> std_char c \<noteq> CHR 0x0A \<and> std_char c \<noteq> CHR 0x0D"
  by (auto simp: std_char_def b64_value_def is_upper_def is_lower_def is_digit_def in_range_def split: if_splits)

lemma b64_values_all: "b64_values s = Some vs \<Longrightarrow> c \<in> set s \<Longrightarrow> \<exists>v. b64_value c = Some v"
  by (induction s arbitrary: vs) (auto split: option.splits)

lemma length_b64_encode: "(length (b64_encode bs) + (3 - length bs mod 3) mod 3) mod 4 = 0"
proof (induction bs rule: b64_encode.induct)
  case (4 a b c bs)
  have "length (a # b # c # bs) = length bs + 3" by simp
  then have "length (a # b # c # bs) mod 3 = length bs mod 3" by (simp only: mod_add_self2)
  moreover have "length (b64_encode (a # b # c # bs)) = 4 + length (b64_encode bs)" by (simp add: Let_def)
  ultimately show ?case using 4 by (simp only: add.assoc mod_add_self1)
qed (simp_all add: Let_def)

lemma b64std_roundtrip: "b64std_decode (b64std_encode bs) = Some bs"
proof -
  obtain vs where vs: "b64_values (b64_encode bs) = Some vs" "b64_groups vs = Some bs" using b64_encode_decode_values [of bs] by auto
  let ?pad = "replicate ((3 - length bs mod 3) mod 3) CHR ''=''"
  have plain: "c \<noteq> CHR ''='' \<and> c \<noteq> CHR 0x0A \<and> c \<noteq> CHR 0x0D" if "c \<in> set (map std_char (b64_encode bs))" for c
    using that b64_values_all [OF vs(1)] std_char_plain by fastforce
  have kept: "filter (\<lambda>c. c \<noteq> CHR 0x0A \<and> c \<noteq> CHR 0x0D) (b64std_encode bs) = b64std_encode bs"
    using plain by (intro filter_True) (auto simp: b64std_encode_def)
  have body: "takeWhile (\<lambda>c. c \<noteq> CHR ''='') (b64std_encode bs) = map std_char (b64_encode bs)"
  proof -
    have "takeWhile (\<lambda>c. c \<noteq> CHR ''='') (b64std_encode bs) = map std_char (b64_encode bs) @ takeWhile (\<lambda>c. c \<noteq> CHR ''='') ?pad"
      unfolding b64std_encode_def using plain by (intro takeWhile_append2) blast
    then show ?thesis by simp
  qed
  have "length bs mod 3 = 0 \<or> length bs mod 3 = 1 \<or> length bs mod 3 = 2" by linarith
  then have pad: "?pad = [] \<or> ?pad = ''='' \<or> ?pad = ''==''" by (elim disjE) (simp_all add: numeral_2_eq_2)
  have len: "length (b64std_encode bs) mod 4 = 0" using length_b64_encode [of bs] by (simp add: b64std_encode_def)
  have rest: "drop (length (map std_char (b64_encode bs))) (b64std_encode bs) = ?pad" by (simp add: b64std_encode_def)
  have "b64std_decode (b64std_encode bs) = (case std_values (map std_char (b64_encode bs)) of None \<Rightarrow> None | Some vs \<Rightarrow> b64_groups vs)"
    unfolding b64std_decode_def Let_def kept body rest using pad len by (simp only: simp_thms if_True)
  then show ?thesis using std_values_chars [OF vs(1)] vs(2) by simp
qed

section \<open>Times\<close>

definition leap_year :: "int \<Rightarrow> bool" where
  "leap_year y \<longleftrightarrow> y mod 4 = 0 \<and> (y mod 100 \<noteq> 0 \<or> y mod 400 = 0)"

definition days_in_month :: "int \<Rightarrow> int \<Rightarrow> int" where
  "days_in_month y m = (if m = 2 then (if leap_year y then 29 else 28) else if m \<in> {4, 6, 9, 11} then 30 else 31)"

text \<open>Days since the first day of year 1 of the proleptic Gregorian calendar.\<close>

definition civil_days :: "int \<Rightarrow> int \<Rightarrow> int \<Rightarrow> int" where
  "civil_days y m d =
     365 * (y - 1) + (y - 1) div 4 - (y - 1) div 100 + (y - 1) div 400 +
     sum_list (map (days_in_month y) [1..m - 1]) + (d - 1)"

definition text_field :: "string \<Rightarrow> nat \<Rightarrow> nat \<Rightarrow> int option" where
  "text_field s i n = atoi_digits (take n (drop i s))"

text \<open>
  The texts that \<open>time.Parse(time.RFC3339, s)\<close> accepts and that \<open>Format\<close> gives back in UTC:
  \<^verbatim>\<open>YYYY-MM-DDTHH:MM:SSZ\<close> with the fields in range. Fractions, offsets and short fields do not survive
  the comparison with the canonical text.
\<close>

definition rfc3339_utc :: "string \<Rightarrow> time option" where
  "rfc3339_utc s =
     (if length s = 20 \<and> s ! 4 = CHR ''-'' \<and> s ! 7 = CHR ''-'' \<and> s ! 10 = CHR ''T'' \<and> s ! 13 = CHR '':'' \<and> s ! 16 = CHR '':'' \<and>
         s ! 19 = CHR ''Z'' then
        (case (text_field s 0 4, text_field s 5 2, text_field s 8 2, text_field s 11 2, text_field s 14 2, text_field s 17 2) of
           (Some y, Some mo, Some d, Some h, Some mi, Some sec) \<Rightarrow>
             if 1 \<le> mo \<and> mo \<le> 12 \<and> 1 \<le> d \<and> d \<le> days_in_month y mo \<and> h < 24 \<and> mi < 60 \<and> sec < 60
             then Some ((((civil_days y mo d * 24 + h) * 60 + mi) * 60 + sec) * second) else None
         | _ \<Rightarrow> None)
      else None)"

lemma civil_days_unix_epoch: "civil_days 1970 1 1 * 86400 * second = unix_epoch"
  by (simp add: civil_days_def unix_epoch_def)

lemma rfc3339_whole_second: "rfc3339_utc s = Some t \<Longrightarrow> second dvd t"
  by (auto simp: rfc3339_utc_def split: if_splits option.splits)

end
