(* ===== verification/Assignment.thy ===== *)
theory Assignment
  imports Llb_Audit Go_Codec
begin

text \<open>
  Signed build assignments (\<^verbatim>\<open>src/services/build-plane/internal/buildcell/assignment.go\<close> and
  \<^verbatim>\<open>codec.go\<close>): signing, verification of an envelope against the cell's keys, clock and object prefix,
  validation of the payload and of its definition lock, resolution of the artifacts and the strict
  envelope codec. Ed25519, canonical JSON, the protobuf decoder and the LLB head are fields of
  \<open>assignment_lib\<close>; keys and contents are byte strings. An error is its code.
\<close>

section \<open>Data\<close>

record SourceArtifact =
  sa_SnapshotDigest :: string
  sa_ArchiveDigest :: string
  sa_ArchiveRef :: string
  sa_SizeBytes :: int

record OutputArtifact =
  oa_Name :: string
  oa_Kind :: string
  oa_LLBDigest :: string
  oa_Head :: string
  oa_LLBRef :: string
  oa_ConfigDigest :: string
  oa_ConfigRef :: string

record Payload =
  pl_Version :: int
  pl_BuildID :: string
  pl_CellID :: string
  pl_OrganizationID :: string
  pl_ProjectID :: string
  pl_OperationID :: string
  pl_Generation :: uint64
  pl_Nonce :: string
  pl_IssuedAt :: string
  pl_ExpiresAt :: string
  pl_DefinitionDigest :: string
  pl_Lock :: DefinitionLock
  pl_Source :: SourceArtifact
  pl_Outputs :: "OutputArtifact list"

record Envelope =
  en_KeyID :: string
  en_Payload :: Payload
  en_Signature :: string

record VerifiedAssignment =
  va_Payload :: Payload
  va_PayloadDigest :: string
  va_KeyID :: string
  va_verified :: bool

record VerifierOptions =
  vo_CellID :: string
  vo_Keys :: "string strmap"
  vo_ObjectPrefix :: string
  vo_MaxTTL :: duration
  vo_MaxFutureSkew :: duration

record Verifier =
  vf_cellID :: string
  vf_keys :: "string strmap"
  vf_objectPrefix :: string
  vf_maxTTL :: duration
  vf_maxFutureSkew :: duration

record ResolvedOutput =
  ro_Name :: string
  ro_Kind :: string
  ro_Definition :: string
  ro_Config :: string

record ResolvedAssignment =
  ra_Verified :: VerifiedAssignment
  ra_Outputs :: "ResolvedOutput list"
  ra_resolved :: bool

record assignment_lib =
  as_audit :: audit_lib
  as_payload :: "Payload \<Rightarrow> string option"
  as_envelope :: "(Envelope, string) codec"
  as_sign :: "string \<Rightarrow> string \<Rightarrow> uint8 list"
  as_verify :: "string \<Rightarrow> string \<Rightarrow> uint8 list \<Rightarrow> bool"
  as_head :: "PbDefinition \<Rightarrow> string option"

type_synonym assignment_error = string

definition CurrentAssignmentVersion :: int where
  "CurrentAssignmentVersion = 1"

definition DefaultMaxAssignmentTTL :: duration where
  "DefaultMaxAssignmentTTL = hour"

definition DefaultMaxFutureSkew :: duration where
  "DefaultMaxFutureSkew = 30 * second"

definition MaxDefinitionBytes :: nat where
  "MaxDefinitionBytes = 16777216"

definition MaxConfigBytes :: nat where
  "MaxConfigBytes = 1048576"

definition MaxEnvelopeBytes :: nat where
  "MaxEnvelopeBytes = 1048576"

section \<open>Text checks\<close>

text \<open>\<^verbatim>\<open>^s3://[a-z0-9][a-z0-9.-]{2,62}/[A-Za-z0-9._/-]+$\<close>\<close>

definition objectReference :: "string \<Rightarrow> bool" where
  "objectReference s \<longleftrightarrow>
     has_prefix s ''s3://'' \<and>
     (case cut CHR ''/'' (trim_prefix s ''s3://'') of
        None \<Rightarrow> False
      | Some (bucket, key) \<Rightarrow>
          3 \<le> length bucket \<and> length bucket \<le> 63 \<and> lower_or_digit (hd bucket) \<and>
          list_all (\<lambda>c. lower_or_digit c \<or> c \<in> set ''.-'') bucket \<and>
          key \<noteq> [] \<and> list_all (\<lambda>c. lower_or_digit c \<or> is_upper c \<or> c \<in> set ''._/-'') key)"

text \<open>\<^verbatim>\<open>^lrail-cache-[0-9a-f]{64}$\<close>\<close>

definition cacheNamespacePattern :: "string \<Rightarrow> bool" where
  "cacheNamespacePattern s \<longleftrightarrow> has_prefix s ''lrail-cache-'' \<and> hex64_pattern (trim_prefix s ''lrail-cache-'')"

text \<open>
  \<open>netip.ParseAddr\<close> on a text that matches the host name pattern: it has no colon and no percent
  sign, so only the dotted IPv4 form can succeed.
\<close>

definition ipv4_field :: "string \<Rightarrow> bool" where
  "ipv4_field s \<longleftrightarrow> s \<noteq> [] \<and> length s \<le> 3 \<and> list_all is_digit s \<and> (hd s = CHR ''0'' \<longrightarrow> length s = 1) \<and>
     (case atoi_digits s of None \<Rightarrow> False | Some v \<Rightarrow> v \<le> 255)"

definition ipv4_text :: "string \<Rightarrow> bool" where
  "ipv4_text s \<longleftrightarrow> (let fields = split_on CHR ''.'' s in length fields = 4 \<and> list_all ipv4_field fields)"

definition validEgressHostname :: "string \<Rightarrow> bool" where
  "validEgressHostname value \<longleftrightarrow>
     hostname_pattern value \<and> value \<noteq> ''localhost'' \<and> \<not> has_suffix value ''.localhost'' \<and> \<not> ipv4_text value"

definition validRegistry :: "string \<Rightarrow> bool" where
  "validRegistry value =
     (case cut CHR '':'' value of
        None \<Rightarrow> validEgressHostname value
      | Some (candidate, portText) \<Rightarrow>
          (case atoi portText of None \<Rightarrow> False
           | Some port \<Rightarrow> 1 \<le> port \<and> port \<le> 65535 \<and> validEgressHostname candidate))"

definition boundedLockText :: "string \<Rightarrow> bool \<Rightarrow> bool" where
  "boundedLockText value allowEmpty = bounded_text value allowEmpty"

definition safeContainerPath :: "string \<Rightarrow> string \<Rightarrow> bool" where
  "safeContainerPath value prefix \<longleftrightarrow>
     length value \<le> 4096 \<and> has_prefix value ''/'' \<and> path_clean value = value \<and> value \<noteq> ''/'' \<and> has_prefix value prefix"

definition parseWholeSecond :: "string \<Rightarrow> assignment_error + time" where
  "parseWholeSecond value = (case rfc3339_utc value of None \<Rightarrow> Inl ''assignment.timestamp'' | Some t \<Rightarrow> Inr t)"

definition validateID :: "string \<Rightarrow> string \<Rightarrow> assignment_error option" where
  "validateID value prefix = (if has_id_prefix value prefix then None else Some ''assignment.scope'')"

section \<open>The definition lock\<close>

text \<open>The body of each loop of \<open>validateLock\<close>; all errors have one code.\<close>

definition lock_error :: assignment_error where
  "lock_error = ''assignment.lock''"

definition reject :: "bool \<Rightarrow> assignment_error option" where
  "reject bad = (if bad then Some lock_error else None)"

definition bad_argument :: "NameValue \<Rightarrow> bool" where
  "bad_argument a \<longleftrightarrow> \<not> environment_key_pattern (nv_Name a) \<or> \<not> boundedLockText (nv_Value a) True"

definition bad_material :: "audit_lib \<Rightarrow> BaseMaterial \<Rightarrow> bool" where
  "bad_material l m \<longleftrightarrow>
     \<not> boundedLockText (bm_RequestedRef m) False \<or> \<not> boundedLockText (bm_ResolvedRef m) False \<or>
     \<not> digest_pattern (bm_Digest m) \<or> \<not> has_suffix (bm_RequestedRef m) (''@'' @ bm_Digest m) \<or>
     \<not> has_suffix (bm_ResolvedRef m) (''@'' @ bm_Digest m) \<or> \<not> validRegistry (bm_Registry m) \<or>
     bm_Classification m \<notin> set [''curated'', ''customer''] \<or> bm_Platforms m = [] \<or> length (bm_Platforms m) > 32 \<or>
     \<not> boundedLockText (bm_SignatureIdentity m) False \<or> \<not> digest_pattern (bm_ResolutionDigest m) \<or>
     (bm_SBOMDigest m \<noteq> [] \<and> \<not> digest_pattern (bm_SBOMDigest m)) \<or>
     (bm_ProvenanceDigest m \<noteq> [] \<and> \<not> digest_pattern (bm_ProvenanceDigest m)) \<or>
     \<not> list_all (\<lambda>p. boundedLockText p False) (bm_Platforms m) \<or>
     ResolutionDigest (al_hash l) m \<noteq> Some (bm_ResolutionDigest m)"

definition bad_network :: "NetworkCapability \<Rightarrow> bool" where
  "bad_network n \<longleftrightarrow>
     \<not> node_id_pattern (nc_NodeID n) \<or> nc_Profile n \<notin> set [''none'', ''packages'', ''allowlist'', ''private''] \<or>
     length (nc_Hosts n) > 128 \<or> \<not> list_all validEgressHostname (nc_Hosts n) \<or>
     (nc_Profile n = ''none'' \<and> (nc_Hosts n \<noteq> [] \<or> nc_GatewayID n \<noteq> [])) \<or>
     (nc_Profile n \<in> set [''packages'', ''allowlist''] \<and> (nc_Hosts n = [] \<or> \<not> capability_pattern (nc_GatewayID n))) \<or>
     (nc_Profile n = ''private'' \<and> (nc_Hosts n \<noteq> [] \<or> \<not> capability_pattern (nc_GatewayID n)))"

definition bad_cache :: "CacheCapability \<Rightarrow> bool" where
  "bad_cache c \<longleftrightarrow>
     \<not> node_id_pattern (cc_NodeID c) \<or> \<not> capability_pattern (cc_Name c) \<or> \<not> safeContainerPath (cc_Target c) ''/'' \<or>
     cc_Scope c \<notin> set [''organization'', ''project''] \<or> cc_Sharing c \<notin> set [''locked'', ''private'', ''shared''] \<or>
     \<not> cacheNamespacePattern (cc_Namespace c)"

definition bad_secret :: "SecretCapability \<Rightarrow> bool" where
  "bad_secret s \<longleftrightarrow>
     \<not> node_id_pattern (sk_NodeID s) \<or> \<not> capability_pattern (sk_Name s) \<or> sk_MountID s \<noteq> sk_Name s \<or>
     \<not> safeContainerPath (sk_Target s) ''/run/secrets/''"

definition bad_output_lock :: "OutputLock \<Rightarrow> bool" where
  "bad_output_lock out \<longleftrightarrow>
     \<not> output_name_pattern (ol_Name out) \<or> ol_Kind out \<notin> set [''oci_image'', ''static_bundle''] \<or>
     \<not> node_id_pattern (ol_StateID out) \<or> \<not> digest_pattern (ol_LLBDigest out) \<or> \<not> digest_pattern (ol_ConfigDigest out)"

text \<open>
  A loop that refuses a second capability of a node or a second key of its own kind; \<open>nodeIDs\<close> is
  shared by the loops over networks, caches and secrets.
\<close>

fun check_capabilities ::
  "('a \<Rightarrow> bool) \<Rightarrow> ('a \<Rightarrow> string) \<Rightarrow> ('a \<Rightarrow> string) \<Rightarrow> string list \<Rightarrow> string list \<Rightarrow> 'a list \<Rightarrow> assignment_error + string list" where
  "check_capabilities bad node key nodeIDs seen [] = Inr nodeIDs"
| "check_capabilities bad node key nodeIDs seen (x # xs) =
     (if bad x \<or> node x \<in> set nodeIDs \<or> key x \<in> set seen then Inl lock_error
      else check_capabilities bad node key (node x # nodeIDs) (key x # seen) xs)"

definition check_core_lock :: "DefinitionLock \<Rightarrow> bool" where
  "check_core_lock lock \<longleftrightarrow>
     dl_Version lock = CurrentLockVersion \<and> semver_pattern (dl_CompilerVersion lock) \<and> digest_pattern (dl_IRDigest lock) \<and>
     digest_pattern (dl_PolicyDigest lock) \<and> digest_pattern (dl_SourceSnapshot lock) \<and>
     dl_TargetPlatform lock \<in> set [''linux/amd64'', ''linux/arm64''] \<and>
     length (dl_BuildArguments lock) \<le> 64 \<and> length (dl_BaseMaterials lock) \<le> MaxNodes \<and> length (dl_Network lock) \<le> MaxNodes \<and>
     length (dl_Caches lock) \<le> MaxNodes \<and> length (dl_Secrets lock) \<le> MaxNodes \<and> dl_Outputs lock \<noteq> [] \<and>
     length (dl_Outputs lock) \<le> MaxOutputs"

definition validateLock :: "audit_lib \<Rightarrow> DefinitionLock \<Rightarrow> assignment_error option" where
  "validateLock l lock =
     (if \<not> check_core_lock lock then Some lock_error
      else if ValidateSupplyChainPolicy (dl_SupplyChain lock) \<noteq> None then Some lock_error
      else case check_unique (\<lambda>a. reject (bad_argument a)) nv_Name lock_error [] (dl_BuildArguments lock) of Some e \<Rightarrow> Some e
      | None \<Rightarrow>
     (case check_unique (\<lambda>m. reject (bad_material l m)) bm_RequestedRef lock_error [] (dl_BaseMaterials lock) of Some e \<Rightarrow> Some e
      | None \<Rightarrow>
     (case check_capabilities bad_network nc_NodeID nc_NodeID [] [] (dl_Network lock) of Inl e \<Rightarrow> Some e
      | Inr nodeIDs1 \<Rightarrow>
     (case check_capabilities bad_cache cc_NodeID cc_Namespace nodeIDs1 [] (dl_Caches lock) of Inl e \<Rightarrow> Some e
      | Inr nodeIDs2 \<Rightarrow>
     (case check_capabilities bad_secret sk_NodeID sk_MountID nodeIDs2 [] (dl_Secrets lock) of Inl e \<Rightarrow> Some e
      | Inr _ \<Rightarrow> check_unique (\<lambda>out. reject (bad_output_lock out)) ol_Name lock_error [] (dl_Outputs lock))))))"

section \<open>Verification\<close>

definition NewVerifier :: "VerifierOptions \<Rightarrow> assignment_error + Verifier" where
  "NewVerifier options =
     (case validateID (vo_CellID options) ''cell'' of Some e \<Rightarrow> Inl e
      | None \<Rightarrow>
        if vo_Keys options = [] \<or> length (vo_Keys options) > 16 then Inl ''assignment.key_set''
        else if list_ex (\<lambda>(keyID, key). \<not> capability_pattern keyID \<or> length key \<noteq> 32) (vo_Keys options)
        then Inl ''assignment.key_set''
        else if \<not> has_suffix (vo_ObjectPrefix options) ''/'' \<or> \<not> objectReference (vo_ObjectPrefix options @ ''probe'')
        then Inl ''assignment.object_prefix''
        else
          let maxTTL = (if vo_MaxTTL options = 0 then DefaultMaxAssignmentTTL else vo_MaxTTL options);
              skew = (if vo_MaxFutureSkew options = 0 then DefaultMaxFutureSkew else vo_MaxFutureSkew options) in
          if maxTTL \<le> 0 \<or> maxTTL > DefaultMaxAssignmentTTL \<or> skew < 0 \<or> skew > minute then Inl ''assignment.time_policy''
          else Inr \<lparr>vf_cellID = vo_CellID options, vf_keys = vo_Keys options, vf_objectPrefix = vo_ObjectPrefix options,
                    vf_maxTTL = maxTTL, vf_maxFutureSkew = skew\<rparr>)"

definition Sign :: "assignment_lib \<Rightarrow> Payload \<Rightarrow> string \<Rightarrow> string \<Rightarrow> assignment_error + Envelope" where
  "Sign l payload keyID privateKey =
     (if \<not> capability_pattern keyID \<or> length privateKey \<noteq> 64 then Inl ''assignment.signing_key''
      else case as_payload l payload of None \<Rightarrow> Inl ''canonicalize assignment''
        | Some canonical \<Rightarrow>
            Inr \<lparr>en_KeyID = keyID, en_Payload = payload, en_Signature = b64_encode (as_sign l privateKey canonical)\<rparr>)"

definition invalid_path :: "string \<Rightarrow> bool" where
  "invalid_path reference =
     (case cut CHR ''/'' (trim_prefix reference ''s3://'') of
        None \<Rightarrow> True
      | Some (_, pathPart) \<Rightarrow>
          contains_str pathPart ''//'' \<or> list_ex (\<lambda>segment. segment = ''.'' \<or> segment = ''..'') (split_on CHR ''/'' pathPart))"

definition validateReference :: "Verifier \<Rightarrow> string \<Rightarrow> assignment_error option" where
  "validateReference verifier reference =
     (if \<not> objectReference reference \<or> \<not> has_prefix reference (vf_objectPrefix verifier) \<or> invalid_path reference
      then Some ''assignment.object_ref'' else None)"

text \<open>
  The identities, as the map literal of the code has them: keyed by the identity, so that for two
  equal identities only the later prefix is left.
\<close>

definition id_prefixes :: "Payload \<Rightarrow> string strmap" where
  "id_prefixes payload =
     mput (pl_OperationID payload) ''op'' (mput (pl_ProjectID payload) ''prj'' (mput (pl_OrganizationID payload) ''org''
       (mput (pl_CellID payload) ''cell'' (mput (pl_BuildID payload) ''bld'' []))))"

definition bad_output :: "OutputArtifact \<Rightarrow> OutputLock \<Rightarrow> bool" where
  "bad_output out locked \<longleftrightarrow>
     oa_Name out \<noteq> ol_Name locked \<or> oa_Kind out \<noteq> ol_Kind locked \<or> oa_LLBDigest out \<noteq> ol_LLBDigest locked \<or>
     oa_ConfigDigest out \<noteq> ol_ConfigDigest locked \<or> \<not> output_name_pattern (oa_Name out) \<or>
     oa_Kind out \<notin> set [''oci_image'', ''static_bundle''] \<or> \<not> digest_pattern (oa_LLBDigest out) \<or> \<not> digest_pattern (oa_Head out) \<or>
     \<not> digest_pattern (oa_ConfigDigest out)"

fun validate_outputs :: "Verifier \<Rightarrow> string list \<Rightarrow> (OutputArtifact \<times> OutputLock) list \<Rightarrow> assignment_error option" where
  "validate_outputs verifier seen [] = None"
| "validate_outputs verifier seen ((out, locked) # rest) =
     (if bad_output out locked \<or> oa_Name out \<in> set seen then Some ''assignment.outputs''
      else case validateReference verifier (oa_LLBRef out) of Some e \<Rightarrow> Some e
        | None \<Rightarrow> (case validateReference verifier (oa_ConfigRef out) of Some e \<Rightarrow> Some e
           | None \<Rightarrow> validate_outputs verifier (oa_Name out # seen) rest))"

definition validate_window :: "Verifier \<Rightarrow> time \<Rightarrow> Payload \<Rightarrow> assignment_error option" where
  "validate_window verifier now payload =
     (case parseWholeSecond (pl_IssuedAt payload) of Inl e \<Rightarrow> Some e
      | Inr issuedAt \<Rightarrow>
     (case parseWholeSecond (pl_ExpiresAt payload) of Inl e \<Rightarrow> Some e
      | Inr expiresAt \<Rightarrow>
        if issuedAt > now + vf_maxFutureSkew verifier \<or> \<not> expiresAt > now \<or> \<not> expiresAt > issuedAt \<or>
           time_sub expiresAt issuedAt > vf_maxTTL verifier
        then Some ''assignment.expiry'' else None))"

definition validatePayload :: "assignment_lib \<Rightarrow> Verifier \<Rightarrow> time \<Rightarrow> Payload \<Rightarrow> assignment_error option" where
  "validatePayload l verifier now payload =
     (if pl_Version payload \<noteq> CurrentAssignmentVersion then Some ''assignment.version''
      else case check_each (\<lambda>(value, prefix). validateID value prefix) (id_prefixes payload) of Some e \<Rightarrow> Some e
      | None \<Rightarrow>
        if pl_CellID payload \<noteq> vf_cellID verifier then Some ''assignment.audience''
        else if pl_Generation payload = 0 \<or> \<not> hex64_pattern (pl_Nonce payload) then Some ''assignment.replay_identity''
        else
     (case validate_window verifier now payload of Some e \<Rightarrow> Some e
      | None \<Rightarrow>
        if LockDigest (al_hash (as_audit l)) (pl_Lock payload) \<noteq> Some (pl_DefinitionDigest payload) \<or>
           \<not> digest_pattern (pl_DefinitionDigest payload)
        then Some ''assignment.definition_digest''
        else if sa_SnapshotDigest (pl_Source payload) \<noteq> dl_SourceSnapshot (pl_Lock payload) \<or>
           \<not> digest_pattern (sa_ArchiveDigest (pl_Source payload)) \<or> sa_SizeBytes (pl_Source payload) \<le> 0 \<or>
           sa_SizeBytes (pl_Source payload) > 2 ^ 30
        then Some ''assignment.source''
        else
     (case validateReference verifier (sa_ArchiveRef (pl_Source payload)) of Some e \<Rightarrow> Some e
      | None \<Rightarrow>
        if pl_Outputs payload = [] \<or> length (pl_Outputs payload) > MaxOutputs \<or>
           length (pl_Outputs payload) \<noteq> length (dl_Outputs (pl_Lock payload))
        then Some ''assignment.outputs''
        else
     (case validate_outputs verifier [] (zip (pl_Outputs payload) (dl_Outputs (pl_Lock payload))) of Some e \<Rightarrow> Some e
      | None \<Rightarrow> validateLock (as_audit l) (pl_Lock payload)))))"

definition Verify :: "assignment_lib \<Rightarrow> Verifier \<Rightarrow> time \<Rightarrow> Envelope \<Rightarrow> assignment_error + VerifiedAssignment" where
  "Verify l verifier now envelope =
     (case mget (vf_keys verifier) (en_KeyID envelope) of None \<Rightarrow> Inl ''assignment.key_unknown''
      | Some key \<Rightarrow>
     (case as_payload l (en_Payload envelope) of None \<Rightarrow> Inl ''assignment.canonical''
      | Some canonical \<Rightarrow>
     (case b64_decode (en_Signature envelope) of None \<Rightarrow> Inl ''assignment.signature''
      | Some signature \<Rightarrow>
        if length signature \<noteq> 64 \<or> \<not> as_verify l key canonical signature then Inl ''assignment.signature''
        else
     (case validatePayload l verifier now (en_Payload envelope) of Some e \<Rightarrow> Inl e
      | None \<Rightarrow>
          Inr \<lparr>va_Payload = en_Payload envelope, va_PayloadDigest = bytesDigest (as_audit l) canonical,
               va_KeyID = en_KeyID envelope, va_verified = True\<rparr>))))"

section \<open>Resolution\<close>

text \<open>
  An artifact store answers with an error or with a stream: the bytes it delivers and whether it
  then ends cleanly. \<open>io.LimitReader\<close> stops one byte after the limit, so a failure beyond that is
  not seen.
\<close>

datatype artifact = OpenFailed | Stream string bool

type_synonym artifact_store = "string \<Rightarrow> nat \<Rightarrow> artifact"

definition readArtifact :: "assignment_lib \<Rightarrow> artifact_store \<Rightarrow> string \<Rightarrow> nat \<Rightarrow> string \<Rightarrow> assignment_error + string" where
  "readArtifact l store reference limit expectedDigest =
     (case store reference limit of
        OpenFailed \<Rightarrow> Inl ''assignment.artifact_read''
      | Stream stream clean \<Rightarrow>
          let contents = take (limit + 1) stream in
          if (\<not> clean \<and> length stream \<le> limit) \<or> length contents > limit \<or> bytesDigest (as_audit l) contents \<noteq> expectedDigest
          then Inl ''assignment.artifact_digest'' else Inr contents)"

definition verifyDefinition :: "assignment_lib \<Rightarrow> string \<Rightarrow> string \<Rightarrow> assignment_error option" where
  "verifyDefinition l contents expectedHead =
     (case al_definition (as_audit l) contents of None \<Rightarrow> Some ''assignment.llb''
      | Some wire \<Rightarrow>
          if pd_Def wire = [] then Some ''assignment.llb''
          else if as_head l wire \<noteq> Some expectedHead then Some ''assignment.llb_head'' else None)"

definition validateProof :: "assignment_lib \<Rightarrow> VerifiedAssignment \<Rightarrow> assignment_error option" where
  "validateProof l verified =
     (if \<not> va_verified verified \<or> va_KeyID verified = [] \<or> \<not> digest_pattern (va_PayloadDigest verified)
      then Some ''assignment.proof''
      else case as_payload l (va_Payload verified) of None \<Rightarrow> Some ''assignment.proof''
        | Some canonical \<Rightarrow>
            if bytesDigest (as_audit l) canonical \<noteq> va_PayloadDigest verified then Some ''assignment.proof'' else None)"

definition resolve_output ::
  "assignment_lib \<Rightarrow> artifact_store \<Rightarrow> OutputArtifact \<Rightarrow> assignment_error + ResolvedOutput" where
  "resolve_output l store out =
     (case readArtifact l store (oa_LLBRef out) MaxDefinitionBytes (oa_LLBDigest out) of Inl e \<Rightarrow> Inl e
      | Inr def \<Rightarrow>
     (case verifyDefinition l def (oa_Head out) of Some e \<Rightarrow> Inl e
      | None \<Rightarrow>
     (case readArtifact l store (oa_ConfigRef out) MaxConfigBytes (oa_ConfigDigest out) of Inl e \<Rightarrow> Inl e
      | Inr config \<Rightarrow> Inr \<lparr>ro_Name = oa_Name out, ro_Kind = oa_Kind out, ro_Definition = def, ro_Config = config\<rparr>)))"

fun resolve_outputs ::
  "assignment_lib \<Rightarrow> artifact_store \<Rightarrow> OutputArtifact list \<Rightarrow> assignment_error + ResolvedOutput list" where
  "resolve_outputs l store [] = Inr []"
| "resolve_outputs l store (out # rest) =
     (case resolve_output l store out of Inl e \<Rightarrow> Inl e
      | Inr r \<Rightarrow> (case resolve_outputs l store rest of Inl e \<Rightarrow> Inl e | Inr rs \<Rightarrow> Inr (r # rs)))"

definition Resolve ::
  "assignment_lib \<Rightarrow> VerifiedAssignment \<Rightarrow> artifact_store option \<Rightarrow> assignment_error + ResolvedAssignment" where
  "Resolve l verified store =
     (case store of None \<Rightarrow> Inl ''assignment.store''
      | Some st \<Rightarrow>
     (case validateProof l verified of Some e \<Rightarrow> Inl e
      | None \<Rightarrow>
     (case resolve_outputs l st (pl_Outputs (va_Payload verified)) of Inl e \<Rightarrow> Inl e
      | Inr outputs \<Rightarrow>
        if AuditDefinitions (as_audit l) (map ro_Definition outputs) (pl_Lock (va_Payload verified)) \<noteq> None
        then Inl ''assignment.llb_capability''
        else Inr \<lparr>ra_Verified = verified, ra_Outputs = outputs, ra_resolved = True\<rparr>)))"

definition VerifiedValidate :: "assignment_lib \<Rightarrow> VerifiedAssignment \<Rightarrow> assignment_error option" where
  "VerifiedValidate l verified = validateProof l verified"

fun check_resolved :: "assignment_lib \<Rightarrow> (ResolvedOutput \<times> OutputArtifact) list \<Rightarrow> assignment_error option" where
  "check_resolved l [] = None"
| "check_resolved l ((out, expected) # rest) =
     (if ro_Name out \<noteq> oa_Name expected \<or> ro_Kind out \<noteq> oa_Kind expected \<or>
         bytesDigest (as_audit l) (ro_Definition out) \<noteq> oa_LLBDigest expected \<or>
         bytesDigest (as_audit l) (ro_Config out) \<noteq> oa_ConfigDigest expected
      then Some ''assignment.resolved_outputs''
      else case verifyDefinition l (ro_Definition out) (oa_Head expected) of Some e \<Rightarrow> Some e
        | None \<Rightarrow> check_resolved l rest)"

definition ResolvedValidate :: "assignment_lib \<Rightarrow> ResolvedAssignment \<Rightarrow> assignment_error option" where
  "ResolvedValidate l resolved =
     (if \<not> ra_resolved resolved then Some ''assignment.proof''
      else case validateProof l (ra_Verified resolved) of Some e \<Rightarrow> Some e
      | None \<Rightarrow>
        if length (ra_Outputs resolved) \<noteq> length (pl_Outputs (va_Payload (ra_Verified resolved)))
        then Some ''assignment.resolved_outputs''
        else
     (case check_resolved l (zip (ra_Outputs resolved) (pl_Outputs (va_Payload (ra_Verified resolved)))) of Some e \<Rightarrow> Some e
      | None \<Rightarrow>
        if AuditDefinitions (as_audit l) (map ro_Definition (ra_Outputs resolved)) (pl_Lock (va_Payload (ra_Verified resolved))) \<noteq> None
        then Some ''assignment.llb_capability'' else None))"

section \<open>The envelope codec\<close>

definition DecodeEnvelope :: "assignment_lib \<Rightarrow> string \<Rightarrow> assignment_error + Envelope" where
  "DecodeEnvelope l contents =
     (if contents = [] \<or> length contents > MaxEnvelopeBytes then Inl ''assignment.envelope_size''
      else case cd_decode (as_envelope l) contents of None \<Rightarrow> Inl ''assignment.envelope_json''
        | Some envelope \<Rightarrow>
            if cd_encode (as_envelope l) envelope \<noteq> Some contents then Inl ''assignment.envelope_canonical'' else Inr envelope)"

definition EncodeEnvelope :: "assignment_lib \<Rightarrow> Envelope \<Rightarrow> assignment_error + string" where
  "EncodeEnvelope l envelope =
     (case cd_encode (as_envelope l) envelope of None \<Rightarrow> Inl ''assignment.envelope_canonical''
      | Some contents \<Rightarrow>
          if length contents > MaxEnvelopeBytes then Inl ''assignment.envelope_canonical'' else Inr contents)"

end
