(* ===== verification/Worker_Types.thy ===== *)
theory Worker_Types
  imports Platform_Id Go_Text
begin

text \<open>
  The values that build workers hand to the controller:
  \<^verbatim>\<open>src/services/build-plane/internal/buildworker/types.go\<close> and \<^verbatim>\<open>cleanup.go\<close>. Phases and cleanup
  states are Go strings; the constants of the source are constructors and every other string is
  \<open>PhaseOther\<close> or \<open>CleanupOther\<close> (the zero value is the empty string). The cleaner
  \<open>ResidueCleaner.Cleanup\<close> is modelled over the answers of its scrubber, inspector and
  quarantiner; its lemma says when a report is clean.
\<close>

datatype Phase =
    PhaseAccepted | PhaseResolving | PhaseAllocating | PhaseMaterializing | PhaseSolving
  | PhaseExporting | PhaseRetrying | PhaseCanceling | PhaseCleaning | PhaseComplete
  | PhaseFailed | PhaseCanceled | PhaseQuarantined | PhaseOther string

datatype CleanupStatus = CleanupClean | CleanupQuarantined | CleanupOther string

record Residue =
  rd_Kind :: string
  rd_Target :: string
  rd_Detail :: string

record CleanupReport =
  cr_BuildID :: string
  cr_Status :: CleanupStatus
  cr_Residue :: "Residue list"
  cr_RemovedPaths :: "string list"
  cr_QuarantineReason :: string

text \<open>The evidence is an array of five references; a list of that length stands for it.\<close>

record EvidenceReference =
  ev_Kind :: string
  ev_Reference :: string
  ev_ManifestDigest :: string
  ev_PayloadDigest :: string

record SupplyChainResult =
  sc_PolicyState :: string
  sc_ScanState :: string
  sc_PolicyDigest :: string
  sc_SignerKeyID :: string
  sc_SignerKeyVersion :: int
  sc_SignerPublicKeyDigest :: string
  sc_Evidence :: "EvidenceReference list"

record OutputResult =
  ou_Name :: string
  ou_Kind :: string
  ou_ArtifactRef :: string
  ou_ArtifactPath :: string
  ou_ArtifactDigest :: string
  ou_ArtifactSize :: int
  ou_ConfigDigest :: string
  ou_ManifestDigest :: string
  ou_PublicationManifestRef :: string
  ou_LayerDigests :: "string list"
  ou_ExporterResponse :: "string strmap"
  ou_SupplyChain :: SupplyChainResult

record CacheStats =
  cs_Hits :: int
  cs_Misses :: int

record WorkerResult =
  wr_BuildID :: string
  wr_Attempt :: uint32
  wr_Phase :: Phase
  wr_Outputs :: "OutputResult list"
  wr_StartedAt :: time
  wr_FinishedAt :: time
  wr_ErrorCode :: string
  wr_LogsDigest :: string
  wr_Cache :: CacheStats
  wr_Cleanup :: CleanupReport

record WorkerEvent =
  we_Sequence :: uint64
  we_Attempt :: uint32
  we_Phase :: Phase
  we_Kind :: string
  we_Output :: string
  we_Vertex :: string
  we_Name :: string
  we_Current :: int
  we_Total :: int
  we_Cached :: bool
  we_Stream :: int
  we_Line :: string
  we_Code :: string
  we_Message :: string
  we_OccurredAt :: time

definition zeroCleanupReport :: CleanupReport where
  "zeroCleanupReport = \<lparr>cr_BuildID = [], cr_Status = CleanupOther [], cr_Residue = [],
     cr_RemovedPaths = [], cr_QuarantineReason = []\<rparr>"

definition zeroWorkerResult :: WorkerResult where
  "zeroWorkerResult = \<lparr>wr_BuildID = [], wr_Attempt = 0, wr_Phase = PhaseOther [], wr_Outputs = [],
     wr_StartedAt = 0, wr_FinishedAt = 0, wr_ErrorCode = [], wr_LogsDigest = [],
     wr_Cache = \<lparr>cs_Hits = 0, cs_Misses = 0\<rparr>, wr_Cleanup = zeroCleanupReport\<rparr>"

section \<open>The residue cleaner\<close>

text \<open>
  The scratch directory of a build. \<open>abs\<close> stands for \<open>filepath.Abs\<close>; a platform identifier holds no
  separator and no dot (\<open>has_id_prefix_chars\<close>), so \<open>filepath.Join\<close> appends it as one component and
  \<open>filepath.Rel\<close> gives it back, which is what \<open>rel\<close> is applied for.
\<close>

definition scopedBuildPath ::
  "(string \<Rightarrow> string option) \<Rightarrow> (string \<Rightarrow> string \<Rightarrow> string) \<Rightarrow> (string \<Rightarrow> string \<Rightarrow> string option) \<Rightarrow> string \<Rightarrow> string \<Rightarrow> string option" where
  "scopedBuildPath abs_path join_path rel root buildID =
     (if root = [] \<or> \<not> has_id_prefix buildID ''bld'' \<or> (\<exists>c \<in> set buildID. c \<in> {CHR ''/'', CHR 0x5C, CHR '':''}) then None
      else case abs_path root of None \<Rightarrow> None
        | Some absoluteRoot \<Rightarrow>
            let target = join_path absoluteRoot buildID in
            (case rel absoluteRoot target of None \<Rightarrow> None
             | Some relative \<Rightarrow>
                 if relative = ''.'' \<or> relative = ''..'' \<or> has_prefix relative ''../'' \<or> has_prefix relative ''/''
                 then None else Some target))"

text \<open>\<open>present\<close> answers \<open>os.Lstat\<close>: \<open>None\<close> for an error other than absence.\<close>

definition DirectoryInspect ::
  "ctx_error option \<Rightarrow> string option \<Rightarrow> (string \<Rightarrow> bool option) \<Rightarrow> Residue list \<times> bool" where
  "DirectoryInspect ctx target present =
     (if ctx \<noteq> None then ([], True)
      else case target of None \<Rightarrow> ([], True)
        | Some path \<Rightarrow>
            (case present path of
               None \<Rightarrow> ([], True)
             | Some False \<Rightarrow> ([], False)
             | Some True \<Rightarrow>
                 ([\<lparr>rd_Kind = ''filesystem'', rd_Target = path, rd_Detail = ''build scratch remains''\<rparr>], False)))"

definition DirectoryScrub :: "ctx_error option \<Rightarrow> string option \<Rightarrow> (string \<Rightarrow> bool) \<Rightarrow> string list \<times> bool" where
  "DirectoryScrub ctx target removed =
     (if ctx \<noteq> None then ([], True)
      else case target of None \<Rightarrow> ([], True)
        | Some path \<Rightarrow> if removed path then ([path], False) else ([], True))"

definition cleanupReason :: "bool \<Rightarrow> bool \<Rightarrow> Residue list \<Rightarrow> string" where
  "cleanupReason scrubFailed inspectFailed residue =
     join ''; ''
       ((if scrubFailed then [''scrub failed''] else []) @
        (if inspectFailed then [''inspection failed''] else []) @
        (if residue \<noteq> [] then [''residue count '' @ decimal (length residue)] else []))"

text \<open>
  \<open>scrub\<close> and \<open>inspect\<close> are what the scrubber and the inspector return (\<open>None\<close> for the error;
  the values returned beside an error are the first components), \<open>quarantined\<close> is whether the
  quarantiner succeeds.
\<close>

definition Cleanup ::
  "string list \<times> bool \<Rightarrow> Residue list \<times> bool \<Rightarrow> bool \<Rightarrow> string \<Rightarrow> CleanupReport" where
  "Cleanup scrub inspect quarantined buildID =
     (let (removed, scrubFailed) = scrub; (residue, inspectFailed) = inspect;
          report = \<lparr>cr_BuildID = buildID, cr_Status = CleanupClean, cr_Residue = residue,
                    cr_RemovedPaths = removed, cr_QuarantineReason = []\<rparr>
      in if \<not> scrubFailed \<and> \<not> inspectFailed \<and> residue = [] then report
         else let reason = cleanupReason scrubFailed inspectFailed residue
              in report\<lparr>cr_Status := CleanupQuarantined,
                        cr_QuarantineReason := (if quarantined then reason else reason @ ''; quarantine failed'')\<rparr>)"

definition cleanupProvenClean :: "CleanupReport \<Rightarrow> bool" where
  "cleanupProvenClean report \<longleftrightarrow>
     cr_Status report = CleanupClean \<and> cr_Residue report = [] \<and> cr_QuarantineReason report = []"

lemma cleanupReason_not_Nil:
  "scrubFailed \<or> inspectFailed \<or> residue \<noteq> [] \<Longrightarrow> cleanupReason scrubFailed inspectFailed residue \<noteq> []"
  by (auto simp: cleanupReason_def)

text \<open>
  A report is clean exactly when scrubbing and inspection both succeeded and found nothing; a
  report that is not clean is quarantined with a reason.
\<close>

lemma Cleanup_clean_iff:
  "cleanupProvenClean (Cleanup (removed, sf) (residue, ns) q b) \<longleftrightarrow> \<not> sf \<and> \<not> ns \<and> residue = []"
  by (cases "\<not> sf \<and> \<not> ns \<and> residue = []") (simp_all add: Cleanup_def cleanupProvenClean_def Let_def)

lemma Cleanup_quarantined:
  assumes "sf \<or> ns \<or> residue \<noteq> []"
  shows "cr_Status (Cleanup (removed, sf) (residue, ns) q b) = CleanupQuarantined"
    and "cr_QuarantineReason (Cleanup (removed, sf) (residue, ns) q b) \<noteq> []"
proof -
  have "\<not> (\<not> sf \<and> \<not> ns \<and> residue = [])" using assms by blast
  then show "cr_Status (Cleanup (removed, sf) (residue, ns) q b) = CleanupQuarantined"
    and "cr_QuarantineReason (Cleanup (removed, sf) (residue, ns) q b) \<noteq> []"
    using cleanupReason_not_Nil [OF assms] by (simp_all add: Cleanup_def Let_def)
qed

section \<open>Properties\<close>

text \<open>A cleaner whose scrubber and inspector work on the scratch path of the build.\<close>

definition directory_cleanup ::
  "ctx_error option \<Rightarrow> string option \<Rightarrow> (string \<Rightarrow> bool) \<Rightarrow> (string \<Rightarrow> bool option) \<Rightarrow> bool \<Rightarrow> string \<Rightarrow> CleanupReport" where
  "directory_cleanup ctx target removed present q buildID =
     Cleanup (DirectoryScrub ctx target removed) (DirectoryInspect ctx target present) q buildID"

text \<open>
  with the directory scrubber and inspector on one root, the cleaner reports a build clean only
  if the scratch path was resolved for a build identifier, its removal succeeded and nothing is left
  there; every other report is a quarantine with a reason.
\<close>

theorem Cleanup_clean_means_absent:
  assumes "target = scopedBuildPath abs_path join_path rel root buildID"
    and "report = directory_cleanup ctx target removed present q buildID"
  shows "(cleanupProvenClean report \<longrightarrow>
      (\<exists>path. target = Some path \<and> has_id_prefix buildID ''bld'' \<and> removed path \<and> present path = Some False)) \<and>
    (\<not> cleanupProvenClean report \<longrightarrow> cr_Status report = CleanupQuarantined \<and> cr_QuarantineReason report \<noteq> [])"
proof -
  obtain rem sf where s: "DirectoryScrub ctx target removed = (rem, sf)" by fastforce
  obtain residue ns where i: "DirectoryInspect ctx target present = (residue, ns)" by fastforce
  have report: "report = Cleanup (rem, sf) (residue, ns) q buildID" using s i assms(2) by (simp add: directory_cleanup_def)
  have "\<exists>path. target = Some path \<and> has_id_prefix buildID ''bld'' \<and> removed path \<and> present path = Some False"
    if "\<not> sf \<and> \<not> ns \<and> residue = []"
    using that s i assms(1) by (auto simp: DirectoryScrub_def DirectoryInspect_def scopedBuildPath_def
        split: if_splits option.splits bool.splits)
  then show ?thesis
    unfolding report using Cleanup_clean_iff [of rem sf residue ns q buildID] Cleanup_quarantined [of sf ns residue rem q buildID]
    by blast
qed

definition sample_scratch :: "string option" where
  "sample_scratch = scopedBuildPath Some (\<lambda>r b. r @ ''/'' @ b) (\<lambda>r t. Some (drop (length r + 1) t)) ''/s'' (sample_id ''bld'')"

theorem Cleanup_clean_means_absent_witness:
  "sample_scratch = Some (''/s/'' @ sample_id ''bld'') \<and>
   cleanupProvenClean (directory_cleanup None sample_scratch (\<lambda>_. True) (\<lambda>_. Some False) True (sample_id ''bld'')) \<and>
   \<not> cleanupProvenClean (directory_cleanup None sample_scratch (\<lambda>_. True) (\<lambda>_. Some True) True (sample_id ''bld'')) \<and>
   cr_Status (directory_cleanup None sample_scratch (\<lambda>_. True) (\<lambda>_. Some True) True (sample_id ''bld'')) = CleanupQuarantined"
proof -
  have chars: "\<not> (\<exists>c \<in> set (sample_id ''bld''). c \<in> {CHR ''/'', CHR 0x5C, CHR '':''})"
    by (simp add: sample_id_def)
  have "sample_id ''bld'' \<noteq> ''.''" "sample_id ''bld'' \<noteq> ''..''" "\<not> has_prefix (sample_id ''bld'') ''../''" "\<not> has_prefix (sample_id ''bld'') ''/''"
    by (simp_all add: sample_id_def has_prefix_def)
  then have path: "sample_scratch = Some (''/s/'' @ sample_id ''bld'')"
    using chars by (simp add: sample_scratch_def scopedBuildPath_def allowedPrefixes_def Let_def)
  have "\<not> cleanupProvenClean (directory_cleanup None sample_scratch (\<lambda>_. True) (\<lambda>_. Some True) True (sample_id ''bld''))"
    by (simp add: directory_cleanup_def path DirectoryScrub_def DirectoryInspect_def Cleanup_clean_iff)
  moreover have "cleanupProvenClean (directory_cleanup None sample_scratch (\<lambda>_. True) (\<lambda>_. Some False) True (sample_id ''bld''))"
    by (simp add: directory_cleanup_def path DirectoryScrub_def DirectoryInspect_def Cleanup_clean_iff)
  ultimately show ?thesis
    using Cleanup_clean_means_absent [OF sample_scratch_def refl, of None "\<lambda>_. True" "\<lambda>_. Some True" True] path
    by blast
qed

end
