(* ===== verification/Run_Store.thy ===== *)
theory Run_Store
  imports Worker_Types
begin

text \<open>
  The durable journal of build runs: \<^verbatim>\<open>types.go\<close>, \<^verbatim>\<open>store_memory.go\<close>, \<^verbatim>\<open>store_file.go\<close> and
  \<^verbatim>\<open>store_bolt.go\<close> of \<^verbatim>\<open>src/services/build-plane/internal/buildcontrol\<close>, with the checks on results
  that \<^verbatim>\<open>controller.go\<close> defines. A record belongs to a build; a controller claims it, renews its
  lease with heartbeats, and finishes it; a cancellation is a persistent flag. The in-memory, file
  and Bolt stores are modelled separately.
\<close>

section \<open>Results\<close>

record Result =
  re_BuildID :: string
  re_PayloadDigest :: string
  re_Phase :: Phase
  re_Attempts :: uint32
  re_WorkerIdentity :: string
  re_Worker :: WorkerResult
  re_Cleanup :: CleanupReport
  re_ErrorCode :: string
  re_LogsDigest :: string
  re_StartedAt :: time
  re_FinishedAt :: time
  re_Replay :: bool

definition Terminal :: "Result \<Rightarrow> bool" where
  "Terminal result \<longleftrightarrow> re_Phase result \<in> {PhaseComplete, PhaseFailed, PhaseCanceled, PhaseQuarantined}"

definition validOutputContentIdentity :: "OutputResult \<Rightarrow> bool" where
  "validOutputContentIdentity output =
     (if ou_Kind output = ''static_bundle'' then
        digest_pattern (ou_ManifestDigest output) \<and> has_prefix (ou_PublicationManifestRef output) ''s3://'' \<and>
        ou_LayerDigests output = []
      else if ou_Kind output \<noteq> ''oci_image'' \<or> ou_PublicationManifestRef output \<noteq> [] \<or>
              \<not> digest_pattern (ou_ManifestDigest output) \<or> ou_LayerDigests output = [] then False
      else check_unique (\<lambda>layer. if digest_pattern layer then None else Some ()) (\<lambda>layer. layer) () []
             (ou_LayerDigests output) = None)"

definition evidenceKinds :: "string list" where
  "evidenceKinds = [''sbom'', ''vulnerability_scan'', ''provenance'', ''signature'', ''policy_decision'']"

text \<open>The loop over the evidence: the kinds still expected and the manifest digests seen.\<close>

fun check_evidence :: "string \<Rightarrow> string list \<Rightarrow> string list \<Rightarrow> EvidenceReference list \<Rightarrow> bool" where
  "check_evidence repository expected seen [] \<longleftrightarrow> expected = []"
| "check_evidence repository expected seen (r # rs) \<longleftrightarrow>
     ev_Kind r \<in> set expected \<and> ev_Reference r = repository @ ''@'' @ ev_ManifestDigest r \<and>
     digest_pattern (ev_ManifestDigest r) \<and> digest_pattern (ev_PayloadDigest r) \<and>
     ev_ManifestDigest r \<notin> set seen \<and>
     check_evidence repository (removeAll (ev_Kind r) expected) (ev_ManifestDigest r # seen) rs"

definition validStoredSupplyChainIdentity :: "OutputResult \<Rightarrow> bool" where
  "validStoredSupplyChainIdentity output =
     (let evidence = ou_SupplyChain output in
      if sc_PolicyState evidence \<noteq> ''accepted'' \<or> sc_ScanState evidence \<noteq> ''passed'' \<or>
         \<not> digest_pattern (sc_PolicyDigest evidence) \<or> sc_SignerKeyID evidence = [] \<or>
         sc_SignerKeyVersion evidence < 1 \<or> \<not> digest_pattern (sc_SignerPublicKeyDigest evidence) then False
      else case cut CHR ''@'' (ou_ArtifactRef output) of
             None \<Rightarrow> False
           | Some (repository, _) \<Rightarrow>
               repository \<noteq> [] \<and> check_evidence repository evidenceKinds [] (sc_Evidence evidence))"

definition DefaultMaxAttempts :: uint32 where
  "DefaultMaxAttempts = 3"

definition valid_output :: "OutputResult \<Rightarrow> bool" where
  "valid_output output \<longleftrightarrow>
     ou_Name output \<noteq> [] \<and> (ou_Kind output = ''oci_image'' \<or> ou_Kind output = ''static_bundle'') \<and>
     ou_ArtifactRef output \<noteq> [] \<and> digest_pattern (ou_ArtifactDigest output) \<and> ou_ArtifactSize output > 0 \<and>
     digest_pattern (ou_ConfigDigest output) \<and> validOutputContentIdentity output \<and>
     validStoredSupplyChainIdentity output"

definition worker_clean :: "WorkerResult \<Rightarrow> string \<Rightarrow> bool" where
  "worker_clean worker buildID \<longleftrightarrow>
     cr_BuildID (wr_Cleanup worker) = buildID \<and> cleanupProvenClean (wr_Cleanup worker)"

definition cleanup_quarantined :: "CleanupReport \<Rightarrow> bool" where
  "cleanup_quarantined report \<longleftrightarrow>
     cr_Status report = CleanupQuarantined \<and> (cr_Residue report \<noteq> [] \<or> cr_QuarantineReason report \<noteq> [])"

definition validateTerminalResult :: "Result \<Rightarrow> string \<Rightarrow> string \<Rightarrow> bool" where
  "validateTerminalResult result buildID payloadDigest =
     (if \<not> Terminal result \<or> re_BuildID result \<noteq> buildID \<or> re_PayloadDigest result \<noteq> payloadDigest \<or>
         re_Attempts result > DefaultMaxAttempts \<or> re_Replay result \<or> \<not> digest_pattern (re_LogsDigest result) \<or>
         re_StartedAt result = 0 \<or> re_FinishedAt result = 0 \<or> re_FinishedAt result < re_StartedAt result \<or>
         cr_BuildID (re_Cleanup result) \<noteq> buildID then False
      else case re_Phase result of
        PhaseComplete \<Rightarrow>
          cleanupProvenClean (re_Cleanup result) \<and> re_ErrorCode result = [] \<and> re_Attempts result \<noteq> 0 \<and>
          re_WorkerIdentity result \<noteq> [] \<and> wr_BuildID (re_Worker result) = buildID \<and>
          wr_Attempt (re_Worker result) = re_Attempts result \<and> wr_Phase (re_Worker result) = PhaseComplete \<and>
          worker_clean (re_Worker result) buildID \<and> digest_pattern (wr_LogsDigest (re_Worker result)) \<and>
          cs_Hits (wr_Cache (re_Worker result)) \<ge> 0 \<and> cs_Misses (wr_Cache (re_Worker result)) \<ge> 0 \<and>
          wr_Outputs (re_Worker result) \<noteq> [] \<and>
          check_unique (\<lambda>output. if valid_output output then None else Some ()) ou_Name () []
            (wr_Outputs (re_Worker result)) = None
      | PhaseQuarantined \<Rightarrow> cleanup_quarantined (re_Cleanup result) \<and> re_ErrorCode result \<noteq> []
      | PhaseFailed \<Rightarrow> cleanupProvenClean (re_Cleanup result) \<and> re_ErrorCode result \<noteq> []
      | PhaseCanceled \<Rightarrow> cleanupProvenClean (re_Cleanup result) \<and> re_ErrorCode result \<noteq> []
      | _ \<Rightarrow> False)"

section \<open>Records\<close>

datatype ClaimOutcome = ClaimAccepted | ClaimResumed | ClaimInProgress | ClaimReplay | ClaimConflict

record ClaimRequest =
  cq_BuildID :: string
  cq_Generation :: uint64
  cq_PayloadDigest :: string
  cq_Owner :: string
  cq_Now :: time
  cq_LeaseTTL :: duration

record RunRecord =
  rr_Version :: int
  rr_BuildID :: string
  rr_Generation :: uint64
  rr_PayloadDigest :: string
  rr_Owner :: string
  rr_LeaseUntil :: time
  rr_Phase :: Phase
  rr_Attempt :: uint32
  rr_Result :: Result
  rr_UpdatedAt :: time
  rr_CancelRequested :: bool

datatype run_error =
    RunCtx ctx_error | RunClaim | RunHeartbeat | RunTerminal | RunCancel | RunCapacity
  | RunConfig | RunLock | RunState | RunWrite | RunAbsent

definition CurrentRunRecordVersion :: int where
  "CurrentRunRecordVersion = 2"

text \<open>\<^verbatim>\<open>^[A-Za-z0-9._-]{1,128}$\<close>\<close>

definition runOwnerPattern :: "string \<Rightarrow> bool" where
  "runOwnerPattern s \<longleftrightarrow> 1 \<le> length s \<and> length s \<le> 128 \<and>
     list_all (\<lambda>c. is_upper c \<or> is_lower c \<or> is_digit c \<or> c \<in> set ''._-'') s"

definition validateClaim :: "ClaimRequest \<Rightarrow> bool" where
  "validateClaim q \<longleftrightarrow>
     has_id_prefix (cq_BuildID q) ''bld'' \<and> cq_Generation q \<noteq> 0 \<and> digest_pattern (cq_PayloadDigest q) \<and>
     runOwnerPattern (cq_Owner q) \<and> cq_Now q \<noteq> 0 \<and> cq_LeaseTTL q \<ge> second \<and> cq_LeaseTTL q \<le> 5 * minute"

definition newRunRecord :: "ClaimRequest \<Rightarrow> RunRecord" where
  "newRunRecord q =
     \<lparr>rr_Version = CurrentRunRecordVersion, rr_BuildID = cq_BuildID q, rr_Generation = cq_Generation q,
      rr_PayloadDigest = cq_PayloadDigest q, rr_Owner = cq_Owner q, rr_LeaseUntil = cq_Now q + cq_LeaseTTL q,
      rr_Phase = PhaseAccepted, rr_Attempt = 0,
      rr_Result = \<lparr>re_BuildID = cq_BuildID q, re_PayloadDigest = cq_PayloadDigest q, re_Phase = PhaseAccepted,
        re_Attempts = 0, re_WorkerIdentity = [], re_Worker = zeroWorkerResult, re_Cleanup = zeroCleanupReport,
        re_ErrorCode = [], re_LogsDigest = [], re_StartedAt = cq_Now q, re_FinishedAt = 0, re_Replay = False\<rparr>,
      rr_UpdatedAt = cq_Now q, rr_CancelRequested = False\<rparr>"

definition applyClaim :: "RunRecord \<Rightarrow> ClaimRequest \<Rightarrow> ClaimOutcome \<times> RunRecord" where
  "applyClaim existing q =
     (if rr_Version existing \<noteq> CurrentRunRecordVersion \<or> rr_BuildID existing \<noteq> cq_BuildID q \<or>
         rr_Generation existing \<noteq> cq_Generation q \<or> rr_PayloadDigest existing \<noteq> cq_PayloadDigest q
      then (ClaimConflict, existing)
      else if Terminal (rr_Result existing) then (ClaimReplay, existing)
      else if rr_LeaseUntil existing > cq_Now q \<and> rr_Owner existing \<noteq> cq_Owner q then (ClaimInProgress, existing)
      else (ClaimResumed, existing\<lparr>rr_Owner := cq_Owner q, rr_LeaseUntil := cq_Now q + cq_LeaseTTL q,
                                   rr_UpdatedAt := cq_Now q\<rparr>))"

definition validCancelRequest :: "string \<Rightarrow> uint64 \<Rightarrow> time \<Rightarrow> bool" where
  "validCancelRequest buildID generation now \<longleftrightarrow> has_id_prefix buildID ''bld'' \<and> generation > 0 \<and> now \<noteq> 0"

definition validRunPhase :: "Phase \<Rightarrow> bool \<Rightarrow> bool" where
  "validRunPhase phase terminal =
     (if terminal then phase \<in> {PhaseComplete, PhaseFailed, PhaseCanceled, PhaseQuarantined}
      else phase \<in> {PhaseAccepted, PhaseResolving, PhaseAllocating, PhaseMaterializing, PhaseSolving,
                    PhaseExporting, PhaseRetrying, PhaseCanceling, PhaseCleaning})"

definition validLeaseUpdate :: "Phase \<Rightarrow> uint32 \<Rightarrow> time \<Rightarrow> duration \<Rightarrow> bool" where
  "validLeaseUpdate phase attempt now leaseTTL \<longleftrightarrow>
     validRunPhase phase False \<and> attempt \<le> DefaultMaxAttempts \<and> now \<noteq> 0 \<and>
     leaseTTL \<ge> second \<and> leaseTTL \<le> 5 * minute"

definition terminalAllowedForRecord :: "RunRecord \<Rightarrow> Result \<Rightarrow> bool" where
  "terminalAllowedForRecord record result \<longleftrightarrow>
     \<not> rr_CancelRequested record \<or> re_Phase result = PhaseCanceled \<or> re_Phase result = PhaseQuarantined"

definition validateRunRecord :: "RunRecord \<Rightarrow> bool" where
  "validateRunRecord record =
     (if \<not> has_id_prefix (rr_BuildID record) ''bld'' \<or> rr_Version record \<noteq> CurrentRunRecordVersion \<or>
         rr_Generation record = 0 \<or> \<not> digest_pattern (rr_PayloadDigest record) \<or>
         \<not> runOwnerPattern (rr_Owner record) \<or> \<not> validRunPhase (rr_Phase record) (Terminal (rr_Result record)) \<or>
         rr_Attempt record > DefaultMaxAttempts \<or> rr_UpdatedAt record = 0 \<or>
         re_BuildID (rr_Result record) \<noteq> rr_BuildID record \<or>
         re_PayloadDigest (rr_Result record) \<noteq> rr_PayloadDigest record \<or> re_Replay (rr_Result record) then False
      else if Terminal (rr_Result record) then
        rr_LeaseUntil record = 0 \<and> re_Phase (rr_Result record) = rr_Phase record \<and>
        re_Attempts (rr_Result record) = rr_Attempt record \<and>
        validateTerminalResult (rr_Result record) (rr_BuildID record) (rr_PayloadDigest record) \<and>
        terminalAllowedForRecord record (rr_Result record)
      else rr_LeaseUntil record \<noteq> 0 \<and> re_Phase (rr_Result record) = PhaseAccepted \<and>
           re_StartedAt (rr_Result record) \<noteq> 0 \<and> re_FinishedAt (rr_Result record) = 0)"

section \<open>The in-memory store\<close>

type_synonym run_map = "RunRecord strmap"

definition beat :: "RunRecord \<Rightarrow> Phase \<Rightarrow> uint32 \<Rightarrow> time \<Rightarrow> duration \<Rightarrow> RunRecord" where
  "beat record phase attempt now leaseTTL =
     record\<lparr>rr_Phase := phase, rr_Attempt := attempt, rr_UpdatedAt := now, rr_LeaseUntil := now + leaseTTL\<rparr>"

definition close_record :: "RunRecord \<Rightarrow> Result \<Rightarrow> time \<Rightarrow> RunRecord" where
  "close_record record result now =
     record\<lparr>rr_Phase := re_Phase result, rr_Attempt := re_Attempts result, rr_Result := result,
            rr_UpdatedAt := now, rr_LeaseUntil := 0\<rparr>"

definition MemoryClaim ::
  "ctx_error option \<Rightarrow> ClaimRequest \<Rightarrow> run_map \<Rightarrow> (run_error + ClaimOutcome \<times> RunRecord) \<times> run_map" where
  "MemoryClaim ctx q records =
     (case ctx of Some e \<Rightarrow> (Inl (RunCtx e), records)
      | None \<Rightarrow>
        if \<not> validateClaim q then (Inl RunClaim, records)
        else case mget records (cq_BuildID q) of
          None \<Rightarrow> (Inr (ClaimAccepted, newRunRecord q), mput (cq_BuildID q) (newRunRecord q) records)
        | Some existing \<Rightarrow>
            (case applyClaim existing q of (outcome, record) \<Rightarrow>
               (Inr (outcome, record),
                if outcome = ClaimResumed then mput (cq_BuildID q) record records else records)))"

definition MemoryHeartbeat ::
  "ctx_error option \<Rightarrow> string \<Rightarrow> string \<Rightarrow> Phase \<Rightarrow> uint32 \<Rightarrow> time \<Rightarrow> duration \<Rightarrow> run_map \<Rightarrow>
   run_error option \<times> run_map" where
  "MemoryHeartbeat ctx buildID owner phase attempt now leaseTTL records =
     (case ctx of Some e \<Rightarrow> (Some (RunCtx e), records)
      | None \<Rightarrow>
        (case mget records buildID of
           None \<Rightarrow> (Some RunHeartbeat, records)
         | Some record \<Rightarrow>
             if rr_Owner record \<noteq> owner \<or> Terminal (rr_Result record) \<or> \<not> validLeaseUpdate phase attempt now leaseTTL
             then (Some RunHeartbeat, records)
             else (None, mput buildID (beat record phase attempt now leaseTTL) records)))"

definition MemoryFinish ::
  "ctx_error option \<Rightarrow> string \<Rightarrow> string \<Rightarrow> Result \<Rightarrow> time \<Rightarrow> run_map \<Rightarrow> run_error option \<times> run_map" where
  "MemoryFinish ctx buildID owner result now records =
     (case ctx of Some e \<Rightarrow> (Some (RunCtx e), records)
      | None \<Rightarrow>
        (case mget records buildID of
           None \<Rightarrow> (Some RunTerminal, records)
         | Some record \<Rightarrow>
             if rr_Owner record \<noteq> owner \<or> \<not> validateTerminalResult result buildID (rr_PayloadDigest record) \<or>
                \<not> terminalAllowedForRecord record result \<or> now = 0
             then (Some RunTerminal, records)
             else (None, mput buildID (close_record record result now) records)))"

definition MemoryLookup :: "ctx_error option \<Rightarrow> string \<Rightarrow> run_map \<Rightarrow> run_error + RunRecord option" where
  "MemoryLookup ctx buildID records =
     (case ctx of Some e \<Rightarrow> Inl (RunCtx e) | None \<Rightarrow> Inr (mget records buildID))"

definition MemoryRequestCancel ::
  "ctx_error option \<Rightarrow> string \<Rightarrow> uint64 \<Rightarrow> time \<Rightarrow> run_map \<Rightarrow> (run_error + bool) \<times> run_map" where
  "MemoryRequestCancel ctx buildID generation now records =
     (case ctx of Some e \<Rightarrow> (Inl (RunCtx e), records)
      | None \<Rightarrow>
        if \<not> validCancelRequest buildID generation now then (Inl RunCancel, records)
        else case mget records buildID of
          None \<Rightarrow> (Inr False, records)
        | Some record \<Rightarrow>
            if rr_Generation record \<noteq> generation \<or> Terminal (rr_Result record) then (Inr False, records)
            else (Inr True, mput buildID (record\<lparr>rr_CancelRequested := True, rr_UpdatedAt := now\<rparr>) records))"

section \<open>The file store\<close>

text \<open>
  A JSON null for the map of records is a decoding failure of the codec, which the nil check of
  \<open>validateRunState\<close> refuses in the same way.
\<close>

record runState =
  ru_Version :: int
  ru_Records :: run_map

definition runStateVersion :: int where
  "runStateVersion = 1"

definition keyed_valid :: "string \<times> RunRecord \<Rightarrow> bool" where
  "keyed_valid kv \<longleftrightarrow> rr_BuildID (snd kv) = fst kv \<and> validateRunRecord (snd kv)"

definition validateRunState :: "runState \<Rightarrow> int \<Rightarrow> bool" where
  "validateRunState state maxEntries \<longleftrightarrow>
     ru_Version state = runStateVersion \<and> int (length (ru_Records state)) \<le> maxEntries \<and>
     list_all keyed_valid (ru_Records state)"

definition readRunState ::
  "(runState, 'b) codec \<Rightarrow> int \<Rightarrow> 'b disk_file option \<Rightarrow> run_error + runState" where
  "readRunState c maxEntries file =
     (case file of None \<Rightarrow> Inl RunState
      | Some f \<Rightarrow>
          if \<not> df_regular f then Inl RunState
          else if take_bit 6 (df_perm f) \<noteq> 0 then Inl RunState
          else if int (cd_size c (df_contents f)) > maxEntries * 16 * 1024 + 1024 then Inl RunState
          else (case cd_decode c (df_contents f) of None \<Rightarrow> Inl RunState
                | Some state \<Rightarrow> if validateRunState state maxEntries then Inr state else Inl RunState))"

definition writeRunState ::
  "(runState, 'b) codec \<Rightarrow> int \<Rightarrow> write_step option \<Rightarrow> runState \<Rightarrow> 'b disk_file option \<Rightarrow>
   run_error option \<times> 'b disk_file option" where
  "writeRunState c maxEntries fault state file =
     (if \<not> validateRunState state maxEntries then (Some RunState, file)
      else case cd_encode c state of None \<Rightarrow> (Some RunState, file)
        | Some text \<Rightarrow> (case replace_file fault text file of
            (ok, file') \<Rightarrow> (if ok then None else Some RunWrite, file')))"

text \<open>
  \<open>withLock\<close> around the body that every operation has: read the state, run the operation, and
  write the new state when there is one. Results that the Go code returns beside an error are not
  used by its callers and are left out.
\<close>

definition withLock ::
  "(runState, 'b) codec \<Rightarrow> int \<Rightarrow> bool \<Rightarrow> write_step option \<Rightarrow> (run_map \<Rightarrow> run_error + 'r \<times> run_map option) \<Rightarrow>
   'b disk_file option \<Rightarrow> (run_error + 'r) \<times> 'b disk_file option" where
  "withLock c maxEntries locked fault operation file =
     (if \<not> locked then (Inl RunLock, file)
      else case readRunState c maxEntries file of Inl e \<Rightarrow> (Inl e, file)
        | Inr state \<Rightarrow>
            (case operation (ru_Records state) of Inl e \<Rightarrow> (Inl e, file)
             | Inr (r, None) \<Rightarrow> (Inr r, file)
             | Inr (r, Some records) \<Rightarrow>
                 (case writeRunState c maxEntries fault (state\<lparr>ru_Records := records\<rparr>) file of
                    (Some e, file') \<Rightarrow> (Inl e, file')
                  | (None, file') \<Rightarrow> (Inr r, file'))))"

definition FileClaim ::
  "(runState, 'b) codec \<Rightarrow> int \<Rightarrow> ctx_error option \<Rightarrow> bool \<Rightarrow> write_step option \<Rightarrow> ClaimRequest \<Rightarrow>
   'b disk_file option \<Rightarrow> (run_error + ClaimOutcome \<times> RunRecord) \<times> 'b disk_file option" where
  "FileClaim c maxEntries ctx locked fault q file =
     (case ctx of Some e \<Rightarrow> (Inl (RunCtx e), file)
      | None \<Rightarrow>
        if \<not> validateClaim q then (Inl RunClaim, file)
        else withLock c maxEntries locked fault (\<lambda>records.
          case mget records (cq_BuildID q) of
            None \<Rightarrow>
              if int (length records) \<ge> maxEntries then Inl RunCapacity
              else Inr ((ClaimAccepted, newRunRecord q), Some (mput (cq_BuildID q) (newRunRecord q) records))
          | Some existing \<Rightarrow>
              (case applyClaim existing q of (outcome, record) \<Rightarrow>
                 Inr ((outcome, record),
                      if outcome = ClaimResumed then Some (mput (cq_BuildID q) record records) else None))) file)"

definition FileHeartbeat ::
  "(runState, 'b) codec \<Rightarrow> int \<Rightarrow> ctx_error option \<Rightarrow> bool \<Rightarrow> write_step option \<Rightarrow> string \<Rightarrow> string \<Rightarrow> Phase \<Rightarrow>
   uint32 \<Rightarrow> time \<Rightarrow> duration \<Rightarrow> 'b disk_file option \<Rightarrow> (run_error + unit) \<times> 'b disk_file option" where
  "FileHeartbeat c maxEntries ctx locked fault buildID owner phase attempt now leaseTTL file =
     (case ctx of Some e \<Rightarrow> (Inl (RunCtx e), file)
      | None \<Rightarrow> withLock c maxEntries locked fault (\<lambda>records.
          case mget records buildID of
            None \<Rightarrow> Inl RunHeartbeat
          | Some record \<Rightarrow>
              if rr_Owner record \<noteq> owner \<or> Terminal (rr_Result record) \<or> \<not> validLeaseUpdate phase attempt now leaseTTL
              then Inl RunHeartbeat
              else Inr ((), Some (mput buildID (beat record phase attempt now leaseTTL) records))) file)"

definition FileFinish ::
  "(runState, 'b) codec \<Rightarrow> int \<Rightarrow> ctx_error option \<Rightarrow> bool \<Rightarrow> write_step option \<Rightarrow> string \<Rightarrow> string \<Rightarrow> Result \<Rightarrow>
   time \<Rightarrow> 'b disk_file option \<Rightarrow> (run_error + unit) \<times> 'b disk_file option" where
  "FileFinish c maxEntries ctx locked fault buildID owner result now file =
     (case ctx of Some e \<Rightarrow> (Inl (RunCtx e), file)
      | None \<Rightarrow> withLock c maxEntries locked fault (\<lambda>records.
          case mget records buildID of
            None \<Rightarrow> Inl RunTerminal
          | Some record \<Rightarrow>
              if rr_Owner record \<noteq> owner \<or> \<not> validateTerminalResult result buildID (rr_PayloadDigest record) \<or>
                 \<not> terminalAllowedForRecord record result \<or> now = 0
              then Inl RunTerminal
              else Inr ((), Some (mput buildID (close_record record result now) records))) file)"

definition FileLookup ::
  "(runState, 'b) codec \<Rightarrow> int \<Rightarrow> ctx_error option \<Rightarrow> bool \<Rightarrow> string \<Rightarrow> 'b disk_file option \<Rightarrow>
   (run_error + RunRecord option) \<times> 'b disk_file option" where
  "FileLookup c maxEntries ctx locked buildID file =
     (case ctx of Some e \<Rightarrow> (Inl (RunCtx e), file)
      | None \<Rightarrow> withLock c maxEntries locked None (\<lambda>records. Inr (mget records buildID, None)) file)"

definition FileRequestCancel ::
  "(runState, 'b) codec \<Rightarrow> int \<Rightarrow> ctx_error option \<Rightarrow> bool \<Rightarrow> write_step option \<Rightarrow> string \<Rightarrow> uint64 \<Rightarrow> time \<Rightarrow>
   'b disk_file option \<Rightarrow> (run_error + bool) \<times> 'b disk_file option" where
  "FileRequestCancel c maxEntries ctx locked fault buildID generation now file =
     (case ctx of Some e \<Rightarrow> (Inl (RunCtx e), file)
      | None \<Rightarrow>
        if \<not> validCancelRequest buildID generation now then (Inl RunCancel, file)
        else withLock c maxEntries locked fault (\<lambda>records.
          case mget records buildID of
            None \<Rightarrow> Inr (False, None)
          | Some record \<Rightarrow>
              if rr_Generation record \<noteq> generation \<or> Terminal (rr_Result record) then Inr (False, None)
              else Inr (True, Some (mput buildID (record\<lparr>rr_CancelRequested := True, rr_UpdatedAt := now\<rparr>) records))) file)"

definition NewFileRunStore ::
  "(runState, 'b) codec \<Rightarrow> int \<Rightarrow> write_step option \<Rightarrow> 'b disk_file option \<Rightarrow>
   run_error option \<times> 'b disk_file option" where
  "NewFileRunStore c maxEntries fault file =
     (if maxEntries < 1 \<or> maxEntries > 100000 then (Some RunConfig, file)
      else case file of
        None \<Rightarrow> writeRunState c maxEntries fault \<lparr>ru_Version = runStateVersion, ru_Records = []\<rparr> file
      | Some _ \<Rightarrow> (case readRunState c maxEntries file of Inl e \<Rightarrow> (Some e, file) | Inr _ \<Rightarrow> (None, file)))"

section \<open>The Bolt store\<close>

type_synonym 'b run_bucket = "'b strmap"

definition decodeRunRecord :: "(RunRecord, 'b) codec \<Rightarrow> 'b \<Rightarrow> run_error + RunRecord" where
  "decodeRunRecord c text =
     (case cd_decode c text of None \<Rightarrow> Inl RunState
      | Some record \<Rightarrow>
          if validateRunState \<lparr>ru_Version = runStateVersion, ru_Records = [(rr_BuildID record, record)]\<rparr> 1
          then Inr record else Inl RunState)"

definition putRunRecord :: "(RunRecord, 'b) codec \<Rightarrow> RunRecord \<Rightarrow> 'b run_bucket \<Rightarrow> run_error + 'b run_bucket" where
  "putRunRecord c record bucket =
     (if \<not> validateRunRecord record then Inl RunState
      else case cd_encode c record of None \<Rightarrow> Inl RunState
        | Some text \<Rightarrow> Inr (mput (rr_BuildID record) text bucket))"

text \<open>A read-write transaction: its writes are kept only when the body succeeds and the commit does.\<close>

definition bolt_update ::
  "bool \<Rightarrow> ('b run_bucket \<Rightarrow> run_error + 'r \<times> 'b run_bucket) \<Rightarrow> 'b run_bucket \<Rightarrow> (run_error + 'r) \<times> 'b run_bucket" where
  "bolt_update commit body bucket =
     (case body bucket of Inl e \<Rightarrow> (Inl e, bucket)
      | Inr (r, bucket') \<Rightarrow> if commit then (Inr r, bucket') else (Inl RunWrite, bucket))"

definition put_reply :: "(RunRecord, 'b) codec \<Rightarrow> 'r \<Rightarrow> RunRecord \<Rightarrow> 'b run_bucket \<Rightarrow> run_error + 'r \<times> 'b run_bucket" where
  "put_reply c r record bucket =
     (case putRunRecord c record bucket of Inl e \<Rightarrow> Inl e | Inr bucket' \<Rightarrow> Inr (r, bucket'))"

definition BoltClaim ::
  "(RunRecord, 'b) codec \<Rightarrow> int \<Rightarrow> ctx_error option \<Rightarrow> bool \<Rightarrow> ClaimRequest \<Rightarrow> 'b run_bucket \<Rightarrow>
   (run_error + ClaimOutcome \<times> RunRecord) \<times> 'b run_bucket" where
  "BoltClaim c maxEntries ctx commit q db =
     (case ctx of Some e \<Rightarrow> (Inl (RunCtx e), db)
      | None \<Rightarrow>
        if \<not> validateClaim q then (Inl RunClaim, db)
        else bolt_update commit (\<lambda>bucket.
          case mget bucket (cq_BuildID q) of
            None \<Rightarrow>
              if int (length bucket) \<ge> maxEntries then Inl RunCapacity
              else put_reply c (ClaimAccepted, newRunRecord q) (newRunRecord q) bucket
          | Some text \<Rightarrow>
              (case decodeRunRecord c text of Inl e \<Rightarrow> Inl e
               | Inr existing \<Rightarrow>
                   (case applyClaim existing q of (outcome, record) \<Rightarrow>
                      if outcome = ClaimResumed then put_reply c (outcome, record) record bucket
                      else Inr ((outcome, record), bucket)))) db)"

definition BoltHeartbeat ::
  "(RunRecord, 'b) codec \<Rightarrow> ctx_error option \<Rightarrow> bool \<Rightarrow> string \<Rightarrow> string \<Rightarrow> Phase \<Rightarrow> uint32 \<Rightarrow> time \<Rightarrow> duration \<Rightarrow>
   'b run_bucket \<Rightarrow> (run_error + unit) \<times> 'b run_bucket" where
  "BoltHeartbeat c ctx commit buildID owner phase attempt now leaseTTL db =
     (case ctx of Some e \<Rightarrow> (Inl (RunCtx e), db)
      | None \<Rightarrow> bolt_update commit (\<lambda>bucket.
          case mget bucket buildID of None \<Rightarrow> Inl RunAbsent
          | Some text \<Rightarrow>
              (case decodeRunRecord c text of Inl e \<Rightarrow> Inl e
               | Inr record \<Rightarrow>
                   if rr_Owner record \<noteq> owner \<or> Terminal (rr_Result record) \<or> \<not> validLeaseUpdate phase attempt now leaseTTL
                   then Inl RunHeartbeat
                   else put_reply c () (beat record phase attempt now leaseTTL) bucket)) db)"

definition BoltFinish ::
  "(RunRecord, 'b) codec \<Rightarrow> ctx_error option \<Rightarrow> bool \<Rightarrow> string \<Rightarrow> string \<Rightarrow> Result \<Rightarrow> time \<Rightarrow> 'b run_bucket \<Rightarrow>
   (run_error + unit) \<times> 'b run_bucket" where
  "BoltFinish c ctx commit buildID owner result now db =
     (case ctx of Some e \<Rightarrow> (Inl (RunCtx e), db)
      | None \<Rightarrow> bolt_update commit (\<lambda>bucket.
          case mget bucket buildID of None \<Rightarrow> Inl RunAbsent
          | Some text \<Rightarrow>
              (case decodeRunRecord c text of Inl e \<Rightarrow> Inl e
               | Inr record \<Rightarrow>
                   if rr_Owner record \<noteq> owner \<or> \<not> validateTerminalResult result buildID (rr_PayloadDigest record) \<or>
                      \<not> terminalAllowedForRecord record result \<or> now = 0
                   then Inl RunTerminal
                   else put_reply c () (close_record record result now) bucket)) db)"

definition BoltLookup ::
  "(RunRecord, 'b) codec \<Rightarrow> ctx_error option \<Rightarrow> string \<Rightarrow> 'b run_bucket \<Rightarrow> run_error + RunRecord option" where
  "BoltLookup c ctx buildID bucket =
     (case ctx of Some e \<Rightarrow> Inl (RunCtx e)
      | None \<Rightarrow>
        (case mget bucket buildID of None \<Rightarrow> Inr None
         | Some text \<Rightarrow> (case decodeRunRecord c text of Inl e \<Rightarrow> Inl e | Inr record \<Rightarrow> Inr (Some record))))"

definition BoltRequestCancel ::
  "(RunRecord, 'b) codec \<Rightarrow> ctx_error option \<Rightarrow> bool \<Rightarrow> string \<Rightarrow> uint64 \<Rightarrow> time \<Rightarrow> 'b run_bucket \<Rightarrow>
   (run_error + bool) \<times> 'b run_bucket" where
  "BoltRequestCancel c ctx commit buildID generation now db =
     (case ctx of Some e \<Rightarrow> (Inl (RunCtx e), db)
      | None \<Rightarrow>
        if \<not> validCancelRequest buildID generation now then (Inl RunCancel, db)
        else bolt_update commit (\<lambda>bucket.
          case mget bucket buildID of None \<Rightarrow> Inr (False, bucket)
          | Some text \<Rightarrow>
              (case decodeRunRecord c text of Inl e \<Rightarrow> Inl e
               | Inr record \<Rightarrow>
                   if rr_Generation record \<noteq> generation \<or> Terminal (rr_Result record) then Inr (False, bucket)
                   else put_reply c True (record\<lparr>rr_CancelRequested := True, rr_UpdatedAt := now\<rparr>) bucket)) db)"

definition NewBoltRunStore :: "int \<Rightarrow> run_error + 'b run_bucket" where
  "NewBoltRunStore maxEntries = (if maxEntries < 1 \<or> maxEntries > 10000000 then Inl RunConfig else Inr [])"

section \<open>The \<open>RunStore\<close> interface\<close>

text \<open>An operation with its arguments, a reply, and the dispatch of each store.\<close>

datatype run_op =
    OpClaim ClaimRequest
  | OpHeartbeat string string Phase uint32 time duration
  | OpFinish string string Result time
  | OpLookup string
  | OpCancel string uint64 time

datatype run_reply =
    ReplyErr run_error
  | ReplyClaim ClaimOutcome RunRecord
  | ReplyDone
  | ReplyFound "RunRecord option"
  | ReplyCancel bool

definition reply_with :: "('a \<Rightarrow> run_reply) \<Rightarrow> (run_error + 'a) \<times> 's \<Rightarrow> run_reply \<times> 's" where
  "reply_with f x = (case fst x of Inl e \<Rightarrow> ReplyErr e | Inr r \<Rightarrow> f r, snd x)"

definition reply_done :: "run_error option \<times> 's \<Rightarrow> run_reply \<times> 's" where
  "reply_done x = (case fst x of Some e \<Rightarrow> ReplyErr e | None \<Rightarrow> ReplyDone, snd x)"

fun MemoryExec :: "ctx_error option \<Rightarrow> run_op \<Rightarrow> run_map \<Rightarrow> run_reply \<times> run_map" where
  "MemoryExec ctx (OpClaim q) s = reply_with (case_prod ReplyClaim) (MemoryClaim ctx q s)"
| "MemoryExec ctx (OpHeartbeat b owner phase attempt now ttl) s =
     reply_done (MemoryHeartbeat ctx b owner phase attempt now ttl s)"
| "MemoryExec ctx (OpFinish b owner result now) s = reply_done (MemoryFinish ctx b owner result now s)"
| "MemoryExec ctx (OpLookup b) s = reply_with ReplyFound (MemoryLookup ctx b s, s)"
| "MemoryExec ctx (OpCancel b generation now) s = reply_with ReplyCancel (MemoryRequestCancel ctx b generation now s)"

fun FileExec ::
  "(runState, 'b) codec \<Rightarrow> int \<Rightarrow> ctx_error option \<Rightarrow> bool \<Rightarrow> write_step option \<Rightarrow> run_op \<Rightarrow> 'b disk_file option \<Rightarrow>
   run_reply \<times> 'b disk_file option" where
  "FileExec c m ctx locked fault (OpClaim q) f =
     reply_with (case_prod ReplyClaim) (FileClaim c m ctx locked fault q f)"
| "FileExec c m ctx locked fault (OpHeartbeat b owner phase attempt now ttl) f =
     reply_with (\<lambda>_. ReplyDone) (FileHeartbeat c m ctx locked fault b owner phase attempt now ttl f)"
| "FileExec c m ctx locked fault (OpFinish b owner result now) f =
     reply_with (\<lambda>_. ReplyDone) (FileFinish c m ctx locked fault b owner result now f)"
| "FileExec c m ctx locked fault (OpLookup b) f = reply_with ReplyFound (FileLookup c m ctx locked b f)"
| "FileExec c m ctx locked fault (OpCancel b generation now) f =
     reply_with ReplyCancel (FileRequestCancel c m ctx locked fault b generation now f)"

fun BoltExec ::
  "(RunRecord, 'b) codec \<Rightarrow> int \<Rightarrow> ctx_error option \<Rightarrow> bool \<Rightarrow> run_op \<Rightarrow> 'b run_bucket \<Rightarrow> run_reply \<times> 'b run_bucket" where
  "BoltExec c m ctx commit (OpClaim q) db = reply_with (case_prod ReplyClaim) (BoltClaim c m ctx commit q db)"
| "BoltExec c m ctx commit (OpHeartbeat b owner phase attempt now ttl) db =
     reply_with (\<lambda>_. ReplyDone) (BoltHeartbeat c ctx commit b owner phase attempt now ttl db)"
| "BoltExec c m ctx commit (OpFinish b owner result now) db =
     reply_with (\<lambda>_. ReplyDone) (BoltFinish c ctx commit b owner result now db)"
| "BoltExec c m ctx commit (OpLookup b) db = reply_with ReplyFound (BoltLookup c ctx b db, db)"
| "BoltExec c m ctx commit (OpCancel b generation now) db =
     reply_with ReplyCancel (BoltRequestCancel c ctx commit b generation now db)"

end
