(* ===== verification/Run_Laws.thy ===== *)
theory Run_Laws
  imports Run_Store
begin

text \<open>
  The contract of the run journal and its proof. \<open>run_step\<close> is the abstract journal: a partial map
  from builds to records, with one rule per way an operation can change it or be answered. The
  locale \<open>run_store\<close> says that a store's operations are such steps; its lemmas are the life-cycle
  guarantees over arbitrary histories (records stay valid, a build's identity never changes, a
  cancellation is never lost, a live lease excludes other owners). The in-memory store is an
  instance; the file and Bolt stores are shown to simulate the in-memory one.
\<close>

section \<open>The abstract journal\<close>

type_synonym journal = "string \<Rightarrow> RunRecord option"

definition cancel_record :: "RunRecord \<Rightarrow> time \<Rightarrow> RunRecord" where
  "cancel_record r now = r\<lparr>rr_CancelRequested := True, rr_UpdatedAt := now\<rparr>"

inductive run_step :: "journal \<Rightarrow> run_op \<Rightarrow> run_reply \<Rightarrow> journal \<Rightarrow> bool" where
  accept: "validateClaim q \<Longrightarrow> M (cq_BuildID q) = None \<Longrightarrow>
    run_step M (OpClaim q) (ReplyClaim ClaimAccepted (newRunRecord q)) (M(cq_BuildID q \<mapsto> newRunRecord q))"
| resume: "validateClaim q \<Longrightarrow> M (cq_BuildID q) = Some r \<Longrightarrow> applyClaim r q = (ClaimResumed, r') \<Longrightarrow>
    run_step M (OpClaim q) (ReplyClaim ClaimResumed r') (M(cq_BuildID q \<mapsto> r'))"
| decline: "validateClaim q \<Longrightarrow> M (cq_BuildID q) = Some r \<Longrightarrow> applyClaim r q = (oc, r') \<Longrightarrow> oc \<noteq> ClaimResumed \<Longrightarrow>
    run_step M (OpClaim q) (ReplyClaim oc r') M"
| heartbeat: "M b = Some r \<Longrightarrow> rr_Owner r = owner \<Longrightarrow> \<not> Terminal (rr_Result r) \<Longrightarrow>
    validLeaseUpdate phase attempt now ttl \<Longrightarrow>
    run_step M (OpHeartbeat b owner phase attempt now ttl) ReplyDone (M(b \<mapsto> beat r phase attempt now ttl))"
| finish: "M b = Some r \<Longrightarrow> rr_Owner r = owner \<Longrightarrow> validateTerminalResult result b (rr_PayloadDigest r) \<Longrightarrow>
    terminalAllowedForRecord r result \<Longrightarrow> now \<noteq> 0 \<Longrightarrow>
    run_step M (OpFinish b owner result now) ReplyDone (M(b \<mapsto> close_record r result now))"
| found: "run_step M (OpLookup b) (ReplyFound (M b)) M"
| cancel: "validCancelRequest b g now \<Longrightarrow> M b = Some r \<Longrightarrow> rr_Generation r = g \<Longrightarrow> \<not> Terminal (rr_Result r) \<Longrightarrow>
    run_step M (OpCancel b g now) (ReplyCancel True) (M(b \<mapsto> cancel_record r now))"
| no_cancel: "(\<And>r. M b = Some r \<Longrightarrow> rr_Generation r \<noteq> g \<or> Terminal (rr_Result r)) \<Longrightarrow>
    run_step M (OpCancel b g now) (ReplyCancel False) M"
| refuse: "run_step M op (ReplyErr e) M"
| unknown: "run_step M op reply M' \<Longrightarrow> run_step M op (ReplyErr e) M'"

text \<open>The instant that an operation carries.\<close>

fun op_now :: "run_op \<Rightarrow> time" where
  "op_now (OpClaim q) = cq_Now q"
| "op_now (OpHeartbeat b owner phase attempt now ttl) = now"
| "op_now (OpFinish b owner result now) = now"
| "op_now (OpLookup b) = 1"
| "op_now (OpCancel b g now) = now"

definition journal_valid :: "journal \<Rightarrow> bool" where
  "journal_valid M \<longleftrightarrow> (\<forall>k r. M k = Some r \<longrightarrow> keyed_valid (k, r))"

section \<open>Each transition keeps records valid\<close>

lemma validateRunRecord_new: "validateClaim q \<Longrightarrow> 0 < cq_Now q \<Longrightarrow> validateRunRecord (newRunRecord q)"
  by (simp add: validateClaim_def validateRunRecord_def newRunRecord_def validRunPhase_def Terminal_def
      DefaultMaxAttempts_def)

lemma applyClaim_resumed:
  assumes "applyClaim r q = (ClaimResumed, r')"
  shows "\<not> Terminal (rr_Result r)" "rr_LeaseUntil r \<le> cq_Now q \<or> rr_Owner r = cq_Owner q"
    "r' = r\<lparr>rr_Owner := cq_Owner q, rr_LeaseUntil := cq_Now q + cq_LeaseTTL q, rr_UpdatedAt := cq_Now q\<rparr>"
    "rr_BuildID r = cq_BuildID q" "rr_Generation r = cq_Generation q" "rr_PayloadDigest r = cq_PayloadDigest q"
  using assms by (auto simp: applyClaim_def split: if_splits)

lemma validateRunRecord_resumed:
  assumes "applyClaim r q = (ClaimResumed, r')" "validateClaim q" "0 < cq_Now q" "validateRunRecord r"
  shows "validateRunRecord r'"
  using assms(2-4) applyClaim_resumed [OF assms(1)]
  by (simp add: validateRunRecord_def validateClaim_def split: if_splits)

lemma validateRunRecord_beat:
  assumes "validateRunRecord r" "\<not> Terminal (rr_Result r)" "validLeaseUpdate phase attempt now ttl" "0 < now"
  shows "validateRunRecord (beat r phase attempt now ttl)"
  using assms by (simp add: validateRunRecord_def validLeaseUpdate_def beat_def split: if_splits)

lemma validateTerminalResult_Terminal: "validateTerminalResult result b d \<Longrightarrow> Terminal result"
  by (simp add: validateTerminalResult_def split: if_splits)

lemma validateRunRecord_close:
  assumes "validateRunRecord r" "validateTerminalResult result (rr_BuildID r) (rr_PayloadDigest r)"
    "terminalAllowedForRecord r result" "now \<noteq> 0"
  shows "validateRunRecord (close_record r result now)"
proof -
  have t: "Terminal result" by (rule validateTerminalResult_Terminal [OF assms(2)])
  have f: "re_BuildID result = rr_BuildID r" "re_PayloadDigest result = rr_PayloadDigest r"
    "\<not> re_Attempts result > DefaultMaxAttempts" "\<not> re_Replay result"
    using assms(2) by (auto simp: validateTerminalResult_def split: if_splits)
  have "validRunPhase (re_Phase result) True" using t by (simp add: validRunPhase_def Terminal_def)
  then show ?thesis
    using assms t f
    by (simp add: validateRunRecord_def close_record_def terminalAllowedForRecord_def split: if_splits)
qed

lemma validateRunRecord_allowed:
  "validateRunRecord r \<Longrightarrow> Terminal (rr_Result r) \<Longrightarrow> terminalAllowedForRecord r (rr_Result r)"
  by (simp add: validateRunRecord_def split: if_splits)

lemma validateRunRecord_cancel:
  "validateRunRecord r \<Longrightarrow> \<not> Terminal (rr_Result r) \<Longrightarrow> now \<noteq> 0 \<Longrightarrow> validateRunRecord (cancel_record r now)"
  by (simp add: validateRunRecord_def cancel_record_def split: if_splits)

lemmas record_ids = newRunRecord_def beat_def close_record_def cancel_record_def

lemma journal_valid_upd: "journal_valid M \<Longrightarrow> keyed_valid (k, r) \<Longrightarrow> journal_valid (M(k \<mapsto> r))"
  by (simp add: journal_valid_def)

lemma run_step_valid:
  "run_step M op reply M' \<Longrightarrow> 0 < op_now op \<Longrightarrow> journal_valid M \<Longrightarrow> journal_valid M'"
proof (induction rule: run_step.induct)
  case (accept q M)
  then show ?case
    by (intro journal_valid_upd) (simp_all add: keyed_valid_def validateRunRecord_new newRunRecord_def [of q, THEN arg_cong [where f = rr_BuildID]])
next
  case (resume q M r r')
  then have "validateRunRecord r" by (auto simp: journal_valid_def keyed_valid_def)
  then have "validateRunRecord r'" using resume by (auto intro: validateRunRecord_resumed)
  then show ?case using resume applyClaim_resumed [OF resume(3)]
    by (intro journal_valid_upd) (simp_all add: keyed_valid_def)
next
  case (heartbeat M b r owner phase attempt now ttl)
  then have "validateRunRecord r" "rr_BuildID r = b" by (auto simp: journal_valid_def keyed_valid_def)
  then show ?case using heartbeat validateRunRecord_beat [of r phase attempt now ttl]
    by (intro journal_valid_upd) (simp_all add: keyed_valid_def beat_def)
next
  case (finish M b r owner result now)
  then have "validateRunRecord r" "rr_BuildID r = b" by (auto simp: journal_valid_def keyed_valid_def)
  then show ?case using finish validateRunRecord_close [of r result now]
    by (intro journal_valid_upd) (simp_all add: keyed_valid_def close_record_def)
next
  case (cancel b g now M r)
  then have "validateRunRecord r" "rr_BuildID r = b" by (auto simp: journal_valid_def keyed_valid_def)
  then show ?case using cancel validateRunRecord_cancel [of r now]
    by (intro journal_valid_upd) (simp_all add: keyed_valid_def cancel_record_def)
qed simp_all

section \<open>What a transition keeps\<close>

definition same_run :: "RunRecord \<Rightarrow> RunRecord \<Rightarrow> bool" where
  "same_run r r' \<longleftrightarrow> rr_BuildID r' = rr_BuildID r \<and> rr_Generation r' = rr_Generation r \<and>
     rr_PayloadDigest r' = rr_PayloadDigest r \<and> rr_Version r' = rr_Version r \<and>
     (rr_CancelRequested r \<longrightarrow> rr_CancelRequested r') \<and>
     (Terminal (rr_Result r) \<longrightarrow> Terminal (rr_Result r'))"

lemma same_run_refl [simp]: "same_run r r"
  by (simp add: same_run_def)

lemma same_run_trans: "same_run a b \<Longrightarrow> same_run b c \<Longrightarrow> same_run a c"
  by (simp add: same_run_def)

lemma same_run_ops:
  "same_run r (beat r phase attempt now ttl)" "same_run r (cancel_record r now)"
  "validateTerminalResult result b d \<Longrightarrow> same_run r (close_record r result now)"
  "applyClaim r q = (ClaimResumed, r') \<Longrightarrow> same_run r r'"
  using validateTerminalResult_Terminal [of result b d]
  by (auto simp: same_run_def record_ids dest: applyClaim_resumed)

lemma run_step_same:
  "run_step M op reply M' \<Longrightarrow> M k = Some r \<Longrightarrow> \<exists>r'. M' k = Some r' \<and> same_run r r'"
  by (induction rule: run_step.induct) (auto intro: same_run_ops)

text \<open>
  An operation that does not come from the owner of build \<open>k\<close> at a time when its lease is live: a
  claim by another owner that is not later than the end of the lease, a heartbeat or a finish under
  another name, any lookup, or any operation on another build. A cancellation of the build is not
  such an operation.
\<close>

fun foreign_op :: "string \<Rightarrow> string \<Rightarrow> time \<Rightarrow> run_op \<Rightarrow> bool" where
  "foreign_op k owner until (OpClaim q) \<longleftrightarrow> cq_BuildID q \<noteq> k \<or> cq_Owner q \<noteq> owner \<and> cq_Now q < until"
| "foreign_op k owner until (OpHeartbeat b o' phase attempt now ttl) \<longleftrightarrow> b \<noteq> k \<or> o' \<noteq> owner"
| "foreign_op k owner until (OpFinish b o' result now) \<longleftrightarrow> b \<noteq> k \<or> o' \<noteq> owner"
| "foreign_op k owner until (OpLookup b) \<longleftrightarrow> True"
| "foreign_op k owner until (OpCancel b g now) \<longleftrightarrow> b \<noteq> k"

lemma run_step_foreign:
  "run_step M op reply M' \<Longrightarrow> M k = Some r \<Longrightarrow> foreign_op k (rr_Owner r) (rr_LeaseUntil r) op \<Longrightarrow> M' k = Some r"
  by (induction rule: run_step.induct) (auto dest: applyClaim_resumed)

section \<open>The interface of a run store\<close>

fun run_history :: "('env \<Rightarrow> run_op \<Rightarrow> 's \<Rightarrow> run_reply \<times> 's) \<Rightarrow> ('env \<times> run_op) list \<Rightarrow> 's \<Rightarrow> 's" where
  "run_history exec [] s = s"
| "run_history exec ((env, op) # ops) s = run_history exec ops (snd (exec env op s))"

locale run_store =
  fixes exec :: "'env \<Rightarrow> run_op \<Rightarrow> 's \<Rightarrow> run_reply \<times> 's"
    and view :: "'s \<Rightarrow> journal"
  assumes exec_step: "exec env op s = (reply, s') \<Longrightarrow> run_step (view s) op reply (view s')"
begin

lemma history_valid:
  "journal_valid (view s) \<Longrightarrow> \<forall>x \<in> set ops. 0 < op_now (snd x) \<Longrightarrow> journal_valid (view (run_history exec ops s))"
proof (induction ops arbitrary: s)
  case (Cons x ops)
  obtain env op where x: "x = (env, op)" by fastforce
  have "journal_valid (view (snd (exec env op s)))"
    using run_step_valid [OF exec_step [OF surjective_pairing]] Cons.prems x by simp
  then show ?case using Cons x by simp
qed simp

lemma history_same:
  "view s k = Some r \<Longrightarrow> \<exists>r'. view (run_history exec ops s) k = Some r' \<and> same_run r r'"
proof (induction ops arbitrary: s r)
  case (Cons x ops)
  obtain env op where x: "x = (env, op)" by fastforce
  obtain r1 where "view (snd (exec env op s)) k = Some r1" "same_run r r1"
    using run_step_same [OF exec_step [OF surjective_pairing] Cons.prems] by blast
  then show ?case using Cons.IH x same_run_trans by fastforce
qed simp

lemma history_foreign:
  "view s k = Some r \<Longrightarrow> \<forall>x \<in> set ops. foreign_op k (rr_Owner r) (rr_LeaseUntil r) (snd x) \<Longrightarrow>
   view (run_history exec ops s) k = Some r"
proof (induction ops arbitrary: s)
  case (Cons x ops)
  obtain env op where x: "x = (env, op)" by fastforce
  then have "view (snd (exec env op s)) k = Some r"
    using run_step_foreign [OF exec_step [OF surjective_pairing] Cons.prems(1)] Cons.prems(2) by simp
  then show ?case using Cons.IH Cons.prems(2) x by simp
qed simp

end

text \<open>The rules, for a journal held in an association list.\<close>

lemma mem_step:
  "validateClaim q \<Longrightarrow> mget s (cq_BuildID q) = None \<Longrightarrow>
     run_step (mget s) (OpClaim q) (ReplyClaim ClaimAccepted (newRunRecord q)) (mget (mput (cq_BuildID q) (newRunRecord q) s))"
  "validateClaim q \<Longrightarrow> mget s (cq_BuildID q) = Some r \<Longrightarrow> applyClaim r q = (ClaimResumed, r') \<Longrightarrow>
     run_step (mget s) (OpClaim q) (ReplyClaim ClaimResumed r') (mget (mput (cq_BuildID q) r' s))"
  "mget s b = Some r \<Longrightarrow> rr_Owner r = owner \<Longrightarrow> \<not> Terminal (rr_Result r) \<Longrightarrow> validLeaseUpdate phase attempt now ttl \<Longrightarrow>
     run_step (mget s) (OpHeartbeat b owner phase attempt now ttl) ReplyDone (mget (mput b (beat r phase attempt now ttl) s))"
  "mget s b = Some r \<Longrightarrow> rr_Owner r = owner \<Longrightarrow> validateTerminalResult result b (rr_PayloadDigest r) \<Longrightarrow>
     terminalAllowedForRecord r result \<Longrightarrow> now \<noteq> 0 \<Longrightarrow>
     run_step (mget s) (OpFinish b owner result now) ReplyDone (mget (mput b (close_record r result now) s))"
  "validCancelRequest b g now \<Longrightarrow> mget s b = Some r \<Longrightarrow> rr_Generation r = g \<Longrightarrow> \<not> Terminal (rr_Result r) \<Longrightarrow>
     run_step (mget s) (OpCancel b g now) (ReplyCancel True) (mget (mput b (cancel_record r now) s))"
  unfolding mget_mput_upd by (rule run_step.intros; assumption)+

lemmas memory_defs = MemoryClaim_def MemoryHeartbeat_def MemoryFinish_def MemoryLookup_def MemoryRequestCancel_def
  reply_with_def reply_done_def

interpretation mem_runs: run_store MemoryExec mget
proof (unfold_locales, goal_cases)
  case (1 ctx op s reply s')
  note e = this
  show "run_step (mget s) op reply (mget s')"
  proof (cases op)
    case (OpClaim q)
    show ?thesis
    proof (cases "mget s (cq_BuildID q)")
      case None
      then show ?thesis using e OpClaim
        by (auto simp: memory_defs simp del: mget_mput intro: mem_step run_step.intros split: option.splits if_splits)
    next
      case (Some r)
      obtain oc r' where a: "applyClaim r q = (oc, r')" by fastforce
      then show ?thesis using e OpClaim Some
        by (auto simp: memory_defs simp del: mget_mput intro: mem_step run_step.intros split: option.splits if_splits)
    qed
  next
    case (OpHeartbeat b owner phase attempt now ttl)
    then show ?thesis using e
      by (auto simp: memory_defs simp del: mget_mput intro: mem_step run_step.intros split: option.splits if_splits)
  next
    case (OpFinish b owner result now)
    then show ?thesis using e
      by (auto simp: memory_defs simp del: mget_mput intro: mem_step run_step.intros split: option.splits if_splits)
  next
    case (OpLookup b)
    then show ?thesis using e by (auto simp: memory_defs simp del: mget_mput intro: mem_step run_step.intros split: option.splits)
  next
    case (OpCancel b g now)
    then show ?thesis using e
      by (auto simp: memory_defs cancel_record_def [symmetric] simp del: mget_mput intro: mem_step run_step.intros split: option.splits if_splits)
  qed
qed

section \<open>The file store simulates the in-memory store\<close>

lemma mget_keyed: "list_all keyed_valid s \<Longrightarrow> mget s k = Some r \<Longrightarrow> rr_BuildID r = k \<and> validateRunRecord r"
  by (fastforce simp: list_all_iff keyed_valid_def dest!: map_of_SomeD)

lemma keyed_put:
  assumes "list_all keyed_valid s"
  shows "validateClaim q \<Longrightarrow> 0 < cq_Now q \<Longrightarrow> list_all keyed_valid (mput (cq_BuildID q) (newRunRecord q) s)"
    and "validateClaim q \<Longrightarrow> 0 < cq_Now q \<Longrightarrow> mget s (cq_BuildID q) = Some r \<Longrightarrow> applyClaim r q = (ClaimResumed, r') \<Longrightarrow>
       list_all keyed_valid (mput (cq_BuildID q) r' s)"
    and "mget s b = Some r \<Longrightarrow> \<not> Terminal (rr_Result r) \<Longrightarrow> validLeaseUpdate phase attempt now ttl \<Longrightarrow> 0 < now \<Longrightarrow>
       list_all keyed_valid (mput b (beat r phase attempt now ttl) s)"
    and "mget s b = Some r \<Longrightarrow> validateTerminalResult result b (rr_PayloadDigest r) \<Longrightarrow> terminalAllowedForRecord r result \<Longrightarrow>
       now \<noteq> 0 \<Longrightarrow> list_all keyed_valid (mput b (close_record r result now) s)"
    and "mget s b = Some r \<Longrightarrow> \<not> Terminal (rr_Result r) \<Longrightarrow> 0 < now \<Longrightarrow> list_all keyed_valid (mput b (cancel_record r now) s)"
proof -
  note put = list_all_mput [OF assms] and get = mget_keyed [OF assms]
  show "list_all keyed_valid (mput (cq_BuildID q) (newRunRecord q) s)" if "validateClaim q" "0 < cq_Now q"
    using validateRunRecord_new [OF that] by (intro put) (simp add: keyed_valid_def newRunRecord_def)
  show "list_all keyed_valid (mput (cq_BuildID q) r' s)"
    if "validateClaim q" "0 < cq_Now q" "mget s (cq_BuildID q) = Some r" "applyClaim r q = (ClaimResumed, r')"
    using validateRunRecord_resumed [OF that(4,1,2)] get [OF that(3)] applyClaim_resumed(3) [OF that(4)]
    by (intro put) (simp add: keyed_valid_def)
  show "list_all keyed_valid (mput b (beat r phase attempt now ttl) s)"
    if "mget s b = Some r" "\<not> Terminal (rr_Result r)" "validLeaseUpdate phase attempt now ttl" "0 < now"
    using validateRunRecord_beat [OF _ that(2-4)] get [OF that(1)] by (intro put) (simp add: keyed_valid_def beat_def)
  show "list_all keyed_valid (mput b (close_record r result now) s)"
    if "mget s b = Some r" "validateTerminalResult result b (rr_PayloadDigest r)" "terminalAllowedForRecord r result" "now \<noteq> 0"
    using validateRunRecord_close [OF _ _ that(3,4)] that(2) get [OF that(1)]
    by (intro put) (simp add: keyed_valid_def close_record_def)
  show "list_all keyed_valid (mput b (cancel_record r now) s)"
    if "mget s b = Some r" "\<not> Terminal (rr_Result r)" "0 < now"
    using validateRunRecord_cancel [OF _ that(2)] that(3) get [OF that(1)]
    by (intro put) (simp add: keyed_valid_def cancel_record_def)
qed

definition run_fits :: "(runState, 'b) codec \<Rightarrow> int \<Rightarrow> runState \<Rightarrow> bool" where
  "run_fits c m st \<longleftrightarrow> (\<exists>t. cd_encode c st = Some t \<and> int (cd_size c t) \<le> m * 16 * 1024 + 1024)"

lemma readRunState_valid: "readRunState c m f = Inr st \<Longrightarrow> validateRunState st m"
  by (auto simp: readRunState_def split: option.splits if_splits)

lemma writeRunState_cases:
  assumes "codec_ok c" "run_fits c m st" "validateRunState st m" "writeRunState c m fault st f = (e, f')"
  shows "(fault = None \<longrightarrow> e = None) \<and> (e = None \<longrightarrow> readRunState c m f' = Inr st) \<and>
         (f' = f \<or> readRunState c m f' = Inr st)"
proof -
  obtain t where t: "cd_encode c st = Some t" "int (cd_size c t) \<le> m * 16 * 1024 + 1024"
    using assms(2) by (auto simp: run_fits_def)
  have "readRunState c m (Some \<lparr>df_regular = True, df_perm = 384, df_contents = t\<rparr>) = Inr st"
    using assms(1,3) t by (simp add: readRunState_def codec_okD take_bit_eq_mod)
  then show ?thesis
    using assms(3,4) t by (auto simp: writeRunState_def replace_file_def Let_def split: option.splits if_splits)
qed

text \<open>
  One locked operation, when what it writes is a valid state that fits: the reply of the body or an
  error, and a file that holds the old state or the new one.
\<close>

definition file_outcome ::
  "(runState, 'b) codec \<Rightarrow> int \<Rightarrow> runState \<Rightarrow> 'b disk_file option \<Rightarrow> bool \<Rightarrow> run_reply \<Rightarrow> run_map \<Rightarrow>
   run_reply \<Rightarrow> 'b disk_file option \<Rightarrow> bool" where
  "file_outcome c m st f live mreply records' reply f' \<longleftrightarrow>
     (live \<longrightarrow> reply = mreply) \<and>
     (reply = mreply \<and> readRunState c m f' = Inr (st\<lparr>ru_Records := records'\<rparr>) \<or>
      (\<exists>e. reply = ReplyErr e) \<and> (f' = f \<or> readRunState c m f' = Inr (st\<lparr>ru_Records := records'\<rparr>)))"

lemma withLock_unlocked [simp]: "withLock c m False fault body f = (Inl RunLock, f)"
  by (simp add: withLock_def)

lemma withLock_error:
  "readRunState c m f = Inr st \<Longrightarrow> body (ru_Records st) = Inl e \<Longrightarrow> withLock c m True fault body f = (Inl e, f)"
  by (simp add: withLock_def)

lemma withLock_keep:
  "readRunState c m f = Inr st \<Longrightarrow> body (ru_Records st) = Inr (r, None) \<Longrightarrow> withLock c m True fault body f = (Inr r, f)"
  by (simp add: withLock_def)

lemma withLock_write:
  assumes "codec_ok c" "readRunState c m f = Inr st" "body (ru_Records st) = Inr (r, Some records)"
    and "list_all keyed_valid records" "int (length records) \<le> m" "run_fits c m (st\<lparr>ru_Records := records\<rparr>)"
  shows "file_outcome c m st f (locked \<and> fault = None) (g r) records
           (fst (reply_with g (withLock c m locked fault body f))) (snd (reply_with g (withLock c m locked fault body f)))"
proof (cases locked)
  case True
  let ?st = "st\<lparr>ru_Records := records\<rparr>"
  have v: "validateRunState ?st m"
    using readRunState_valid [OF assms(2)] assms(4,5) by (simp add: validateRunState_def)
  obtain e f' where w: "writeRunState c m fault ?st f = (e, f')" by fastforce
  have "withLock c m True fault body f = (case e of Some e \<Rightarrow> Inl e | None \<Rightarrow> Inr r, f')"
    using assms(2,3) w by (simp add: withLock_def split: option.splits)
  then show ?thesis
    using writeRunState_cases [OF assms(1,6) v w] True
    by (cases e) (auto simp: file_outcome_def reply_with_def)
next
  case False
  then show ?thesis by (simp add: file_outcome_def reply_with_def)
qed

text \<open>When the store refuses a claim because it is full.\<close>

fun has_room :: "int \<Rightarrow> run_op \<Rightarrow> run_map \<Rightarrow> bool" where
  "has_room m (OpClaim q) s \<longleftrightarrow> mget s (cq_BuildID q) \<noteq> None \<or> int (length s) < m"
| "has_room m _ s \<longleftrightarrow> True"

lemma file_outcome_same: "readRunState c m f = Inr st \<Longrightarrow> file_outcome c m st f live r (ru_Records st) r f"
  by (simp add: file_outcome_def)

lemma file_outcome_error: "\<not> live \<Longrightarrow> file_outcome c m st f live r s (ReplyErr e) f"
  by (auto simp: file_outcome_def)

lemma length_mput_hit: "mget s k = Some r \<Longrightarrow> length (mput k v s) = length s"
  by (auto simp: length_mput dom_map_of_conv_image_fst [symmetric])

lemma file_outcome_lock:
  assumes "codec_ok c" "readRunState c m f = Inr st"
    and "case body (ru_Records st) of
           Inl e \<Rightarrow> mreply = ReplyErr e \<and> records' = ru_Records st \<or> \<not> room
         | Inr (r, None) \<Rightarrow> mreply = g r \<and> records' = ru_Records st
         | Inr (r, Some s) \<Rightarrow> mreply = g r \<and> records' = s \<and> list_all keyed_valid s \<and> int (length s) \<le> m"
    and "run_fits c m (st\<lparr>ru_Records := records'\<rparr>)"
    and "reply_with g (withLock c m locked fault body f) = (reply, f')"
  shows "file_outcome c m st f (locked \<and> fault = None \<and> room) mreply records' reply f'"
proof (cases "body (ru_Records st)")
  case (Inl e)
  then show ?thesis
    using assms(2,3,5) withLock_error [OF assms(2), of body e fault] Inl
    by (cases locked) (auto simp: file_outcome_def reply_with_def)
next
  case (Inr x)
  obtain r o' where x: "x = (r, o')" by fastforce
  show ?thesis
  proof (cases o')
    case None
    then show ?thesis
      using assms(2,3,5) Inr x withLock_keep [OF assms(2), of body r fault]
      by (cases locked) (auto simp: file_outcome_def reply_with_def)
  next
    case (Some s)
    have b: "body (ru_Records st) = Inr (r, Some s)" using Inr x Some by simp
    then have *: "mreply = g r" "records' = s" "list_all keyed_valid s" "int (length s) \<le> m"
      using assms(3) by simp_all
    have "file_outcome c m st f (locked \<and> fault = None) mreply records' reply f'"
      using withLock_write [where body = body and r = r and locked = locked and fault = fault and g = g, OF assms(1,2) b *(3,4)]
        assms(4,5) * by simp
    then show ?thesis by (simp add: file_outcome_def)
  qed
qed

lemma FileExec_simulates:
  assumes "codec_ok c" "readRunState c m f = Inr st" "0 < op_now op"
    and "MemoryExec ctx op (ru_Records st) = (mreply, records')"
    and "run_fits c m (st\<lparr>ru_Records := records'\<rparr>)"
    and "FileExec c m ctx locked fault op f = (reply, f')"
  shows "file_outcome c m st f (locked \<and> fault = None \<and> has_room m op (ru_Records st)) mreply records' reply f'"
proof (cases ctx)
  case (Some e)
  then show ?thesis using assms(2,4,6)
    by (cases op) (auto simp: memory_defs FileClaim_def FileHeartbeat_def FileFinish_def FileLookup_def
        FileRequestCancel_def file_outcome_def)
next
  case None
  have v: "list_all keyed_valid (ru_Records st)" and len: "int (length (ru_Records st)) \<le> m"
    using readRunState_valid [OF assms(2)] by (simp_all add: validateRunState_def)
  note lock = file_outcome_lock [OF assms(1,2) _ assms(5)]
  note mem = assms(4) [unfolded None] and fx = assms(6) [unfolded None]
  show ?thesis
  proof (cases op)
    case (OpClaim q)
    show ?thesis
    proof (cases "validateClaim q")
      case True
      show ?thesis unfolding OpClaim
        by (rule lock [OF _ fx [unfolded OpClaim FileExec.simps FileClaim_def, simplified True, simplified]])
          (use mem True OpClaim assms(3) len in \<open>auto simp: memory_defs length_mput length_mput_hit intro: keyed_put [OF v] split: option.splits prod.splits if_splits\<close>)
    qed (use mem fx OpClaim assms(2) in \<open>simp add: memory_defs FileClaim_def file_outcome_def\<close>)
  next
    case (OpHeartbeat b owner phase attempt now ttl)
    show ?thesis unfolding OpHeartbeat
      by (rule lock [OF _ fx [unfolded OpHeartbeat FileExec.simps FileHeartbeat_def, simplified]])
        (use mem OpHeartbeat assms(3) len in \<open>auto simp: memory_defs length_mput_hit intro: keyed_put [OF v] split: option.splits if_splits\<close>)
  next
    case (OpFinish b owner result now)
    show ?thesis unfolding OpFinish
      by (rule lock [OF _ fx [unfolded OpFinish FileExec.simps FileFinish_def, simplified]])
        (use mem OpFinish assms(3) len in \<open>auto simp: memory_defs length_mput_hit intro: keyed_put [OF v] split: option.splits if_splits\<close>)
  next
    case (OpLookup b)
    then show ?thesis using mem fx assms(2)
      by (cases locked) (auto simp: memory_defs FileLookup_def withLock_def file_outcome_def)
  next
    case (OpCancel b g now)
    show ?thesis
    proof (cases "validCancelRequest b g now")
      case True
      show ?thesis unfolding OpCancel
        by (rule lock [OF _ fx [unfolded OpCancel FileExec.simps FileRequestCancel_def, simplified True, simplified]])
          (use mem True OpCancel assms(3) len in \<open>auto simp: memory_defs length_mput_hit cancel_record_def [symmetric] intro: keyed_put [OF v] split: option.splits if_splits\<close>)
    qed (use mem fx OpCancel assms(2) in \<open>simp add: memory_defs FileRequestCancel_def file_outcome_def\<close>)
  qed
qed

section \<open>The Bolt store simulates the in-memory store\<close>

definition bolt_runs :: "(RunRecord, 'b) codec \<Rightarrow> 'b run_bucket \<Rightarrow> run_map \<Rightarrow> bool" where
  "bolt_runs c db s \<longleftrightarrow> list_all keyed_valid s \<and>
     list_all2 (\<lambda>x y. fst x = fst y \<and> (\<lambda>a b. decodeRunRecord c a = Inr b) (snd x) (snd y)) db s"

definition same_reply :: "run_reply \<Rightarrow> run_reply \<Rightarrow> bool" where
  "same_reply a b \<longleftrightarrow> a = b \<or> (\<exists>e e'. a = ReplyErr e \<and> b = ReplyErr e')"

definition bolt_outcome ::
  "(RunRecord, 'b) codec \<Rightarrow> 'b run_bucket \<Rightarrow> bool \<Rightarrow> run_reply \<Rightarrow> run_map \<Rightarrow> run_reply \<Rightarrow> 'b run_bucket \<Rightarrow> bool" where
  "bolt_outcome c db live mreply s' reply db' \<longleftrightarrow>
     (live \<longrightarrow> same_reply reply mreply) \<and>
     (same_reply reply mreply \<and> bolt_runs c db' s' \<or> (\<exists>e. reply = ReplyErr e) \<and> db' = db)"

lemma bolt_runs_get:
  assumes "bolt_runs c db s"
  shows "mget db k = None \<longleftrightarrow> mget s k = None" "mget db k = Some t \<Longrightarrow> \<exists>r. decodeRunRecord c t = Inr r \<and> mget s k = Some r"
  using list_all2_mget [of "\<lambda>a b. decodeRunRecord c a = Inr b" db s k] assms
  by (auto simp: bolt_runs_def option_rel_Some1)

lemma bolt_runs_length: "bolt_runs c db s \<Longrightarrow> length db = length s"
  by (auto simp: bolt_runs_def dest: list_all2_lengthD)

lemma decodeRunRecord_encoded:
  "codec_ok c \<Longrightarrow> cd_encode c r = Some t \<Longrightarrow> validateRunRecord r \<Longrightarrow> decodeRunRecord c t = Inr r"
  by (simp add: decodeRunRecord_def codec_okD validateRunState_def keyed_valid_def)

lemma put_reply_sim:
  assumes "codec_ok c" "bolt_runs c db s" "list_all keyed_valid (mput (rr_BuildID r) r s)"
    and "\<forall>x \<in> set (mput (rr_BuildID r) r s). cd_encode c (snd x) \<noteq> None"
  shows "\<exists>db'. put_reply c x r db = Inr (x, db') \<and> bolt_runs c db' (mput (rr_BuildID r) r s)"
proof -
  have in_put: "(rr_BuildID r, r) \<in> set (mput (rr_BuildID r) r s)"
    by (rule map_of_SomeD) simp
  then have v: "validateRunRecord r" using assms(3) by (auto simp: list_all_iff keyed_valid_def)
  obtain t where t: "cd_encode c r = Some t" using assms(4) in_put by fastforce
  have "bolt_runs c (mput (rr_BuildID r) t db) (mput (rr_BuildID r) r s)"
    using assms(2,3) list_all2_mput [where R = "\<lambda>a b. decodeRunRecord c a = Inr b" and v = t and v' = r, of db s]
      decodeRunRecord_encoded [OF assms(1) t v]
    by (simp add: bolt_runs_def)
  then show ?thesis using v t by (simp add: put_reply_def putRunRecord_def)
qed

text \<open>What a transaction's body may do, and what the update then does.\<close>

lemma bolt_update_sim:
  assumes "bolt_runs c db s"
    and "case body db of
           Inl e \<Rightarrow> (\<exists>e'. mreply = ReplyErr e') \<and> s' = s \<or> \<not> room
         | Inr (r, db1) \<Rightarrow> mreply = g r \<and> bolt_runs c db1 s'"
    and "reply_with g (bolt_update commit body db) = (reply, db')"
  shows "bolt_outcome c db (commit \<and> room) mreply s' reply db'"
  using assms by (auto simp: bolt_update_def bolt_outcome_def same_reply_def reply_with_def
      split: sum.splits prod.splits if_splits)

lemma put_reply_case:
  assumes "codec_ok c" "bolt_runs c db s" "s' = mput (rr_BuildID r) r s" "list_all keyed_valid s'"
    and "\<forall>x \<in> set s'. cd_encode c (snd x) \<noteq> None" "mreply = g x"
  shows "case put_reply c x r db of
           Inl e \<Rightarrow> (\<exists>e'. mreply = ReplyErr e') \<and> s' = s \<or> \<not> room
         | Inr (y, db1) \<Rightarrow> mreply = g y \<and> bolt_runs c db1 s'"
  using put_reply_sim [OF assms(1,2), of r x] assms(3-6) by auto

lemma bolt_runs_cases:
  assumes "bolt_runs c db s"
  obtains (absent) "mget db k = None" "mget s k = None"
  | (held) t r where "mget db k = Some t" "decodeRunRecord c t = Inr r" "mget s k = Some r" "rr_BuildID r = k"
  using bolt_runs_get [OF assms, of k] assms mget_keyed [of s k]
  by (cases "mget db k") (auto simp: bolt_runs_def)

lemma newRunRecord_id [simp]: "rr_BuildID (newRunRecord q) = cq_BuildID q"
  by (simp add: newRunRecord_def)

lemma BoltClaim_sim:
  assumes "codec_ok c" "bolt_runs c db s" "0 < cq_Now q"
    and "MemoryExec None (OpClaim q) s = (mreply, s')" "\<forall>x \<in> set s'. cd_encode c (snd x) \<noteq> None"
    and "BoltExec c m None commit (OpClaim q) db = (reply, db')"
  shows "bolt_outcome c db (commit \<and> has_room m (OpClaim q) s) mreply s' reply db'"
proof (cases "validateClaim q")
  case False
  then show ?thesis using assms by (simp add: memory_defs BoltClaim_def bolt_outcome_def same_reply_def)
next
  case True
  have v: "list_all keyed_valid s" using assms(2) by (simp add: bolt_runs_def)
  note put = put_reply_case [OF assms(1,2) _ _ assms(5)]
  note upd = bolt_update_sim [OF assms(2) _ assms(6) [unfolded BoltExec.simps BoltClaim_def, simplified True, simplified]]
  from assms(2) show ?thesis
  proof (cases rule: bolt_runs_cases [where k = "cq_BuildID q"])
    case absent
    have m: "mreply = ReplyClaim ClaimAccepted (newRunRecord q)"
      "s' = mput (rr_BuildID (newRunRecord q)) (newRunRecord q) s"
      using assms(4) True absent by (auto simp: memory_defs)
    have "list_all keyed_valid s'" using keyed_put(1) [OF v True assms(3)] m by simp
    from put [OF m(2) this, of mreply "case_prod ReplyClaim" "(ClaimAccepted, newRunRecord q)" "has_room m (OpClaim q) s"]
    show ?thesis by (intro upd) (use absent m bolt_runs_length [OF assms(2)] in simp)
  next
    case (held t r)
    obtain oc r' where a: "applyClaim r q = (oc, r')" by fastforce
    show ?thesis
    proof (cases "oc = ClaimResumed")
      case resumed: True
      note r' = applyClaim_resumed [OF a [unfolded resumed]]
      have m: "mreply = ReplyClaim oc r'" "s' = mput (rr_BuildID r') r' s"
        using assms(4) True held a resumed r' by (auto simp: memory_defs)
      have "list_all keyed_valid s'"
        using keyed_put(2) [OF v True assms(3) held(3) a [unfolded resumed]] m r' by simp
      from put [OF m(2) this, of mreply "case_prod ReplyClaim" "(oc, r')" "has_room m (OpClaim q) s"]
      show ?thesis by (intro upd) (use held a resumed m in simp)
    next
      case False
      then show ?thesis by (intro upd) (use assms(2,4) True held a in \<open>auto simp: memory_defs\<close>)
    qed
  qed
qed

lemma BoltHeartbeat_sim:
  assumes "codec_ok c" "bolt_runs c db s" "0 < now"
    and "MemoryExec None (OpHeartbeat b owner phase attempt now ttl) s = (mreply, s')" "\<forall>x \<in> set s'. cd_encode c (snd x) \<noteq> None"
    and "BoltExec c m None commit (OpHeartbeat b owner phase attempt now ttl) db = (reply, db')"
  shows "bolt_outcome c db commit mreply s' reply db'"
proof -
  have v: "list_all keyed_valid s" using assms(2) by (simp add: bolt_runs_def)
  note upd = bolt_update_sim [OF assms(2) _ assms(6) [unfolded BoltExec.simps BoltHeartbeat_def, simplified], where room = True, simplified]
  from assms(2) show ?thesis
  proof (cases rule: bolt_runs_cases [where k = b])
    case absent
    then show ?thesis by (intro upd) (use assms(4) in \<open>auto simp: memory_defs\<close>)
  next
    case (held t r)
    let ?r = "beat r phase attempt now ttl"
    show ?thesis
    proof (cases "rr_Owner r \<noteq> owner \<or> Terminal (rr_Result r) \<or> \<not> validLeaseUpdate phase attempt now ttl")
      case True
      then show ?thesis by (intro upd) (use held assms(4) in \<open>auto simp: memory_defs\<close>)
    next
      case False
      then have m: "mreply = ReplyDone" "s' = mput (rr_BuildID ?r) ?r s"
        using assms(4) held by (auto simp: memory_defs beat_def)
      have "list_all keyed_valid s'" using keyed_put(3) [OF v held(3)] False assms(3) m held by (simp add: beat_def)
      from put_reply_case [OF assms(1,2) m(2) this assms(5), of mreply "\<lambda>_. ReplyDone" "()" True] show ?thesis
        by (intro upd) (use held False m in simp)
    qed
  qed
qed

lemma BoltFinish_sim:
  assumes "codec_ok c" "bolt_runs c db s"
    and "MemoryExec None (OpFinish b owner result now) s = (mreply, s')" "\<forall>x \<in> set s'. cd_encode c (snd x) \<noteq> None"
    and "BoltExec c m None commit (OpFinish b owner result now) db = (reply, db')"
  shows "bolt_outcome c db commit mreply s' reply db'"
proof -
  have v: "list_all keyed_valid s" using assms(2) by (simp add: bolt_runs_def)
  note upd = bolt_update_sim [OF assms(2) _ assms(5) [unfolded BoltExec.simps BoltFinish_def, simplified], where room = True, simplified]
  from assms(2) show ?thesis
  proof (cases rule: bolt_runs_cases [where k = b])
    case absent
    then show ?thesis by (intro upd) (use assms(3) in \<open>auto simp: memory_defs\<close>)
  next
    case (held t r)
    let ?r = "close_record r result now"
    show ?thesis
    proof (cases "rr_Owner r \<noteq> owner \<or> \<not> validateTerminalResult result b (rr_PayloadDigest r) \<or>
        \<not> terminalAllowedForRecord r result \<or> now = 0")
      case True
      then show ?thesis by (intro upd) (use held assms(3) in \<open>auto simp: memory_defs\<close>)
    next
      case False
      then have m: "mreply = ReplyDone" "s' = mput (rr_BuildID ?r) ?r s"
        using assms(3) held by (auto simp: memory_defs close_record_def)
      have "list_all keyed_valid s'" using keyed_put(4) [OF v held(3)] False m held by (simp add: close_record_def)
      from put_reply_case [OF assms(1,2) m(2) this assms(4), of mreply "\<lambda>_. ReplyDone" "()" True] show ?thesis
        by (intro upd) (use held False m in simp)
    qed
  qed
qed

lemma BoltRequestCancel_sim:
  assumes "codec_ok c" "bolt_runs c db s" "0 < now"
    and "MemoryExec None (OpCancel b g now) s = (mreply, s')" "\<forall>x \<in> set s'. cd_encode c (snd x) \<noteq> None"
    and "BoltExec c m None commit (OpCancel b g now) db = (reply, db')"
  shows "bolt_outcome c db commit mreply s' reply db'"
proof (cases "validCancelRequest b g now")
  case False
  then show ?thesis using assms by (simp add: memory_defs BoltRequestCancel_def bolt_outcome_def same_reply_def)
next
  case valid: True
  have v: "list_all keyed_valid s" using assms(2) by (simp add: bolt_runs_def)
  note upd = bolt_update_sim [OF assms(2) _ assms(6) [unfolded BoltExec.simps BoltRequestCancel_def, simplified valid, simplified],
      where room = True, simplified]
  from assms(2) show ?thesis
  proof (cases rule: bolt_runs_cases [where k = b])
    case absent
    then show ?thesis by (intro upd) (use assms(2,4) valid in \<open>auto simp: memory_defs\<close>)
  next
    case (held t r)
    let ?r = "cancel_record r now"
    show ?thesis
    proof (cases "rr_Generation r \<noteq> g \<or> Terminal (rr_Result r)")
      case True
      then show ?thesis by (intro upd) (use held assms(2,4) valid in \<open>auto simp: memory_defs\<close>)
    next
      case False
      then have m: "mreply = ReplyCancel True" "s' = mput (rr_BuildID ?r) ?r s"
        using assms(4) held valid by (auto simp: memory_defs cancel_record_def)
      have "list_all keyed_valid s'" using keyed_put(5) [OF v held(3)] False assms(3) m held by (simp add: cancel_record_def)
      from put_reply_case [OF assms(1,2) m(2) this assms(5), of mreply ReplyCancel True True] show ?thesis
        by (intro upd) (use held False m in \<open>simp add: cancel_record_def\<close>)
    qed
  qed
qed

lemma BoltExec_simulates:
  assumes "codec_ok c" "bolt_runs c db s" "0 < op_now op"
    and "MemoryExec ctx op s = (mreply, s')" "\<forall>x \<in> set s'. cd_encode c (snd x) \<noteq> None"
    and "BoltExec c m ctx commit op db = (reply, db')"
  shows "bolt_outcome c db (commit \<and> has_room m op s) mreply s' reply db'"
proof (cases ctx)
  case (Some e)
  then show ?thesis using assms(2,4,6)
    by (cases op) (auto simp: memory_defs BoltClaim_def BoltHeartbeat_def BoltFinish_def BoltLookup_def
        BoltRequestCancel_def bolt_outcome_def same_reply_def)
next
  case None
  show ?thesis
  proof (cases op)
    case (OpLookup b)
    from assms(2) show ?thesis
      by (cases rule: bolt_runs_cases [where k = b])
        (use None OpLookup assms(2,4,6) in \<open>auto simp: memory_defs BoltLookup_def bolt_outcome_def same_reply_def\<close>)
  next
    case (OpClaim q)
    show ?thesis
      using BoltClaim_sim [OF assms(1,2) _ assms(4) [unfolded None OpClaim] assms(5) assms(6) [unfolded None OpClaim]]
        assms(3) OpClaim by simp
  next
    case (OpHeartbeat b owner phase attempt now ttl)
    show ?thesis
      using BoltHeartbeat_sim [OF assms(1,2) _ assms(4) [unfolded None OpHeartbeat] assms(5) assms(6) [unfolded None OpHeartbeat]]
        assms(3) OpHeartbeat by simp
  next
    case (OpFinish b owner result now)
    show ?thesis
      using BoltFinish_sim [OF assms(1,2) assms(4) [unfolded None OpFinish] assms(5) assms(6) [unfolded None OpFinish]]
        OpFinish by simp
  next
    case (OpCancel b g now)
    show ?thesis
      using BoltRequestCancel_sim [OF assms(1,2) _ assms(4) [unfolded None OpCancel] assms(5) assms(6) [unfolded None OpCancel]]
        assms(3) OpCancel by simp
  qed
qed

section \<open>Properties\<close>

text \<open>Values for the witnesses.\<close>

definition sample_claim :: "string \<Rightarrow> time \<Rightarrow> ClaimRequest" where
  "sample_claim owner now = \<lparr>cq_BuildID = sample_id ''bld'', cq_Generation = 1, cq_PayloadDigest = sample_digest,
     cq_Owner = owner, cq_Now = now, cq_LeaseTTL = minute\<rparr>"

definition sample_result :: "Phase \<Rightarrow> Result" where
  "sample_result phase = \<lparr>re_BuildID = sample_id ''bld'', re_PayloadDigest = sample_digest, re_Phase = phase,
     re_Attempts = 1, re_WorkerIdentity = [], re_Worker = zeroWorkerResult,
     re_Cleanup = \<lparr>cr_BuildID = sample_id ''bld'', cr_Status = CleanupClean, cr_Residue = [],
       cr_RemovedPaths = [], cr_QuarantineReason = []\<rparr>,
     re_ErrorCode = ''canceled'', re_LogsDigest = sample_digest, re_StartedAt = 1, re_FinishedAt = 2, re_Replay = False\<rparr>"

lemma runOwnerPattern_samples [simp]: "runOwnerPattern ''run-a''" "runOwnerPattern ''run-b''"
  by (simp_all add: runOwnerPattern_def is_upper_def is_lower_def is_digit_def in_range_def)

lemma sample_claim_valid: "runOwnerPattern owner \<Longrightarrow> now \<noteq> 0 \<Longrightarrow> validateClaim (sample_claim owner now)"
  by (simp add: validateClaim_def sample_claim_def allowedPrefixes_def)

lemma sample_result_valid:
  "phase = PhaseFailed \<or> phase = PhaseCanceled \<Longrightarrow>
   validateTerminalResult (sample_result phase) (sample_id ''bld'') sample_digest"
  by (auto simp: validateTerminalResult_def sample_result_def Terminal_def DefaultMaxAttempts_def cleanupProvenClean_def)

definition sample_store :: run_map where
  "sample_store = [(sample_id ''bld'', newRunRecord (sample_claim ''run-a'' 1))]"

lemma sample_store_claimed:
  "MemoryExec None (OpClaim (sample_claim ''run-a'' 1)) [] =
     (ReplyClaim ClaimAccepted (newRunRecord (sample_claim ''run-a'' 1)), sample_store)"
  by (simp add: memory_defs sample_claim_valid sample_store_def)
    (simp add: sample_claim_def)

lemma sample_record:
  "mget sample_store (sample_id ''bld'') = Some (newRunRecord (sample_claim ''run-a'' 1))"
  "rr_Owner (newRunRecord (sample_claim owner t)) = owner"
  "rr_LeaseUntil (newRunRecord (sample_claim owner t)) = t + minute"
  "rr_Generation (newRunRecord (sample_claim owner t)) = 1"
  "rr_PayloadDigest (newRunRecord (sample_claim owner t)) = sample_digest"
  "rr_CancelRequested (newRunRecord (sample_claim owner t)) = False"
  "Terminal (rr_Result (newRunRecord (sample_claim owner t))) = False"
  by (simp_all add: sample_store_def newRunRecord_def sample_claim_def Terminal_def)

lemma sample_store_valid: "journal_valid (mget sample_store)"
  using mem_runs.history_valid [of "[]" "[(None, OpClaim (sample_claim ''run-a'' 1))]"] sample_store_claimed
  by (simp add: journal_valid_def sample_claim_def)

text \<open>
  C1: whatever claims, heartbeats, finishes, lookups and cancellations a new journal sees, by
  whatever owners and in whatever order, every record in it is filed under its own build and passes
  the durable-record validation that the file and Bolt stores apply when they read it back. Clocks
  read later than Go's zero time.
\<close>

theorem run_records_stay_valid:
  assumes "\<forall>x \<in> set ops. 0 < op_now (snd x)" "mget (run_history MemoryExec ops []) k = Some r"
  shows "rr_BuildID r = k \<and> validateRunRecord r"
  using mem_runs.history_valid [of "[]" ops] assms by (simp add: journal_valid_def keyed_valid_def)

theorem run_records_stay_valid_witness:
  "mget (run_history MemoryExec [(None, OpClaim (sample_claim ''run-a'' 1))] []) (sample_id ''bld'') =
     Some (newRunRecord (sample_claim ''run-a'' 1)) \<and>
   validateRunRecord (newRunRecord (sample_claim ''run-a'' 1))"
proof -
  have *: "mget (run_history MemoryExec [(None, OpClaim (sample_claim ''run-a'' 1))] []) (sample_id ''bld'') =
      Some (newRunRecord (sample_claim ''run-a'' 1))"
    using sample_store_claimed sample_record(1) by simp
  then show ?thesis
    using run_records_stay_valid [OF _ *] by (simp add: sample_claim_def)
qed

text \<open>
  C3: a cancellation that the journal acknowledged is never lost. Whatever happens afterwards, the
  record keeps the request, and if the run ends, it ends as canceled or quarantined, never as a
  success or an ordinary failure.
\<close>

theorem run_cancel_sticky:
  assumes "journal_valid (mget s)" "MemoryExec ctx (OpCancel b g now) s = (ReplyCancel True, s')"
    and "\<forall>x \<in> set ops. 0 < op_now (snd x)" "0 < now"
  shows "\<exists>r. mget (run_history MemoryExec ops s') b = Some r \<and> rr_CancelRequested r \<and>
    (Terminal (rr_Result r) \<longrightarrow> re_Phase (rr_Result r) \<in> {PhaseCanceled, PhaseQuarantined})"
proof -
  have "\<exists>r. mget s' b = Some r \<and> rr_CancelRequested r"
    using assms(2) by (auto simp: memory_defs split: option.splits if_splits)
  then obtain r0 where r0: "mget s' b = Some r0" "rr_CancelRequested r0" by blast
  then obtain r where r: "mget (run_history MemoryExec ops s') b = Some r" "same_run r0 r"
    using mem_runs.history_same by blast
  have "journal_valid (mget s')"
    using run_step_valid [OF mem_runs.exec_step [OF assms(2)]] assms(1,4) by simp
  then have "journal_valid (mget (run_history MemoryExec ops s'))" by (rule mem_runs.history_valid [OF _ assms(3)])
  then have "validateRunRecord r" using r(1) by (simp add: journal_valid_def keyed_valid_def)
  then show ?thesis using r r0(2) validateRunRecord_allowed [of r]
    by (auto simp: terminalAllowedForRecord_def same_run_def)
qed

theorem run_cancel_sticky_witness:
  "\<exists>s'. MemoryExec None (OpCancel (sample_id ''bld'') 1 2) sample_store = (ReplyCancel True, s') \<and>
     fst (MemoryExec None (OpFinish (sample_id ''bld'') ''run-a'' (sample_result PhaseFailed) 3) s') = ReplyErr RunTerminal \<and>
     (\<exists>r. mget (run_history MemoryExec [(None, OpFinish (sample_id ''bld'') ''run-a'' (sample_result PhaseCanceled) 3)] s')
            (sample_id ''bld'') = Some r \<and> rr_CancelRequested r)"
proof -
  obtain s' where s': "MemoryExec None (OpCancel (sample_id ''bld'') 1 2) sample_store = (ReplyCancel True, s')"
    "mget s' (sample_id ''bld'') = Some (cancel_record (newRunRecord (sample_claim ''run-a'' 1)) 2)"
    by (simp add: memory_defs validCancelRequest_def allowedPrefixes_def sample_record cancel_record_def)
  have "fst (MemoryExec None (OpFinish (sample_id ''bld'') ''run-a'' (sample_result PhaseFailed) 3) s') = ReplyErr RunTerminal"
    using s'(2) by (simp add: memory_defs terminalAllowedForRecord_def cancel_record_def sample_result_def)
  then show ?thesis
    using s' run_cancel_sticky [OF sample_store_valid s'(1),
        of "[(None, OpFinish (sample_id ''bld'') ''run-a'' (sample_result PhaseCanceled) 3)]"] by auto
qed

text \<open>
  C2: the lease of a run that was not asked to cancel is exclusive and ends on time. Whatever
  operations other owners perform on the run while its lease is live, and whatever happens to other
  builds, short of a cancellation of the run, its record stays as it is. Another owner who then
  claims the same generation and payload is answered in-progress while the lease is live and
  changes nothing; once the lease has ended, the claim resumes the run under the new owner. A
  cancelled run is left out: its claims are described by \<open>cancel_keeps_lease\<close>.
\<close>

theorem run_lease_excludes:
  assumes "journal_valid (mget s)" "mget s (cq_BuildID q) = Some r" "\<not> Terminal (rr_Result r)" "\<not> rr_CancelRequested r"
    and "\<forall>x \<in> set ops. foreign_op (cq_BuildID q) (rr_Owner r) (rr_LeaseUntil r) (snd x)"
    and "validateClaim q" "cq_Generation q = rr_Generation r" "cq_PayloadDigest q = rr_PayloadDigest r" "cq_Owner q \<noteq> rr_Owner r"
    and "run_history MemoryExec ops s = s1"
  shows "mget s1 (cq_BuildID q) = Some r \<and>
    (if cq_Now q < rr_LeaseUntil r then MemoryExec None (OpClaim q) s1 = (ReplyClaim ClaimInProgress r, s1)
     else \<exists>r'. MemoryExec None (OpClaim q) s1 = (ReplyClaim ClaimResumed r', mput (cq_BuildID q) r' s1) \<and>
       rr_Owner r' = cq_Owner q \<and> rr_LeaseUntil r' = cq_Now q + cq_LeaseTTL q \<and> same_run r r')"
proof -
  have s1: "mget s1 (cq_BuildID q) = Some r"
    using mem_runs.history_foreign [OF assms(2,5)] assms(10) by simp
  have "keyed_valid (cq_BuildID q, r)" using assms(1,2) by (simp add: journal_valid_def)
  then have "rr_BuildID r = cq_BuildID q" "rr_Version r = CurrentRunRecordVersion"
    by (auto simp: keyed_valid_def validateRunRecord_def split: if_splits)
  then show ?thesis using assms(3,6-9) s1 by (simp add: memory_defs applyClaim_def same_run_def)
qed

theorem run_lease_excludes_witness:
  "MemoryExec None (OpClaim (sample_claim ''run-b'' 6)) (run_history MemoryExec [(None, OpClaim (sample_claim ''run-b'' 5))] sample_store) =
     (ReplyClaim ClaimInProgress (newRunRecord (sample_claim ''run-a'' 1)),
      run_history MemoryExec [(None, OpClaim (sample_claim ''run-b'' 5))] sample_store) \<and>
   (\<exists>r' s'. MemoryExec None (OpClaim (sample_claim ''run-b'' (1 + minute))) (run_history MemoryExec [(None, OpClaim (sample_claim ''run-b'' 5))] sample_store) =
     (ReplyClaim ClaimResumed r', s') \<and> rr_Owner r' = ''run-b'')"
proof -
  have id: "cq_BuildID (sample_claim ow t) = sample_id ''bld''" "cq_Generation (sample_claim ow t) = 1"
    "cq_PayloadDigest (sample_claim ow t) = sample_digest" "cq_Owner (sample_claim ow t) = ow" "cq_Now (sample_claim ow t) = t" for ow t
    by (simp_all add: sample_claim_def)
  have v: "validateClaim (sample_claim ''run-b'' t)" if "0 < t" for t using that by (simp add: sample_claim_valid)
  note claim = run_lease_excludes [where ops = "[(None, OpClaim (sample_claim ''run-b'' 5))]", OF sample_store_valid _ _ _ _ v _ _ _ refl]
  have "(0::int) < minute" "(6::int) < 1 + minute" by simp_all
  then show ?thesis
    using claim [of 6 "newRunRecord (sample_claim ''run-a'' 1)"] claim [of "1 + minute" "newRunRecord (sample_claim ''run-a'' 1)"]
    by (auto simp: sample_record id)
qed

text \<open>
  the identity of a run is fixed by its first claim. After any later history, a claim for the
  same build with another generation or another payload digest is answered with a conflict, and
  the journal does not change.
\<close>

theorem run_identity_fixed:
  assumes "mget s (cq_BuildID q) = Some r" "validateClaim q"
    and "cq_Generation q \<noteq> rr_Generation r \<or> cq_PayloadDigest q \<noteq> rr_PayloadDigest r"
    and "run_history MemoryExec ops s = s1"
  shows "\<exists>r'. MemoryExec None (OpClaim q) s1 = (ReplyClaim ClaimConflict r', s1)"
proof -
  obtain r1 where "mget s1 (cq_BuildID q) = Some r1" "same_run r r1"
    using mem_runs.history_same [OF assms(1), of ops] assms(4) by blast
  then show ?thesis using assms(2,3) by (auto simp: memory_defs applyClaim_def same_run_def)
qed

theorem run_identity_fixed_witness:
  "\<exists>r'. MemoryExec None (OpClaim ((sample_claim ''run-b'' 9)\<lparr>cq_Generation := 2\<rparr>)) sample_store =
     (ReplyClaim ClaimConflict r', sample_store)"
proof -
  have "validateClaim ((sample_claim ''run-b'' 9)\<lparr>cq_Generation := 2\<rparr>)"
    using sample_claim_valid [of "''run-b''" 9] by (simp add: validateClaim_def)
  then show ?thesis
    using run_identity_fixed [of sample_store "(sample_claim ''run-b'' 9)\<lparr>cq_Generation := 2\<rparr>" _ "[]" sample_store]
      sample_record by (simp add: sample_claim_def)
qed

text \<open>
  C19: the file store implements the in-memory store as long as the state stays within the size
  that \<open>readState\<close> accepts. On a file that holds a valid state, an operation whose new state can be
  encoded within that size answers as the in-memory store does on the old state and leaves the new
  state on disk, or answers with an error and leaves the old state or the new one, whatever step of
  the replacement failed. With the lock, no fault and room for a new build, the answer is the
  in-memory store's. What happens beyond the size is \<open>oversized_state_unreadable\<close>.
\<close>

theorem FileExec_refines_memory:
  assumes "codec_ok c" "readRunState c m f = Inr st" "0 < op_now op"
    and "MemoryExec ctx op (ru_Records st) = (mreply, records')"
    and "run_fits c m (st\<lparr>ru_Records := records'\<rparr>)"
    and "FileExec c m ctx locked fault op f = (reply, f')"
  shows "(locked \<and> fault = None \<and> has_room m op (ru_Records st) \<longrightarrow> reply = mreply) \<and>
    (reply = mreply \<and> readRunState c m f' = Inr (st\<lparr>ru_Records := records'\<rparr>) \<or>
     (\<exists>e. reply = ReplyErr e) \<and> (f' = f \<or> readRunState c m f' = Inr (st\<lparr>ru_Records := records'\<rparr>)))"
  using FileExec_simulates [OF assms] by (simp add: file_outcome_def)

definition sample_run_file :: "runState disk_file option" where
  "sample_run_file = Some \<lparr>df_regular = True, df_perm = 384, df_contents = \<lparr>ru_Version = 1, ru_Records = []\<rparr>\<rparr>"

theorem FileExec_refines_memory_witness:
  "fst (FileExec identity_codec 8 None True None (OpClaim (sample_claim ''run-a'' 1)) sample_run_file) =
     ReplyClaim ClaimAccepted (newRunRecord (sample_claim ''run-a'' 1)) \<and>
   readRunState identity_codec 8 (snd (FileExec identity_codec 8 None True None (OpClaim (sample_claim ''run-a'' 1)) sample_run_file)) =
     Inr \<lparr>ru_Version = 1, ru_Records = sample_store\<rparr>"
proof -
  let ?op = "OpClaim (sample_claim ''run-a'' 1)"
  obtain reply f' where x: "FileExec identity_codec 8 None True None ?op sample_run_file = (reply, f')" by fastforce
  have f: "readRunState identity_codec 8 sample_run_file = Inr \<lparr>ru_Version = 1, ru_Records = []\<rparr>"
    by (simp add: readRunState_def sample_run_file_def identity_codec_def take_bit_eq_mod validateRunState_def runStateVersion_def)
  have m: "MemoryExec None ?op (ru_Records \<lparr>ru_Version = 1, ru_Records = []\<rparr>) =
      (ReplyClaim ClaimAccepted (newRunRecord (sample_claim ''run-a'' 1)), sample_store)"
    using sample_store_claimed by simp
  have "run_fits identity_codec 8 (\<lparr>ru_Version = 1, ru_Records = []\<rparr>\<lparr>ru_Records := sample_store\<rparr>)"
    by (simp add: run_fits_def identity_codec_def)
  from FileExec_refines_memory [OF _ f _ m this x] show ?thesis
    using x by (auto simp: sample_claim_def)
qed

text \<open>
  C20: the Bolt store implements the in-memory store. On a bucket that holds the records of an
  in-memory journal, each operation has the same reply (any error for any error) and leaves a bucket
  that holds the journal's new records, or answers with an error and changes nothing. When the
  commit succeeds and there is room, the reply is the in-memory store's.
\<close>

theorem BoltExec_refines_memory:
  assumes "codec_ok c" "bolt_runs c db s" "0 < op_now op"
    and "MemoryExec ctx op s = (mreply, s')" "\<forall>x \<in> set s'. cd_encode c (snd x) \<noteq> None"
    and "BoltExec c m ctx commit op db = (reply, db')"
  shows "(commit \<and> has_room m op s \<longrightarrow> same_reply reply mreply) \<and>
    (same_reply reply mreply \<and> bolt_runs c db' s' \<or> (\<exists>e. reply = ReplyErr e) \<and> db' = db)"
  using BoltExec_simulates [OF assms] by (simp add: bolt_outcome_def)

theorem BoltExec_refines_memory_witness:
  "same_reply (fst (BoltExec identity_codec 8 None True (OpClaim (sample_claim ''run-a'' 1)) []))
     (ReplyClaim ClaimAccepted (newRunRecord (sample_claim ''run-a'' 1)))"
proof -
  have "bolt_runs identity_codec [] []" by (simp add: bolt_runs_def)
  from BoltExec_refines_memory [OF _ this _ sample_store_claimed _ surjective_pairing, where m = 8 and commit = True] show ?thesis
    by (simp add: sample_claim_def [THEN arg_cong [where f = cq_Now]])
qed

section \<open>Behaviour worth knowing\<close>

text \<open>
  \<open>Finish\<close> has no guard against a record that is already terminal: its last owner can replace a
  recorded terminal result by another valid one.
\<close>

theorem Finish_overwrites_terminal:
  "\<exists>s1 s2. MemoryFinish None (sample_id ''bld'') ''run-a'' (sample_result PhaseFailed) 3 sample_store = (None, s1) \<and>
     (\<exists>r. mget s1 (sample_id ''bld'') = Some r \<and> rr_Result r = sample_result PhaseFailed \<and> Terminal (rr_Result r)) \<and>
     MemoryFinish None (sample_id ''bld'') ''run-a'' (sample_result PhaseCanceled) 4 s1 = (None, s2) \<and>
     (\<exists>r. mget s2 (sample_id ''bld'') = Some r \<and> rr_Result r = sample_result PhaseCanceled)"
  using sample_result_valid [of PhaseFailed] sample_result_valid [of PhaseCanceled]
  by (simp add: MemoryFinish_def sample_record terminalAllowedForRecord_def close_record_def Terminal_def sample_result_def [THEN arg_cong [where f = re_Phase]])

text \<open>A persisted cancellation does not by itself let another owner take the run over.\<close>

lemma cancel_keeps_lease:
  assumes "rr_CancelRequested r" "rr_LeaseUntil r > cq_Now q" "rr_Owner r \<noteq> cq_Owner q"
  shows "fst (applyClaim r q) \<noteq> ClaimResumed"
  using assms by (simp add: applyClaim_def)

text \<open>
  \<open>writeState\<close> does not apply the size bound that \<open>readState\<close> applies: it can replace a readable
  state by one that no later operation can read.
\<close>

lemma oversized_state_unreadable:
  assumes "validateRunState st m" "cd_encode c st = Some t" "int (cd_size c t) > m * 16 * 1024 + 1024"
  shows "writeRunState c m None st f = (None, Some \<lparr>df_regular = True, df_perm = 384, df_contents = t\<rparr>)"
    and "readRunState c m (Some \<lparr>df_regular = True, df_perm = 384, df_contents = t\<rparr>) = Inl RunState"
  using assms by (simp_all add: writeRunState_def replace_file_def readRunState_def)

text \<open>
  The stores bound attempts by \<open>DefaultMaxAttempts\<close>, whatever limit the controller was configured
  with: a fourth attempt can neither renew its lease nor record its result.
\<close>

lemma attempts_bounded_by_default:
  assumes "attempt > 3"
  shows "\<not> validLeaseUpdate phase attempt now ttl"
    and "re_Attempts result = attempt \<Longrightarrow> \<not> validateTerminalResult result b d"
  using assms by (auto simp: validLeaseUpdate_def validateTerminalResult_def DefaultMaxAttempts_def)

end
