(* ===== verification/Controller.thy ===== *)
theory Controller
  imports Assignment Run_Laws Replay_Store
begin

text \<open>
  The build controller (\<^verbatim>\<open>src/services/build-plane/internal/buildcontrol/controller.go\<close> and the
  allocation errors of \<^verbatim>\<open>types.go\<close>): a verified assignment is reserved, claimed in the run journal,
  resolved and executed on disposable workers, with retries, cancellation and cleanup. The
  controller calls a run store, a clock, a capability broker and a worker allocator. The run store
  is any function on \<open>run_op\<close>; what the others answer is read from \<open>surroundings\<close>, the clock, the
  cancellation channel and the revocations call by call. Between two store calls other parties may
  have used the store (\<open>or_others\<close>). Broker and worker calls are recorded in a trace.
\<close>

section \<open>Events\<close>

record eventEmitter =
  em_sequence :: uint64
  em_delivered :: "WorkerEvent list"
  em_transcript :: string
  em_digestErr :: bool

definition newEventEmitter :: eventEmitter where
  "newEventEmitter = \<lparr>em_sequence = 0, em_delivered = [], em_transcript = [], em_digestErr = False\<rparr>"

text \<open>\<open>binary.BigEndian.PutUint64\<close>.\<close>

fun be_bytes :: "nat \<Rightarrow> nat \<Rightarrow> string" where
  "be_bytes 0 v = []"
| "be_bytes (Suc n) v = be_bytes n (v div 256) @ [char_of (v mod 256)]"

definition emit_worker :: "(WorkerEvent \<Rightarrow> string option) \<Rightarrow> time \<Rightarrow> WorkerEvent \<Rightarrow> eventEmitter \<Rightarrow> eventEmitter" where
  "emit_worker encode now event0 em =
     (let n = em_sequence em + 1;
          event1 = event0\<lparr>we_Sequence := n\<rparr>;
          event = (if we_OccurredAt event1 = 0 then event1\<lparr>we_OccurredAt := now\<rparr> else event1) in
      case encode event of
        None \<Rightarrow> em\<lparr>em_sequence := n, em_delivered := em_delivered em @ [event], em_digestErr := True\<rparr>
      | Some encoded \<Rightarrow>
          em\<lparr>em_sequence := n, em_delivered := em_delivered em @ [event],
             em_transcript := em_transcript em @ be_bytes 8 (length encoded) @ encoded\<rparr>)"

definition phase_event :: "Phase \<Rightarrow> uint32 \<Rightarrow> string \<Rightarrow> time \<Rightarrow> WorkerEvent" where
  "phase_event phase attempt message now =
     \<lparr>we_Sequence = 0, we_Attempt = attempt, we_Phase = phase, we_Kind = ''phase'', we_Output = [], we_Vertex = [], we_Name = [],
      we_Current = 0, we_Total = 0, we_Cached = False, we_Stream = 0, we_Line = [], we_Code = [], we_Message = message,
      we_OccurredAt = now\<rparr>"

definition emit_digest :: "audit_lib \<Rightarrow> eventEmitter \<Rightarrow> string option" where
  "emit_digest l em = (if em_digestErr em then None else Some (bytesDigest l (em_transcript em)))"

section \<open>Cleanup reports\<close>

definition appendReason :: "string \<Rightarrow> string \<Rightarrow> string" where
  "appendReason existing reason =
     (if reason = [] then existing else if existing = [] then reason else existing @ ''; '' @ reason)"

definition noResourceCleanup :: "string \<Rightarrow> CleanupReport" where
  "noResourceCleanup buildID =
     \<lparr>cr_BuildID = buildID, cr_Status = CleanupClean, cr_Residue = [], cr_RemovedPaths = [], cr_QuarantineReason = []\<rparr>"

definition residue :: "string \<Rightarrow> string \<Rightarrow> Residue" where
  "residue kind detail = \<lparr>rd_Kind = kind, rd_Target = [], rd_Detail = detail\<rparr>"

definition add_report :: "string \<Rightarrow> CleanupReport \<Rightarrow> CleanupReport \<Rightarrow> CleanupReport" where
  "add_report buildID combined0 report =
     (let combined1 =
            (if cr_BuildID report \<noteq> [] \<and> cr_BuildID report \<noteq> buildID then
               combined0\<lparr>cr_Status := CleanupQuarantined,
                 cr_Residue := cr_Residue combined0 @ [residue ''cleanup_identity'' ''cleanup report belongs to another build''],
                 cr_QuarantineReason := appendReason (cr_QuarantineReason combined0) ''cleanup identity mismatch''\<rparr>
             else combined0);
          combined2 = combined1\<lparr>cr_Residue := cr_Residue combined1 @ cr_Residue report,
            cr_RemovedPaths := cr_RemovedPaths combined1 @ cr_RemovedPaths report\<rparr> in
      if \<not> cleanupProvenClean report then
        combined2\<lparr>cr_Status := CleanupQuarantined,
          cr_QuarantineReason := appendReason (cr_QuarantineReason combined2) (cr_QuarantineReason report)\<rparr>
      else combined2)"

definition combineCleanupReports :: "string \<Rightarrow> CleanupReport list \<Rightarrow> CleanupReport" where
  "combineCleanupReports buildID reports =
     (let combined = foldl (add_report buildID) (noResourceCleanup buildID) reports in
      if cr_Residue combined \<noteq> [] then
        combined\<lparr>cr_Status := CleanupQuarantined, cr_QuarantineReason := appendReason (cr_QuarantineReason combined) ''residue remains''\<rparr>
      else combined)"

text \<open>A failed release or revocation after the worker ended.\<close>

definition mark_failure :: "string \<Rightarrow> string \<Rightarrow> CleanupReport \<Rightarrow> CleanupReport" where
  "mark_failure kind detail report =
     report\<lparr>cr_Status := CleanupQuarantined, cr_Residue := cr_Residue report @ [residue kind detail],
            cr_QuarantineReason := appendReason (cr_QuarantineReason report) detail\<rparr>"

section \<open>Results\<close>

definition base_result :: "VerifiedAssignment \<Rightarrow> Phase \<Rightarrow> time \<Rightarrow> time \<Rightarrow> uint32 \<Rightarrow> string \<Rightarrow> CleanupReport \<Rightarrow> Result" where
  "base_result v phase startedAt finishedAt attempts code cleanup =
     \<lparr>re_BuildID = pl_BuildID (va_Payload v), re_PayloadDigest = va_PayloadDigest v, re_Phase = phase, re_Attempts = attempts,
      re_WorkerIdentity = [], re_Worker = zeroWorkerResult, re_Cleanup = cleanup, re_ErrorCode = code, re_LogsDigest = [],
      re_StartedAt = startedAt, re_FinishedAt = finishedAt, re_Replay = False\<rparr>"

definition failedResult :: "VerifiedAssignment \<Rightarrow> time \<Rightarrow> time \<Rightarrow> uint32 \<Rightarrow> string \<Rightarrow> Result" where
  "failedResult v startedAt finishedAt attempts code =
     base_result v PhaseFailed startedAt finishedAt attempts code (noResourceCleanup (pl_BuildID (va_Payload v)))"

definition capabilityRevokeResult :: "VerifiedAssignment \<Rightarrow> time \<Rightarrow> time \<Rightarrow> uint32 \<Rightarrow> Result" where
  "capabilityRevokeResult v startedAt finishedAt attempts =
     (failedResult v startedAt finishedAt attempts ''capability_revoke'')\<lparr>re_Phase := PhaseQuarantined,
       re_Cleanup := \<lparr>cr_BuildID = pl_BuildID (va_Payload v), cr_Status = CleanupQuarantined,
         cr_Residue = [residue ''temporary_credential'' ''capability revocation failed''], cr_RemovedPaths = [],
         cr_QuarantineReason = ''capability revocation failed''\<rparr>\<rparr>"

definition canceledResult :: "VerifiedAssignment \<Rightarrow> time \<Rightarrow> time \<Rightarrow> uint32 \<Rightarrow> WorkerResult \<Rightarrow> Result" where
  "canceledResult v startedAt finishedAt attempts worker =
     (base_result v PhaseCanceled startedAt finishedAt attempts ''canceled'' (wr_Cleanup worker))\<lparr>re_Worker := worker\<rparr>"

definition canceledWithoutWorkerResult :: "VerifiedAssignment \<Rightarrow> time \<Rightarrow> time \<Rightarrow> uint32 \<Rightarrow> Result" where
  "canceledWithoutWorkerResult v startedAt finishedAt attempts =
     base_result v PhaseCanceled startedAt finishedAt attempts ''canceled'' (noResourceCleanup (pl_BuildID (va_Payload v)))"

definition validSupplyChainIdentity :: "OutputResult \<Rightarrow> string \<Rightarrow> SupplyChainPolicy \<Rightarrow> bool" where
  "validSupplyChainIdentity out policyDigest policy \<longleftrightarrow>
     validStoredSupplyChainIdentity out \<and> sc_PolicyDigest (ou_SupplyChain out) = policyDigest \<and>
     sc_SignerKeyID (ou_SupplyChain out) = sp_SignerKeyID policy \<and> \<not> sc_SignerKeyVersion (ou_SupplyChain out) < 1 \<and>
     sc_SignerPublicKeyDigest (ou_SupplyChain out) \<in> set (sp_AllowedSignerPublicKeyDigests policy)"

definition output_proves :: "DefinitionLock \<Rightarrow> OutputResult \<Rightarrow> ResolvedOutput \<Rightarrow> OutputArtifact \<Rightarrow> bool" where
  "output_proves lock out expected artifact \<longleftrightarrow>
     ou_Name out = ro_Name expected \<and> ou_Kind out = ro_Kind expected \<and> ou_ArtifactRef out \<noteq> [] \<and>
     digest_pattern (ou_ArtifactDigest out) \<and> ou_ArtifactSize out > 0 \<and> ou_ConfigDigest out = oa_ConfigDigest artifact \<and>
     validOutputContentIdentity out \<and> validSupplyChainIdentity out (dl_PolicyDigest lock) (dl_SupplyChain lock)"

text \<open>A resolved assignment has as many outputs as its payload, so no index is out of range.\<close>

definition validateSuccessfulResult :: "ResolvedAssignment \<Rightarrow> WorkerResult \<Rightarrow> bool" where
  "validateSuccessfulResult assignment result \<longleftrightarrow>
     (let payload = va_Payload (ra_Verified assignment) in
      wr_BuildID result = pl_BuildID payload \<and> wr_Attempt result \<noteq> 0 \<and> cr_Status (wr_Cleanup result) = CleanupClean \<and>
      cr_BuildID (wr_Cleanup result) = wr_BuildID result \<and> digest_pattern (wr_LogsDigest result) \<and>
      length (wr_Outputs result) = length (ra_Outputs assignment) \<and>
      list_all (\<lambda>(out, expected, artifact). output_proves (pl_Lock payload) out expected artifact)
        (zip (wr_Outputs result) (zip (ra_Outputs assignment) (pl_Outputs payload))))"

section \<open>Leases and allocation\<close>

record CapabilityLease =
  ls_ID :: string
  ls_ExpiresAt :: time
  ls_Secrets :: "string strmap"
  ls_Network :: "NetworkCapability list"
  ls_Caches :: "CacheCapability list"

definition allowed_secrets :: "SecretCapability list \<Rightarrow> bool strmap" where
  "allowed_secrets secrets = foldl (\<lambda>m s. mput (sk_MountID s) (sk_Required s) m) [] secrets"

definition validateCapabilityLease :: "CapabilityLease \<Rightarrow> VerifiedAssignment \<Rightarrow> time \<Rightarrow> time \<Rightarrow> bool" where
  "validateCapabilityLease lease assignment now assignmentExpiry \<longleftrightarrow>
     (let lock = pl_Lock (va_Payload assignment); allowed = allowed_secrets (dl_Secrets lock) in
      ls_ID lease \<noteq> [] \<and> ls_ExpiresAt lease \<noteq> 0 \<and> ls_ExpiresAt lease > now \<and> \<not> ls_ExpiresAt lease > assignmentExpiry \<and>
      ls_Network lease = dl_Network lock \<and> ls_Caches lease = dl_Caches lock \<and>
      list_all (\<lambda>(key, value). mget allowed key \<noteq> None \<and> value \<noteq> []) (ls_Secrets lease) \<and>
      list_all (\<lambda>(key, required). required \<longrightarrow> mget (ls_Secrets lease) key \<noteq> None) allowed)"

text \<open>An allocation fails with a classified error or with any other.\<close>

datatype allocation_error = WorkerAllocationError string | OtherAllocationError

definition allocationCodes :: "string list" where
  "allocationCodes = [''worker_certificate_issue'', ''worker_resource_prepare'', ''worker_stale_cleanup'', ''worker_resource_create'',
     ''worker_readiness'', ''worker_connect'', ''worker_connect_dial'', ''worker_connect_tls'', ''worker_connect_verify'']"

definition validWorkerAllocationCode :: "string \<Rightarrow> bool" where
  "validWorkerAllocationCode code \<longleftrightarrow> code \<in> set allocationCodes"

definition WorkerAllocationErrorCode :: "allocation_error \<Rightarrow> string" where
  "WorkerAllocationErrorCode err =
     (case err of WorkerAllocationError code \<Rightarrow> if validWorkerAllocationCode code then code else ''worker_allocate''
      | OtherAllocationError \<Rightarrow> ''worker_allocate'')"

definition WrapWorkerAllocationError :: "string \<Rightarrow> bool \<Rightarrow> allocation_error" where
  "WrapWorkerAllocationError code failed =
     (if \<not> failed \<or> \<not> validWorkerAllocationCode code then OtherAllocationError else WorkerAllocationError code)"

text \<open>The owner of a run, from sixteen random bytes, and the default delay before a retry.\<close>

definition randomOwner :: "uint8 list option \<Rightarrow> string option" where
  "randomOwner random = map_option (\<lambda>value. ''run-'' @ hex_encode value) random"

definition defaultRetryDelay :: "uint32 \<Rightarrow> duration" where
  "defaultRetryDelay attempt = 2 ^ unat (min attempt 5) * second"

section \<open>The controller and its surroundings\<close>

record ControllerOptions =
  co_MaxAttempts :: uint32
  co_LeaseTTL :: duration
  co_CancelGrace :: duration
  co_ForceTimeout :: duration
  co_ReleaseTimeout :: duration
  co_RevokeTimeout :: duration

definition or_default :: "duration \<Rightarrow> duration \<Rightarrow> duration" where
  "or_default value fallback = (if value = 0 then fallback else value)"

text \<open>\<open>New\<close>, with its dependencies present.\<close>

definition NewController :: "ControllerOptions \<Rightarrow> ControllerOptions option" where
  "NewController o0 =
     (let c = \<lparr>co_MaxAttempts = (if co_MaxAttempts o0 = 0 then DefaultMaxAttempts else co_MaxAttempts o0),
               co_LeaseTTL = or_default (co_LeaseTTL o0) (30 * second), co_CancelGrace = or_default (co_CancelGrace o0) (15 * second),
               co_ForceTimeout = or_default (co_ForceTimeout o0) (15 * second),
               co_ReleaseTimeout = or_default (co_ReleaseTimeout o0) (30 * second),
               co_RevokeTimeout = or_default (co_RevokeTimeout o0) (15 * second)\<rparr> in
      if co_MaxAttempts c < 1 \<or> co_MaxAttempts c > 5 \<or> co_LeaseTTL c < second \<or> co_LeaseTTL c > 5 * minute \<or>
         co_CancelGrace c < millisecond \<or> co_CancelGrace c > minute \<or> co_ForceTimeout c < millisecond \<or> co_ForceTimeout c > minute \<or>
         co_ReleaseTimeout c < millisecond \<or> co_ReleaseTimeout c > minute \<or> co_RevokeTimeout c < millisecond \<or> co_RevokeTimeout c > minute
      then None else Some c)"

text \<open>
  What the select statements of an attempt receive. After a cancellation the worker returns within
  the grace period, or it is forced: the forced report, whether forcing failed, and the result if
  the worker still delivers one in time. The events are those the worker reports meanwhile. A flag
  beside a worker result says that it came with an error.
\<close>

datatype grace =
    Returned WorkerResult bool
  | ForcedEnd CleanupReport bool "(WorkerResult \<times> bool) option"

datatype loop_signal =
    SigEvent WorkerEvent
  | SigDone WorkerResult bool
  | SigCancel "WorkerEvent list" grace
  | SigContext "WorkerEvent list" grace
  | SigTick "WorkerEvent list" grace

record attempt_answers =
  aa_acquire :: "CapabilityLease \<times> bool"
  aa_allocate :: "allocation_error + string"
  aa_signals :: "loop_signal list"
  aa_last :: "WorkerResult \<times> bool"
  aa_release :: "CleanupReport \<times> bool"
  aa_retryDelay :: duration
  aa_retryInterrupted :: bool

text \<open>\<open>or_clock n\<close> is the n-th reading of the clock, \<open>or_cancelled n\<close> the n-th poll of context and cancellation.\<close>

record 'env surroundings =
  or_clock :: "nat \<Rightarrow> time"
  or_others :: "nat \<Rightarrow> ('env \<times> run_op) list"
  or_env :: "nat \<Rightarrow> 'env"
  or_cancelled :: "nat \<Rightarrow> bool"
  or_revokeFails :: "nat \<Rightarrow> bool"
  or_attempt :: "uint32 \<Rightarrow> attempt_answers"
  or_cleanupBuild :: "CleanupReport \<times> bool"
  or_owner :: "string option"
  or_encode :: "WorkerEvent \<Rightarrow> string option"

datatype effect = EffAcquire CapabilityLease bool | EffRevoke CapabilityLease | EffAllocate uint32 bool | EffRelease uint32

record 's world =
  wd_runs :: 's
  wd_clock :: nat
  wd_calls :: nat
  wd_polls :: nat
  wd_revokes :: nat
  wd_emit :: eventEmitter
  wd_trace :: "effect list"

type_synonym ('env, 's) run_exec = "'env \<Rightarrow> run_op \<Rightarrow> 's \<Rightarrow> run_reply \<times> 's"

definition read_clock :: "'env surroundings \<Rightarrow> 's world \<Rightarrow> time \<times> 's world" where
  "read_clock orc w = (or_clock orc (wd_clock w), w\<lparr>wd_clock := Suc (wd_clock w)\<rparr>)"

definition poll_cancelled :: "'env surroundings \<Rightarrow> 's world \<Rightarrow> bool \<times> 's world" where
  "poll_cancelled orc w = (or_cancelled orc (wd_polls w), w\<lparr>wd_polls := Suc (wd_polls w)\<rparr>)"

definition call_runs :: "('env, 's) run_exec \<Rightarrow> 'env surroundings \<Rightarrow> run_op \<Rightarrow> 's world \<Rightarrow> run_reply \<times> 's world" where
  "call_runs exec orc op w =
     (case exec (or_env orc (wd_calls w)) op (run_history exec (or_others orc (wd_calls w)) (wd_runs w)) of
        (reply, s) \<Rightarrow> (reply, w\<lparr>wd_runs := s, wd_calls := Suc (wd_calls w)\<rparr>))"

definition record_effect :: "effect \<Rightarrow> 's world \<Rightarrow> 's world" where
  "record_effect e w = w\<lparr>wd_trace := wd_trace w @ [e]\<rparr>"

definition emit_phase :: "'env surroundings \<Rightarrow> Phase \<Rightarrow> uint32 \<Rightarrow> string \<Rightarrow> 's world \<Rightarrow> 's world" where
  "emit_phase orc phase attempt message w =
     (case read_clock orc w of (now, w1) \<Rightarrow>
        w1\<lparr>wd_emit := emit_worker (or_encode orc) now (phase_event phase attempt message now) (wd_emit w1)\<rparr>)"

definition emit_event :: "'env surroundings \<Rightarrow> WorkerEvent \<Rightarrow> 's world \<Rightarrow> 's world" where
  "emit_event orc event w =
     (case read_clock orc w of (now, w1) \<Rightarrow> w1\<lparr>wd_emit := emit_worker (or_encode orc) now event (wd_emit w1)\<rparr>)"

definition revokeLease :: "'env surroundings \<Rightarrow> CapabilityLease \<Rightarrow> 's world \<Rightarrow> bool \<times> 's world" where
  "revokeLease orc lease w =
     (or_revokeFails orc (wd_revokes w), record_effect (EffRevoke lease) (w\<lparr>wd_revokes := Suc (wd_revokes w)\<rparr>))"

definition reply_error :: "run_reply \<Rightarrow> run_error option" where
  "reply_error reply = (case reply of ReplyDone \<Rightarrow> None | ReplyErr e \<Rightarrow> Some e | _ \<Rightarrow> Some RunState)"

definition update_run ::
  "('env, 's) run_exec \<Rightarrow> 'env surroundings \<Rightarrow> ControllerOptions \<Rightarrow> string \<Rightarrow> string \<Rightarrow> Phase \<Rightarrow> uint32 \<Rightarrow> 's world \<Rightarrow>
   run_error option \<times> 's world" where
  "update_run exec orc c buildID owner phase attempt w =
     (case read_clock orc w of (now, w1) \<Rightarrow>
      (case call_runs exec orc (OpHeartbeat buildID owner phase attempt now (co_LeaseTTL c)) w1 of
         (reply, w2) \<Rightarrow> (reply_error reply, w2)))"

datatype control_error =
    ControllerError string | InProgress | StoreError run_error | AssignmentError string | ReplayError replay_error | ContextError

definition finishResult ::
  "('env, 's) run_exec \<Rightarrow> 'env surroundings \<Rightarrow> audit_lib \<Rightarrow> string \<Rightarrow> Result \<Rightarrow> 's world \<Rightarrow> (control_error + Result) \<times> 's world" where
  "finishResult exec orc l owner result0 w =
     (case emit_digest l (wd_emit w) of
        None \<Rightarrow> (Inl (ControllerError ''digest structured build events''), w)
      | Some d \<Rightarrow>
          let result = result0\<lparr>re_LogsDigest := d\<rparr> in
          (case read_clock orc w of (now, w1) \<Rightarrow>
           (case call_runs exec orc (OpFinish (re_BuildID result) owner result now) w1 of
              (reply, w2) \<Rightarrow> (case reply_error reply of None \<Rightarrow> (Inr result, w2) | Some e \<Rightarrow> (Inl (StoreError e), w2)))))"

section \<open>An attempt\<close>

record loop_end =
  le_result :: WorkerResult
  le_err :: bool
  le_report :: CleanupReport
  le_forced :: bool
  le_canceled :: bool
  le_lost :: bool

definition awaitOrForce :: "grace \<Rightarrow> (WorkerResult \<times> bool) \<times> CleanupReport \<times> bool" where
  "awaitOrForce g =
     (case g of
        Returned r err \<Rightarrow> ((r, err), noResourceCleanup (wr_BuildID r), False)
      | ForcedEnd report0 failed later \<Rightarrow>
          let report = (if failed then report0\<lparr>cr_Status := CleanupQuarantined,
                          cr_QuarantineReason := ''forced worker termination failed''\<rparr> else report0) in
          (case later of
             Some (r, err) \<Rightarrow> ((r, err), report, True)
           | None \<Rightarrow> ((zeroWorkerResult\<lparr>wr_Phase := PhaseCanceled, wr_ErrorCode := ''forced_cancel'', wr_Cleanup := report\<rparr>, True),
                      report, True)))"

definition loop_stop :: "grace \<Rightarrow> bool \<Rightarrow> bool \<Rightarrow> loop_end" where
  "loop_stop g canceled lost =
     (case awaitOrForce g of ((r, err), report, forced) \<Rightarrow>
        \<lparr>le_result = r, le_err = err, le_report = report, le_forced = forced, le_canceled = canceled, le_lost = lost\<rparr>)"

definition loop_done :: "WorkerResult \<Rightarrow> bool \<Rightarrow> loop_end" where
  "loop_done r err = \<lparr>le_result = r, le_err = err, le_report = zeroCleanupReport, le_forced = False, le_canceled = False, le_lost = False\<rparr>"

text \<open>
  The execution loop. When no further signal arrives, the deadline of the attempt ends the worker,
  which delivers its last result.
\<close>

fun execution_loop ::
  "('env, 's) run_exec \<Rightarrow> 'env surroundings \<Rightarrow> ControllerOptions \<Rightarrow> string \<Rightarrow> string \<Rightarrow> uint32 \<Rightarrow> WorkerResult \<times> bool \<Rightarrow>
   loop_signal list \<Rightarrow> 's world \<Rightarrow> loop_end \<times> 's world" where
  "execution_loop exec orc c b owner attempt final [] w = (loop_done (fst final) (snd final), w)"
| "execution_loop exec orc c b owner attempt final (SigDone r err # signals) w = (loop_done r err, w)"
| "execution_loop exec orc c b owner attempt final (SigEvent event # signals) w =
     execution_loop exec orc c b owner attempt final signals (emit_event orc event w)"
| "execution_loop exec orc c b owner attempt final (SigCancel events g # signals) w =
     (case update_run exec orc c b owner PhaseCanceling attempt w of (err, w1) \<Rightarrow>
        (loop_stop g True (err \<noteq> None),
         fold (emit_event orc) events
           (emit_phase orc PhaseCanceling attempt ''Cancellation requested; waiting for cooperative worker shutdown.'' w1)))"
| "execution_loop exec orc c b owner attempt final (SigContext events g # signals) w =
     (loop_stop g True False,
      fold (emit_event orc) events (emit_phase orc PhaseCanceling attempt ''Controller context canceled; stopping the worker.'' w))"
| "execution_loop exec orc c b owner attempt final (SigTick events g # signals) w =
     (case update_run exec orc c b owner PhaseSolving attempt w of (err, w1) \<Rightarrow>
        if err \<noteq> None then (loop_stop g False True, fold (emit_event orc) events w1)
        else execution_loop exec orc c b owner attempt final signals w1)"

definition attempt_cleanup :: "string \<Rightarrow> loop_end \<Rightarrow> CleanupReport \<times> bool \<Rightarrow> bool \<Rightarrow> CleanupReport" where
  "attempt_cleanup b le release revokeFails =
     (let c0 = combineCleanupReports b [wr_Cleanup (le_result le), fst release];
          c1 = (if snd release then mark_failure ''worker_resource'' ''worker release failed'' c0 else c0);
          c2 = (if revokeFails then mark_failure ''temporary_credential'' ''capability revocation failed'' c1 else c1) in
      if le_forced le then combineCleanupReports b [c2, le_report le] else c2)"

definition conclude_attempt ::
  "'env surroundings \<Rightarrow> ControllerOptions \<Rightarrow> ResolvedAssignment \<Rightarrow> uint32 \<Rightarrow> loop_end \<Rightarrow> bool \<Rightarrow> Result \<Rightarrow> 's world \<Rightarrow>
   (control_error + Result \<times> bool) \<times> 's world" where
  "conclude_attempt orc c assignment attempt le canceled result w =
     (if \<not> cleanupProvenClean (re_Cleanup result) then
        (Inr (result\<lparr>re_Phase := PhaseQuarantined, re_ErrorCode := ''cleanup_quarantined''\<rparr>, False),
         emit_phase orc PhaseQuarantined attempt ''Worker cleanup could not be proven; the worker is quarantined.'' w)
      else if le_lost le then (Inl (ControllerError ''durable run lease was lost''), w)
      else if canceled then
        (Inr (result\<lparr>re_Phase := PhaseCanceled, re_ErrorCode := ''canceled''\<rparr>, False),
         emit_phase orc PhaseCanceled attempt ''Build canceled and cleanup verified.'' w)
      else if wr_ErrorCode (le_result le) = ''worker_lost'' \<and> attempt < co_MaxAttempts c then
        (Inr (result\<lparr>re_Phase := PhaseRetrying, re_ErrorCode := ''worker_lost''\<rparr>, True), w)
      else if le_err le \<or> wr_Phase (le_result le) \<noteq> PhaseComplete then
        (Inr (result\<lparr>re_Phase := PhaseFailed,
                re_ErrorCode := (if wr_ErrorCode (le_result le) = [] then ''worker_failed'' else wr_ErrorCode (le_result le))\<rparr>, False),
         emit_phase orc PhaseFailed attempt ''Build worker failed and cleanup verified.'' w)
      else if \<not> validateSuccessfulResult assignment (le_result le) then
        (Inr (result\<lparr>re_Phase := PhaseFailed, re_ErrorCode := ''result_invalid''\<rparr>, False),
         emit_phase orc PhaseFailed attempt ''Build result did not prove all required immutable outputs.'' w)
      else
        (Inr (result\<lparr>re_Phase := PhaseComplete\<rparr>, False),
         emit_phase orc PhaseComplete attempt ''Required immutable outputs are committed and worker cleanup is verified.'' w))"

text \<open>The part of an attempt that has a worker.\<close>

definition run_worker ::
  "('env, 's) run_exec \<Rightarrow> 'env surroundings \<Rightarrow> ControllerOptions \<Rightarrow> ResolvedAssignment \<Rightarrow> string \<Rightarrow> uint32 \<Rightarrow> time \<Rightarrow> CapabilityLease \<Rightarrow>
   string \<Rightarrow> 's world \<Rightarrow> (control_error + Result \<times> bool) \<times> 's world" where
  "run_worker exec orc c assignment owner attempt startedAt lease identity w =
     (let v = ra_Verified assignment; b = pl_BuildID (va_Payload v); answers = or_attempt orc attempt in
      case execution_loop exec orc c b owner attempt (aa_last answers) (aa_signals answers) w of (le, w1) \<Rightarrow>
      (case poll_cancelled orc w1 of (polled, w2) \<Rightarrow>
       let w3 = record_effect (EffRelease attempt) w2 in
      (case revokeLease orc lease w3 of (revokeFails, w4) \<Rightarrow>
      (case read_clock orc w4 of (finishedAt, w5) \<Rightarrow>
         conclude_attempt orc c assignment attempt le (le_canceled le \<or> polled)
           \<lparr>re_BuildID = b, re_PayloadDigest = va_PayloadDigest v, re_Phase = PhaseOther [], re_Attempts = attempt,
            re_WorkerIdentity = identity, re_Worker = le_result le,
            re_Cleanup = attempt_cleanup b le (aa_release answers) revokeFails, re_ErrorCode = [], re_LogsDigest = [],
            re_StartedAt = startedAt, re_FinishedAt = finishedAt, re_Replay = False\<rparr> w5))))"

text \<open>
  After a step that ends the attempt before a worker exists, the lease is revoked; a failed
  revocation quarantines the run. A result whose time is read later is a function of that time.
\<close>

definition give_up ::
  "'env surroundings \<Rightarrow> VerifiedAssignment \<Rightarrow> time \<Rightarrow> uint32 \<Rightarrow> CapabilityLease \<Rightarrow> ('s world \<Rightarrow> (time \<Rightarrow> Result) \<times> 's world) \<Rightarrow>
   's world \<Rightarrow> (control_error + Result \<times> bool) \<times> 's world" where
  "give_up orc v startedAt attempt lease otherwise w =
     (case revokeLease orc lease w of (failed, w1) \<Rightarrow>
        if failed then (case read_clock orc w1 of (now, w2) \<Rightarrow> (Inr (capabilityRevokeResult v startedAt now attempt, False), w2))
        else (case otherwise w1 of (result, w2) \<Rightarrow> (case read_clock orc w2 of (now, w3) \<Rightarrow> (Inr (result now, False), w3))))"

text \<open>A failure is reported as a cancellation when one is seen.\<close>

definition canceled_or_failed ::
  "'env surroundings \<Rightarrow> VerifiedAssignment \<Rightarrow> time \<Rightarrow> uint32 \<Rightarrow> string \<Rightarrow> 's world \<Rightarrow> (time \<Rightarrow> Result) \<times> 's world" where
  "canceled_or_failed orc v startedAt attempt code w =
     (case poll_cancelled orc w of (canceled, w1) \<Rightarrow>
        (if canceled then (\<lambda>now. canceledWithoutWorkerResult v startedAt now attempt)
         else (\<lambda>now. failedResult v startedAt now attempt code), w1))"

definition runAttempt ::
  "('env, 's) run_exec \<Rightarrow> 'env surroundings \<Rightarrow> ControllerOptions \<Rightarrow> ResolvedAssignment \<Rightarrow> string \<Rightarrow> uint32 \<Rightarrow> time \<Rightarrow> time \<Rightarrow> 's world \<Rightarrow>
   (control_error + Result \<times> bool) \<times> 's world" where
  "runAttempt exec orc c assignment owner attempt startedAt expiresAt w =
     (let v = ra_Verified assignment; b = pl_BuildID (va_Payload v); answers = or_attempt orc attempt in
      case poll_cancelled orc w of (canceled, w1) \<Rightarrow>
      if canceled then
        (case read_clock orc w1 of (now, w2) \<Rightarrow> (Inr (canceledWithoutWorkerResult v startedAt now (attempt - 1), False), w2))
      else
      (case update_run exec orc c b owner PhaseAllocating attempt w1 of
         (Some e, w2) \<Rightarrow> (Inl (StoreError e), w2)
       | (None, w2) \<Rightarrow>
           let w3 = emit_phase orc PhaseAllocating attempt ''Acquiring short-lived capabilities and a disposable worker.'' w2;
               lease = fst (aa_acquire answers); acquireFails = snd (aa_acquire answers);
               w4 = record_effect (EffAcquire lease acquireFails) w3 in
           if acquireFails then
             (if ls_ID lease \<noteq> [] then give_up orc v startedAt attempt lease (canceled_or_failed orc v startedAt attempt ''capability_acquire'') w4
              else (case canceled_or_failed orc v startedAt attempt ''capability_acquire'' w4 of
                      (result, w5) \<Rightarrow> (case read_clock orc w5 of (now, w6) \<Rightarrow> (Inr (result now, False), w6))))
           else
           (case read_clock orc w4 of (now1, w5) \<Rightarrow>
              if \<not> validateCapabilityLease lease v now1 expiresAt then
                give_up orc v startedAt attempt lease (\<lambda>w. (\<lambda>now. failedResult v startedAt now attempt ''capability_invalid'', w)) w5
              else
              (case read_clock orc w5 of (now2, w6) \<Rightarrow>
                 if time_sub expiresAt now2 \<le> 0 then
                   give_up orc v startedAt attempt lease (\<lambda>w. (\<lambda>now. failedResult v startedAt now attempt ''assignment_expired'', w)) w6
                 else
                 (case aa_allocate answers of
                    Inl err \<Rightarrow>
                      give_up orc v startedAt attempt lease (canceled_or_failed orc v startedAt attempt (WorkerAllocationErrorCode err))
                        (record_effect (EffAllocate attempt False) w6)
                  | Inr identity \<Rightarrow>
                      run_worker exec orc c assignment owner attempt startedAt lease identity
                        (record_effect (EffAllocate attempt True) w6))))))"

section \<open>A run\<close>

text \<open>The loop over the attempts; \<open>None\<close> when every attempt asked for a retry.\<close>

fun attempt_loop ::
  "('env, 's) run_exec \<Rightarrow> 'env surroundings \<Rightarrow> audit_lib \<Rightarrow> ControllerOptions \<Rightarrow> ResolvedAssignment \<Rightarrow> string \<Rightarrow> time \<Rightarrow> time \<Rightarrow>
   uint32 list \<Rightarrow> 's world \<Rightarrow> (control_error + Result) option \<times> 's world" where
  "attempt_loop exec orc l c assignment owner startedAt expiresAt [] w = (None, w)"
| "attempt_loop exec orc l c assignment owner startedAt expiresAt (attempt # attempts) w =
     (case runAttempt exec orc c assignment owner attempt startedAt expiresAt w of
        (Inl e, w1) \<Rightarrow> (Some (Inl e), w1)
      | (Inr (result, retry), w1) \<Rightarrow>
          if \<not> retry then (case finishResult exec orc l owner result w1 of (r, w2) \<Rightarrow> (Some r, w2))
          else
            let answers = or_attempt orc attempt; v = ra_Verified assignment in
            if aa_retryDelay answers < 0 \<or> aa_retryDelay answers > minute
            then (Some (Inl (ControllerError ''retry delay is outside bounds'')), w1)
            else
            (case update_run exec orc c (pl_BuildID (va_Payload v)) owner PhaseRetrying attempt
                (emit_phase orc PhaseRetrying attempt ''Disposable worker was lost; retrying from the immutable assignment.'' w1) of
               (Some e, w2) \<Rightarrow> (Some (Inl (StoreError e)), w2)
             | (None, w2) \<Rightarrow>
                 if aa_retryInterrupted answers then
                   (case read_clock orc (emit_phase orc PhaseCanceled attempt ''Cancellation stopped the worker retry delay.'' w2) of
                      (now, w3) \<Rightarrow>
                        (case finishResult exec orc l owner (canceledResult v startedAt now attempt (re_Worker result)) w3 of
                           (r, w4) \<Rightarrow> (Some r, w4)))
                 else attempt_loop exec orc l c assignment owner startedAt expiresAt attempts w2))"

text \<open>
  The attempts of the loop. Counting up to the maximum does not wrap, because \<open>NewController\<close> admits
  at most five attempts.
\<close>

definition attempts_from :: "uint32 \<Rightarrow> uint32 \<Rightarrow> uint32 list" where
  "attempts_from first max_attempts = map of_nat [unat first ..< Suc (unat max_attempts)]"

definition first_attempt :: "uint32 \<Rightarrow> uint32" where
  "first_attempt recorded = (if recorded + 1 = 0 then 1 else recorded + 1)"

definition run_attempts ::
  "('env, 's) run_exec \<Rightarrow> 'env surroundings \<Rightarrow> audit_lib \<Rightarrow> ControllerOptions \<Rightarrow> ResolvedAssignment \<Rightarrow> string \<Rightarrow> time \<Rightarrow> time \<Rightarrow>
   uint32 \<Rightarrow> 's world \<Rightarrow> (control_error + Result) \<times> 's world" where
  "run_attempts exec orc l c assignment owner startedAt expiresAt recorded w =
     (case attempt_loop exec orc l c assignment owner startedAt expiresAt (attempts_from (first_attempt recorded) (co_MaxAttempts c)) w of
        (Some r, w1) \<Rightarrow> (r, w1)
      | (None, w1) \<Rightarrow>
          (case read_clock orc w1 of (now, w2) \<Rightarrow>
             finishResult exec orc l owner (failedResult (ra_Verified assignment) startedAt now (co_MaxAttempts c) ''worker_lost'') w2))"

text \<open>What follows a successful claim: stale cleanup, a persisted cancellation, resolution and the attempts.\<close>

definition resolve_and_run ::
  "('env, 's) run_exec \<Rightarrow> 'env surroundings \<Rightarrow> assignment_lib \<Rightarrow> ControllerOptions \<Rightarrow> VerifiedAssignment \<Rightarrow> artifact_store \<Rightarrow> string \<Rightarrow> time \<Rightarrow>
   time \<Rightarrow> uint32 \<Rightarrow> 's world \<Rightarrow> (control_error + Result) \<times> 's world" where
  "resolve_and_run exec orc l c v store owner startedAt expiresAt recorded w =
     (case update_run exec orc c (pl_BuildID (va_Payload v)) owner PhaseResolving recorded w of
        (Some e, w1) \<Rightarrow> (Inl (StoreError e), w1)
      | (None, w1) \<Rightarrow>
          let w2 = emit_phase orc PhaseResolving recorded ''Resolving signed immutable build artifacts.'' w1 in
          (case Resolve l v (Some store) of
             Inl e \<Rightarrow>
               (case poll_cancelled orc w2 of (canceled, w3) \<Rightarrow>
                  if canceled then
                    (case read_clock orc (emit_phase orc PhaseCanceled recorded ''Cancellation stopped assignment artifact resolution.'' w3) of
                       (now, w4) \<Rightarrow> finishResult exec orc (as_audit l) owner (canceledWithoutWorkerResult v startedAt now recorded) w4)
                  else
                    (case read_clock orc w3 of (now, w4) \<Rightarrow>
                       finishResult exec orc (as_audit l) owner (failedResult v startedAt now recorded ''assignment_resolution'')
                         (emit_phase orc PhaseFailed recorded ''Assignment artifact resolution failed.'' w4)))
           | Inr assignment \<Rightarrow> run_attempts exec orc (as_audit l) c assignment owner startedAt expiresAt recorded w2))"

definition run_claimed ::
  "('env, 's) run_exec \<Rightarrow> 'env surroundings \<Rightarrow> assignment_lib \<Rightarrow> ControllerOptions \<Rightarrow> VerifiedAssignment \<Rightarrow> artifact_store \<Rightarrow> string \<Rightarrow> time \<Rightarrow>
   time \<Rightarrow> bool \<Rightarrow> RunRecord \<Rightarrow> 's world \<Rightarrow> (control_error + Result) \<times> 's world" where
  "run_claimed exec orc l c v store owner startedAt expiresAt resumed rec w =
     (let b = pl_BuildID (va_Payload v);
          w1 = emit_phase orc PhaseAccepted (rr_Attempt rec) ''Assignment signature, audience, generation, expiry, and replay identity verified.'' w;
          w2 = (if resumed then emit_phase orc PhaseCleaning (rr_Attempt rec)
                  ''Scrubbing stale worker resources before resuming the durable run.'' w1 else w1);
          cleanup = combineCleanupReports b [fst (or_cleanupBuild orc)] in
      if resumed \<and> (snd (or_cleanupBuild orc) \<or> \<not> cleanupProvenClean cleanup) then
        (case read_clock orc w2 of (now, w3) \<Rightarrow>
           finishResult exec orc (as_audit l) owner
             (base_result v PhaseQuarantined startedAt now (rr_Attempt rec) ''cleanup_quarantined'' cleanup)
             (emit_phase orc PhaseQuarantined (rr_Attempt rec) ''Stale worker cleanup could not be proven; the build remains quarantined.'' w3))
      else if rr_CancelRequested rec then
        (case read_clock orc (emit_phase orc PhaseCanceled (rr_Attempt rec) ''Persisted cancellation prevented build execution.'' w2) of
           (now, w3) \<Rightarrow> finishResult exec orc (as_audit l) owner (canceledWithoutWorkerResult v startedAt now (rr_Attempt rec)) w3)
      else resolve_and_run exec orc l c v store owner startedAt expiresAt (rr_Attempt rec) w2)"

definition Run ::
  "('env, 's) run_exec \<Rightarrow> 'env surroundings \<Rightarrow> assignment_lib \<Rightarrow> ControllerOptions \<Rightarrow> Verifier \<Rightarrow>
   (Reservation \<Rightarrow> replay_error + ReservationOutcome) \<Rightarrow> artifact_store \<Rightarrow> Envelope \<Rightarrow> 's world \<Rightarrow> (control_error + Result) \<times> 's world" where
  "Run exec orc l c verifier reserve store envelope w0 =
     (case poll_cancelled orc w0 of (stopped, w1) \<Rightarrow>
      if stopped then (Inl ContextError, w1)
      else
      (case read_clock orc w1 of (verifyNow, w2) \<Rightarrow>
      (case Verify l verifier verifyNow envelope of
         Inl e \<Rightarrow> (Inl (AssignmentError e), w2)
       | Inr v \<Rightarrow>
      (case rfc3339_utc (pl_ExpiresAt (va_Payload v)) of
         None \<Rightarrow> (Inl (ControllerError ''verified assignment expiry is invalid''), w2)
       | Some expiresAt \<Rightarrow>
      (case reserve \<lparr>rs_CellID = pl_CellID (va_Payload v), rs_BuildID = pl_BuildID (va_Payload v),
               rs_Generation = pl_Generation (va_Payload v), rs_Nonce = pl_Nonce (va_Payload v),
               rs_PayloadDigest = va_PayloadDigest v, rs_ExpiresAt = expiresAt\<rparr> of
         Inl e \<Rightarrow> (Inl (ReplayError e), w2)
       | Inr outcome \<Rightarrow>
         if outcome = ReservationStale \<or> outcome = ReservationConflict
         then (Inl (ControllerError ''assignment replay outcome''), w2)
         else
      (case or_owner orc of
         None \<Rightarrow> (Inl (ControllerError ''create run owner''), w2)
       | Some owner \<Rightarrow>
         if owner = [] then (Inl (ControllerError ''create run owner''), w2)
         else
      (case read_clock orc w2 of (now, w3) \<Rightarrow>
      (case call_runs exec orc (OpClaim \<lparr>cq_BuildID = pl_BuildID (va_Payload v), cq_Generation = pl_Generation (va_Payload v),
               cq_PayloadDigest = va_PayloadDigest v, cq_Owner = owner, cq_Now = now, cq_LeaseTTL = co_LeaseTTL c\<rparr>) w3 of
         (ReplyClaim claim rec, w4) \<Rightarrow>
           let w5 = w4\<lparr>wd_emit := newEventEmitter\<rparr>;
               startedAt = (if re_StartedAt (rr_Result rec) = 0 then now else re_StartedAt (rr_Result rec)) in
           (case claim of
              ClaimReplay \<Rightarrow>
                if \<not> Terminal (rr_Result rec) then (Inl (ControllerError ''replay record is not terminal''), w4)
                else (Inr ((rr_Result rec)\<lparr>re_Replay := True\<rparr>), w4)
            | ClaimInProgress \<Rightarrow> (Inl InProgress, w4)
            | ClaimConflict \<Rightarrow> (Inl (ControllerError ''run claim conflicts with immutable assignment''), w4)
            | ClaimAccepted \<Rightarrow> run_claimed exec orc l c v store owner startedAt expiresAt False rec w5
            | ClaimResumed \<Rightarrow> run_claimed exec orc l c v store owner startedAt expiresAt True rec w5)
       | (ReplyErr e, w4) \<Rightarrow> (Inl (StoreError e), w4)
       | (_, w4) \<Rightarrow> (Inl (ControllerError ''unknown run claim outcome''), w4)))))))))"

end
