(* ===== verification/Llb_Policy_Laws.thy ===== *)
theory Llb_Policy_Laws
  imports Llb_Policy
begin

text \<open>
  What policy normalization and capability derivation guarantee: normal forms are stable, base
  materials match the image nodes one to one, and every derived capability stays within the policy.
\<close>

section \<open>Sorted lists without repetition\<close>

lemma set_sortedUnique [simp]: "set (sortedUnique xs) = set xs"
  by (simp add: sortedUnique_def)

lemma sorted_remdups_adj_distinct: "sorted xs \<Longrightarrow> distinct (remdups_adj xs)"
  by (induction xs rule: remdups_adj.induct) (auto simp: order.order_iff_strict)

lemma sorted_sortedUnique [simp]: "sorted (sortedUnique xs)"
  by (simp add: sortedUnique_def)

lemma distinct_sortedUnique [simp]: "distinct (sortedUnique xs)"
  by (simp add: sortedUnique_def sorted_remdups_adj_distinct)

lemma remdups_adj_distinct: "distinct xs \<Longrightarrow> remdups_adj xs = xs"
  by (induction xs rule: remdups_adj.induct) auto

lemma sortedUnique_id: "sorted xs \<Longrightarrow> distinct xs \<Longrightarrow> sortedUnique xs = xs"
  by (simp add: sortedUnique_def sorted_sort_id remdups_adj_distinct)

lemma sortedUnique_idem [simp]: "sortedUnique (sortedUnique xs) = sortedUnique xs"
  by (simp add: sortedUnique_id)

lemma sortedUnique_Nil_iff [simp]: "sortedUnique xs = [] \<longleftrightarrow> xs = []"
  by (metis set_sortedUnique set_empty)

lemma list_all_sortedUnique [simp]: "list_all P (sortedUnique xs) = list_all P xs"
  by (simp add: list_all_iff)

lemma length_sortedUnique: "length (sortedUnique xs) \<le> length xs"
  by (metis distinct_sortedUnique distinct_card set_sortedUnique card_length)

lemma sortedUnique_single [simp]: "sortedUnique [x] = [x]"
  by (simp add: sortedUnique_def)

lemma sortedDistinct_iff: "sortedDistinct xs \<longleftrightarrow> sorted xs \<and> distinct xs"
proof
  assume s: "sortedDistinct xs"
  then have "card (set xs) = length xs"
    using sorted_remdups_adj_distinct [of xs] distinct_card [of "remdups_adj xs"] by (simp add: sortedDistinct_def)
  then show "sorted xs \<and> distinct xs" using s card_distinct by (auto simp: sortedDistinct_def)
qed (simp add: sortedDistinct_def remdups_adj_distinct)

lemma sort_policy_fields:
  "po_APIVersion (sort_policy p) = po_APIVersion p" "po_Revision (sort_policy p) = po_Revision p" "po_ID (sort_policy p) = po_ID p"
  by (simp_all add: sort_policy_def)

lemma sort_policy_idem: "sort_policy (sort_policy p) = sort_policy p"
  by (simp add: sort_policy_def)

lemma normalizePolicy_InrD:
  assumes "normalizePolicy p = Inr q"
  shows "q = sort_policy p" "po_APIVersion p = CurrentPolicyAPIVersion" "semver_pattern (po_Revision p)"
    "has_id_prefix (po_ID p) ''pol''" "check_base_policy (po_Base q)" "check_network_policy (po_Network q) = None"
    "cp_Scope (po_Cache q) \<in> set [''organization'', ''project'']" "validCapabilityID (cp_TrustDomain (po_Cache q))"
    "cp_AllowSharedWithSecrets (po_Cache q) \<longrightarrow> cp_AllowShared (po_Cache q)"
    "length (po_Secrets q) \<le> maxPolicyValues" "allCapabilities (po_Secrets q)" "length (po_BuildArguments q) \<le> maxPolicyValues"
    "list_all (\<lambda>n. environment_key_pattern n \<and> \<not> suspiciousArgument n) (po_BuildArguments q)"
    "ValidateSupplyChainPolicy (po_SupplyChain q) = None"
  using assms by (auto simp: normalizePolicy_def validateResourceID_def Let_def split: if_splits option.splits)

section \<open>Base materials\<close>

definition image_refs :: "IR \<Rightarrow> string set" where
  "image_refs ir = {string_attr node ''ref'' | node. node \<in> set (ir_Nodes ir) \<and> nd_Operation node = ''image''}"

lemma expected_fold:
  "fst ` set (foldl (\<lambda>m node. if nd_Operation node \<noteq> ''image'' then m
        else let reference = (case nd_Attributes node of None \<Rightarrow> []
               | Some a \<Rightarrow> (case any_string (mget a ''ref'') of None \<Rightarrow> [] | Some r \<Rightarrow> r))
             in mput reference (nd_ID node) m) m0 nodes) =
   fst ` set m0 \<union> {string_attr node ''ref'' | node. node \<in> set nodes \<and> nd_Operation node = ''image''}"
proof (induction nodes arbitrary: m0)
  case (Cons node nodes)
  have "(case nd_Attributes node of None \<Rightarrow> [] | Some a \<Rightarrow> (case any_string (mget a ''ref'') of None \<Rightarrow> [] | Some r \<Rightarrow> r)) =
      string_attr node ''ref''" by (simp add: string_attr_def)
  then show ?case
    unfolding foldl_Cons Cons.IH by (auto simp: Let_def keyset_mput)
qed simp

lemma keys_expected: "fst ` set (expected_materials ir) = image_refs ir"
  unfolding expected_materials_def image_refs_def by (subst expected_fold) simp

lemma check_materials_Cons:
  assumes "check_materials h ir policy expected (m0 # ms) = Inr (rest, out)"
  obtains nodeID out' where "mget expected (bm_RequestedRef m0) = Some nodeID"
    "check_material h ir policy nodeID (m0\<lparr>bm_Platforms := sortedUnique (bm_Platforms m0)\<rparr>) = None"
    "out = m0\<lparr>bm_Platforms := sortedUnique (bm_Platforms m0)\<rparr> # out'"
    "check_materials h ir policy (mdel (bm_RequestedRef m0) expected) ms = Inr (rest, out')"
  using assms by (auto simp: Let_def split: option.splits sum.splits)

lemma check_materials_InrD:
  assumes "check_materials h ir policy expected ms = Inr (rest, out)"
  shows "map bm_RequestedRef out = map bm_RequestedRef ms \<and> distinct (map bm_RequestedRef ms) \<and>
    set (map bm_RequestedRef ms) \<subseteq> fst ` set expected \<and>
    fst ` set rest = fst ` set expected - set (map bm_RequestedRef ms) \<and>
    (\<forall>m \<in> set out. \<exists>nodeID. check_material h ir policy nodeID m = None \<and> sortedUnique (bm_Platforms m) = bm_Platforms m)"
  using assms
proof (induction ms arbitrary: expected rest out)
  case (Cons m0 ms)
  from Cons.prems obtain nodeID out' where n: "mget expected (bm_RequestedRef m0) = Some nodeID"
    and c: "check_material h ir policy nodeID (m0\<lparr>bm_Platforms := sortedUnique (bm_Platforms m0)\<rparr>) = None"
    and o: "out = m0\<lparr>bm_Platforms := sortedUnique (bm_Platforms m0)\<rparr> # out'"
    and r: "check_materials h ir policy (mdel (bm_RequestedRef m0) expected) ms = Inr (rest, out')"
    by (rule check_materials_Cons)
  have "bm_RequestedRef m0 \<in> fst ` set expected" using n by (auto dest: map_of_SomeD intro: rev_image_eqI)
  then show ?case using Cons.IH [OF r] c o by (auto simp: keys_mdel)
qed simp

lemma check_material_NoneD:
  assumes "\<exists>nodeID. check_material h ir policy nodeID m = None \<and> sortedUnique (bm_Platforms m) = bm_Platforms m"
  shows "bm_Registry m \<in> set (bp_AllowedRegistries (po_Base policy)) \<and>
    bm_SignatureIdentity m \<in> set (bp_AllowedSignatureIdentities (po_Base policy)) \<and>
    has_suffix (bm_RequestedRef m) (''@'' @ bm_Digest m) \<and> has_suffix (bm_ResolvedRef m) (''@'' @ bm_Digest m) \<and>
    (bm_Classification m = ''curated'' \<and> bm_Digest m \<in> set (bp_CuratedDigests (po_Base policy)) \<or>
     bm_Classification m = ''customer'' \<and> bp_AllowCustomerBases (po_Base policy)) \<and>
    ResolutionDigest h m = Some (bm_ResolutionDigest m)"
proof -
  obtain nodeID where c: "check_material h ir policy nodeID m = None" and p: "sortedUnique (bm_Platforms m) = bm_Platforms m"
    using assms by blast
  have "m\<lparr>bm_Platforms := sortedUnique (bm_Platforms m)\<rparr> = m" using p by simp
  then have "ResolutionDigest h m = materialResolutionDigest h m" by (simp add: ResolutionDigest_def)
  then show ?thesis using c by (auto simp: check_material_def split: if_splits)
qed

section \<open>Capabilities\<close>

lemma node_capability_network:
  assumes "node_capability h input acc node = Inr acc'"
  shows "if nd_Operation node = ''run''
    then \<exists>x. networkCapability input (nd_ID node) (string_attr node ''network'') = Inr x \<and> ca_network acc' = ca_network acc @ [x]
    else ca_network acc' = ca_network acc"
  using assms by (auto simp: node_capability_def split: if_splits sum.splits)

lemma node_capability_cache:
  assumes "node_capability h input acc node = Inr acc'"
  shows "if nd_Operation node = ''cache''
    then \<exists>x. cacheCapability h input node = Inr x \<and> ca_caches acc' = ca_caches acc @ [x]
    else ca_caches acc' = ca_caches acc"
  using assms by (auto simp: node_capability_def split: if_splits sum.splits)

lemma node_capability_secret:
  assumes "node_capability h input acc node = Inr acc'"
  shows "if nd_Operation node = ''secret''
    then \<exists>x. secretCapability input node = Inr x \<and> ca_secrets acc' = ca_secrets acc @ [x]
    else ca_secrets acc' = ca_secrets acc"
  using assms by (auto simp: node_capability_def split: if_splits sum.splits)

text \<open>The capabilities are exactly those of the nodes, in order.\<close>

lemma node_capabilities_lists:
  assumes "node_capabilities h input acc nodes = Inr c"
    and step: "\<And>acc node acc'. node_capability h input acc node = Inr acc' \<Longrightarrow>
      if nd_Operation node = operation then \<exists>x. derive node = Inr x \<and> field acc' = field acc @ [x] else field acc' = field acc"
  shows "\<exists>xs. field c = field acc @ xs \<and> list_all2 (\<lambda>node x. derive node = Inr x) (filter (\<lambda>n. nd_Operation n = operation) nodes) xs"
  using assms(1)
proof (induction nodes arbitrary: acc)
  case (Cons node nodes)
  then obtain acc' where a: "node_capability h input acc node = Inr acc'" "node_capabilities h input acc' nodes = Inr c"
    by (auto split: sum.splits)
  obtain xs where xs: "field c = field acc' @ xs" "list_all2 (\<lambda>node x. derive node = Inr x) (filter (\<lambda>n. nd_Operation n = operation) nodes) xs"
    using Cons.IH [OF a(2)] by blast
  show ?case
  proof (cases "nd_Operation node = operation")
    case True
    then obtain x where "derive node = Inr x" "field acc' = field acc @ [x]" using step [OF a(1)] by auto
    then show ?thesis using xs True by (intro exI [of _ "x # xs"]) simp
  next
    case False
    then show ?thesis using xs step [OF a(1)] by auto
  qed
qed simp

lemma compiled_lists:
  assumes "node_capabilities h input emptyCapabilities nodes = Inr c"
  shows "list_all2 (\<lambda>node x. networkCapability input (nd_ID node) (string_attr node ''network'') = Inr x)
      (filter (\<lambda>n. nd_Operation n = ''run'') nodes) (ca_network c)"
    "list_all2 (\<lambda>node x. cacheCapability h input node = Inr x) (filter (\<lambda>n. nd_Operation n = ''cache'') nodes) (ca_caches c)"
    "list_all2 (\<lambda>node x. secretCapability input node = Inr x) (filter (\<lambda>n. nd_Operation n = ''secret'') nodes) (ca_secrets c)"
  using node_capabilities_lists [where field = ca_network and operation = "''run''"
        and derive = "\<lambda>node. networkCapability input (nd_ID node) (string_attr node ''network'')", OF assms node_capability_network]
    node_capabilities_lists [where field = ca_caches and operation = "''cache''" and derive = "cacheCapability h input",
      OF assms node_capability_cache]
    node_capabilities_lists [where field = ca_secrets and operation = "''secret''" and derive = "secretCapability input",
      OF assms node_capability_secret]
  by (simp_all add: emptyCapabilities_def)

lemma list_all2_right: "list_all2 R xs ys \<Longrightarrow> y \<in> set ys \<Longrightarrow> \<exists>x \<in> set xs. R x y"
  by (metis in_set_conv_nth list_all2_conv_all_nth)

lemma networkCapability_node: "networkCapability input k profile = Inr x \<Longrightarrow> nc_NodeID x = k"
  by (auto simp: networkCapability_def Let_def split: if_splits)

lemma networkCapability_hosts:
  assumes "networkCapability input k profile = Inr x"
  shows "nc_Profile x \<in> set (np_AllowedProfiles (po_Network (nr_policy input))) \<and>
    set (nc_Hosts x) \<subseteq> set (np_PackageHosts (po_Network (nr_policy input))) \<union> set (np_ExternalHosts (po_Network (nr_policy input))) \<and>
    (nc_Profile x = ''none'' \<longrightarrow> nc_Hosts x = [] \<and> nc_GatewayID x = [])"
  using assms by (auto simp: networkCapability_def Let_def list_all_iff split: if_splits)

lemma secretCapability_within:
  "secretCapability input node = Inr x \<Longrightarrow> sk_Name x \<in> set (po_Secrets (nr_policy input)) \<and> sk_MountID x = sk_Name x"
  by (auto simp: secretCapability_def Let_def split: if_splits)

lemma compileCapabilities_parts:
  assumes "compileCapabilities h input = Inr c"
  shows "node_capabilities h input emptyCapabilities (ir_Nodes (nr_ir input)) = Inr c"
    "rejectSecretReferences input c = None"
  using assms by (auto simp: compileCapabilities_def split: if_splits sum.splits option.splits)

lemma cacheCapability_cases:
  assumes "cacheCapability h input node = Inr x"
  obtains t where "hs_namespace h (namespace_of input (nd_ID node) (string_attr node ''name'') (string_attr node ''target'')) = Some t"
    "cc_Namespace x = ''lrail-cache-'' @ hex_encode (hs_sha h t)" "cc_Scope x = cp_Scope (po_Cache (nr_policy input))"
    "cc_Sharing x = ''shared'' \<longrightarrow> cp_AllowShared (po_Cache (nr_policy input))"
  using assms
  by (auto simp: cacheCapability_def Let_def digestValue_def trim_prefix_def has_prefix_def split: if_splits option.splits)

section \<open>Mounts\<close>

definition mount_target :: "capabilitySet \<Rightarrow> string \<Rightarrow> string" where
  "mount_target c m = (case mget (ca_cacheByNode c) m of Some x \<Rightarrow> cc_Target x
     | None \<Rightarrow> (case mget (ca_secretByNode c) m of Some y \<Rightarrow> sk_Target y | None \<Rightarrow> []))"

definition secret_mount :: "capabilitySet \<Rightarrow> string \<Rightarrow> bool" where
  "secret_mount c m \<longleftrightarrow> mget (ca_cacheByNode c) m = None \<and> mget (ca_secretByNode c) m \<noteq> None"

definition shared_mount :: "capabilitySet \<Rightarrow> string \<Rightarrow> bool" where
  "shared_mount c m = (case mget (ca_cacheByNode c) m of Some x \<Rightarrow> cc_Sharing x = ''shared'' | None \<Rightarrow> False)"

definition known_mount :: "capabilitySet \<Rightarrow> string \<Rightarrow> bool" where
  "known_mount c m \<longleftrightarrow> mget (ca_cacheByNode c) m \<noteq> None \<or> mget (ca_secretByNode c) m \<noteq> None"

lemma mount_targets_eq:
  "mount_targets c ids (ts, sec, sh) =
     (if list_all (known_mount c) ids
      then Some (ts @ map (mount_target c) ids, sec \<or> list_ex (secret_mount c) ids, sh \<or> list_ex (shared_mount c) ids)
      else None)"
proof (induction ids arbitrary: ts sec sh)
  case (Cons m ids)
  show ?case
  proof (cases "mget (ca_cacheByNode c) m")
    case (Some x)
    then have "known_mount c m" "\<not> secret_mount c m" "shared_mount c m = (cc_Sharing x = ''shared'')" "mount_target c m = cc_Target x"
      by (simp_all add: known_mount_def secret_mount_def shared_mount_def mount_target_def)
    then show ?thesis using Some by (simp add: Cons.IH)
  next
    case None
    show ?thesis
    proof (cases "mget (ca_secretByNode c) m")
      case s: None
      then have "\<not> known_mount c m" using None by (simp add: known_mount_def)
      then show ?thesis using s None by simp
    next
      case s: (Some y)
      then have "known_mount c m" "secret_mount c m" "\<not> shared_mount c m" "mount_target c m = sk_Target y"
        using None by (simp_all add: known_mount_def secret_mount_def shared_mount_def mount_target_def)
      then show ?thesis using s None by (simp add: Cons.IH)
    qed
  qed
qed simp

lemma no_overlap_pairs: "no_overlap ts \<longleftrightarrow> sorted_wrt (\<lambda>t u. \<not> pathsOverlap t u) ts"
  by (induction ts) (auto simp: list_all_iff)

lemma pathsOverlap_sym: "pathsOverlap l r \<longleftrightarrow> pathsOverlap r l"
  by (auto simp: pathsOverlap_def Let_def)

lemma no_overlap_nth:
  assumes "no_overlap ts" "i < length ts" "j < length ts" "i \<noteq> j"
  shows "\<not> pathsOverlap (ts ! i) (ts ! j)"
proof (cases "i < j")
  case True
  then show ?thesis using assms sorted_wrt_nth_less [of _ ts i j] unfolding no_overlap_pairs by blast
next
  case False
  then have "\<not> pathsOverlap (ts ! j) (ts ! i)"
    using assms sorted_wrt_nth_less [of _ ts j i] unfolding no_overlap_pairs by (metis linorder_neqE_nat)
  then show ?thesis using pathsOverlap_sym by blast
qed

section \<open>Properties\<close>

text \<open>
  a normalized policy is a normal form. Normalizing it again succeeds and changes nothing, so
  the policy digest does not depend on how often, or in which order of its lists, a policy was
  submitted.
\<close>

theorem normalizePolicy_stable:
  assumes "normalizePolicy p = Inr q"
  shows "normalizePolicy q = Inr q \<and>
    (\<forall>p'. sort_policy p' = sort_policy p \<longrightarrow> normalizePolicy p' = Inr q)"
proof -
  note f = normalizePolicy_InrD [OF assms]
  have again: "normalizePolicy p' = Inr q" if "sort_policy p' = sort_policy p" for p'
  proof -
    have "po_APIVersion p' = po_APIVersion p" "po_Revision p' = po_Revision p" "po_ID p' = po_ID p"
      using that sort_policy_fields [of p] sort_policy_fields [of p'] by simp_all
    then show ?thesis using f that by (simp add: normalizePolicy_def validateResourceID_def Let_def)
  qed
  then show ?thesis using f(1) by (simp add: sort_policy_idem)
qed

definition sample_base_policy :: BasePolicy where
  "sample_base_policy = \<lparr>bp_AllowedRegistries = [''r.io'', ''a.io''], bp_CuratedDigests = [], bp_AllowCustomerBases = True,
     bp_AllowedSignatureIdentities = [''k''], bp_RequireSBOM = False, bp_RequireProvenance = False\<rparr>"

definition sample_policy :: Policy where
  "sample_policy = \<lparr>po_APIVersion = ''lrail.build-policy/v1'', po_ID = sample_id ''pol'', po_Revision = ''1.0.0'',
     po_Base = sample_base_policy,
     po_Network = \<lparr>np_AllowedProfiles = [''none''], np_PackageHosts = [], np_ExternalHosts = [],
       np_PackageGatewayID = [], np_AllowlistGatewayID = [], np_PrivateGatewayID = []\<rparr>,
     po_Cache = \<lparr>cp_Scope = ''project'', cp_TrustDomain = ''t'', cp_AllowShared = False, cp_AllowSharedWithSecrets = False\<rparr>,
     po_Secrets = [''key''], po_BuildArguments = [''MODE''], po_SupplyChain = PlatformSupplyChainPolicy [sample_digest]\<rparr>"

lemma platform_policy_valid:
  assumes "digests \<noteq> []" "length (sortedUnique digests) \<le> 8" "list_all digest_pattern digests"
  shows "ValidateSupplyChainPolicy (PlatformSupplyChainPolicy digests) = None"
proof -
  have "semver_pattern ''1.46.0''" "semver_pattern ''0.72.0''" "validCapabilityID ''lrail-build-evidence''"
    by (simp_all add: semver_pattern_def Let_def validCapabilityID_def capability_pattern_def token_pattern_def char_classes)
  moreover have "denied_ok 5 ''CRITICAL'' severities [''CRITICAL'']" "denied_ok 5 ''CRITICAL'' severities [''CRITICAL'', ''HIGH'']"
    "denied_ok 7 ''Forbidden'' licenseClassifications [''Forbidden'']"
    by (simp_all add: denied_ok_def sortedDistinct_def severities_def licenseClassifications_def)
  moreover have "sortedDistinct (sortedUnique digests)" by (simp add: sortedDistinct_iff)
  moreover have "allDigests (sortedUnique digests)" using assms(3) by (simp add: allDigests_def list_all_iff)
  ultimately show ?thesis using assms
    by (simp add: ValidateSupplyChainPolicy_def PlatformSupplyChainPolicy_def CurrentSupplyChainPolicyVersion_def)
qed

lemma sample_policy_ok: "normalizePolicy sample_policy = Inr (sort_policy sample_policy)"
proof -
  have "length (sortedUnique [''r.io'', ''a.io'']) \<le> 128"
    by (rule order_trans [OF length_sortedUnique]) simp
  then have base: "check_base_policy (po_Base (sort_policy sample_policy))"
    by (simp add: check_base_policy_def sort_policy_def sample_policy_def sample_base_policy_def maxPolicyValues_def registryPattern_def
        registry_host_def char_classes allDigests_def allBounded_def bounded_text_def valid_utf8_def sortedUnique_def [of "[]"])
  have net: "check_network_policy (po_Network (sort_policy sample_policy)) = None"
    by (simp add: check_network_policy_def sort_policy_def sample_policy_def validateHosts_def sortedUnique_def [of "[]"] maxPolicyValues_def)
  have "po_SupplyChain (sort_policy sample_policy) = (PlatformSupplyChainPolicy [sample_digest])
      \<lparr>sp_DeniedConfigurationSeverities := sortedUnique [''CRITICAL'', ''HIGH'']\<rparr>"
    by (simp add: sort_policy_def sample_policy_def PlatformSupplyChainPolicy_def)
  moreover have "sortedUnique [''CRITICAL'', ''HIGH''] = [''CRITICAL'', ''HIGH'']" by (rule sortedUnique_id) simp_all
  ultimately have "po_SupplyChain (sort_policy sample_policy) = PlatformSupplyChainPolicy [sample_digest]"
    by (simp add: PlatformSupplyChainPolicy_def)
  then have sc: "ValidateSupplyChainPolicy (po_SupplyChain (sort_policy sample_policy)) = None"
    using platform_policy_valid [of "[sample_digest]"] by simp
  have rest: "po_APIVersion sample_policy = CurrentPolicyAPIVersion" "semver_pattern (po_Revision sample_policy)"
    "has_id_prefix (po_ID sample_policy) ''pol''" "cp_Scope (po_Cache (sort_policy sample_policy)) = ''project''"
    "validCapabilityID (cp_TrustDomain (po_Cache (sort_policy sample_policy)))" "\<not> cp_AllowSharedWithSecrets (po_Cache (sort_policy sample_policy))"
    "po_Secrets (sort_policy sample_policy) = [''key'']" "po_BuildArguments (sort_policy sample_policy) = [''MODE'']"
    by (simp_all add: sample_policy_def sort_policy_def CurrentPolicyAPIVersion_def semver_pattern_def Let_def char_classes validCapabilityID_def
        capability_pattern_def token_pattern_def allowedPrefixes_def)
  have "allCapabilities [''key'']" "environment_key_pattern ''MODE''" "\<not> suspiciousArgument ''MODE''"
    by (simp_all add: allCapabilities_def capability_pattern_def environment_key_pattern_def token_pattern_def char_classes suspiciousArgument_def has_prefix_def)
  then show ?thesis using base net sc rest
    by (simp add: normalizePolicy_def validateResourceID_def Let_def maxPolicyValues_def)
qed

theorem normalizePolicy_stable_witness:
  "normalizePolicy sample_policy = Inr (sort_policy sample_policy) \<and>
   normalizePolicy (sort_policy sample_policy) = Inr (sort_policy sample_policy)"
  using normalizePolicy_stable [OF sample_policy_ok] sample_policy_ok by blast

text \<open>
  the platform's default supply-chain policy passes the validation that policies must pass, for
  every set of one to eight signer digests, in whatever order and with whatever repetitions they
  are given.
\<close>

theorem PlatformSupplyChainPolicy_valid:
  assumes "digests \<noteq> []" "length (sortedUnique digests) \<le> 8" "list_all digest_pattern digests"
  shows "ValidateSupplyChainPolicy (PlatformSupplyChainPolicy digests) = None"
  by (rule platform_policy_valid [OF assms])

theorem PlatformSupplyChainPolicy_valid_witness:
  "ValidateSupplyChainPolicy (PlatformSupplyChainPolicy [sample_digest, sample_digest]) = None"
  by (rule PlatformSupplyChainPolicy_valid) (simp_all add: order_trans [OF length_sortedUnique])

text \<open>
  normalized base materials are sorted by the requested reference, correspond one to one to the
  image references of the graph, and each of them agrees on one digest and comes from a registry,
  signer and catalog that the policy allows.
\<close>

theorem normalizeMaterials_exact:
  assumes "normalizeMaterials h ir materials policy = Inr out"
  shows "sorted (map bm_RequestedRef out) \<and> distinct (map bm_RequestedRef out) \<and>
    set (map bm_RequestedRef out) = image_refs ir \<and>
    (\<forall>m \<in> set out. bm_Registry m \<in> set (bp_AllowedRegistries (po_Base policy)) \<and>
       bm_SignatureIdentity m \<in> set (bp_AllowedSignatureIdentities (po_Base policy)) \<and>
       has_suffix (bm_RequestedRef m) (''@'' @ bm_Digest m) \<and> has_suffix (bm_ResolvedRef m) (''@'' @ bm_Digest m) \<and>
       (bm_Classification m = ''curated'' \<and> bm_Digest m \<in> set (bp_CuratedDigests (po_Base policy)) \<or>
        bm_Classification m = ''customer'' \<and> bp_AllowCustomerBases (po_Base policy)) \<and>
       ResolutionDigest h m = Some (bm_ResolutionDigest m))"
proof -
  from assms obtain result where c: "check_materials h ir policy (expected_materials ir) materials = Inr ([], result)"
    and out: "out = sort_key bm_RequestedRef result"
    by (auto simp: normalizeMaterials_def Let_def split: if_splits sum.splits)
  note f = check_materials_InrD [OF c]
  have "distinct (map bm_RequestedRef result)" "set (map bm_RequestedRef result) = image_refs ir"
    using f keys_expected [of ir] by (simp_all del: set_map) blast
  then have "distinct (map bm_RequestedRef out)" "set (map bm_RequestedRef out) = image_refs ir"
    using out by (simp_all add: distinct_map)
  moreover have "sorted (map bm_RequestedRef out)" using out by simp
  moreover have "\<exists>nodeID. check_material h ir policy nodeID m = None \<and> sortedUnique (bm_Platforms m) = bm_Platforms m"
    if "m \<in> set out" for m
    using f that out by auto
  then have "\<forall>m \<in> set out. bm_Registry m \<in> set (bp_AllowedRegistries (po_Base policy)) \<and>
       bm_SignatureIdentity m \<in> set (bp_AllowedSignatureIdentities (po_Base policy)) \<and>
       has_suffix (bm_RequestedRef m) (''@'' @ bm_Digest m) \<and> has_suffix (bm_ResolvedRef m) (''@'' @ bm_Digest m) \<and>
       (bm_Classification m = ''curated'' \<and> bm_Digest m \<in> set (bp_CuratedDigests (po_Base policy)) \<or>
        bm_Classification m = ''customer'' \<and> bp_AllowCustomerBases (po_Base policy)) \<and>
       ResolutionDigest h m = Some (bm_ResolutionDigest m)"
    using check_material_NoneD by blast
  ultimately show ?thesis by blast
qed

definition sample_hashing :: "string hashing" where
  "sample_hashing = \<lparr>hs_sha = map (\<lambda>c. of_nat (of_char c)), hs_ir = \<lparr>cd_encode = (\<lambda>_. Some []), cd_decode = (\<lambda>_. None), cd_size = length\<rparr>,
     hs_policy = (\<lambda>_. Some []), hs_lock = (\<lambda>_. Some []), hs_resolution = (\<lambda>k. Some (rk_RequestedRef k)),
     hs_namespace = (\<lambda>k. Some (nk_ScopeID k))\<rparr>"

definition sample_material :: BaseMaterial where
  "sample_material = \<lparr>bm_RequestedRef = sample_ref, bm_ResolvedRef = ''a.io/r@'' @ sample_digest, bm_Digest = sample_digest,
     bm_Registry = ''a.io'', bm_Classification = ''customer'', bm_Platforms = [''linux/amd64''], bm_SBOMDigest = [],
     bm_ProvenanceDigest = [], bm_SignatureIdentity = ''k'',
     bm_ResolutionDigest = ''sha256:'' @ hex_encode (map (\<lambda>c. of_nat (of_char c)) sample_ref)\<rparr>"

lemma sample_material_ok: "check_material sample_hashing sample_ir sample_policy n sample_material = None"
proof -
  have s: "has_suffix sample_ref (''@'' @ sample_digest)" "has_suffix (''a.io/r@'' @ sample_digest) (''@'' @ sample_digest)"
    using has_suffix_append [of "''r''" "''@'' @ sample_digest"] has_suffix_append [of "''a.io/r''" "''@'' @ sample_digest"]
    by (simp_all add: sample_ref_def)
  then show ?thesis
    by (simp add: check_material_def sample_material_def sample_policy_def sample_base_policy_def registryFromReference_def Let_def
        sample_ir_def materialResolutionDigest_def digestValue_def sample_hashing_def)
qed

lemma sample_materials_ok:
  "normalizeMaterials sample_hashing sample_ir [sample_material] sample_policy = Inr [sample_material]"
proof -
  have e: "expected_materials sample_ir = [(sample_ref, ''n1'')]"
    by (simp add: expected_materials_def sample_ir_def)
  have "sample_material\<lparr>bm_Platforms := sortedUnique (bm_Platforms sample_material)\<rparr> = sample_material"
    by (simp add: sample_material_def)
  moreover have "bm_RequestedRef sample_material = sample_ref" by (simp add: sample_material_def)
  ultimately show ?thesis
    using sample_material_ok by (simp add: normalizeMaterials_def e)
qed

theorem normalizeMaterials_exact_witness:
  "normalizeMaterials sample_hashing sample_ir [sample_material] sample_policy = Inr [sample_material] \<and>
   image_refs sample_ir = {sample_ref}"
  using normalizeMaterials_exact [OF sample_materials_ok] sample_materials_ok by (simp add: sample_material_def)

text \<open>
  C17: derived capabilities stay within the policy. Every run has exactly one network capability, in
  node order, of an allowed profile whose hosts are the policy's package hosts, or declared hosts
  that the policy lists, or none; secrets are named by the policy; a cache is shared only if the
  policy allows sharing.
\<close>

theorem compileCapabilities_within_policy:
  assumes "compileCapabilities h input = Inr c"
  shows "map nc_NodeID (ca_network c) = map nd_ID (filter (\<lambda>n. nd_Operation n = ''run'') (ir_Nodes (nr_ir input))) \<and>
    (\<forall>x \<in> set (ca_network c). nc_Profile x \<in> set (np_AllowedProfiles (po_Network (nr_policy input))) \<and>
       set (nc_Hosts x) \<subseteq> set (np_PackageHosts (po_Network (nr_policy input))) \<union> set (np_ExternalHosts (po_Network (nr_policy input))) \<and>
       (nc_Profile x = ''none'' \<longrightarrow> nc_Hosts x = [] \<and> nc_GatewayID x = [])) \<and>
    (\<forall>x \<in> set (ca_secrets c). sk_Name x \<in> set (po_Secrets (nr_policy input)) \<and> sk_MountID x = sk_Name x) \<and>
    (\<forall>x \<in> set (ca_caches c). cc_Sharing x = ''shared'' \<longrightarrow> cp_AllowShared (po_Cache (nr_policy input)))"
proof -
  note nodes = compileCapabilities_parts(1) [OF assms]
  let ?nodes = "ir_Nodes (nr_ir input)"
  note n = compiled_lists(1) [OF nodes] and k = compiled_lists(2) [OF nodes] and s = compiled_lists(3) [OF nodes]
  have "map nc_NodeID (ca_network c) = map nd_ID (filter (\<lambda>n. nd_Operation n = ''run'') ?nodes)"
    using n by (auto simp: list_all2_conv_all_nth networkCapability_node intro!: nth_equalityI)
  moreover have "\<forall>x \<in> set (ca_network c). nc_Profile x \<in> set (np_AllowedProfiles (po_Network (nr_policy input))) \<and>
       set (nc_Hosts x) \<subseteq> set (np_PackageHosts (po_Network (nr_policy input))) \<union> set (np_ExternalHosts (po_Network (nr_policy input))) \<and>
       (nc_Profile x = ''none'' \<longrightarrow> nc_Hosts x = [] \<and> nc_GatewayID x = [])"
    using list_all2_right [OF n] networkCapability_hosts by blast
  moreover have "\<forall>x \<in> set (ca_secrets c). sk_Name x \<in> set (po_Secrets (nr_policy input)) \<and> sk_MountID x = sk_Name x"
    using list_all2_right [OF s] secretCapability_within by blast
  moreover have "\<forall>x \<in> set (ca_caches c). cc_Sharing x = ''shared'' \<longrightarrow> cp_AllowShared (po_Cache (nr_policy input))"
    using list_all2_right [OF k] cacheCapability_cases by metis
  ultimately show ?thesis by blast
qed

definition sample_input :: normalizedRequest where
  "sample_input = \<lparr>nr_organizationID = sample_id ''org'', nr_projectID = sample_id ''prj'',
     nr_ir = sample_ir\<lparr>ir_NetworkProfile := ''none'', ir_Nodes :=
       [\<lparr>nd_ID = ''n1'', nd_Operation = ''cache'', nd_Inputs = [],
         nd_Attributes = Some [(''name'', AnyString ''pkg''), (''target'', AnyString ''/c''), (''sharing'', AnyString ''private'')]\<rparr>,
        \<lparr>nd_ID = ''n2'', nd_Operation = ''secret'', nd_Inputs = [],
         nd_Attributes = Some [(''name'', AnyString ''key''), (''target'', AnyString ''/s''), (''required'', AnyBool True)]\<rparr>,
        \<lparr>nd_ID = ''n3'', nd_Operation = ''run'', nd_Inputs = [''n0''],
         nd_Attributes = Some [(''argv'', AnySlice [AnyString ''make'']), (''env'', AnyMap []),
           (''mounts'', AnySlice [AnyString ''n1'', AnyString ''n2'']), (''network'', AnyString ''none'')]\<rparr>]\<rparr>,
     nr_irDigest = sample_digest, nr_policy = sample_policy, nr_policyDigest = sample_digest, nr_materials = [], nr_buildArguments = []\<rparr>"

definition sample_capabilities :: capabilitySet where
  "sample_capabilities =
    (let n = \<lparr>nc_NodeID = ''n3'', nc_Profile = ''none'', nc_Hosts = [], nc_GatewayID = []\<rparr>;
         k = \<lparr>cc_NodeID = ''n1'', cc_Name = ''pkg'', cc_Target = ''/c'', cc_Sharing = ''private'', cc_Scope = ''project'',
           cc_Namespace = ''lrail-cache-'' @ hex_encode (map (\<lambda>c. of_nat (of_char c)) (sample_id ''prj''))\<rparr>;
         s = \<lparr>sk_NodeID = ''n2'', sk_Name = ''key'', sk_Target = ''/s'', sk_Required = True, sk_MountID = ''key''\<rparr> in
     \<lparr>ca_network = [n], ca_caches = [k], ca_secrets = [s], ca_networkByNode = [(''n3'', n)],
      ca_cacheByNode = [(''n1'', k)], ca_secretByNode = [(''n2'', s)]\<rparr>)"

lemma sample_capabilities_ok: "compileCapabilities sample_hashing sample_input = Inr sample_capabilities"
  by (simp add: compileCapabilities_def sample_input_def sample_policy_def sample_ir_def node_capability_def cacheCapability_def
      secretCapability_def networkCapability_def Let_def emptyCapabilities_def string_attr_def attr_def digestValue_def sample_hashing_def
      namespace_of_def trim_prefix_def has_prefix_def sample_capabilities_def rejectSecretReferences_def secretIdentifiers_def)

theorem compileCapabilities_within_policy_witness:
  "compileCapabilities sample_hashing sample_input = Inr sample_capabilities \<and>
   map nc_NodeID (ca_network sample_capabilities) = [''n3''] \<and>
   sk_Name ` set (ca_secrets sample_capabilities) \<subseteq> {''key''}"
  using compileCapabilities_within_policy [OF sample_capabilities_ok] sample_capabilities_ok
  by (auto simp: sample_input_def sample_policy_def)

text \<open>
  C27: a name granted as a secret never appears as a plain value: no build argument and no run
  argument or environment value of a compiled request equals the name of one of its secrets.
\<close>

theorem compileCapabilities_hides_secrets:
  assumes "compileCapabilities h input = Inr c" "secret \<in> set (ca_secrets c)"
  shows "(\<forall>a \<in> set (nr_buildArguments input). nv_Value a \<noteq> sk_Name secret) \<and>
    (\<forall>node \<in> set (ir_Nodes (nr_ir input)). nd_Operation node = ''run'' \<longrightarrow>
       (\<forall>xs. stringSlice (attr node ''argv'') = Some xs \<longrightarrow> sk_Name secret \<notin> set xs) \<and>
       (\<forall>env. stringMap (attr node ''env'') = Some env \<longrightarrow> sk_Name secret \<notin> snd ` set env))"
proof -
  have r: "rejectSecretReferences input c = None" by (rule compileCapabilities_parts(2) [OF assms(1)])
  have s: "sk_Name secret \<in> secretIdentifiers c" using assms(2) by (simp add: secretIdentifiers_def)
  show ?thesis using r s
    by (fastforce simp: rejectSecretReferences_def check_each_None list_ex_iff split: if_splits)
qed

theorem compileCapabilities_hides_secrets_witness:
  "compileCapabilities sample_hashing sample_input = Inr sample_capabilities \<and>
   stringSlice (attr (last (ir_Nodes (nr_ir sample_input))) ''argv'') = Some [''make''] \<and>
   sk_Name (hd (ca_secrets sample_capabilities)) \<notin> {''make''}"
proof -
  have "hd (ca_secrets sample_capabilities) \<in> set (ca_secrets sample_capabilities)" by (simp add: sample_capabilities_def Let_def)
  note s = compileCapabilities_hides_secrets [OF sample_capabilities_ok this]
  let ?run = "last (ir_Nodes (nr_ir sample_input))"
  have r: "?run \<in> set (ir_Nodes (nr_ir sample_input))" "nd_Operation ?run = ''run''" "stringSlice (attr ?run ''argv'') = Some [''make'']"
    by (simp_all add: sample_input_def attr_def)
  have "sk_Name (hd (ca_secrets sample_capabilities)) \<notin> set [''make'']" using s r by blast
  then show ?thesis using r(3) sample_capabilities_ok by simp
qed

lemma hex_encode_inject: "hex_encode xs = hex_encode ys \<Longrightarrow> xs = ys"
  by (metis hex_decode_encode option.inject)

lemma namespace_scope:
  "cp_Scope (po_Cache (nr_policy input)) = ''project'' \<Longrightarrow> nk_ScopeID (namespace_of input n a t) = nr_projectID input"
  by (simp add: namespace_of_def)

text \<open>
  C28: caches of different tenants are separate. When two project-scoped requests of different
  projects compile, no cache namespace of one is a namespace of the other, provided the canonical
  encoding and the hash do not collide on the two projects' cache keys.
\<close>

theorem cache_namespaces_separate_projects:
  assumes "compileCapabilities h input1 = Inr c1" "compileCapabilities h input2 = Inr c2"
    and "cp_Scope (po_Cache (nr_policy input1)) = ''project''" "cp_Scope (po_Cache (nr_policy input2)) = ''project''"
    and "nr_projectID input1 \<noteq> nr_projectID input2"
    and "\<forall>k1 k2 t1 t2. hs_namespace h k1 = Some t1 \<longrightarrow> hs_namespace h k2 = Some t2 \<longrightarrow> nk_ScopeID k1 = nr_projectID input1 \<longrightarrow>
           nk_ScopeID k2 = nr_projectID input2 \<longrightarrow> hs_sha h t1 = hs_sha h t2 \<longrightarrow> k1 = k2"
    and "x1 \<in> set (ca_caches c1)" "x2 \<in> set (ca_caches c2)"
  shows "cc_Namespace x1 \<noteq> cc_Namespace x2"
proof
  assume eq: "cc_Namespace x1 = cc_Namespace x2"
  obtain n1 where "cacheCapability h input1 n1 = Inr x1"
    using list_all2_right [OF compiled_lists(2) [OF compileCapabilities_parts(1) [OF assms(1)]] assms(7)] by blast
  then obtain t1 where t1: "hs_namespace h (namespace_of input1 (nd_ID n1) (string_attr n1 ''name'') (string_attr n1 ''target'')) = Some t1"
    "cc_Namespace x1 = ''lrail-cache-'' @ hex_encode (hs_sha h t1)" by (rule cacheCapability_cases)
  obtain n2 where "cacheCapability h input2 n2 = Inr x2"
    using list_all2_right [OF compiled_lists(2) [OF compileCapabilities_parts(1) [OF assms(2)]] assms(8)] by blast
  then obtain t2 where t2: "hs_namespace h (namespace_of input2 (nd_ID n2) (string_attr n2 ''name'') (string_attr n2 ''target'')) = Some t2"
    "cc_Namespace x2 = ''lrail-cache-'' @ hex_encode (hs_sha h t2)" by (rule cacheCapability_cases)
  have "hs_sha h t1 = hs_sha h t2" by (rule hex_encode_inject) (use eq t1(2) t2(2) in simp)
  then have "namespace_of input1 (nd_ID n1) (string_attr n1 ''name'') (string_attr n1 ''target'') =
      namespace_of input2 (nd_ID n2) (string_attr n2 ''name'') (string_attr n2 ''target'')"
    using assms(6) t1(1) t2(1) namespace_scope [OF assms(3)] namespace_scope [OF assms(4)] by blast
  then have "nr_projectID input1 = nr_projectID input2"
    using namespace_scope [OF assms(3)] namespace_scope [OF assms(4)] by metis
  then show False using assms(5) by blast
qed

definition other_input :: normalizedRequest where
  "other_input = sample_input\<lparr>nr_projectID := sample_id ''org''\<rparr>"

lemma other_capabilities_ok: "\<exists>c. compileCapabilities sample_hashing other_input = Inr c \<and> ca_caches c \<noteq> []"
  by (simp add: compileCapabilities_def other_input_def sample_input_def sample_policy_def sample_ir_def node_capability_def cacheCapability_def
      secretCapability_def networkCapability_def Let_def emptyCapabilities_def string_attr_def attr_def digestValue_def sample_hashing_def
      namespace_of_def trim_prefix_def has_prefix_def rejectSecretReferences_def secretIdentifiers_def)

lemma bytes_inject: "map (\<lambda>c. of_nat (of_char c) :: uint8) s = map (\<lambda>c. of_nat (of_char c)) t \<Longrightarrow> s = t"
proof (rule map_injective)
  show "inj (\<lambda>c. of_nat (of_char c) :: uint8)"
  proof (rule injI)
    fix c d :: char
    assume "(of_nat (of_char c) :: uint8) = of_nat (of_char d)"
    then have "unat (of_nat (of_char c) :: uint8) = unat (of_nat (of_char d) :: uint8)" by simp
    then show "c = d" by (simp add: unat_of_nat_small)
  qed
qed

theorem cache_namespaces_separate_projects_witness:
  "\<exists>c x1 x2. compileCapabilities sample_hashing other_input = Inr c \<and> x1 \<in> set (ca_caches sample_capabilities) \<and>
     x2 \<in> set (ca_caches c) \<and> cc_Namespace x1 \<noteq> cc_Namespace x2"
proof -
  obtain c x2 where c: "compileCapabilities sample_hashing other_input = Inr c" "x2 \<in> set (ca_caches c)"
    using other_capabilities_ok by (metis last_in_set)
  obtain x1 where x1: "x1 \<in> set (ca_caches sample_capabilities)" by (simp add: sample_capabilities_def Let_def)
  have n: "nr_projectID sample_input \<noteq> nr_projectID other_input"
    by (simp add: sample_input_def other_input_def sample_id_def)
  have k: "\<forall>k1 k2 t1 t2. hs_namespace sample_hashing k1 = Some t1 \<longrightarrow> hs_namespace sample_hashing k2 = Some t2 \<longrightarrow>
      nk_ScopeID k1 = nr_projectID sample_input \<longrightarrow> nk_ScopeID k2 = nr_projectID other_input \<longrightarrow>
      hs_sha sample_hashing t1 = hs_sha sample_hashing t2 \<longrightarrow> k1 = k2"
    using n bytes_inject by (fastforce simp: sample_hashing_def)
  have "cc_Namespace x1 \<noteq> cc_Namespace x2"
    by (rule cache_namespaces_separate_projects [OF sample_capabilities_ok c(1) _ _ n k x1 c(2)])
      (simp_all add: sample_input_def other_input_def sample_policy_def)
  then show ?thesis using c x1 by blast
qed

text \<open>
  the mounts of an accepted run are disjoint. Every mount names a declared cache or secret, no
  target is equal to or inside another, and a secret is mounted together with a shared cache only
  under a policy that allows it.
\<close>

theorem validateRunMounts_disjoint:
  assumes "validateRunMounts node c policy = None"
  shows "\<exists>ids. stringSlice (attr node ''mounts'') = Some ids \<and> list_all (known_mount c) ids \<and>
    (\<forall>i < length ids. \<forall>j < length ids. i \<noteq> j \<longrightarrow>
       \<not> pathsOverlap (mount_target c (ids ! i)) (mount_target c (ids ! j))) \<and>
    (list_ex (secret_mount c) ids \<and> list_ex (shared_mount c) ids \<longrightarrow> cp_AllowSharedWithSecrets policy)"
proof -
  obtain ids where ids: "stringSlice (attr node ''mounts'') = Some ids"
    using assms by (auto simp: validateRunMounts_def split: option.splits)
  have parts: "list_all (known_mount c) ids" "no_overlap (map (mount_target c) ids)"
    "list_ex (secret_mount c) ids \<and> list_ex (shared_mount c) ids \<longrightarrow> cp_AllowSharedWithSecrets policy"
    using assms ids by (auto simp: validateRunMounts_def mount_targets_eq split: if_splits)
  have "\<not> pathsOverlap (mount_target c (ids ! i)) (mount_target c (ids ! j))"
    if "i < length ids" "j < length ids" "i \<noteq> j" for i j
    using no_overlap_nth [OF parts(2), of i j] that by simp
  then show ?thesis using ids parts by blast
qed

theorem validateRunMounts_disjoint_witness:
  "validateRunMounts (last (ir_Nodes (nr_ir sample_input))) sample_capabilities (po_Cache sample_policy) = None \<and>
   \<not> pathsOverlap (mount_target sample_capabilities ''n1'') (mount_target sample_capabilities ''n2'')"
proof -
  have p: "path_clean ''/c'' = ''/c''" "path_clean ''/s'' = ''/s''" by code_simp+
  have v: "validateRunMounts (last (ir_Nodes (nr_ir sample_input))) sample_capabilities (po_Cache sample_policy) = None"
    using p by (simp add: validateRunMounts_def sample_input_def sample_capabilities_def Let_def attr_def sample_ir_def pathsOverlap_def has_prefix_def)
  moreover have "stringSlice (attr (last (ir_Nodes (nr_ir sample_input))) ''mounts'') = Some [''n1'', ''n2'']"
    by (simp add: sample_input_def attr_def)
  ultimately show ?thesis using validateRunMounts_disjoint [OF v] by fastforce
qed

end
