(* ===== verification/Llb_Audit_Laws.thy ===== *)
theory Llb_Audit_Laws
  imports Llb_Audit Llb_Policy_Laws
begin

text \<open>
  Facts about the audit: the depth-first search accepts exactly the complete acyclic graphs, and a
  definition that passes the audit uses no authority that the signed lock does not grant.
\<close>

section \<open>The graph\<close>

definition llb_edge :: "PbOp strmap \<Rightarrow> (string \<times> string) set" where
  "llb_edge ops = {(d, i). \<exists>operation. mget ops d = Some operation \<and> Some i \<in> set (op_Inputs operation)}"

inductive settled :: "PbOp strmap \<Rightarrow> string \<Rightarrow> bool" for ops where
  settledI: "mget ops d = Some operation \<Longrightarrow> (\<And>i. i \<in> set (op_Inputs operation) \<Longrightarrow> \<exists>x. i = Some x \<and> settled ops x) \<Longrightarrow> settled ops d"

inductive_cases settledE: "settled ops d"

lemma settled_key: "settled ops d \<Longrightarrow> d \<in> fst ` set ops"
  by (erule settledE) (metis map_of_SomeD fst_conv image_eqI)

lemma settled_edge: "settled ops d \<Longrightarrow> (d, i) \<in> llb_edge ops \<Longrightarrow> settled ops i"
  unfolding llb_edge_def by (erule settledE) fastforce

lemma settled_not_cyclic: "settled ops d \<Longrightarrow> (d, d) \<notin> (llb_edge ops)\<^sup>+"
proof (induction rule: settled.induct)
  case (settledI d operation)
  show ?case
  proof
    assume "(d, d) \<in> (llb_edge ops)\<^sup>+"
    then obtain x where x: "(d, x) \<in> llb_edge ops" "(x, d) \<in> (llb_edge ops)\<^sup>*"
      by (meson tranclD)
    then have "Some x \<in> set (op_Inputs operation)" using settledI.hyps(1) by (simp add: llb_edge_def)
    then have "(x, x) \<notin> (llb_edge ops)\<^sup>+" using settledI.IH by blast
    moreover have "(x, x) \<in> (llb_edge ops)\<^sup>+" by (rule rtrancl_into_trancl1 [OF x(2) x(1)])
    ultimately show False by blast
  qed
qed

definition closed :: "PbOp strmap \<Rightarrow> string list \<Rightarrow> bool" where
  "closed ops vs \<longleftrightarrow> (\<forall>v \<in> set vs. settled ops v) \<and> (\<forall>(d, i) \<in> llb_edge ops. d \<in> set vs \<longrightarrow> i \<in> set vs)"

lemma closed_Nil: "closed ops []"
  by (simp add: closed_def)

lemma closed_insert:
  assumes "closed ops vs" "mget ops d = Some operation" "\<forall>i \<in> set (op_Inputs operation). \<exists>x. i = Some x \<and> x \<in> set vs"
  shows "closed ops (List.insert d vs)"
proof -
  have "settled ops d" using assms by (intro settledI) (auto simp: closed_def)
  moreover have "i \<in> set vs" if "(d, i) \<in> llb_edge ops" for i
    using that assms(2,3) by (auto simp: llb_edge_def)
  ultimately show ?thesis using assms(1) by (auto simp: closed_def)
qed

declare visit.simps [simp del]

lemma visit_cases:
  assumes "visit ops vg vd d = Some vd'"
  obtains "d \<in> set vd" "vd' = vd"
  | operation v where "d \<notin> set vg" "d \<notin> set vd" "mget ops d = Some operation"
      "visit_inputs ops (d # vg) vd (op_Inputs operation) = Some v" "vd' = List.insert d v"
  using assms by (auto simp: visit.simps split: if_splits option.splits)

lemma visit_inputs_cases:
  assumes "visit_inputs ops vg vd (Some i # ins) = Some vd'"
  obtains v where "visit ops vg vd i = Some v" "visit_inputs ops vg v ins = Some vd'"
  using assms by (auto split: option.splits)

text \<open>
  What a successful visit has done: the visited set grows by the digest and vertices reachable from
  it, without repetition, and stays closed.
\<close>

definition grown :: "PbOp strmap \<Rightarrow> string list \<Rightarrow> string set \<Rightarrow> string list \<Rightarrow> bool" where
  "grown ops vd ds vd' \<longleftrightarrow> set vd \<union> ds \<subseteq> set vd' \<and> set vd' \<subseteq> set vd \<union> (llb_edge ops)\<^sup>* `` ds \<and>
     (distinct vd \<longrightarrow> distinct vd') \<and> (closed ops vd \<longrightarrow> closed ops vd')"

lemma grown_insert:
  assumes "grown ops vd {x. Some x \<in> set (op_Inputs operation)} v" "None \<notin> set (op_Inputs operation)" "mget ops d = Some operation"
  shows "grown ops vd {d} (List.insert d v)"
proof -
  have e: "{x. Some x \<in> set (op_Inputs operation)} = llb_edge ops `` {d}" using assms(3) by (auto simp: llb_edge_def)
  have "(llb_edge ops)\<^sup>* `` (llb_edge ops `` {d}) \<subseteq> (llb_edge ops)\<^sup>* `` {d}" by (auto intro: converse_rtrancl_into_rtrancl)
  moreover have "closed ops (List.insert d v)" if "closed ops v"
  proof (rule closed_insert [OF that assms(3)], rule ballI)
    fix i assume "i \<in> set (op_Inputs operation)"
    then have "\<exists>x. i = Some x \<and> Some x \<in> set (op_Inputs operation)" using assms(2) by (metis option.exhaust)
    then show "\<exists>x. i = Some x \<and> x \<in> set v" using assms(1) unfolding grown_def by blast
  qed
  ultimately show ?thesis using assms(1) unfolding grown_def e by auto
qed

lemma grown_step:
  assumes "grown ops vd {i} v" "grown ops v ds vd'"
  shows "grown ops vd (insert i ds) vd'"
proof -
  have "(llb_edge ops)\<^sup>* `` insert i ds = (llb_edge ops)\<^sup>* `` {i} \<union> (llb_edge ops)\<^sup>* `` ds" by auto
  then show ?thesis using assms unfolding grown_def by blast
qed

lemma visit_grown:
  "visit ops vg vd d = Some vd' \<Longrightarrow> grown ops vd {d} vd'"
  "visit_inputs ops vg vd ins = Some vd' \<Longrightarrow> None \<notin> set ins \<and> grown ops vd {x. Some x \<in> set ins} vd'"
proof (induction ops vg vd d and ops vg vd ins arbitrary: vd' and vd' rule: visit_visit_inputs.induct)
  case (1 ops vg vd d)
  from 1(2) show ?case
  proof (cases rule: visit_cases)
    case 1
    then show ?thesis by (auto simp: grown_def)
  next
    case (2 operation v)
    then show ?thesis using 1(1) grown_insert by blast
  qed
next
  case (4 ops vg vd i ins)
  from 4(3) obtain v where "visit ops vg vd i = Some v" "visit_inputs ops vg v ins = Some vd'" by (rule visit_inputs_cases)
  then have "grown ops vd {i} v" "None \<notin> set ins" "grown ops v {x. Some x \<in> set ins} vd'" using 4(1,2) by blast+
  moreover have "{x. Some x \<in> set (Some i # ins)} = insert i {x. Some x \<in> set ins}" by auto
  ultimately show ?case using grown_step by (metis list.set_intros(1) option.distinct(1) set_ConsD)
qed (simp_all add: grown_def)

text \<open>A settled vertex is visited successfully whatever was visited before.\<close>

lemma visit_succeeds:
  "settled ops d \<Longrightarrow> \<forall>v \<in> set vg. (v, d) \<in> (llb_edge ops)\<^sup>+ \<Longrightarrow> visit ops vg vd d \<noteq> None"
proof (induction arbitrary: vg vd rule: settled.induct)
  case (settledI d operation)
  have s: "settled ops d" using settledI.hyps settledI.IH by (intro settled.settledI) blast+
  have d: "d \<notin> set vg" using settled_not_cyclic [OF s] settledI.prems by blast
  have edge: "(d, x) \<in> llb_edge ops" if "Some x \<in> set (op_Inputs operation)" for x
    using that settledI.hyps(1) by (auto simp: llb_edge_def)
  have "visit_inputs ops (d # vg) vd ins \<noteq> None" if "set ins \<subseteq> set (op_Inputs operation)" for ins
    using that
  proof (induction ins arbitrary: vd)
    case (Cons i ins)
    then obtain x where x: "i = Some x" "Some x \<in> set (op_Inputs operation)" using settledI.IH by fastforce
    have "\<forall>v \<in> set (d # vg). (v, x) \<in> (llb_edge ops)\<^sup>+"
      using edge [OF x(2)] settledI.prems by (auto intro: trancl_into_trancl)
    then have "visit ops (d # vg) vd x \<noteq> None" using settledI.IH x(2) by blast
    then show ?case using x Cons by auto
  qed simp
  then show ?case using d settledI.hyps(1) by (auto simp: visit.simps)
qed

text \<open>
  The reference: the output vertex exists, every input of every operation is present, no operation
  depends on itself, and the output reaches every operation.
\<close>

definition complete_graph :: "PbOp strmap \<Rightarrow> string \<Rightarrow> bool" where
  "complete_graph ops out \<longleftrightarrow> out \<in> fst ` set ops \<and>
     (\<forall>(d, operation) \<in> set ops. \<forall>i \<in> set (op_Inputs operation). \<exists>x. i = Some x \<and> x \<in> fst ` set ops) \<and>
     acyclic (llb_edge ops) \<and> (\<forall>d \<in> fst ` set ops. (out, d) \<in> (llb_edge ops)\<^sup>*)"

lemma finite_llb_edge: "finite (llb_edge ops)"
proof -
  have "llb_edge ops \<subseteq> (\<Union>(d, operation) \<in> set ops. {d} \<times> the ` set (op_Inputs operation))"
    by (force simp: llb_edge_def dest: map_of_SomeD)
  then show ?thesis by (rule finite_subset) auto
qed

lemma complete_settled:
  assumes "wf_map ops" "complete_graph ops out" "d \<in> fst ` set ops"
  shows "settled ops d"
proof -
  have "wf ((llb_edge ops)\<inverse>)"
    using assms(2) finite_llb_edge by (auto simp: complete_graph_def intro: finite_acyclic_wf_converse)
  then show ?thesis using assms(3)
  proof (induction d rule: wf_induct_rule)
    case (less d)
    then obtain operation where m: "(d, operation) \<in> set ops" by auto
    then have g: "mget ops d = Some operation" using assms(1) by (simp add: wf_map_in_set)
    show ?case
    proof (rule settledI [OF g])
      fix i assume i: "i \<in> set (op_Inputs operation)"
      then obtain x where x: "i = Some x" "x \<in> fst ` set ops" using assms(2) m unfolding complete_graph_def by blast
      then have "(x, d) \<in> (llb_edge ops)\<inverse>" using g i by (simp add: llb_edge_def)
      then show "\<exists>x. i = Some x \<and> settled ops x" using less.IH x by blast
    qed
  qed
qed

lemma settled_complete:
  assumes "wf_map ops" "\<forall>d \<in> fst ` set ops. settled ops d \<and> (out, d) \<in> (llb_edge ops)\<^sup>*" "out \<in> fst ` set ops"
  shows "complete_graph ops out"
proof -
  have "(d, d) \<notin> (llb_edge ops)\<^sup>+" for d
  proof
    assume c: "(d, d) \<in> (llb_edge ops)\<^sup>+"
    then obtain x where "(d, x) \<in> llb_edge ops" by (meson tranclD)
    then have "d \<in> fst ` set ops" by (auto simp: llb_edge_def dest!: map_of_SomeD intro: rev_image_eqI)
    then show False using assms(2) settled_not_cyclic c by blast
  qed
  moreover have "\<exists>x. i = Some x \<and> x \<in> fst ` set ops" if m: "(d, operation) \<in> set ops" "i \<in> set (op_Inputs operation)" for d operation i
  proof -
    have "settled ops d" using assms(2) m by (metis fst_conv image_eqI)
    moreover have "mget ops d = Some operation" using assms(1) m by (simp add: wf_map_in_set)
    ultimately obtain x where "i = Some x" "settled ops x" using m(2) by (metis option.inject settledE)
    then show ?thesis using settled_key by blast
  qed
  ultimately show ?thesis using assms(2,3) unfolding complete_graph_def acyclic_def by blast
qed

lemma closed_reach: "closed ops vs \<Longrightarrow> d \<in> set vs \<Longrightarrow> (llb_edge ops)\<^sup>* `` {d} \<subseteq> set vs"
proof
  fix x assume c: "closed ops vs" "d \<in> set vs" "x \<in> (llb_edge ops)\<^sup>* `` {d}"
  then have "(d, x) \<in> (llb_edge ops)\<^sup>*" by simp
  then show "x \<in> set vs" using c(1,2) by (induction rule: rtrancl_induct) (auto simp: closed_def)
qed

text \<open>
  C29: the search for a complete graph is exact. \<open>completeLLBGraph\<close>, a depth-first search that stops
  at a missing input or a vertex on its own path, accepts a set of operations exactly if every input
  is present, no operation depends on itself and the output vertex reaches every operation.
\<close>

theorem completeLLBGraph_exact:
  assumes "wf_map ops"
  shows "completeLLBGraph ops out \<longleftrightarrow> complete_graph ops out"
proof
  assume "completeLLBGraph ops out"
  then obtain vs where vs: "visit ops [] [] out = Some vs" "length vs = length ops"
    by (auto simp: completeLLBGraph_def split: option.splits)
  note g = visit_grown(1) [OF vs(1)]
  then have k: "closed ops vs" "distinct vs" "out \<in> set vs" "set vs \<subseteq> (llb_edge ops)\<^sup>* `` {out}"
    by (simp_all add: grown_def closed_Nil)
  have "set vs \<subseteq> fst ` set ops" using k(1) settled_key by (auto simp: closed_def)
  moreover have "card (set vs) = card (fst ` set ops)"
    using vs(2) k(2) assms length_eq_card_keys by (metis distinct_card)
  ultimately have "set vs = fst ` set ops" by (simp add: card_subset_eq)
  then show "complete_graph ops out" using k by (intro settled_complete [OF assms]) (auto simp: closed_def)
next
  assume c: "complete_graph ops out"
  then have "settled ops out" using complete_settled assms by (auto simp: complete_graph_def)
  then obtain vs where vs: "visit ops [] [] out = Some vs" using visit_succeeds [of ops out "[]" "[]"] by auto
  then have k: "closed ops vs" "distinct vs" "out \<in> set vs" using visit_grown(1) [OF vs] by (simp_all add: grown_def closed_Nil)
  have "fst ` set ops \<subseteq> set vs" using closed_reach [OF k(1,3)] c by (auto simp: complete_graph_def)
  moreover have "set vs \<subseteq> fst ` set ops" using k(1) settled_key by (auto simp: closed_def)
  ultimately have "set vs = fst ` set ops" by blast
  then have "length vs = length ops" using k(2) assms length_eq_card_keys by (metis distinct_card)
  then show "completeLLBGraph ops out" using vs by (simp add: completeLLBGraph_def)
qed

definition sample_ops :: "PbOp strmap" where
  "sample_ops = [(''a'', \<lparr>op_Inputs = [], op_Kind = OpFile, op_Platform = None, op_ConstraintFilter = None\<rparr>),
     (''b'', \<lparr>op_Inputs = [Some ''a'', Some ''a''], op_Kind = OpMerge, op_Platform = None, op_ConstraintFilter = None\<rparr>),
     (''c'', \<lparr>op_Inputs = [Some ''b''], op_Kind = OpNil, op_Platform = None, op_ConstraintFilter = None\<rparr>)]"

theorem completeLLBGraph_exact_witness:
  "wf_map sample_ops \<and> completeLLBGraph sample_ops ''c'' \<and> complete_graph sample_ops ''c''"
proof -
  have w: "wf_map sample_ops" by (simp add: wf_map_def sample_ops_def)
  have "completeLLBGraph sample_ops ''c''" by (simp add: completeLLBGraph_def sample_ops_def visit.simps)
  then show ?thesis using completeLLBGraph_exact [OF w] w by simp
qed

section \<open>The authority of a definition\<close>

text \<open>A loop keeps what its body keeps, and what the body establishes holds of every element.\<close>

lemma audit_each_invariant:
  assumes "audit_each f xs s = Inr s'" "I s" "\<And>x s s'. x \<in> set xs \<Longrightarrow> I s \<Longrightarrow> f x s = Inr s' \<Longrightarrow> I s' \<and> P x"
  shows "I s' \<and> (\<forall>x \<in> set xs. P x)"
  using assms
proof (induction xs arbitrary: s)
  case (Cons x xs)
  from Cons.prems(1) obtain t where t: "f x s = Inr t" "audit_each f xs t = Inr s'" by (auto split: sum.splits)
  have x: "I t \<and> P x" by (rule Cons.prems(3) [OF _ Cons.prems(2) t(1)]) simp
  have "I s' \<and> (\<forall>x \<in> set xs. P x)"
  proof (rule Cons.IH [OF t(2)])
    show "I t" using x by blast
    show "I u' \<and> P y" if "y \<in> set xs" "I u" "f y u = Inr u'" for y u u'
      using Cons.prems(3) [of y u u'] that by simp
  qed
  then show ?case using x by simp
qed simp

text \<open>The part of an auditor that the lock fixes.\<close>

definition fixed_part ::
  "definitionAuditor \<Rightarrow> DefinitionLock \<times> string strmap \<times> string strmap \<times> SecretCapability strmap \<times> CacheCapability strmap" where
  "fixed_part a = (da_lock a, da_materials a, da_networkNames a, da_secrets a, da_caches a)"

definition granted :: "DefinitionLock \<Rightarrow> definitionAuditor \<Rightarrow> bool" where
  "granted lock a \<longleftrightarrow> da_lock a = lock \<and>
     (\<forall>k v. mget (da_materials a) k = Some v \<longrightarrow> (\<exists>m \<in> set (dl_BaseMaterials lock). k = ''docker-image://'' @ bm_ResolvedRef m)) \<and>
     (\<forall>k v. mget (da_networkNames a) k = Some v \<longrightarrow> (\<exists>n \<in> set (dl_Network lock). k = network_vertex_name n)) \<and>
     (\<forall>k x. mget (da_secrets a) k = Some x \<longrightarrow> x \<in> set (dl_Secrets lock) \<and> k = sk_MountID x) \<and>
     (\<forall>k x. mget (da_caches a) k = Some x \<longrightarrow> x \<in> set (dl_Caches lock) \<and> k = cc_Namespace x)"

lemma granted_fixed: "granted lock a \<Longrightarrow> fixed_part b = fixed_part a \<Longrightarrow> granted lock b"
  by (simp add: granted_def fixed_part_def)

lemma add_material_granted: "m \<in> set (dl_BaseMaterials lock) \<Longrightarrow> granted lock a \<Longrightarrow> add_material m a = Inr b \<Longrightarrow> granted lock b"
  by (auto simp: add_material_def granted_def Let_def split: option.splits if_splits)

lemma add_network_granted: "n \<in> set (dl_Network lock) \<Longrightarrow> granted lock a \<Longrightarrow> add_network l n a = Inr b \<Longrightarrow> granted lock b"
  by (auto simp: add_network_def granted_def Let_def split: option.splits if_splits)

lemma add_secret_granted: "x \<in> set (dl_Secrets lock) \<Longrightarrow> granted lock a \<Longrightarrow> add_secret l x a = Inr b \<Longrightarrow> granted lock b"
  by (auto simp: add_secret_def granted_def split: option.splits if_splits)

lemma add_cache_granted: "x \<in> set (dl_Caches lock) \<Longrightarrow> granted lock a \<Longrightarrow> add_cache l x a = Inr b \<Longrightarrow> granted lock b"
  by (auto simp: add_cache_def granted_def split: option.splits if_splits)

lemma newDefinitionAuditor_granted:
  assumes "newDefinitionAuditor l lock = Inr a"
  shows "granted lock a"
proof -
  obtain a1 a2 a3 where s: "audit_each add_material (dl_BaseMaterials lock) (empty_auditor lock) = Inr a1"
    "audit_each (add_network l) (dl_Network lock) a1 = Inr a2" "audit_each (add_secret l) (dl_Secrets lock) a2 = Inr a3"
    "audit_each (add_cache l) (dl_Caches lock) a3 = Inr a"
    using assms by (auto simp: newDefinitionAuditor_def split: sum.splits)
  have "granted lock (empty_auditor lock)" by (simp add: granted_def empty_auditor_def)
  then have "granted lock a1"
    using audit_each_invariant [OF s(1), where I = "granted lock" and P = "\<lambda>_. True"] add_material_granted by blast
  then have "granted lock a2"
    using audit_each_invariant [OF s(2), where I = "granted lock" and P = "\<lambda>_. True"] add_network_granted by blast
  then have "granted lock a3"
    using audit_each_invariant [OF s(3), where I = "granted lock" and P = "\<lambda>_. True"] add_secret_granted by blast
  then show ?thesis
    using audit_each_invariant [OF s(4), where I = "granted lock" and P = "\<lambda>_. True"] add_cache_granted by blast
qed

text \<open>What the lock allows an operation to do.\<close>

definition source_allowed :: "audit_lib \<Rightarrow> DefinitionLock \<Rightarrow> PbSource \<Rightarrow> bool" where
  "source_allowed l lock s \<longleftrightarrow>
     (ps_Identifier s = ''local://lrail-source'' \<and> mstr (ps_Attrs s) (al_AttrLocalUniqueID l) = dl_SourceSnapshot lock \<and>
        mstr (ps_Attrs s) (al_AttrSharedKeyHint l) = dl_SourceSnapshot lock) \<or>
     (\<exists>m \<in> set (dl_BaseMaterials lock). ps_Identifier s = ''docker-image://'' @ bm_ResolvedRef m \<and>
        mstr (ps_Attrs s) (al_AttrImageResolveMode l) = al_AttrImageResolveModeForcePull l)"

definition mount_allowed :: "DefinitionLock \<Rightarrow> PbMount \<Rightarrow> bool" where
  "mount_allowed lock m =
     (case mo_MountType m of
        MountType_BIND \<Rightarrow> True
      | MountType_TMPFS \<Rightarrow> True
      | MountType_SECRET \<Rightarrow> (\<exists>x \<in> set (dl_Secrets lock). \<exists>opt. mo_SecretOpt m = Some opt \<and> so_ID opt = sk_MountID x \<and>
          mo_Dest m = sk_Target x \<and> so_Mode opt = 256 \<and> so_Optional opt = (\<not> sk_Required x))
      | MountType_CACHE \<Rightarrow> (\<exists>x \<in> set (dl_Caches lock). \<exists>opt. mo_CacheOpt m = Some opt \<and> co_ID opt = cc_Namespace x \<and>
          mo_Dest m = cc_Target x \<and> co_Sharing opt = cacheSharingOption (cc_Sharing x))
      | _ \<Rightarrow> False)"

definition exec_allowed :: "DefinitionLock \<Rightarrow> PbExec \<Rightarrow> PbMetadata \<Rightarrow> bool" where
  "exec_allowed lock e md \<longleftrightarrow> ex_Security e = SecurityMode_SANDBOX \<and> ex_Secretenv e = 0 \<and> ex_CdiDevices e = 0 \<and>
     (\<exists>n meta. n \<in> set (dl_Network lock) \<and> ex_Meta e = Some meta \<and> mstr (md_Description md) ''llb.customname'' = network_vertex_name n \<and>
        me_ExtraHosts meta = 0 \<and>
        (if nc_Profile n = ''none'' then ex_Network e = NetMode_NONE \<and> me_ProxyEnv meta = None
         else ex_Network e = NetMode_UNSET \<and> policy_proxy (me_ProxyEnv meta))) \<and>
     (\<forall>m \<in> set (ex_Mounts e). \<exists>x. m = Some x \<and> mount_allowed lock x)"

definition operation_allowed :: "audit_lib \<Rightarrow> DefinitionLock \<Rightarrow> PbMetadata option \<Rightarrow> PbKind \<Rightarrow> bool" where
  "operation_allowed l lock md kind =
     (case kind of
        OpSource s \<Rightarrow> (\<exists>x. s = Some x \<and> source_allowed l lock x)
      | OpExec e \<Rightarrow> (\<exists>x y. e = Some x \<and> md = Some y \<and> exec_allowed lock x y)
      | OpOther \<Rightarrow> False
      | _ \<Rightarrow> True)"

lemma grantedD:
  assumes "granted lock a"
  shows "da_lock a = lock"
    "mget (da_materials a) k = Some v \<Longrightarrow> \<exists>m \<in> set (dl_BaseMaterials lock). k = ''docker-image://'' @ bm_ResolvedRef m"
    "mget (da_networkNames a) k = Some v \<Longrightarrow> \<exists>n \<in> set (dl_Network lock). k = network_vertex_name n"
    "mget (da_secrets a) k = Some x \<Longrightarrow> x \<in> set (dl_Secrets lock) \<and> k = sk_MountID x"
    "mget (da_caches a) k = Some y \<Longrightarrow> y \<in> set (dl_Caches lock) \<and> k = cc_Namespace y"
  using assms unfolding granted_def by blast+

lemma auditSource_allowed:
  assumes "auditSource l s a = Inr b" "granted lock a"
  shows "fixed_part b = fixed_part a \<and> (\<exists>x. s = Some x \<and> source_allowed l lock x)"
proof -
  obtain x where x: "s = Some x" using assms(1) by (auto simp: auditSource_def split: option.splits)
  show ?thesis
  proof (cases "ps_Identifier x = ''local://lrail-source''")
    case True
    then show ?thesis using assms(1) x grantedD(1) [OF assms(2)]
      by (simp add: auditSource_def source_allowed_def split: if_splits)
  next
    case False
    then obtain key where k: "mget (da_materials a) (ps_Identifier x) = Some key"
      "mstr (ps_Attrs x) (al_AttrImageResolveMode l) = al_AttrImageResolveModeForcePull l"
      "b = a\<lparr>da_observedMaterials := List.insert key (da_observedMaterials a)\<rparr>"
      using assms(1) x by (auto simp: auditSource_def split: option.splits if_splits)
    then have "source_allowed l lock x" using grantedD(2) [OF assms(2)] unfolding source_allowed_def by blast
    then show ?thesis using x k(3) by (simp add: fixed_part_def)
  qed
qed

lemma auditSecretMount_allowed:
  assumes "auditSecretMount l m a = Inr b" "granted lock a" "mo_MountType m = MountType_SECRET"
  shows "fixed_part b = fixed_part a \<and> mount_allowed lock m"
proof -
  obtain opt where o: "mo_SecretOpt m = Some opt" using assms(1) by (auto simp: auditSecretMount_def split: option.splits)
  obtain x where x: "mget (da_secrets a) (so_ID opt) = Some x" using assms(1) o by (auto simp: auditSecretMount_def split: option.splits)
  have k: "mo_Dest m = sk_Target x \<and> so_Mode opt = 256 \<and> so_Optional opt = (\<not> sk_Required x) \<and> fixed_part b = fixed_part a"
    using assms(1) o x by (simp add: auditSecretMount_def fixed_part_def Let_def split: if_splits) auto
  then show ?thesis using o assms(3) grantedD(4) [OF assms(2) x] by (auto simp: mount_allowed_def)
qed

lemma auditCacheMount_allowed:
  assumes "auditCacheMount l m a = Inr b" "granted lock a" "mo_MountType m = MountType_CACHE"
  shows "fixed_part b = fixed_part a \<and> mount_allowed lock m"
proof -
  obtain opt x where x: "mo_CacheOpt m = Some opt" "mget (da_caches a) (co_ID opt) = Some x" "mo_Dest m = cc_Target x"
    "co_Sharing opt = cacheSharingOption (cc_Sharing x)" "fixed_part b = fixed_part a"
    using assms(1) by (auto simp: auditCacheMount_def fixed_part_def split: option.splits if_splits)
  then show ?thesis using assms(3) grantedD(5) [OF assms(2) x(2)] by (auto simp: mount_allowed_def)
qed

lemma audit_mount_allowed:
  assumes "audit_mount l m a = Inr b" "granted lock a"
  shows "fixed_part b = fixed_part a \<and> (\<exists>x. m = Some x \<and> mount_allowed lock x)"
proof -
  obtain x where x: "m = Some x" using assms(1) by (auto simp: audit_mount_def split: option.splits)
  have "fixed_part b = fixed_part a \<and> mount_allowed lock x"
    using assms x auditSecretMount_allowed [of l x a b lock] auditCacheMount_allowed [of l x a b lock]
    by (cases "mo_MountType x") (simp_all add: audit_mount_def mount_allowed_def)
  then show ?thesis using x by blast
qed

text \<open>The name of a run carries its profile: neither a node identity nor a profile has a space.\<close>

lemma cut_str_skip: "c \<notin> set s \<Longrightarrow> cut_str (c # p) (s @ (c # p) @ t) = Some (s, t)"
  by (induction s) (auto simp: has_prefix_def)

definition named_network :: "NetworkCapability \<Rightarrow> bool" where
  "named_network n \<longleftrightarrow> node_id_pattern (nc_NodeID n) \<and> nc_Profile n \<in> set [''none'', ''packages'', ''allowlist'', ''private'']"

lemma node_id_no_space: "node_id_pattern s \<Longrightarrow> CHR '' '' \<notin> set s"
  by (cases s) (auto simp: node_id_pattern_def token_pattern_def list_all_iff is_digit_def in_range_def split: list.splits)

lemma networkProfileFromName_vertex:
  assumes "named_network n"
  shows "networkProfileFromName (network_vertex_name n) = nc_Profile n"
proof -
  let ?rest = "'' gateway='' @ nc_GatewayID n @ '' hosts='' @ join '','' (nc_Hosts n)"
  have p: "CHR '' '' \<notin> set (nc_Profile n)" using assms by (auto simp: named_network_def)
  obtain d ds where "nc_NodeID n = CHR ''n'' # d # ds" "in_range CHR ''1'' CHR ''9'' d"
    using assms unfolding named_network_def node_id_pattern_def token_pattern_def by (auto split: list.splits)
  then have d: "nc_NodeID n = CHR ''n'' # d # ds" "d \<noteq> CHR ''e''" by (auto simp: in_range_def)
  have "cut_str '' network='' ((''lrail run '' @ nc_NodeID n) @ '' network='' @ nc_Profile n @ ?rest) =
      Some (''lrail run '' @ nc_NodeID n, nc_Profile n @ ?rest)"
    using cut_str_skip [of "CHR '' ''" "nc_NodeID n" "''network=''" "nc_Profile n @ ?rest"] d node_id_no_space [of "nc_NodeID n"] assms
    by (simp add: named_network_def has_prefix_def)
  moreover have "cut CHR '' '' (nc_Profile n @ ?rest) = Some (nc_Profile n, tl ?rest)"
    using cut_append [OF p] by simp
  ultimately show ?thesis by (simp add: networkProfileFromName_def network_vertex_name_def)
qed

lemma auditExec_allowed:
  assumes "auditExec l e md a = Inr b" "granted lock a" "list_all named_network (dl_Network lock)"
  shows "fixed_part b = fixed_part a \<and> (\<exists>x y. e = Some x \<and> md = Some y \<and> exec_allowed lock x y)"
proof -
  obtain x meta y key where x: "e = Some x" "md = Some y" "ex_Meta x = Some meta" "ex_Security x = SecurityMode_SANDBOX"
    "ex_Secretenv x = 0" "ex_CdiDevices x = 0" "me_ExtraHosts meta = 0"
    "mget (da_networkNames a) (mstr (md_Description y) ''llb.customname'') = Some key"
    "networkProfileFromName (mstr (md_Description y) ''llb.customname'') = ''none'' \<longrightarrow> ex_Network x = NetMode_NONE \<and> me_ProxyEnv meta = None"
    "networkProfileFromName (mstr (md_Description y) ''llb.customname'') \<noteq> ''none'' \<longrightarrow> ex_Network x = NetMode_UNSET \<and> policy_proxy (me_ProxyEnv meta)"
    "audit_each (audit_mount l) (ex_Mounts x) (a\<lparr>da_observedNetwork := List.insert key (da_observedNetwork a)\<rparr>) = Inr b"
    using assms(1) unfolding auditExec_def Let_def by (auto split: option.splits if_splits)
  obtain n where n: "n \<in> set (dl_Network lock)" "mstr (md_Description y) ''llb.customname'' = network_vertex_name n"
    using grantedD(3) [OF assms(2) x(8)] by blast
  have p: "networkProfileFromName (mstr (md_Description y) ''llb.customname'') = nc_Profile n"
    using n assms(3) networkProfileFromName_vertex by (simp add: list_all_iff)
  have g: "granted lock (a\<lparr>da_observedNetwork := List.insert key (da_observedNetwork a)\<rparr>)"
    by (rule granted_fixed [OF assms(2)]) (simp add: fixed_part_def)
  have "(fixed_part b = fixed_part a \<and> granted lock b) \<and> (\<forall>m \<in> set (ex_Mounts x). \<exists>z. m = Some z \<and> mount_allowed lock z)"
  proof (rule audit_each_invariant [OF x(11)])
    show "fixed_part (a\<lparr>da_observedNetwork := List.insert key (da_observedNetwork a)\<rparr>) = fixed_part a \<and>
        granted lock (a\<lparr>da_observedNetwork := List.insert key (da_observedNetwork a)\<rparr>)" using g by (simp add: fixed_part_def)
    show "(fixed_part t = fixed_part a \<and> granted lock t) \<and> (\<exists>z. m = Some z \<and> mount_allowed lock z)"
      if "fixed_part s = fixed_part a \<and> granted lock s" "audit_mount l m s = Inr t" for m s t
      using audit_mount_allowed [OF that(2)] that(1) granted_fixed by metis
  qed
  moreover have "if nc_Profile n = ''none'' then ex_Network x = NetMode_NONE \<and> me_ProxyEnv meta = None
      else ex_Network x = NetMode_UNSET \<and> policy_proxy (me_ProxyEnv meta)" using x(9,10) p by auto
  ultimately have "exec_allowed lock x y" using x(3-7) n unfolding exec_allowed_def by blast
  then show ?thesis using x(1,2) \<open>(fixed_part b = _ \<and> _) \<and> _\<close> by blast
qed

lemma audit_operation_allowed:
  assumes "audit_operation l operation md a = Inr b" "granted lock a" "list_all named_network (dl_Network lock)"
  shows "fixed_part b = fixed_part a \<and> operation_allowed l lock md (op_Kind operation) \<and> auditPlatform a (op_Platform operation) = None"
proof -
  have "auditPlatform a (op_Platform operation) = None" using assms(1) by (auto simp: audit_operation_def split: option.splits)
  moreover have "fixed_part b = fixed_part a \<and> operation_allowed l lock md (op_Kind operation)"
    using assms(1) auditSource_allowed [OF _ assms(2)] auditExec_allowed [OF _ assms(2,3)]
    by (cases "op_Kind operation") (auto simp: audit_operation_def operation_allowed_def split: option.splits if_splits)
  ultimately show ?thesis by blast
qed

lemma collect_operations_cases:
  assumes "collect_operations l (raw # raws) (ops, out) = Inr r"
  obtains operation out1 where "al_op l raw = Some operation" "mget ops (bytesDigest l raw) = None"
    "collect_operations l raws (mput (bytesDigest l raw) operation ops, out1) = Inr r"
  using assms by (auto simp: Let_def split: option.splits if_splits)

lemma collect_operations_keeps:
  "collect_operations l raws (ops, out) = Inr (ops', out') \<Longrightarrow> mget ops k = Some x \<Longrightarrow> mget ops' k = Some x"
proof (induction raws arbitrary: ops out)
  case (Cons r raws)
  from Cons.prems(1) obtain operation out1 where o: "mget ops (bytesDigest l r) = None"
    "collect_operations l raws (mput (bytesDigest l r) operation ops, out1) = Inr (ops', out')"
    by (rule collect_operations_cases)
  then have "mget (mput (bytesDigest l r) operation ops) k = Some x" using Cons.prems(2) by (auto simp: mget_mput)
  then show ?case by (rule Cons.IH [OF o(2)])
qed simp

lemma collect_operations_decoded:
  "collect_operations l raws (ops, out) = Inr (ops', out') \<Longrightarrow> raw \<in> set raws \<Longrightarrow>
   \<exists>operation. al_op l raw = Some operation \<and> mget ops' (bytesDigest l raw) = Some operation"
proof (induction raws arbitrary: ops out)
  case (Cons r raws)
  from Cons.prems(1) obtain operation out1 where o: "al_op l r = Some operation"
    "collect_operations l raws (mput (bytesDigest l r) operation ops, out1) = Inr (ops', out')"
    by (rule collect_operations_cases)
  have "mget ops' (bytesDigest l r) = Some operation" by (rule collect_operations_keeps [OF o(2)]) (simp add: mget_mput)
  then show ?case using Cons.IH [OF o(2)] Cons.prems(2) o(1) by auto
qed simp

definition definition_allowed :: "audit_lib \<Rightarrow> DefinitionLock \<Rightarrow> string \<Rightarrow> bool" where
  "definition_allowed l lock contents \<longleftrightarrow> (\<exists>wire. al_definition l contents = Some wire \<and>
     (\<forall>raw \<in> set (pd_Def wire). \<exists>operation. al_op l raw = Some operation \<and>
        operation_allowed l lock (mget (pd_Metadata wire) (bytesDigest l raw)) (op_Kind operation)))"

lemma audit_allowed:
  assumes "audit l contents a = Inr b" "granted lock a" "list_all named_network (dl_Network lock)"
  shows "granted lock b \<and> definition_allowed l lock contents"
proof -
  obtain wire ops out where d: "al_definition l contents = Some wire"
    "collect_operations l (pd_Def wire) ([], []) = Inr (ops, out)"
    "audit_each (audit_raw l wire ops) (pd_Def wire) a = Inr b"
    using assms(1) by (auto simp: audit_def split: option.splits sum.splits if_splits)
  let ?P = "\<lambda>raw. \<exists>operation. al_op l raw = Some operation \<and>
       operation_allowed l lock (mget (pd_Metadata wire) (bytesDigest l raw)) (op_Kind operation)"
  have "granted lock b \<and> (\<forall>raw \<in> set (pd_Def wire). ?P raw)"
  proof (rule audit_each_invariant [OF d(3), of "granted lock"])
    fix raw s t assume r: "raw \<in> set (pd_Def wire)" "granted lock s" "audit_raw l wire ops raw s = Inr t"
    obtain operation where o: "al_op l raw = Some operation" "mget ops (bytesDigest l raw) = Some operation"
      using collect_operations_decoded [OF d(2) r(1)] by blast
    then have "audit_operation l operation (mget (pd_Metadata wire) (bytesDigest l raw)) s = Inr t"
      using r(3) by (simp add: audit_raw_def)
    then show "granted lock t \<and> ?P raw"
      using audit_operation_allowed [OF _ r(2) assms(3)] granted_fixed [OF r(2)] o(1) by blast
  qed (rule assms(2))
  then show ?thesis using d(1) unfolding definition_allowed_def by blast
qed

lemma audited_definitions_allowed:
  assumes "AuditDefinitions l definitions lock = None" "list_all named_network (dl_Network lock)"
  shows "list_all (definition_allowed l lock) definitions"
proof -
  obtain a b where a: "newDefinitionAuditor l lock = Inr a" "audit_each (audit l) definitions a = Inr b"
    using assms(1) by (auto simp: AuditDefinitions_def split: if_splits sum.splits)
  have "granted lock b \<and> (\<forall>x \<in> set definitions. definition_allowed l lock x)"
    by (rule audit_each_invariant [OF a(2), of "granted lock"])
      (use newDefinitionAuditor_granted [OF a(1)] audit_allowed [OF _ _ assms(2)] in auto)
  then show ?thesis by (simp add: list_all_iff)
qed

text \<open>
  C16: an audited definition has no more authority than its lock. If the audit accepts, every
  operation of every definition decodes and is one of: the signed source snapshot or a signed base
  image; a sandboxed execution bound by name to a network capability of the lock, without network
  and proxy if the profile is \<open>none\<close> and behind the policy proxy otherwise, whose secret and cache
  mounts are those of the lock; or a file, merge, diff or output operation. The network capabilities
  of the lock carry a node identifier and a known profile, as the validation of a lock requires.
\<close>

theorem AuditDefinitions_sound:
  assumes "AuditDefinitions l definitions lock = None" "list_all named_network (dl_Network lock)"
  shows "list_all (definition_allowed l lock) definitions \<and> length definitions = length (dl_Outputs lock)"
  using audited_definitions_allowed [OF assms] assms(1) by (auto simp: AuditDefinitions_def split: if_splits)

definition sample_lock :: DefinitionLock where
  "sample_lock = \<lparr>dl_Version = 2, dl_CompilerVersion = ''1.0.0'', dl_IRDigest = sample_digest, dl_PolicyDigest = sample_digest,
     dl_SourceSnapshot = sample_digest, dl_TargetPlatform = ''linux/amd64'', dl_BuildArguments = [], dl_BaseMaterials = [],
     dl_Network = [\<lparr>nc_NodeID = ''n1'', nc_Profile = ''none'', nc_Hosts = [], nc_GatewayID = []\<rparr>], dl_Caches = [], dl_Secrets = [],
     dl_SupplyChain = PlatformSupplyChainPolicy [sample_digest],
     dl_Outputs = [\<lparr>ol_Name = ''app'', ol_Kind = ''oci_image'', ol_StateID = ''n1'', ol_LLBDigest = sample_digest, ol_ConfigDigest = sample_digest\<rparr>]\<rparr>"

definition sample_exec :: PbExec where
  "sample_exec = \<lparr>ex_Security = SecurityMode_SANDBOX, ex_Network = NetMode_NONE, ex_Secretenv = 0, ex_CdiDevices = 0,
     ex_Meta = Some \<lparr>me_ExtraHosts = 0, me_CgroupParent = [], me_Hostname = [], me_Ulimit = 0, me_ValidExitCodes = 0, me_ProxyEnv = None\<rparr>,
     ex_Mounts = []\<rparr>"

text \<open>One execution and the output vertex; operation \<open>e\<close> has a digest of its own.\<close>

definition sample_digest1 :: string where
  "sample_digest1 = ''sha256:01'' @ replicate 62 CHR ''0''"

definition sample_audit_lib :: audit_lib where
  "sample_audit_lib = \<lparr>al_hash = sample_hashing\<lparr>hs_sha := (\<lambda>x. if x = ''e'' then 1 # replicate 31 0 else replicate 32 0), hs_lock := (\<lambda>_. Some [])\<rparr>,
     al_definition = (\<lambda>_. Some \<lparr>pd_Def = [''e'', ''o''],
       pd_Metadata = [(sample_digest1, \<lparr>md_Description = [(''llb.customname'', ''lrail run n1 network=none gateway= hosts='')], md_LinuxResources = False\<rparr>)]\<rparr>),
     al_op = (\<lambda>x. if x = ''e''
       then Some \<lparr>op_Inputs = [], op_Kind = OpExec (Some sample_exec), op_Platform = None, op_ConstraintFilter = None\<rparr>
       else Some \<lparr>op_Inputs = [Some sample_digest1], op_Kind = OpNil, op_Platform = None, op_ConstraintFilter = None\<rparr>),
     al_network = (\<lambda>_. Some ''n''), al_secret = (\<lambda>_. None), al_cache = (\<lambda>_. None),
     al_AttrLocalUniqueID = ''u'', al_AttrSharedKeyHint = ''k'', al_AttrImageResolveMode = ''m'', al_AttrImageResolveModeForcePull = ''pull''\<rparr>"

lemma hex_encode_zeros: "hex_encode (replicate n 0) = replicate (2 * n) CHR ''0''"
  by (induction n) (simp_all add: hex_byte_def hex_digit_numerals)

lemma sample_digests:
  "bytesDigest sample_audit_lib ''e'' = sample_digest1" "x \<noteq> ''e'' \<Longrightarrow> bytesDigest sample_audit_lib x = sample_digest"
  by (simp_all add: bytesDigest_def sample_audit_lib_def hex_byte_def hex_digit_numerals hex_encode_zeros sample_digest_def sample_digest1_def del: One_nat_def)

lemma sample_digest_distinct [simp]: "sample_digest \<noteq> sample_digest1" "sample_digest1 \<noteq> sample_digest" "sample_digest \<noteq> []" "[] \<noteq> sample_digest"
  by (simp_all add: sample_digest_def sample_digest1_def numeral_eq_Suc)

lemma sample_digest1_prefix: "take (Suc (Suc (Suc (Suc (Suc (Suc (Suc 0))))))) sample_digest1 = ''sha256:''"
  by (simp add: sample_digest1_def)

lemma bytesDigest_sample: "digest_pattern (bytesDigest sample_audit_lib x)"
proof -
  have "length (hs_sha (al_hash sample_audit_lib) x) = 32" by (simp add: sample_audit_lib_def)
  then show ?thesis
    by (auto simp: bytesDigest_def digest_pattern_def has_prefix_def list_all_iff hex_encode_lower)
qed

lemma sample_al_op:
  "al_op sample_audit_lib ''e'' = Some \<lparr>op_Inputs = [], op_Kind = OpExec (Some sample_exec), op_Platform = None, op_ConstraintFilter = None\<rparr>"
  "al_op sample_audit_lib ''o'' = Some \<lparr>op_Inputs = [Some sample_digest1], op_Kind = OpNil, op_Platform = None, op_ConstraintFilter = None\<rparr>"
  by (simp_all add: sample_audit_lib_def)

lemma sample_collect:
  "collect_operations sample_audit_lib [''e'', ''o''] ([], []) =
   Inr ([(sample_digest1, \<lparr>op_Inputs = [], op_Kind = OpExec (Some sample_exec), op_Platform = None, op_ConstraintFilter = None\<rparr>),
     (sample_digest, \<lparr>op_Inputs = [Some sample_digest1], op_Kind = OpNil, op_Platform = None, op_ConstraintFilter = None\<rparr>)], sample_digest)"
  by (simp add: sample_digests sample_al_op Let_def)

lemma sample_audit_ok: "AuditDefinitions sample_audit_lib [contents] sample_lock = None"
proof -
  have n: "network_vertex_name (hd (dl_Network sample_lock)) = ''lrail run n1 network=none gateway= hosts=''"
    by (simp add: network_vertex_name_def sample_lock_def)
  have p: "networkProfileFromName ''lrail run n1 network=none gateway= hosts='' = ''none''"
    using networkProfileFromName_vertex [of "hd (dl_Network sample_lock)"] n
    by (simp add: named_network_def sample_lock_def node_id_pattern_def token_pattern_def in_range_def)
  let ?a = "empty_auditor sample_lock\<lparr>da_networkNames := [(''lrail run n1 network=none gateway= hosts='', sample_digest)],
     da_expectedNetwork := [sample_digest]\<rparr>"
  have new: "newDefinitionAuditor sample_audit_lib sample_lock = Inr ?a"
    using n sample_digests(2) [of "''n''"]
    by (simp add: newDefinitionAuditor_def sample_lock_def add_network_def networkAuthority_def digestValue_def sample_audit_lib_def
        empty_auditor_def bytesDigest_def)
  have d: "al_definition sample_audit_lib contents = Some \<lparr>pd_Def = [''e'', ''o''],
       pd_Metadata = [(sample_digest1, \<lparr>md_Description = [(''llb.customname'', ''lrail run n1 network=none gateway= hosts='')], md_LinuxResources = False\<rparr>)]\<rparr>"
    by (simp add: sample_audit_lib_def)
  have "audit sample_audit_lib contents ?a = Inr (?a\<lparr>da_observedNetwork := [sample_digest]\<rparr>)"
    by (simp add: audit_def d sample_collect completeLLBGraph_def visit.simps MaxNodes_def audit_raw_def sample_digests
        audit_operation_def auditPlatform_def auditExec_def sample_exec_def mstr_def p input_named_def has_prefix_def empty_auditor_def sample_digest1_prefix
        del: collect_operations.simps)
  then show ?thesis
    using new by (simp add: AuditDefinitions_def complete_def empty_auditor_def equalStringSets_def sample_lock_def)
qed

theorem AuditDefinitions_sound_witness:
  "AuditDefinitions sample_audit_lib [''x''] sample_lock = None \<and> definition_allowed sample_audit_lib sample_lock ''x''"
  using AuditDefinitions_sound [OF sample_audit_ok [of "''x''"]] sample_audit_ok [of "''x''"]
  by (simp add: sample_lock_def named_network_def node_id_pattern_def token_pattern_def in_range_def)

end
