(* ===== verification/Assignment_Laws.thy ===== *)
theory Assignment_Laws
  imports Assignment Llb_Audit_Laws
begin

text \<open>
  Facts about signed assignments: what verification guarantees, the bounded window in which one
  envelope is accepted, signing and verification, resolution and its later validation, and the
  canonical envelope codec.
\<close>

section \<open>Locks\<close>

lemma reject_None [simp]: "reject b = None \<longleftrightarrow> \<not> b"
  by (simp add: reject_def)

lemma check_capabilities_InrD:
  assumes "check_capabilities bad node key nodeIDs seen xs = Inr ids"
  shows "list_all (\<lambda>x. \<not> bad x) xs \<and> distinct (map node xs) \<and> distinct (map key xs) \<and>
    set (map node xs) \<inter> set nodeIDs = {} \<and> set (map key xs) \<inter> set seen = {} \<and> set ids = set nodeIDs \<union> set (map node xs)"
  using assms by (induction bad node key nodeIDs seen xs rule: check_capabilities.induct) (auto split: if_splits)

lemma validateLock_parts:
  assumes "validateLock l lock = None"
  shows "check_core_lock lock" "ValidateSupplyChainPolicy (dl_SupplyChain lock) = None"
    "list_all (\<lambda>n. \<not> bad_network n) (dl_Network lock)" "list_all (\<lambda>c. \<not> bad_cache c) (dl_Caches lock)"
    "list_all (\<lambda>s. \<not> bad_secret s) (dl_Secrets lock)"
    "distinct (map nc_NodeID (dl_Network lock) @ map cc_NodeID (dl_Caches lock) @ map sk_NodeID (dl_Secrets lock))"
    "distinct (map cc_Namespace (dl_Caches lock))" "distinct (map sk_MountID (dl_Secrets lock))"
proof -
  show "check_core_lock lock" using assms by (auto simp: validateLock_def split: if_splits)
  show "ValidateSupplyChainPolicy (dl_SupplyChain lock) = None" using assms by (auto simp: validateLock_def split: if_splits)
  obtain i j k where c: "check_capabilities bad_network nc_NodeID nc_NodeID [] [] (dl_Network lock) = Inr i"
    "check_capabilities bad_cache cc_NodeID cc_Namespace i [] (dl_Caches lock) = Inr j"
    "check_capabilities bad_secret sk_NodeID sk_MountID j [] (dl_Secrets lock) = Inr k"
    using assms by (auto simp: validateLock_def split: if_splits option.splits sum.splits)
  note f = check_capabilities_InrD [OF c(1)] check_capabilities_InrD [OF c(2)] check_capabilities_InrD [OF c(3)]
  show "list_all (\<lambda>n. \<not> bad_network n) (dl_Network lock)" "list_all (\<lambda>c. \<not> bad_cache c) (dl_Caches lock)"
    "list_all (\<lambda>s. \<not> bad_secret s) (dl_Secrets lock)" "distinct (map cc_Namespace (dl_Caches lock))"
    "distinct (map sk_MountID (dl_Secrets lock))" using f by blast+
  show "distinct (map nc_NodeID (dl_Network lock) @ map cc_NodeID (dl_Caches lock) @ map sk_NodeID (dl_Secrets lock))"
  proof -
    have "set i = set (map nc_NodeID (dl_Network lock))" "set j = set i \<union> set (map cc_NodeID (dl_Caches lock))"
      "set (map cc_NodeID (dl_Caches lock)) \<inter> set i = {}" "set (map sk_NodeID (dl_Secrets lock)) \<inter> set j = {}"
      using f by simp_all
    moreover have "distinct (map nc_NodeID (dl_Network lock))" "distinct (map cc_NodeID (dl_Caches lock))"
      "distinct (map sk_NodeID (dl_Secrets lock))" using f by blast+
    ultimately show ?thesis unfolding distinct_append set_append by blast
  qed
qed

lemma validateLock_named: "validateLock l lock = None \<Longrightarrow> list_all named_network (dl_Network lock)"
  using validateLock_parts(3) by (auto simp: list_all_iff named_network_def bad_network_def)

section \<open>Verification\<close>

lemma Verify_parts:
  assumes "Verify l verifier now envelope = Inr v"
  obtains key canonical signature where "mget (vf_keys verifier) (en_KeyID envelope) = Some key"
    "as_payload l (en_Payload envelope) = Some canonical" "b64_decode (en_Signature envelope) = Some signature" "length signature = 64"
    "as_verify l key canonical signature" "validatePayload l verifier now (en_Payload envelope) = None"
    "v = \<lparr>va_Payload = en_Payload envelope, va_PayloadDigest = bytesDigest (as_audit l) canonical,
          va_KeyID = en_KeyID envelope, va_verified = True\<rparr>"
  using assms by (auto simp: Verify_def split: option.splits if_splits)

lemma validatePayload_parts:
  assumes "validatePayload l verifier now payload = None"
  shows "pl_CellID payload = vf_cellID verifier" "validate_window verifier now payload = None"
    "validateReference verifier (sa_ArchiveRef (pl_Source payload)) = None"
    "validate_outputs verifier [] (zip (pl_Outputs payload) (dl_Outputs (pl_Lock payload))) = None"
    "length (pl_Outputs payload) = length (dl_Outputs (pl_Lock payload))"
    "validateLock (as_audit l) (pl_Lock payload) = None"
    "LockDigest (al_hash (as_audit l)) (pl_Lock payload) = Some (pl_DefinitionDigest payload)"
    "pl_Generation payload \<noteq> 0" "hex64_pattern (pl_Nonce payload)"
  using assms unfolding validatePayload_def by (auto split: if_splits option.splits)

lemma validate_window_parts:
  assumes "validate_window verifier now payload = None"
  obtains issuedAt expiresAt where "rfc3339_utc (pl_IssuedAt payload) = Some issuedAt" "rfc3339_utc (pl_ExpiresAt payload) = Some expiresAt"
    "issuedAt \<le> now + vf_maxFutureSkew verifier" "now < expiresAt" "issuedAt < expiresAt"
    "time_sub expiresAt issuedAt \<le> vf_maxTTL verifier"
  using assms by (auto simp: validate_window_def parseWholeSecond_def split: option.splits sum.splits if_splits)

lemma NewVerifier_bounds:
  assumes "NewVerifier options = Inr verifier"
  shows "0 < vf_maxTTL verifier" "vf_maxTTL verifier \<le> hour" "0 \<le> vf_maxFutureSkew verifier" "vf_maxFutureSkew verifier \<le> minute"
  using assms
  by (auto simp: NewVerifier_def Let_def DefaultMaxAssignmentTTL_def DefaultMaxFutureSkew_def split: option.splits if_splits)

text \<open>
  C30: the replay window is bounded. A verifier made by \<open>NewVerifier\<close> accepts one and the same
  payload, under whatever signatures, only at times less than its maximal lifetime plus the future
  skew apart, which is at most 61 minutes.
\<close>

theorem Verify_window_bounded:
  assumes "NewVerifier options = Inr verifier"
    and "Verify l verifier now1 envelope1 = Inr v1" "Verify l verifier now2 envelope2 = Inr v2"
    and "en_Payload envelope1 = en_Payload envelope2"
  shows "now2 - now1 < vf_maxTTL verifier + vf_maxFutureSkew verifier \<and> vf_maxTTL verifier + vf_maxFutureSkew verifier \<le> 61 * minute"
proof -
  note b = NewVerifier_bounds [OF assms(1)]
  have w1: "validate_window verifier now1 (en_Payload envelope1) = None"
    using assms(2) by (rule Verify_parts) (rule validatePayload_parts(2))
  have w2: "validate_window verifier now2 (en_Payload envelope1) = None"
    using assms(3) unfolding assms(4) by (rule Verify_parts) (rule validatePayload_parts(2))
  obtain i e where i: "rfc3339_utc (pl_IssuedAt (en_Payload envelope1)) = Some i" "rfc3339_utc (pl_ExpiresAt (en_Payload envelope1)) = Some e"
    "i \<le> now1 + vf_maxFutureSkew verifier" "time_sub e i \<le> vf_maxTTL verifier"
    using w1 by (rule validate_window_parts)
  have "now2 < e" using w2 by (rule validate_window_parts) (use i in simp)
  moreover have "e - i \<le> vf_maxTTL verifier"
    using i(4) b(2) by (auto simp: time_sub_def min_duration_def max_duration_def min_def max_def split: if_splits)
  ultimately show ?thesis using i(3) b by simp
qed

text \<open>
  C31: what was signed is accepted. An envelope made by \<open>Sign\<close> under a key the verifier holds is
  accepted exactly if its payload is valid, and the proof carries the payload and the digest of its
  canonical form; this uses that Ed25519 signatures have 64 bytes and verify under the public key.
\<close>

theorem Sign_Verify:
  assumes "Sign l payload keyID privateKey = Inr envelope" "mget (vf_keys verifier) keyID = Some publicKey"
    and "\<forall>m. length (as_sign l privateKey m) = 64 \<and> as_verify l publicKey m (as_sign l privateKey m)"
  shows "case validatePayload l verifier now payload of
      Some e \<Rightarrow> Verify l verifier now envelope = Inl e
    | None \<Rightarrow> \<exists>canonical. as_payload l payload = Some canonical \<and> Verify l verifier now envelope =
        Inr \<lparr>va_Payload = payload, va_PayloadDigest = bytesDigest (as_audit l) canonical, va_KeyID = keyID, va_verified = True\<rparr>"
proof -
  obtain canonical where "as_payload l payload = Some canonical"
    "envelope = \<lparr>en_KeyID = keyID, en_Payload = payload, en_Signature = b64_encode (as_sign l privateKey canonical)\<rparr>"
    using assms(1) by (auto simp: Sign_def split: if_splits option.splits)
  then show ?thesis using assms(2,3) by (simp add: Verify_def b64_roundtrip split: option.splits)
qed

definition confined :: "string \<Rightarrow> string \<Rightarrow> bool" where
  "confined prefix reference \<longleftrightarrow> (\<exists>bucket key. reference = ''s3://'' @ bucket @ ''/'' @ key \<and> CHR ''/'' \<notin> set bucket \<and>
     has_prefix reference prefix \<and> list_all (\<lambda>segment. segment \<noteq> ''.'' \<and> segment \<noteq> ''..'') (split_on CHR ''/'' key) \<and>
     \<not> contains_str key ''//'')"

lemma validateReference_confined:
  assumes "validateReference verifier reference = None"
  shows "confined (vf_objectPrefix verifier) reference"
proof -
  have o: "objectReference reference" "has_prefix reference (vf_objectPrefix verifier)" "\<not> invalid_path reference"
    using assms by (auto simp: validateReference_def split: if_splits)
  obtain rest where r: "reference = ''s3://'' @ rest" using o(1) by (auto simp: objectReference_def has_prefix_iff)
  then have t: "trim_prefix reference ''s3://'' = rest" using trim_prefix_append by blast
  obtain bucket key where k: "cut CHR ''/'' rest = Some (bucket, key)"
    using o(1) t by (auto simp: objectReference_def split: option.splits)
  then have "rest = bucket @ ''/'' @ key \<and> CHR ''/'' \<notin> set bucket" using cut_Some_append by fastforce
  moreover have "list_all (\<lambda>segment. segment \<noteq> ''.'' \<and> segment \<noteq> ''..'') (split_on CHR ''/'' key) \<and> \<not> contains_str key ''//''"
    using o(3) t k by (auto simp: invalid_path_def list_all_iff list_ex_iff)
  ultimately show ?thesis using o(2) r unfolding confined_def by blast
qed

lemma validate_outputs_references:
  "validate_outputs verifier seen ps = None \<Longrightarrow> (out, locked) \<in> set ps \<Longrightarrow>
   validateReference verifier (oa_LLBRef out) = None \<and> validateReference verifier (oa_ConfigRef out) = None \<and> \<not> bad_output out locked"
  by (induction verifier seen ps rule: validate_outputs.induct) (auto split: if_splits option.splits)

text \<open>
  every object that a verified assignment names lies below the cell's object prefix, and its
  path has no empty, dot or dot-dot segment that could lead out of it.
\<close>

theorem Verify_references_confined:
  assumes "Verify l verifier now envelope = Inr v"
  shows "confined (vf_objectPrefix verifier) (sa_ArchiveRef (pl_Source (va_Payload v))) \<and>
    list_all (\<lambda>out. confined (vf_objectPrefix verifier) (oa_LLBRef out) \<and> confined (vf_objectPrefix verifier) (oa_ConfigRef out))
      (pl_Outputs (va_Payload v))"
proof -
  have p: "validatePayload l verifier now (va_Payload v) = None" using assms by (rule Verify_parts) simp
  note parts = validatePayload_parts [OF p]
  have "validateReference verifier (oa_LLBRef out) = None \<and> validateReference verifier (oa_ConfigRef out) = None"
    if out: "out \<in> set (pl_Outputs (va_Payload v))" for out
  proof -
    obtain locked where "(out, locked) \<in> set (zip (pl_Outputs (va_Payload v)) (dl_Outputs (pl_Lock (va_Payload v))))"
      using out parts(5) by (metis in_set_impl_in_set_zip1)
    then show ?thesis using validate_outputs_references [OF parts(4)] by blast
  qed
  then show ?thesis using parts(3) validateReference_confined by (simp add: list_all_iff)
qed

section \<open>Resolution\<close>

lemma resolve_output_checked:
  assumes "resolve_output l store out = Inr r"
  shows "ro_Name r = oa_Name out" "ro_Kind r = oa_Kind out" "bytesDigest (as_audit l) (ro_Definition r) = oa_LLBDigest out"
    "bytesDigest (as_audit l) (ro_Config r) = oa_ConfigDigest out" "verifyDefinition l (ro_Definition r) (oa_Head out) = None"
    "length (ro_Definition r) \<le> MaxDefinitionBytes" "length (ro_Config r) \<le> MaxConfigBytes"
  using assms
  by (auto simp: resolve_output_def readArtifact_def Let_def split: sum.splits option.splits artifact.splits if_splits)

lemma resolve_outputs_checked:
  assumes "resolve_outputs l store outs = Inr rs"
  shows "length rs = length outs \<and> check_resolved l (zip rs outs) = None \<and>
    list_all (\<lambda>r. length (ro_Definition r) \<le> MaxDefinitionBytes \<and> length (ro_Config r) \<le> MaxConfigBytes) rs"
  using assms
proof (induction outs arbitrary: rs)
  case (Cons out outs)
  then obtain r rs' where r: "resolve_output l store out = Inr r" "resolve_outputs l store outs = Inr rs'" "rs = r # rs'"
    by (auto split: sum.splits)
  then show ?case using Cons.IH [OF r(2)] resolve_output_checked [OF r(1)] by simp
qed simp

lemma resolve_outputs_names: "resolve_outputs l store outs = Inr rs \<Longrightarrow> map ro_Name rs = map oa_Name outs"
  by (induction outs arbitrary: rs) (auto split: sum.splits simp: resolve_output_checked(1))

text \<open>
  resolution and its later validation agree. Whatever an artifact store answers, an assignment
  that \<open>Resolve\<close> returns passes \<open>ResolvedValidate\<close>, and no artifact exceeds its size limit.
\<close>

theorem Resolve_validates:
  assumes "Resolve l verified store = Inr resolved"
  shows "ResolvedValidate l resolved = None \<and> ra_Verified resolved = verified \<and>
    list_all (\<lambda>r. length (ro_Definition r) \<le> MaxDefinitionBytes \<and> length (ro_Config r) \<le> MaxConfigBytes) (ra_Outputs resolved)"
proof -
  obtain st outputs where r: "validateProof l verified = None" "resolve_outputs l st (pl_Outputs (va_Payload verified)) = Inr outputs"
    "AuditDefinitions (as_audit l) (map ro_Definition outputs) (pl_Lock (va_Payload verified)) = None"
    "resolved = \<lparr>ra_Verified = verified, ra_Outputs = outputs, ra_resolved = True\<rparr>"
    using assms by (auto simp: Resolve_def split: option.splits sum.splits if_splits)
  then show ?thesis using resolve_outputs_checked [OF r(2)] by (simp add: ResolvedValidate_def)
qed

text \<open>
  C18: what runs was signed. If an envelope verifies and its artifacts resolve, every definition
  that the worker receives stays within the network, secret, cache and image authority of the
  signed lock.
\<close>

theorem resolved_definitions_allowed:
  assumes "Verify l verifier now envelope = Inr v" "Resolve l v store = Inr resolved"
  shows "list_all (definition_allowed (as_audit l) (pl_Lock (en_Payload envelope))) (map ro_Definition (ra_Outputs resolved)) \<and>
    map ro_Name (ra_Outputs resolved) = map oa_Name (pl_Outputs (en_Payload envelope))"
proof -
  have v: "va_Payload v = en_Payload envelope" "validatePayload l verifier now (en_Payload envelope) = None"
    using assms(1) by (rule Verify_parts; simp)+
  obtain st outputs where r: "resolve_outputs l st (pl_Outputs (va_Payload v)) = Inr outputs"
    "AuditDefinitions (as_audit l) (map ro_Definition outputs) (pl_Lock (va_Payload v)) = None" "ra_Outputs resolved = outputs"
    using assms(2) by (auto simp: Resolve_def split: option.splits sum.splits if_splits)
  have "list_all named_network (dl_Network (pl_Lock (va_Payload v)))"
    using validateLock_named validatePayload_parts(6) [OF v(2)] v(1) by metis
  then have "list_all (definition_allowed (as_audit l) (pl_Lock (va_Payload v))) (map ro_Definition outputs)"
    by (rule audited_definitions_allowed [OF r(2)])
  moreover have "map ro_Name outputs = map oa_Name (pl_Outputs (va_Payload v))"
    using resolve_outputs_names [OF r(1)] .
  ultimately show ?thesis using v(1) r(3) by simp
qed

section \<open>The envelope\<close>

text \<open>
  an envelope has one encoding. Bytes that decode are exactly the encoding of the decoded
  envelope, and an encoded envelope decodes to itself when the JSON decoder inverts the encoder.
\<close>

theorem envelope_canonical:
  "(DecodeEnvelope l contents = Inr envelope \<longrightarrow> EncodeEnvelope l envelope = Inr contents) \<and>
   (codec_ok (as_envelope l) \<and> EncodeEnvelope l envelope = Inr contents \<and> contents \<noteq> [] \<longrightarrow> DecodeEnvelope l contents = Inr envelope)"
proof -
  have "DecodeEnvelope l contents = Inr envelope" if "codec_ok (as_envelope l)" "EncodeEnvelope l envelope = Inr contents" "contents \<noteq> []"
  proof -
    have e: "cd_encode (as_envelope l) envelope = Some contents" "length contents \<le> MaxEnvelopeBytes"
      using that(2) by (auto simp: EncodeEnvelope_def split: option.splits if_splits)
    then show ?thesis using codec_okD [OF that(1) e(1)] that(3) by (simp add: DecodeEnvelope_def)
  qed
  then show ?thesis by (auto simp: DecodeEnvelope_def EncodeEnvelope_def split: if_splits option.splits)
qed

section \<open>A concrete assignment\<close>

definition sample_payload :: Payload where
  "sample_payload = \<lparr>pl_Version = 1, pl_BuildID = sample_id ''bld'', pl_CellID = sample_id ''cell'', pl_OrganizationID = sample_id ''org'',
     pl_ProjectID = sample_id ''prj'', pl_OperationID = sample_id ''op'', pl_Generation = 1, pl_Nonce = replicate 64 CHR ''0'',
     pl_IssuedAt = ''2026-01-01T00:00:00Z'', pl_ExpiresAt = ''2026-01-01T00:30:00Z'', pl_DefinitionDigest = sample_digest,
     pl_Lock = sample_lock,
     pl_Source = \<lparr>sa_SnapshotDigest = sample_digest, sa_ArchiveDigest = sample_digest, sa_ArchiveRef = ''s3://bkt/a'', sa_SizeBytes = 1\<rparr>,
     pl_Outputs = [\<lparr>oa_Name = ''app'', oa_Kind = ''oci_image'', oa_LLBDigest = sample_digest, oa_Head = sample_digest,
       oa_LLBRef = ''s3://bkt/a'', oa_ConfigDigest = sample_digest, oa_ConfigRef = ''s3://bkt/a''\<rparr>]\<rparr>"

definition sample_assignment_lib :: assignment_lib where
  "sample_assignment_lib = \<lparr>as_audit = sample_audit_lib, as_payload = (\<lambda>_. Some ''p''),
     as_envelope = \<lparr>cd_encode = (\<lambda>_. Some ''{}''), cd_decode = (\<lambda>_. None), cd_size = length\<rparr>,
     as_sign = (\<lambda>_ _. replicate 64 0), as_verify = (\<lambda>_ _ signature. signature = replicate 64 0), as_head = (\<lambda>_. Some sample_digest)\<rparr>"

definition sample_options :: VerifierOptions where
  "sample_options = \<lparr>vo_CellID = sample_id ''cell'', vo_Keys = [(''k'', replicate 32 CHR ''0'')], vo_ObjectPrefix = ''s3://bkt/'',
     vo_MaxTTL = 0, vo_MaxFutureSkew = 0\<rparr>"

definition sample_verifier :: Verifier where
  "sample_verifier = \<lparr>vf_cellID = sample_id ''cell'', vf_keys = [(''k'', replicate 32 CHR ''0'')], vf_objectPrefix = ''s3://bkt/'',
     vf_maxTTL = hour, vf_maxFutureSkew = 30 * second\<rparr>"

lemma sample_reference: "objectReference ''s3://bkt/a''" "objectReference ''s3://bkt/probe''" "validateReference sample_verifier ''s3://bkt/a'' = None"
  by (simp_all add: objectReference_def validateReference_def sample_verifier_def has_prefix_def trim_prefix_def char_classes invalid_path_def)

lemma sample_verifier_ok: "NewVerifier sample_options = Inr sample_verifier"
  using sample_reference(2)
  by (simp add: NewVerifier_def sample_options_def sample_verifier_def validateID_def allowedPrefixes_def capability_pattern_def
      token_pattern_def char_classes has_suffix_def has_prefix_def DefaultMaxAssignmentTTL_def DefaultMaxFutureSkew_def)

lemma sample_lock_valid: "validateLock l sample_lock = None"
  using platform_policy_valid [of "[sample_digest]"]
  by (simp add: validateLock_def check_core_lock_def sample_lock_def CurrentLockVersion_def semver_pattern_def Let_def char_classes
      MaxNodes_def MaxOutputs_def bad_network_def node_id_pattern_def token_pattern_def in_range_def reject_def bad_output_lock_def
      output_name_pattern_def)

lemma sample_time:
  "rfc3339_utc ''2026-01-01T00:00:00Z'' = Some 63902822400000000000" "rfc3339_utc ''2026-01-01T00:30:00Z'' = Some 63902824200000000000"
  by (simp_all add: rfc3339_utc_def text_field_def atoi_digits_def is_digit_def in_range_def days_in_month_def civil_days_def eval_nat_numeral)

abbreviation sample_now :: time where "sample_now \<equiv> 63902822400000000000"

lemma sample_window: "validate_window sample_verifier sample_now sample_payload = None"
  by (simp add: validate_window_def parseWholeSecond_def sample_payload_def sample_time sample_verifier_def time_sub_def max_duration_def
      min_duration_def)

lemma sample_id_inject: "sample_id p = sample_id q \<longleftrightarrow> p = q"
  by (simp add: sample_id_def)

lemma sample_payload_valid: "validatePayload sample_assignment_lib sample_verifier sample_now sample_payload = None"
proof -
  have d: "LockDigest (al_hash sample_audit_lib) sample_lock = Some sample_digest"
    using sample_digests(2) [of "[]"] by (simp add: LockDigest_def digestValue_def sample_audit_lib_def bytesDigest_def)
  have ids: "check_each (\<lambda>(value, prefix). validateID value prefix) (id_prefixes sample_payload) = None"
    by (simp add: id_prefixes_def sample_payload_def sample_id_inject validateID_def allowedPrefixes_def)
  have outs: "validate_outputs sample_verifier [] (zip (pl_Outputs sample_payload) (dl_Outputs sample_lock)) = None"
    using sample_reference(3)
    by (simp add: sample_payload_def sample_lock_def bad_output_def output_name_pattern_def token_pattern_def char_classes)
  have src: "validateReference sample_verifier (sa_ArchiveRef (pl_Source sample_payload)) = None"
    using sample_reference(3) by (simp add: sample_payload_def)
  show ?thesis
    unfolding validatePayload_def ids outs src sample_window
    using d ids outs src sample_window sample_lock_valid
    by (simp add: sample_payload_def sample_assignment_lib_def CurrentAssignmentVersion_def sample_verifier_def hex64_pattern_def
        is_lower_hex_def char_classes MaxOutputs_def list_all_iff) (simp add: sample_lock_def)
qed

definition sample_envelope :: Envelope where
  "sample_envelope = \<lparr>en_KeyID = ''k'', en_Payload = sample_payload, en_Signature = b64_encode (replicate 64 0)\<rparr>"

definition sample_verified :: VerifiedAssignment where
  "sample_verified = \<lparr>va_Payload = sample_payload, va_PayloadDigest = sample_digest, va_KeyID = ''k'', va_verified = True\<rparr>"

lemma sample_verified_ok: "Verify sample_assignment_lib sample_verifier sample_now sample_envelope = Inr sample_verified"
proof -
  have "bytesDigest (as_audit sample_assignment_lib) ''p'' = sample_digest"
    using sample_digests(2) [of "''p''"] by (simp add: sample_assignment_lib_def)
  moreover have "as_payload sample_assignment_lib sample_payload = Some ''p''" "as_verify sample_assignment_lib key m (replicate 64 0)" for key m
    by (simp_all add: sample_assignment_lib_def)
  moreover have "mget (vf_keys sample_verifier) ''k'' = Some (replicate 32 CHR ''0'')" by (simp add: sample_verifier_def)
  ultimately show ?thesis
    by (simp add: Verify_def sample_envelope_def sample_verified_def sample_payload_valid b64_roundtrip)
qed

theorem Verify_window_bounded_witness:
  "NewVerifier sample_options = Inr sample_verifier \<and>
   Verify sample_assignment_lib sample_verifier sample_now sample_envelope = Inr sample_verified \<and>
   vf_maxTTL sample_verifier + vf_maxFutureSkew sample_verifier \<le> 61 * minute"
  using Verify_window_bounded [OF sample_verifier_ok sample_verified_ok sample_verified_ok] sample_verifier_ok sample_verified_ok by simp

theorem Sign_Verify_witness:
  "Sign sample_assignment_lib sample_payload ''k'' (replicate 64 CHR ''0'') = Inr sample_envelope \<and>
   (\<exists>v. Verify sample_assignment_lib sample_verifier sample_now sample_envelope = Inr v)"
proof -
  have s: "Sign sample_assignment_lib sample_payload ''k'' (replicate 64 CHR ''0'') = Inr sample_envelope"
    by (simp add: Sign_def sample_envelope_def sample_assignment_lib_def capability_pattern_def token_pattern_def char_classes)
  have k: "mget (vf_keys sample_verifier) ''k'' = Some (replicate 32 CHR ''0'')" by (simp add: sample_verifier_def)
  have "case validatePayload sample_assignment_lib sample_verifier sample_now sample_payload of
      Some e \<Rightarrow> Verify sample_assignment_lib sample_verifier sample_now sample_envelope = Inl e
    | None \<Rightarrow> \<exists>canonical. as_payload sample_assignment_lib sample_payload = Some canonical \<and>
        Verify sample_assignment_lib sample_verifier sample_now sample_envelope =
        Inr \<lparr>va_Payload = sample_payload, va_PayloadDigest = bytesDigest (as_audit sample_assignment_lib) canonical, va_KeyID = ''k'', va_verified = True\<rparr>"
    by (rule Sign_Verify [OF s k]) (simp add: sample_assignment_lib_def)
  then show ?thesis using s by (auto simp: sample_payload_valid)
qed

theorem Verify_references_confined_witness:
  "Verify sample_assignment_lib sample_verifier sample_now sample_envelope = Inr sample_verified \<and> confined ''s3://bkt/'' ''s3://bkt/a''"
  using Verify_references_confined [OF sample_verified_ok] sample_verified_ok
  by (simp add: sample_verified_def sample_payload_def sample_verifier_def)

definition sample_resolved :: ResolvedAssignment where
  "sample_resolved = \<lparr>ra_Verified = sample_verified,
     ra_Outputs = [\<lparr>ro_Name = ''app'', ro_Kind = ''oci_image'', ro_Definition = ''x'', ro_Config = ''x''\<rparr>], ra_resolved = True\<rparr>"

lemma sample_resolved_ok: "Resolve sample_assignment_lib sample_verified (Some (\<lambda>_ _. Stream ''x'' True)) = Inr sample_resolved"
proof -
  have d: "bytesDigest sample_audit_lib ''x'' = sample_digest" "bytesDigest sample_audit_lib ''p'' = sample_digest"
    using sample_digests(2) by simp_all
  have w: "\<exists>wire. al_definition sample_audit_lib ''x'' = Some wire \<and> pd_Def wire \<noteq> []" by (simp add: sample_audit_lib_def)
  have a: "as_audit sample_assignment_lib = sample_audit_lib" "as_head sample_assignment_lib = (\<lambda>_. Some sample_digest)"
    "as_payload sample_assignment_lib = (\<lambda>_. Some ''p'')" by (simp_all add: sample_assignment_lib_def)
  have p: "validateProof sample_assignment_lib sample_verified = None"
    using d a by (simp add: validateProof_def sample_verified_def)
  have r: "resolve_outputs sample_assignment_lib (\<lambda>_ _. Stream ''x'' True) (pl_Outputs (va_Payload sample_verified)) = Inr (ra_Outputs sample_resolved)"
    using d a w
    by (auto simp: sample_verified_def sample_payload_def resolve_output_def readArtifact_def verifyDefinition_def sample_resolved_def
        MaxDefinitionBytes_def MaxConfigBytes_def)
  have "AuditDefinitions (as_audit sample_assignment_lib) (map ro_Definition (ra_Outputs sample_resolved)) (pl_Lock (va_Payload sample_verified)) = None"
    using sample_audit_ok [of "''x''"] a by (simp add: sample_resolved_def sample_verified_def sample_payload_def)
  then show ?thesis using p r by (simp add: Resolve_def) (simp add: sample_resolved_def)
qed

theorem Resolve_validates_witness:
  "Resolve sample_assignment_lib sample_verified (Some (\<lambda>_ _. Stream ''x'' True)) = Inr sample_resolved \<and>
   ResolvedValidate sample_assignment_lib sample_resolved = None"
  using Resolve_validates [OF sample_resolved_ok] sample_resolved_ok by blast

theorem resolved_definitions_allowed_witness:
  "Verify sample_assignment_lib sample_verifier sample_now sample_envelope = Inr sample_verified \<and>
   definition_allowed sample_audit_lib sample_lock ''x''"
  using resolved_definitions_allowed [OF sample_verified_ok sample_resolved_ok] sample_verified_ok
  by (simp add: sample_resolved_def sample_assignment_lib_def sample_envelope_def sample_payload_def)

theorem envelope_canonical_witness:
  "DecodeEnvelope (sample_assignment_lib\<lparr>as_envelope := \<lparr>cd_encode = (\<lambda>_. Some ''{}''), cd_decode = (\<lambda>_. Some sample_envelope), cd_size = length\<rparr>\<rparr>)
     ''{}'' = Inr sample_envelope \<and>
   EncodeEnvelope (sample_assignment_lib\<lparr>as_envelope := \<lparr>cd_encode = (\<lambda>_. Some ''{}''), cd_decode = (\<lambda>_. Some sample_envelope), cd_size = length\<rparr>\<rparr>)
     sample_envelope = Inr ''{}''"
proof -
  let ?l = "sample_assignment_lib\<lparr>as_envelope := \<lparr>cd_encode = (\<lambda>_. Some ''{}''), cd_decode = (\<lambda>_. Some sample_envelope), cd_size = length\<rparr>\<rparr>"
  have "DecodeEnvelope ?l ''{}'' = Inr sample_envelope" by (simp add: DecodeEnvelope_def MaxEnvelopeBytes_def)
  then show ?thesis using envelope_canonical [of ?l "''{}''" sample_envelope] by blast
qed

section \<open>Compiled locks that no cell accepts\<close>

text \<open>
  Two gaps between the compiler and the verifier. A run with profile \<open>allowlist\<close> in a graph that
  declares no host compiles to a capability without hosts, which \<open>validateLock\<close> refuses; so does a
  package host such as an IP address, which the policy pattern accepts.
\<close>

lemma allowlist_without_hosts_refused:
  assumes "networkCapability input n ''allowlist'' = Inr c" "ir_AllowedHosts (nr_ir input) = []"
  shows "bad_network c"
  using assms by (auto simp: networkCapability_def Let_def bad_network_def split: if_splits)

lemma address_host_refused:
  "validateHosts [''10.0.0.1''] = None \<and> \<not> validEgressHostname ''10.0.0.1''"
  by (simp add: validateHosts_def maxPolicyValues_def registryPattern_def registry_host_def char_classes validEgressHostname_def
      ipv4_text_def ipv4_field_def atoi_digits_def Let_def)

text \<open>
  The identities of a payload are collected in a map keyed by the identity itself, so two equal
  identities are checked against one prefix only: a payload whose build identity equals its
  operation identity passes the identity check although it is no build identity.
\<close>

lemma equal_identities_checked_once:
  "check_each (\<lambda>(value, prefix). validateID value prefix) (id_prefixes (sample_payload\<lparr>pl_BuildID := sample_id ''op''\<rparr>)) = None \<and>
   validateID (sample_id ''op'') ''bld'' \<noteq> None"
proof -
  have "\<not> has_id_prefix (sample_id ''op'') ''bld''"
    by (simp add: has_id_prefix_def Prefix_def sample_id_def)
  then show ?thesis
    by (simp add: id_prefixes_def sample_payload_def sample_id_inject validateID_def allowedPrefixes_def)
qed

end
