(* ===== verification/Controller_Laws.thy ===== *)
theory Controller_Laws
  imports Controller Assignment_Laws "HOL-Library.Sublist"
begin

text \<open>
  What the controller guarantees for every run store, clock, broker, worker and interference: leases
  and workers are handed back, results are durable before they are reported, a run is complete only
  with proven outputs and a proven cleanup, attempts are bounded, and the event transcript
  determines the events.
\<close>

section \<open>Cleanup reports\<close>

lemma appendReason_Nil [simp]: "appendReason x [] = x"
  by (simp add: appendReason_def)

definition report_fits :: "string \<Rightarrow> CleanupReport \<Rightarrow> bool" where
  "report_fits b report \<longleftrightarrow> cleanupProvenClean report \<and> (cr_BuildID report = [] \<or> cr_BuildID report = b)"

lemma add_report_BuildID [simp]: "cr_BuildID (add_report b combined report) = cr_BuildID combined"
  by (simp add: add_report_def Let_def)

lemma combine_BuildID [simp]: "cr_BuildID (combineCleanupReports b reports) = b"
proof -
  have "cr_BuildID (foldl (add_report b) combined reports) = cr_BuildID combined" for combined
    by (induction reports arbitrary: combined) simp_all
  then show ?thesis by (simp add: combineCleanupReports_def noResourceCleanup_def Let_def)
qed

lemma noResourceCleanup_clean [simp]: "cleanupProvenClean (noResourceCleanup b)"
  by (simp add: noResourceCleanup_def cleanupProvenClean_def)

lemma add_report_clean:
  "cleanupProvenClean (add_report b combined report) \<longleftrightarrow> cleanupProvenClean combined \<and> report_fits b report"
  by (auto simp: add_report_def cleanupProvenClean_def report_fits_def appendReason_def Let_def)

lemma foldl_add_report_clean:
  "cleanupProvenClean (foldl (add_report b) combined reports) \<longleftrightarrow> cleanupProvenClean combined \<and> list_all (report_fits b) reports"
  by (induction reports arbitrary: combined) (auto simp: add_report_clean)

lemma combine_clean: "cleanupProvenClean (combineCleanupReports b reports) \<longleftrightarrow> list_all (report_fits b) reports"
proof -
  let ?c = "foldl (add_report b) (noResourceCleanup b) reports"
  have "cleanupProvenClean (combineCleanupReports b reports) \<longleftrightarrow> cleanupProvenClean ?c"
    by (auto simp: combineCleanupReports_def cleanupProvenClean_def appendReason_def Let_def)
  also have "\<dots> \<longleftrightarrow> list_all (report_fits b) reports"
    by (simp add: foldl_add_report_clean)
  finally show ?thesis .
qed

text \<open>
  The cleanup report of an attempt is clean exactly when nothing failed: the release and the
  revocation succeeded, and the reports of the worker, of the release and, after a forced end, of the
  termination are each clean and do not name another build.
\<close>

theorem attempt_cleanup_clean_iff:
  "cleanupProvenClean (attempt_cleanup b le release revokeFails) \<longleftrightarrow>
     \<not> snd release \<and> \<not> revokeFails \<and>
     list_all (report_fits b) ([wr_Cleanup (le_result le), fst release] @ (if le_forced le then [le_report le] else []))"
proof -
  have marked: "\<not> cleanupProvenClean (mark_failure kind detail report)" for kind detail report
    by (simp add: mark_failure_def cleanupProvenClean_def)
  have ids: "cr_BuildID (mark_failure kind detail report) = cr_BuildID report" for kind detail report
    by (simp add: mark_failure_def)
  show ?thesis
    by (auto simp: attempt_cleanup_def Let_def combine_clean marked ids report_fits_def)
qed

section \<open>What the steps of an attempt leave alone\<close>

lemma read_clock_frame [simp]:
  "wd_runs (snd (read_clock orc w)) = wd_runs w" "wd_trace (snd (read_clock orc w)) = wd_trace w"
  "wd_emit (snd (read_clock orc w)) = wd_emit w"
  by (simp_all add: read_clock_def)

lemma poll_cancelled_frame [simp]:
  "wd_runs (snd (poll_cancelled orc w)) = wd_runs w" "wd_trace (snd (poll_cancelled orc w)) = wd_trace w"
  "wd_emit (snd (poll_cancelled orc w)) = wd_emit w"
  by (simp_all add: poll_cancelled_def)

lemma call_runs_frame [simp]:
  "wd_trace (snd (call_runs exec orc op w)) = wd_trace w" "wd_emit (snd (call_runs exec orc op w)) = wd_emit w"
  by (simp_all add: call_runs_def case_prod_beta)

lemma update_run_frame [simp]:
  "wd_trace (snd (update_run exec orc c b owner phase attempt w)) = wd_trace w"
  "wd_emit (snd (update_run exec orc c b owner phase attempt w)) = wd_emit w"
  by (simp_all add: update_run_def case_prod_beta)

lemma emit_frame [simp]:
  "wd_trace (emit_phase orc phase attempt message w) = wd_trace w" "wd_runs (emit_phase orc phase attempt message w) = wd_runs w"
  "wd_trace (emit_event orc event w) = wd_trace w" "wd_runs (emit_event orc event w) = wd_runs w"
  by (simp_all add: emit_phase_def emit_event_def case_prod_beta)

lemma fold_emit_trace [simp]: "wd_trace (fold (emit_event orc) events w) = wd_trace w"
  by (induction events arbitrary: w) simp_all

lemma execution_loop_trace [simp]:
  "wd_trace (snd (execution_loop exec orc c b owner attempt final signals w)) = wd_trace w"
proof (induction signals arbitrary: w)
  case (Cons signal signals)
  then show ?case by (cases signal) (simp_all add: case_prod_beta)
qed simp

lemma conclude_attempt_trace [simp]:
  "wd_trace (snd (conclude_attempt orc c assignment attempt le canceled result w)) = wd_trace w"
  by (simp add: conclude_attempt_def)

lemma finishResult_trace [simp]: "wd_trace (snd (finishResult exec orc l owner result w)) = wd_trace w"
  by (simp add: finishResult_def case_prod_beta Let_def split: option.split)

section \<open>Leases and workers are handed back\<close>

text \<open>
  A monitor of the calls to the broker and to the allocator: it holds the lease and the worker in
  use, and stops at a call that is out of order, such as a lease revoked under a running worker or a
  second lease while one is held.
\<close>

fun monitor :: "effect \<Rightarrow> (CapabilityLease option \<times> uint32 option) option \<Rightarrow> (CapabilityLease option \<times> uint32 option) option" where
  "monitor (EffAcquire lease failed) (Some (None, None)) = Some (if failed \<and> ls_ID lease = [] then None else Some lease, None)"
| "monitor (EffAllocate attempt ok) (Some (Some lease, None)) = Some (Some lease, if ok then Some attempt else None)"
| "monitor (EffRelease attempt) (Some (Some lease, Some a)) = (if a = attempt then Some (Some lease, None) else None)"
| "monitor (EffRevoke lease) (Some (Some held, None)) = (if held = lease then Some (None, None) else None)"
| "monitor e s = None"

definition holding :: "'s world \<Rightarrow> (CapabilityLease option \<times> uint32 option) option" where
  "holding w = fold monitor (wd_trace w) (Some (None, None))"

lemma holding_effect [simp]: "holding (record_effect e w) = monitor e (holding w)"
  by (simp add: holding_def record_effect_def)

lemma holding_cong: "wd_trace w' = wd_trace w \<Longrightarrow> holding w' = holding w"
  by (simp add: holding_def)

lemmas holding_frame [simp] =
  holding_cong [OF read_clock_frame(2)] holding_cong [OF poll_cancelled_frame(2)] holding_cong [OF update_run_frame(1)]
  holding_cong [OF emit_frame(1)] holding_cong [OF execution_loop_trace] holding_cong [OF conclude_attempt_trace]
  holding_cong [OF finishResult_trace]  holding_cong [OF call_runs_frame(1)]

lemma revokeLease_holding [simp]: "holding (snd (revokeLease orc lease w)) = monitor (EffRevoke lease) (holding w)"
  by (simp add: revokeLease_def) (simp add: holding_def)

lemma give_up_returns:
  assumes "holding w = Some (Some lease, None)" "\<And>u. holding (snd (otherwise u)) = holding u"
  shows "holding (snd (give_up orc v startedAt attempt lease otherwise w)) = Some (None, None)"
  using assms by (simp add: give_up_def case_prod_beta)

lemma canceled_or_failed_holding [simp]: "holding (snd (canceled_or_failed orc v startedAt attempt code w)) = holding w"
  by (simp add: canceled_or_failed_def case_prod_beta)

lemma run_worker_returns:
  "holding w = Some (Some lease, Some attempt) \<Longrightarrow>
   holding (snd (run_worker exec orc c assignment owner attempt startedAt lease identity w)) = Some (None, None)"
  by (simp add: run_worker_def case_prod_beta Let_def)

lemma runAttempt_returns:
  assumes "holding w = Some (None, None)"
  shows "holding (snd (runAttempt exec orc c assignment owner attempt startedAt expiresAt w)) = Some (None, None)"
  using assms by (auto simp: runAttempt_def case_prod_beta Let_def intro!: give_up_returns run_worker_returns split: option.split sum.split)

lemma attempt_loop_returns:
  "holding w = Some (None, None) \<Longrightarrow>
   holding (snd (attempt_loop exec orc l c assignment owner startedAt expiresAt attempts w)) = Some (None, None)"
proof (induction attempts arbitrary: w)
  case (Cons attempt attempts)
  show ?case using runAttempt_returns [OF Cons.prems, of exec orc c assignment owner attempt startedAt expiresAt]
    by (auto simp: case_prod_beta Let_def intro!: Cons.IH split: option.split sum.split)
qed simp

lemma resolve_and_run_returns:
  "holding w = Some (None, None) \<Longrightarrow>
   holding (snd (resolve_and_run exec orc l c v store owner startedAt expiresAt n w)) = Some (None, None)"
  by (simp add: resolve_and_run_def run_attempts_def attempt_loop_returns case_prod_beta Let_def split: option.split sum.split)

lemma run_claimed_returns:
  "holding w = Some (None, None) \<Longrightarrow>
   holding (snd (run_claimed exec orc l c v store owner startedAt expiresAt resumed rec w)) = Some (None, None)"
  by (simp add: run_claimed_def resolve_and_run_returns case_prod_beta Let_def)

lemma wd_emit_holding [simp]: "holding (w\<lparr>wd_emit := e\<rparr>) = holding w"
  by (simp add: holding_def)

text \<open>
  C15: Whatever the store, the broker, the workers and the other parties do, when \<open>Run\<close> returns every
  lease it acquired has been revoked and every worker it allocated has been released, each worker
  before the lease it ran under.
\<close>

theorem Run_returns_resources:
  "fold monitor (wd_trace (snd (Run exec orc l c verifier reserve store envelope (w\<lparr>wd_trace := []\<rparr>)))) (Some (None, None)) =
     Some (None, None)"
proof -
  have "holding (w\<lparr>wd_trace := []\<rparr>) = Some (None, None)" by (simp add: holding_def)
  then have "holding (snd (Run exec orc l c verifier reserve store envelope (w\<lparr>wd_trace := []\<rparr>))) = Some (None, None)"
    by (simp add: Run_def case_prod_beta Let_def run_claimed_returns split: option.split sum.split run_reply.split ClaimOutcome.split)
  then show ?thesis by (simp add: holding_def)
qed

section \<open>Results\<close>

definition result_of :: "VerifiedAssignment \<Rightarrow> Result \<Rightarrow> bool" where
  "result_of v result \<longleftrightarrow>
     re_BuildID result = pl_BuildID (va_Payload v) \<and> re_PayloadDigest result = va_PayloadDigest v \<and> \<not> re_Replay result"

text \<open>A result that claims completion has the outputs and the cleanup that it claims.\<close>

definition proven :: "(ResolvedAssignment \<Rightarrow> bool) \<Rightarrow> Result \<Rightarrow> bool" where
  "proven from result \<longleftrightarrow>
     (re_Phase result = PhaseComplete \<longrightarrow>
      re_ErrorCode result = [] \<and> cleanupProvenClean (re_Cleanup result) \<and>
      (\<exists>assignment. from assignment \<and> validateSuccessfulResult assignment (re_Worker result)))"

lemmas result_defs = result_of_def proven_def base_result_def failedResult_def capabilityRevokeResult_def canceledResult_def
  canceledWithoutWorkerResult_def

lemma plain_results [simp]:
  "result_of v (failedResult v t u a code)" "proven P (failedResult v t u a code)"
  "result_of v (capabilityRevokeResult v t u a)" "proven P (capabilityRevokeResult v t u a)"
  "result_of v (canceledResult v t u a worker)" "proven P (canceledResult v t u a worker)"
  "result_of v (canceledWithoutWorkerResult v t u a)" "proven P (canceledWithoutWorkerResult v t u a)"
  by (simp_all add: result_defs)

lemma base_result_of [simp]:
  "result_of v (base_result v phase t u a code cleanup)" "phase \<noteq> PhaseComplete \<Longrightarrow> proven P (base_result v phase t u a code cleanup)"
  by (simp_all add: result_defs)

text \<open>What an attempt and a run report is such a result.\<close>

fun sound :: "VerifiedAssignment \<Rightarrow> (ResolvedAssignment \<Rightarrow> bool) \<Rightarrow> control_error + Result \<times> bool \<Rightarrow> bool" where
  "sound v P (Inl e) \<longleftrightarrow> True"
| "sound v P (Inr (result, retry)) \<longleftrightarrow> result_of v result \<and> proven P result"

lemma conclude_attempt_sound:
  assumes "result_of v result" "re_Worker result = le_result le" "re_ErrorCode result = []" "P assignment"
  shows "sound v P (fst (conclude_attempt orc c assignment attempt le canceled result w))"
  using assms by (auto simp: conclude_attempt_def result_of_def proven_def)

lemma run_worker_sound:
  "P assignment \<Longrightarrow>
   sound (ra_Verified assignment) P (fst (run_worker exec orc c assignment owner attempt startedAt lease identity w))"
  by (auto simp: run_worker_def case_prod_beta Let_def result_of_def intro!: conclude_attempt_sound)

lemma give_up_sound:
  "(\<And>u now. result_of v (fst (otherwise u) now) \<and> proven P (fst (otherwise u) now)) \<Longrightarrow>
   sound v P (fst (give_up orc v startedAt attempt lease otherwise w))"
  by (simp add: give_up_def case_prod_beta)

lemma canceled_or_failed_sound [simp]:
  "result_of v (fst (canceled_or_failed orc v startedAt attempt code w) now)"
  "proven P (fst (canceled_or_failed orc v startedAt attempt code w) now)"
  by (simp_all add: canceled_or_failed_def case_prod_beta)

lemma runAttempt_sound:
  "P assignment \<Longrightarrow>
   sound (ra_Verified assignment) P (fst (runAttempt exec orc c assignment owner attempt startedAt expiresAt w))"
  by (auto simp: runAttempt_def case_prod_beta Let_def intro!: give_up_sound run_worker_sound split: option.split sum.split)

section \<open>What is reported is in the journal\<close>

inductive_cases finish_doneE: "run_step M (OpFinish b owner result now) ReplyDone M'"
inductive_cases claim_replyE: "run_step M (OpClaim q) (ReplyClaim claim rec) M'"

lemma applyClaim_replay:
  "applyClaim r q = (ClaimReplay, r') \<Longrightarrow> r' = r \<and> rr_PayloadDigest r = cq_PayloadDigest q \<and> Terminal (rr_Result r)"
  by (auto simp: applyClaim_def split: if_splits)

text \<open>
  The record of the build holds the result, up to the mark of a replay; a result that is not a
  replay is proven and respects a cancellation that was recorded.
\<close>

definition recorded :: "journal \<Rightarrow> VerifiedAssignment \<Rightarrow> (ResolvedAssignment \<Rightarrow> bool) \<Rightarrow> Result \<Rightarrow> bool" where
  "recorded M v P result \<longleftrightarrow>
     (\<exists>r. M (pl_BuildID (va_Payload v)) = Some r \<and> rr_PayloadDigest r = va_PayloadDigest v \<and> Terminal (rr_Result r) \<and>
        result = (rr_Result r)\<lparr>re_Replay := re_Replay result\<rparr> \<and>
        (\<not> re_Replay result \<longrightarrow> result_of v result \<and> proven P result \<and> terminalAllowedForRecord r result))"

definition reports :: "('s \<Rightarrow> journal) \<Rightarrow> VerifiedAssignment \<Rightarrow> (ResolvedAssignment \<Rightarrow> bool) \<Rightarrow> (control_error + Result) \<times> 's world \<Rightarrow> bool" where
  "reports view v P out \<longleftrightarrow> (\<forall>result. fst out = Inr result \<longrightarrow> recorded (view (wd_runs (snd out))) v P result)"

lemma reports_Inl [simp]: "reports view v P (Inl e, w)"
  by (simp add: reports_def)

lemma re_Replay_same [simp]: "result\<lparr>re_Replay := re_Replay result\<rparr> = result"
  by (cases result) simp

lemma finish_recorded:
  assumes "run_step M (OpFinish (pl_BuildID (va_Payload v)) owner result now) ReplyDone M'" "result_of v result" "proven P result"
  shows "recorded M' v P result"
  using assms(1)
proof (rule finish_doneE)
  fix r
  assume r: "M' = M(pl_BuildID (va_Payload v) \<mapsto> close_record r result now)" "terminalAllowedForRecord r result"
    and valid: "validateTerminalResult result (pl_BuildID (va_Payload v)) (rr_PayloadDigest r)"
  have "Terminal result" "re_PayloadDigest result = rr_PayloadDigest r"
    using valid by (auto simp: validateTerminalResult_def split: if_splits)
  then show "recorded M' v P result"
    using r assms(2,3) by (simp add: recorded_def close_record_def terminalAllowedForRecord_def result_of_def)
qed

context run_store
begin

lemma call_step: "run_step (view (run_history exec (or_others orc (wd_calls w)) (wd_runs w))) op
    (fst (call_runs exec orc op w)) (view (wd_runs (snd (call_runs exec orc op w))))"
  by (simp add: call_runs_def case_prod_beta) (rule exec_step, simp)

lemma finishResult_reports:
  assumes "result_of v result" "proven P result"
  shows "reports view v P (finishResult exec orc l owner result w)"
proof (cases "emit_digest l (wd_emit w)")
  case (Some d)
  let ?result = "result\<lparr>re_LogsDigest := d\<rparr>"
  obtain now w1 where now: "read_clock orc w = (now, w1)" by fastforce
  obtain reply w2 where call: "call_runs exec orc (OpFinish (re_BuildID ?result) owner ?result now) w1 = (reply, w2)" by fastforce
  have ids: "re_BuildID result = pl_BuildID (va_Payload v)" "result_of v ?result" "proven P ?result"
    using assms by (simp_all add: result_of_def proven_def)
  show ?thesis
  proof (cases reply)
    case ReplyDone
    obtain M where "run_step M (OpFinish (pl_BuildID (va_Payload v)) owner ?result now) ReplyDone (view (wd_runs w2))"
      using call_step [of orc w1] call ReplyDone ids(1) by (metis Result.select_convs(1) Result.update_convs(9) fst_conv snd_conv Result.surjective)
    then have "recorded (view (wd_runs w2)) v P ?result" using ids(2,3) by (rule finish_recorded)
    then show ?thesis using Some now call ReplyDone
      by (simp add: finishResult_def Let_def reply_error_def reports_def)
  qed (use Some now call in \<open>simp_all add: finishResult_def Let_def reply_error_def\<close>)
qed (simp add: finishResult_def)

lemma attempt_loop_reports:
  assumes "P assignment"
  shows "attempt_loop exec orc l c assignment owner startedAt expiresAt attempts w = (Some out, w') \<Longrightarrow>
    reports view (ra_Verified assignment) P (out, w')"
proof (induction attempts arbitrary: w)
  case (Cons attempt attempts)
  obtain res w1 where run: "runAttempt exec orc c assignment owner attempt startedAt expiresAt w = (res, w1)" by fastforce
  then have "sound (ra_Verified assignment) P res"
    using runAttempt_sound [where exec = exec and P = P, OF assms] by (metis fst_conv)
  then show ?case using Cons run finishResult_reports
    by (fastforce simp: case_prod_beta Let_def split: if_splits option.splits sum.splits prod.splits)
qed simp

lemma run_attempts_reports:
  assumes "P assignment"
  shows "reports view (ra_Verified assignment) P (run_attempts exec orc l c assignment owner startedAt expiresAt n w)"
proof -
  obtain out w1 where loop: "attempt_loop exec orc l c assignment owner startedAt expiresAt
      (attempts_from (first_attempt n) (co_MaxAttempts c)) w = (out, w1)" by fastforce
  show ?thesis
  proof (cases out)
    case None
    then show ?thesis using loop by (simp add: run_attempts_def case_prod_beta finishResult_reports)
  next
    case (Some res)
    then show ?thesis using loop attempt_loop_reports [where P = P, OF assms] by (simp add: run_attempts_def)
  qed
qed

lemma Resolve_verified: "Resolve l v store = Inr assignment \<Longrightarrow> ra_Verified assignment = v"
  by (auto simp: Resolve_def split: option.splits sum.splits if_splits)

lemma run_claimed_reports:
  "reports view v (\<lambda>a. Resolve l v (Some store) = Inr a)
     (run_claimed exec orc l c v store owner startedAt expiresAt resumed rec w)" (is "reports _ _ ?P _")
proof -
  have "reports view v ?P (run_attempts exec orc (as_audit l) c a owner startedAt expiresAt n u)" if "?P a" for a n u
    using run_attempts_reports [where P = ?P, OF that] Resolve_verified [OF that] by simp
  then show ?thesis
    by (simp add: run_claimed_def resolve_and_run_def case_prod_beta Let_def finishResult_reports split: option.split sum.split)
qed

lemma replay_recorded:
  assumes "run_step M (OpClaim q) (ReplyClaim ClaimReplay rec) M'" "cq_BuildID q = pl_BuildID (va_Payload v)"
    "cq_PayloadDigest q = va_PayloadDigest v"
  shows "recorded M' v P ((rr_Result rec)\<lparr>re_Replay := True\<rparr>)"
  using assms(1)
  by (rule claim_replyE) (use assms(2,3) applyClaim_replay in \<open>auto simp: recorded_def\<close>)

lemma Run_recorded:
  assumes "Run exec orc l c verifier reserve store envelope w = (Inr result, w')"
  shows "\<exists>now v. Verify l verifier now envelope = Inr v \<and>
           recorded (view (wd_runs w')) v (\<lambda>a. Resolve l v (Some store) = Inr a) result"
proof -
  obtain verifyNow w2 where r1: "read_clock orc (snd (poll_cancelled orc w)) = (verifyNow, w2)" by fastforce
  obtain now w3 where r2: "read_clock orc w2 = (now, w3)" by fastforce
  obtain v where v: "Verify l verifier verifyNow envelope = Inr v"
    using assms r1 by (auto simp: Run_def case_prod_beta split: sum.splits if_splits)
  obtain owner where o: "or_owner orc = Some owner"
    using assms r1 v by (auto simp: Run_def case_prod_beta split: sum.splits if_splits option.splits)
  define q where "q = \<lparr>cq_BuildID = pl_BuildID (va_Payload v), cq_Generation = pl_Generation (va_Payload v),
    cq_PayloadDigest = va_PayloadDigest v, cq_Owner = owner, cq_Now = now, cq_LeaseTTL = co_LeaseTTL c\<rparr>"
  obtain reply w4 where call: "call_runs exec orc (OpClaim q) w3 = (reply, w4)" by fastforce
  let ?P = "\<lambda>a. Resolve l v (Some store) = Inr a"
  have "recorded (view (wd_runs w')) v ?P result"
  proof (cases reply)
    case (ReplyClaim claim rec)
    show ?thesis
    proof (cases "claim = ClaimReplay")
      case True
      then have "recorded (view (wd_runs w4)) v ?P ((rr_Result rec)\<lparr>re_Replay := True\<rparr>)"
        using replay_recorded call_step [of orc w3 "OpClaim q"] call ReplyClaim by (fastforce simp: q_def)
      then show ?thesis using assms r1 r2 v o call ReplyClaim True
        by (auto simp: Run_def q_def case_prod_beta split: sum.splits if_splits option.splits)
    next
      case False
      then obtain resumed startedAt expiresAt u where
        "run_claimed exec orc l c v store owner startedAt expiresAt resumed rec u = (Inr result, w')"
        using assms r1 r2 v o call ReplyClaim
        by (auto simp: Run_def q_def case_prod_beta Let_def split: sum.splits if_splits option.splits ClaimOutcome.splits)
      then show ?thesis using run_claimed_reports by (metis reports_def fst_conv snd_conv)
    qed
  qed (use assms r1 r2 v o call in \<open>auto simp: Run_def q_def case_prod_beta split: sum.splits if_splits option.splits\<close>)
  then show ?thesis using v by blast
qed

end

section \<open>Attempts are bounded\<close>

fun allocated :: "effect list \<Rightarrow> uint32 list" where
  "allocated [] = []"
| "allocated (EffAllocate attempt ok # es) = attempt # allocated es"
| "allocated (e # es) = allocated es"

lemma allocated_append: "allocated (xs @ ys) = allocated xs @ allocated ys"
  by (induction xs rule: allocated.induct) simp_all

definition allocations :: "'s world \<Rightarrow> uint32 list" where
  "allocations w = allocated (wd_trace w)"

lemma allocations_effect [simp]: "allocations (record_effect e w) = allocations w @ allocated [e]"
  by (simp add: allocations_def record_effect_def allocated_append)

lemma allocations_cong: "wd_trace w' = wd_trace w \<Longrightarrow> allocations w' = allocations w"
  by (simp add: allocations_def)

lemmas allocations_frame [simp] =
  allocations_cong [OF read_clock_frame(2)] allocations_cong [OF poll_cancelled_frame(2)] allocations_cong [OF update_run_frame(1)]
  allocations_cong [OF emit_frame(1)] allocations_cong [OF execution_loop_trace] allocations_cong [OF conclude_attempt_trace]
  allocations_cong [OF finishResult_trace] allocations_cong [OF call_runs_frame(1)]

lemma revokeLease_allocations [simp]: "allocations (snd (revokeLease orc lease w)) = allocations w"
  by (simp add: revokeLease_def) (simp add: allocations_def)

lemma canceled_or_failed_allocations [simp]: "allocations (snd (canceled_or_failed orc v startedAt attempt code w)) = allocations w"
  by (simp add: canceled_or_failed_def case_prod_beta)

lemma give_up_allocations:
  "(\<And>u. allocations (snd (otherwise u)) = allocations u) \<Longrightarrow>
   allocations (snd (give_up orc v startedAt attempt lease otherwise w)) = allocations w"
  by (simp add: give_up_def case_prod_beta)

lemma run_worker_allocations [simp]:
  "allocations (snd (run_worker exec orc c assignment owner attempt startedAt lease identity w)) = allocations w"
  by (simp add: run_worker_def case_prod_beta Let_def)

lemma runAttempt_allocations:
  "allocations (snd (runAttempt exec orc c assignment owner attempt startedAt expiresAt w)) \<in> {allocations w, allocations w @ [attempt]}"
  by (simp add: runAttempt_def case_prod_beta Let_def give_up_allocations split: option.split sum.split)

lemma update_allocations: "update_run exec orc c b owner phase attempt w = (e, w') \<Longrightarrow> allocations w' = allocations w"
  using allocations_frame(3) [of exec orc c b owner phase attempt w] by simp

lemma attempt_loop_allocations:
  "\<exists>ys. subseq ys attempts \<and>
     allocations (snd (attempt_loop exec orc l c assignment owner startedAt expiresAt attempts w)) = allocations w @ ys"
proof (induction attempts arbitrary: w)
  case (Cons attempt attempts)
  obtain out w1 where run: "runAttempt exec orc c assignment owner attempt startedAt expiresAt w = (out, w1)" by fastforce
  have "allocations w1 = allocations w \<or> allocations w1 = allocations w @ [attempt]"
    using runAttempt_allocations [of exec orc c assignment owner attempt startedAt expiresAt w] run by simp
  then obtain xs where xs: "xs = [] \<or> xs = [attempt]" "allocations w1 = allocations w @ xs" by (metis append_Nil2)
  define good where "good u \<longleftrightarrow> (\<exists>ys. subseq ys (attempt # attempts) \<and> allocations u = allocations w @ ys)" for u :: "'a world"
  have ends: "good u" if "allocations u = allocations w1" for u using xs that by (auto simp: good_def)
  have goes: "good (snd (attempt_loop exec orc l c assignment owner startedAt expiresAt attempts u))"
    if "allocations u = allocations w1" for u
  proof -
    obtain ys where ys: "subseq ys attempts"
      "allocations (snd (attempt_loop exec orc l c assignment owner startedAt expiresAt attempts u)) = allocations u @ ys"
      using Cons.IH by blast
    have "subseq (xs @ ys) (attempt # attempts)" using xs(1) ys(1) by auto
    then show ?thesis using ys(2) xs(2) that by (auto simp: good_def)
  qed
  have "good (snd (attempt_loop exec orc l c assignment owner startedAt expiresAt (attempt # attempts) w))"
  proof (cases out)
    case (Inl e)
    then show ?thesis using run ends by simp
  next
    case (Inr p)
    obtain result retry where p: "p = (result, retry)" by fastforce
    obtain e w2 where update: "update_run exec orc c (pl_BuildID (va_Payload (ra_Verified assignment))) owner PhaseRetrying attempt
        (emit_phase orc PhaseRetrying attempt ''Disposable worker was lost; retrying from the immutable assignment.'' w1) = (e, w2)"
      by fastforce
    have "allocations w2 = allocations w1"
      using update_allocations [OF update] by simp
    then show ?thesis using run Inr p update by (cases e) (simp_all add: ends goes case_prod_beta Let_def)
  qed
  then show ?case by (simp only: good_def)
qed simp

lemma attempts_from_suffix: "subseq (attempts_from (first_attempt n) m) (attempts_from 1 m)"
proof -
  have "1 \<le> unat (first_attempt n)" using unat_gt_0 [of "first_attempt n"] by (simp add: first_attempt_def Suc_le_eq)
  then have "[1 ..< Suc (unat m)] = [1 ..< unat (first_attempt n)] @ [unat (first_attempt n) ..< Suc (unat m)] \<or>
      [unat (first_attempt n) ..< Suc (unat m)] = []"
    by (metis le_Suc_ex nat_le_linear upt_add_eq_append upt_conv_Nil)
  then show ?thesis by (auto simp: attempts_from_def simp del: upt_Suc)
qed

lemma run_attempts_allocations:
  "\<exists>ys. subseq ys (attempts_from 1 (co_MaxAttempts c)) \<and>
     allocations (snd (run_attempts exec orc l c assignment owner startedAt expiresAt n w)) = allocations w @ ys"
proof -
  let ?attempts = "attempts_from (first_attempt n) (co_MaxAttempts c)"
  obtain ys where ys: "subseq ys ?attempts"
    "allocations (snd (attempt_loop exec orc l c assignment owner startedAt expiresAt ?attempts w)) = allocations w @ ys"
    using attempt_loop_allocations by blast
  have "allocations (snd (run_attempts exec orc l c assignment owner startedAt expiresAt n w)) = allocations w @ ys"
    using ys(2) by (simp add: run_attempts_def case_prod_beta split: option.split)
  then show ?thesis using subseq_order.trans [OF ys(1) attempts_from_suffix] by blast
qed

definition within :: "ControllerOptions \<Rightarrow> 's world \<Rightarrow> 's world \<Rightarrow> bool" where
  "within c w u \<longleftrightarrow> (\<exists>ys. subseq ys (attempts_from 1 (co_MaxAttempts c)) \<and> allocations u = allocations w @ ys)"

lemma within_same: "allocations u = allocations w \<Longrightarrow> within c w u"
  by (auto simp: within_def)

lemma resolve_and_run_within: "within c w (snd (resolve_and_run exec orc l c v store owner startedAt expiresAt n w))"
proof -
  obtain e w1 where update: "update_run exec orc c (pl_BuildID (va_Payload v)) owner PhaseResolving n w = (e, w1)" by fastforce
  then have same: "allocations w1 = allocations w" by (metis allocations_frame(3) snd_conv)
  have "within c w (snd (run_attempts exec orc l' c a owner startedAt expiresAt n (emit_phase orc phase n message w1)))" for l' a phase message
    using run_attempts_allocations [of c exec orc l' a owner startedAt expiresAt n "emit_phase orc phase n message w1"] same
    by (simp add: within_def)
  then show ?thesis using same
    by (cases e) (simp_all add: resolve_and_run_def update within_same case_prod_beta Let_def split: sum.split)
qed

lemma within_cong: "allocations w = allocations w' \<Longrightarrow> within c w u = within c w' u"
  by (simp add: within_def)

lemma run_claimed_within: "within c w (snd (run_claimed exec orc l c v store owner startedAt expiresAt resumed rec w))"
proof -
  have "within c w (snd (resolve_and_run exec orc l c v store owner startedAt expiresAt n u))" if "allocations u = allocations w" for n u
    using resolve_and_run_within within_cong [OF that] by blast
  then show ?thesis by (simp add: run_claimed_def within_same case_prod_beta Let_def)
qed

lemma emit_allocations [simp]: "allocations (w\<lparr>wd_emit := e\<rparr>) = allocations w"
  by (simp add: allocations_def)

text \<open>
  The workers that \<open>Run\<close> allocates carry attempt numbers from 1 to the configured maximum, in
  increasing order and each at most once, also when it resumes a run that another controller began.
\<close>

theorem Run_attempts_bounded:
  "subseq (allocated (wd_trace (snd (Run exec orc l c verifier reserve store envelope (w\<lparr>wd_trace := []\<rparr>)))))
     (attempts_from 1 (co_MaxAttempts c))"
proof -
  let ?good = "\<lambda>u. subseq (allocations u) (attempts_from 1 (co_MaxAttempts c))"
  have none: "allocations (w\<lparr>wd_trace := []\<rparr>) = []" by (simp add: allocations_def)
  have claimed: "?good (snd (run_claimed exec orc l c v store owner startedAt expiresAt resumed rec u))"
    if "allocations u = []" for v owner startedAt expiresAt resumed rec u
    using run_claimed_within [of c u exec orc l v store owner startedAt expiresAt resumed rec] that by (auto simp: within_def)
  have "?good (snd (Run exec orc l c verifier reserve store envelope (w\<lparr>wd_trace := []\<rparr>)))"
    by (simp add: Run_def case_prod_beta Let_def claimed none split: option.split sum.split run_reply.split ClaimOutcome.split)
  then show ?thesis by (simp add: allocations_def)
qed

section \<open>The transcript of the events\<close>

definition frame :: "string \<Rightarrow> string" where
  "frame text = be_bytes 8 (length text) @ text"

lemma length_be_bytes [simp]: "length (be_bytes n v) = n"
  by (induction n arbitrary: v) simp_all

lemma be_bytes_inject: "u < 256 ^ n \<Longrightarrow> v < 256 ^ n \<Longrightarrow> be_bytes n u = be_bytes n v \<longleftrightarrow> u = v"
proof (induction n arbitrary: u v)
  case (Suc n)
  have "u div 256 < 256 ^ n" "v div 256 < 256 ^ n" using Suc.prems by (simp_all add: less_mult_imp_div_less mult.commute)
  then have "be_bytes n (u div 256) = be_bytes n (v div 256) \<longleftrightarrow> u div 256 = v div 256" using Suc.IH by blast
  moreover have "u = v \<longleftrightarrow> u div 256 = v div 256 \<and> u mod 256 = v mod 256" by (metis div_mult_mod_eq)
  ultimately show ?case by (simp add: char_of_mod_256)
qed simp

lemma frames_inject:
  assumes "\<forall>x \<in> set xs. length x < 256 ^ 8" "\<forall>y \<in> set ys. length y < 256 ^ 8" "concat (map frame xs) = concat (map frame ys)"
  shows "xs = ys"
  using assms
proof (induction xs arbitrary: ys)
  case Nil
  then show ?case by (cases ys) (auto simp: frame_def dest: arg_cong [where f = length])
next
  case (Cons x xs)
  then obtain y ys' where ys: "ys = y # ys'" by (cases ys) (auto simp: frame_def dest: arg_cong [where f = length])
  have eq: "be_bytes 8 (length x) @ x @ concat (map frame xs) = be_bytes 8 (length y) @ y @ concat (map frame ys')"
    using Cons.prems(3) by (simp add: ys frame_def [of x] frame_def [of y])
  then have "be_bytes 8 (length x) = be_bytes 8 (length y)" by (simp add: append_eq_append_conv)
  then have "length x = length y" using Cons.prems(1,2) ys be_bytes_inject by auto
  then have "x = y" "concat (map frame xs) = concat (map frame ys')" using eq by (simp_all add: append_eq_append_conv)
  then show ?case using Cons.IH [of ys'] Cons.prems(1,2) ys by simp
qed

text \<open>The emitter of a run after a sequence of events, each with the clock reading of its delivery.\<close>

definition emit_all :: "(WorkerEvent \<Rightarrow> string option) \<Rightarrow> (time \<times> WorkerEvent) list \<Rightarrow> eventEmitter" where
  "emit_all encode events = foldl (\<lambda>em (now, event). emit_worker encode now event em) newEventEmitter events"

definition emitter_ok :: "(WorkerEvent \<Rightarrow> string option) \<Rightarrow> eventEmitter \<Rightarrow> bool" where
  "emitter_ok encode em \<longleftrightarrow>
     em_sequence em = of_nat (length (em_delivered em)) \<and>
     map we_Sequence (em_delivered em) = map (\<lambda>i. of_nat (Suc i)) [0 ..< length (em_delivered em)] \<and>
     (\<not> em_digestErr em \<longrightarrow>
        list_all (\<lambda>e. encode e \<noteq> None) (em_delivered em) \<and>
        em_transcript em = concat (map (\<lambda>e. frame (the (encode e))) (em_delivered em)))"

lemma emit_worker_ok: "emitter_ok encode em \<Longrightarrow> emitter_ok encode (emit_worker encode now event em)"
  by (auto simp: emitter_ok_def emit_worker_def frame_def Let_def split: option.splits)

lemma emit_all_ok: "emitter_ok encode (emit_all encode events)"
proof -
  have "emitter_ok encode (foldl (\<lambda>em (now, event). emit_worker encode now event em) em events)" if "emitter_ok encode em" for em
    using that by (induction events arbitrary: em) (auto simp: emit_worker_ok)
  then show ?thesis by (simp add: emit_all_def newEventEmitter_def emitter_ok_def)
qed

lemma emit_all_delivered: "length (em_delivered (emit_all encode events)) = length events"
proof -
  have "length (em_delivered (foldl (\<lambda>em (now, event). emit_worker encode now event em) em events)) = length (em_delivered em) + length events" for em
    by (induction events arbitrary: em) (auto simp: emit_worker_def Let_def split: option.splits)
  then show ?thesis by (simp add: emit_all_def newEventEmitter_def)
qed

text \<open>
  What of an event its JSON form determines: \<open>encoding/json\<close> replaces every byte of a string that is
  not valid UTF-8, and log lines are arbitrary bytes.
\<close>

fun phase_text :: "Phase \<Rightarrow> Phase" where
  "phase_text (PhaseOther s) = PhaseOther (replace_invalid s)"
| "phase_text phase = phase"

definition event_text :: "WorkerEvent \<Rightarrow> WorkerEvent" where
  "event_text e = e\<lparr>we_Phase := phase_text (we_Phase e), we_Kind := replace_invalid (we_Kind e), we_Output := replace_invalid (we_Output e),
     we_Vertex := replace_invalid (we_Vertex e), we_Name := replace_invalid (we_Name e), we_Line := replace_invalid (we_Line e),
     we_Code := replace_invalid (we_Code e), we_Message := replace_invalid (we_Message e)\<rparr>"

fun utf8_phase :: "Phase \<Rightarrow> bool" where
  "utf8_phase (PhaseOther s) \<longleftrightarrow> valid_utf8 s"
| "utf8_phase phase \<longleftrightarrow> True"

definition utf8_event :: "WorkerEvent \<Rightarrow> bool" where
  "utf8_event e \<longleftrightarrow> utf8_phase (we_Phase e) \<and>
     list_all valid_utf8 [we_Kind e, we_Output e, we_Vertex e, we_Name e, we_Line e, we_Code e, we_Message e]"

lemma phase_text_valid: "utf8_phase p \<Longrightarrow> phase_text p = p"
  by (cases p) (simp_all add: replace_invalid_valid)

lemma event_text_valid: "utf8_event e \<Longrightarrow> event_text e = e"
  by (simp add: utf8_event_def event_text_def phase_text_valid replace_invalid_valid)

text \<open>Equal transcripts come from events that were encoded alike, one by one.\<close>

lemma transcript_encodings:
  assumes "\<forall>e t. encode e = Some t \<longrightarrow> length t < 2 ^ 64"
    and "emit_digest l (emit_all encode xs) \<noteq> None" "emit_digest l (emit_all encode ys) \<noteq> None"
    and "em_transcript (emit_all encode xs) = em_transcript (emit_all encode ys)"
  shows "list_all2 (\<lambda>d e. encode d \<noteq> None \<and> encode d = encode e) (em_delivered (emit_all encode xs)) (em_delivered (emit_all encode ys))"
proof -
  let ?ds = "em_delivered (emit_all encode xs)" and ?es = "em_delivered (emit_all encode ys)"
  have all: "list_all (\<lambda>e. encode e \<noteq> None) ?ds" "list_all (\<lambda>e. encode e \<noteq> None) ?es"
    and frames: "concat (map frame (map (\<lambda>e. the (encode e)) ?ds)) = concat (map frame (map (\<lambda>e. the (encode e)) ?es))"
    using emit_all_ok [of encode xs] emit_all_ok [of encode ys] assms(2-4)
    by (simp_all add: emitter_ok_def emit_digest_def comp_def split: if_splits)
  have short: "length (the (encode e)) < 256 ^ 8" if "encode e \<noteq> None" for e using assms(1) that by auto
  have eq: "map (\<lambda>e. the (encode e)) ?ds = map (\<lambda>e. the (encode e)) ?es"
    by (rule frames_inject) (use all frames short in \<open>auto simp: list_all_iff\<close>)
  show ?thesis
  proof (rule list_all2_all_nthI)
    show len: "length ?ds = length ?es" using eq by (rule map_eq_imp_length_eq)
    fix i assume i: "i < length ?ds"
    then have "encode (?ds ! i) \<noteq> None" "encode (?es ! i) \<noteq> None" using all len by (simp_all add: list_all_length)
    moreover have "the (encode (?ds ! i)) = the (encode (?es ! i))" using arg_cong [OF eq, of "\<lambda>zs. zs ! i"] i len by simp
    ultimately show "encode (?ds ! i) \<noteq> None \<and> encode (?ds ! i) = encode (?es ! i)" by auto
  qed
qed

text \<open>
  C32: The log digest of a run commits to the text of its events. The events are delivered with
  consecutive sequence numbers from 1, and if two sequences of events give the same hashed
  transcript, then the delivered events are the same up to bytes that are not valid UTF-8, which JSON
  replaces by U+FFFD; where all texts are valid UTF-8 the events are equal. This uses that the JSON
  form of an event determines it up to such bytes and that no form reaches \<open>2^64\<close> bytes.
\<close>

theorem transcript_commits_to_events:
  assumes "\<forall>e e' t. encode e = Some t \<longrightarrow> encode e' = Some t \<longrightarrow> event_text e = event_text e'"
    and "\<forall>e t. encode e = Some t \<longrightarrow> length t < 2 ^ 64"
    and "emit_digest l (emit_all encode xs) \<noteq> None" "emit_digest l (emit_all encode ys) \<noteq> None"
    and "em_transcript (emit_all encode xs) = em_transcript (emit_all encode ys)"
  shows "map event_text (em_delivered (emit_all encode xs)) = map event_text (em_delivered (emit_all encode ys)) \<and>
    (list_all utf8_event (em_delivered (emit_all encode xs)) \<and> list_all utf8_event (em_delivered (emit_all encode ys)) \<longrightarrow>
       em_delivered (emit_all encode xs) = em_delivered (emit_all encode ys)) \<and>
    map we_Sequence (em_delivered (emit_all encode xs)) = map (\<lambda>i. of_nat (Suc i)) [0 ..< length xs]"
proof -
  let ?ds = "em_delivered (emit_all encode xs)" and ?es = "em_delivered (emit_all encode ys)"
  have "list_all2 (\<lambda>d e. event_text d = event_text e) ?ds ?es"
    using transcript_encodings [OF assms(2-5)] by (rule list_all2_mono) (use assms(1) in fastforce)
  then have eq: "map event_text ?ds = map event_text ?es"
    by (simp add: list_all2_conv_all_nth list_eq_iff_nth_eq)
  have id: "map event_text es = es" if "list_all utf8_event es" for es
    using that by (induction es) (simp_all add: event_text_valid)
  have "map we_Sequence ?ds = map (\<lambda>i. of_nat (Suc i)) [0 ..< length xs]"
    using emit_all_ok [of encode xs] emit_all_delivered [of encode xs] by (simp add: emitter_ok_def)
  then show ?thesis using eq id [of ?ds] id [of ?es] by metis
qed

definition sample_encode :: "WorkerEvent \<Rightarrow> string option" where
  "sample_encode e = (if e = phase_event PhaseAccepted 0 [] 5\<lparr>we_Sequence := 1\<rparr> then Some ''a'' else None)"

theorem transcript_commits_to_events_witness:
  "em_delivered (emit_all sample_encode [(5, phase_event PhaseAccepted 0 [] 0)]) =
     em_delivered (emit_all sample_encode [(7, phase_event PhaseAccepted 0 [] 5)])"
proof -
  let ?xs = "[(5, phase_event PhaseAccepted 0 [] 0)]" and ?ys = "[(7, phase_event PhaseAccepted 0 [] 5)]"
  have e: "emit_all sample_encode ?xs = emit_all sample_encode ?ys" "\<not> em_digestErr (emit_all sample_encode ?ys)"
    "list_all utf8_event (em_delivered (emit_all sample_encode ?ys))"
    by (simp_all add: emit_all_def emit_worker_def phase_event_def newEventEmitter_def sample_encode_def utf8_event_def valid_utf8_def Let_def)
  show ?thesis
    using transcript_commits_to_events [of sample_encode sample_audit_lib ?xs ?ys] e
    by (auto simp: sample_encode_def emit_digest_def split: if_splits)
qed

text \<open>
  The replacement is visible in the digest: an encoder that replaces invalid bytes gives one
  transcript to two runs whose log lines differ in an invalid byte.
\<close>

lemma invalid_bytes_share_transcript:
  assumes "\<And>e e'. event_text e = event_text e' \<Longrightarrow> encode e = encode e'"
  shows "em_transcript (emit_all encode [(now, e\<lparr>we_Line := [CHR 0xFF]\<rparr>)]) = em_transcript (emit_all encode [(now, e\<lparr>we_Line := [CHR 0xFE]\<rparr>)])"
proof -
  have "replace_invalid [CHR 0xFF] = replace_invalid [CHR 0xFE]" by (simp add: replace_invalid_def rune_width_def)
  then have line: "encode (x\<lparr>we_Line := [CHR 0xFF]\<rparr>) = encode (x\<lparr>we_Line := [CHR 0xFE]\<rparr>)" for x
    by (intro assms) (simp add: event_text_def)
  show ?thesis
    using line [of "e\<lparr>we_Sequence := 1, we_OccurredAt := now\<rparr>"] line [of "e\<lparr>we_Sequence := 1\<rparr>"]
    by (cases e) (simp add: emit_all_def emit_worker_def newEventEmitter_def Let_def split: option.split)
qed

section \<open>Defaults and a report that the journal refuses\<close>

text \<open>The default delays pass the check of the retry loop, and generated owners pass that of the journal.\<close>

lemma defaultRetryDelay_bounds: "0 \<le> defaultRetryDelay attempt \<and> defaultRetryDelay attempt \<le> minute"
proof -
  have "unat (min attempt 5) \<le> 5" using min.cobounded2 [of attempt 5] by (simp add: word_le_nat_alt)
  then have "(2 :: int) ^ unat (min attempt 5) \<le> 2 ^ 5" by (intro power_increasing) simp_all
  then show ?thesis by (simp add: defaultRetryDelay_def)
qed

lemma randomOwner_accepted: "length value = 16 \<Longrightarrow> randomOwner (Some value) = Some owner \<Longrightarrow> runOwnerPattern owner"
  by (auto simp: randomOwner_def runOwnerPattern_def list_all_iff is_lower_hex_def is_lower_def is_digit_def in_range_def
      dest!: hex_encode_lower)

text \<open>
  A report that is neither clean nor explained, such as the zero report, makes the combined report
  quarantined without residue and without a reason. No journal accepts a result with that report, so
  the run is not recorded as quarantined.
\<close>

lemma unexplained_quarantine:
  assumes "re_Phase result = PhaseQuarantined" "re_Cleanup result = combineCleanupReports b [zeroCleanupReport]"
  shows "\<not> validateTerminalResult result b d"
  using assms
  by (simp add: validateTerminalResult_def combineCleanupReports_def add_report_def noResourceCleanup_def zeroCleanupReport_def
      cleanupProvenClean_def cleanup_quarantined_def Let_def)

end
