(* ===== verification/Controller_Live.thy ===== *)
theory Controller_Live
  imports Controller_Laws
begin

text \<open>
  Progress of the controller: in surroundings that neither fail nor cancel, a run survives lost
  workers and ends complete as soon as one worker of the allowed attempts delivers.
\<close>

section \<open>Surroundings without faults\<close>

definition healthy :: "ctx_error option surroundings \<Rightarrow> time \<Rightarrow> bool" where
  "healthy orc expiresAt \<longleftrightarrow>
     (\<forall>n. or_others orc n = [] \<and> or_env orc n = None \<and> \<not> or_cancelled orc n \<and> \<not> or_revokeFails orc n \<and>
          0 < or_clock orc n \<and> or_clock orc n < expiresAt) \<and>
     mono (or_clock orc) \<and> (\<forall>e. or_encode orc e \<noteq> None)"

definition ready :: "ctx_error option surroundings \<Rightarrow> string \<Rightarrow> string \<Rightarrow> string \<Rightarrow> time \<Rightarrow> run_map world \<Rightarrow> bool" where
  "ready orc b owner d startedAt w \<longleftrightarrow>
     (\<exists>r. mget (wd_runs w) b = Some r \<and> rr_Owner r = owner \<and> rr_PayloadDigest r = d \<and> \<not> Terminal (rr_Result r) \<and>
          \<not> rr_CancelRequested r) \<and>
     \<not> em_digestErr (wd_emit w) \<and> startedAt \<le> or_clock orc (wd_clock w)"

definition lease_ttl_ok :: "ControllerOptions \<Rightarrow> bool" where
  "lease_ttl_ok c \<longleftrightarrow> second \<le> co_LeaseTTL c \<and> co_LeaseTTL c \<le> 5 * minute"

lemma healthy_clock: "healthy orc t \<Longrightarrow> startedAt \<le> or_clock orc n \<Longrightarrow> startedAt \<le> or_clock orc (Suc n)"
  unfolding healthy_def mono_def by (meson Suc_n_not_le_n nat_le_linear order_trans)

lemma emit_worker_ok_digest:
  "(\<And>e. encode e \<noteq> None) \<Longrightarrow> em_digestErr (emit_worker encode now event em) = em_digestErr em"
  by (auto simp: emit_worker_def Let_def split: option.split) (metis option.distinct(1))+

lemma healthy_encode: "healthy orc t \<Longrightarrow> or_encode orc e \<noteq> None"
  by (simp add: healthy_def)

lemma ready_steps:
  assumes "healthy orc t" "ready orc b owner d startedAt w"
  shows "ready orc b owner d startedAt (snd (read_clock orc w))"
    and "ready orc b owner d startedAt (snd (poll_cancelled orc w))"
    and "ready orc b owner d startedAt (emit_phase orc phase attempt message w)"
    and "ready orc b owner d startedAt (emit_event orc event w)"
    and "ready orc b owner d startedAt (record_effect e w)"
    and "ready orc b owner d startedAt (snd (revokeLease orc lease w))"
  using assms(2) healthy_clock [OF assms(1)] emit_worker_ok_digest [of "or_encode orc", OF healthy_encode [OF assms(1)]]
  by (simp_all add: ready_def read_clock_def poll_cancelled_def emit_phase_def emit_event_def record_effect_def revokeLease_def)

lemma healthy_update:
  assumes "healthy orc t" "ready orc b owner d startedAt w" "lease_ttl_ok c" "attempt \<le> DefaultMaxAttempts" "validRunPhase phase False"
  shows "\<exists>w'. update_run MemoryExec orc c b owner phase attempt w = (None, w') \<and> ready orc b owner d startedAt w'"
proof -
  obtain r where r: "mget (wd_runs w) b = Some r" "rr_Owner r = owner" "rr_PayloadDigest r = d" "\<not> Terminal (rr_Result r)"
    "\<not> rr_CancelRequested r" "\<not> em_digestErr (wd_emit w)" "startedAt \<le> or_clock orc (wd_clock w)"
    using assms(2) by (auto simp: ready_def)
  let ?n = "wd_clock w" and ?k = "wd_calls w"
  have h: "or_others orc ?k = []" "or_env orc ?k = None" "or_clock orc ?n \<noteq> 0"
    using assms(1) unfolding healthy_def by (metis less_irrefl)+
  have "validLeaseUpdate phase attempt (or_clock orc ?n) (co_LeaseTTL c)"
    using assms(3-5) h by (simp add: validLeaseUpdate_def lease_ttl_ok_def)
  then show ?thesis
    using r h healthy_clock [OF assms(1) r(7)]
    by (simp add: update_run_def read_clock_def call_runs_def memory_defs reply_error_def ready_def beat_def)
qed

text \<open>A worker that reports events until it returns, with heartbeats in between.\<close>

fun quiet :: "loop_signal \<Rightarrow> bool" where
  "quiet (SigEvent event) \<longleftrightarrow> True"
| "quiet (SigTick events g) \<longleftrightarrow> True"
| "quiet signal \<longleftrightarrow> False"

lemma execution_loop_quiet:
  assumes "healthy orc t" "lease_ttl_ok c" "attempt \<le> DefaultMaxAttempts"
  shows "list_all quiet signals \<Longrightarrow> ready orc b owner d startedAt w \<Longrightarrow>
    \<exists>w'. execution_loop MemoryExec orc c b owner attempt final (signals @ SigDone r err # rest) w = (loop_done r err, w') \<and>
      ready orc b owner d startedAt w'"
proof (induction signals arbitrary: w)
  case (Cons signal signals)
  show ?case
  proof (cases signal)
    case (SigEvent event)
    then show ?thesis using Cons.IH [of "emit_event orc event w"] Cons.prems ready_steps(4) [OF assms(1)] by simp
  next
    case (SigTick events g)
    obtain w1 where "update_run MemoryExec orc c b owner PhaseSolving attempt w = (None, w1)" "ready orc b owner d startedAt w1"
      using healthy_update [OF assms(1) Cons.prems(2) assms(2,3), of PhaseSolving] by (auto simp: validRunPhase_def)
    then show ?thesis using SigTick Cons by simp
  qed (use Cons.prems in simp_all)
qed simp

section \<open>An attempt whose worker returns\<close>

definition delivers ::
  "ctx_error option surroundings \<Rightarrow> VerifiedAssignment \<Rightarrow> time \<Rightarrow> uint32 \<Rightarrow> WorkerResult \<Rightarrow> bool \<Rightarrow> bool" where
  "delivers orc v expiresAt attempt r err \<longleftrightarrow>
     (let answers = or_attempt orc attempt; b = pl_BuildID (va_Payload v) in
      \<exists>lease identity signals rest report.
        aa_acquire answers = (lease, False) \<and> (\<forall>n. validateCapabilityLease lease v (or_clock orc n) expiresAt) \<and>
        aa_allocate answers = Inr identity \<and> identity \<noteq> [] \<and>
        aa_signals answers = signals @ SigDone r err # rest \<and> list_all quiet signals \<and>
        aa_release answers = (report, False) \<and> report_fits b report \<and> report_fits b (wr_Cleanup r))"

text \<open>What the controller knows of a worker when it decides on the attempt.\<close>

definition collected :: "VerifiedAssignment \<Rightarrow> time \<Rightarrow> uint32 \<Rightarrow> WorkerResult \<Rightarrow> Result \<Rightarrow> bool" where
  "collected v startedAt attempt r result \<longleftrightarrow>
     result_of v result \<and> re_Attempts result = attempt \<and> re_WorkerIdentity result \<noteq> [] \<and> re_Worker result = r \<and>
     cleanupProvenClean (re_Cleanup result) \<and> cr_BuildID (re_Cleanup result) = pl_BuildID (va_Payload v) \<and> re_ErrorCode result = [] \<and>
     re_StartedAt result = startedAt \<and> startedAt \<le> re_FinishedAt result \<and> 0 < re_FinishedAt result"

lemma run_worker_delivers:
  assumes "healthy orc t" "lease_ttl_ok c" "attempt \<le> DefaultMaxAttempts"
    and "ready orc (pl_BuildID (va_Payload (ra_Verified assignment))) owner d startedAt w"
    and "aa_signals (or_attempt orc attempt) = signals @ SigDone r err # rest" "list_all quiet signals"
    and "aa_release (or_attempt orc attempt) = (report, False)" "report_fits (pl_BuildID (va_Payload (ra_Verified assignment))) report"
    and "report_fits (pl_BuildID (va_Payload (ra_Verified assignment))) (wr_Cleanup r)" "identity \<noteq> []"
  shows "\<exists>result w'. run_worker MemoryExec orc c assignment owner attempt startedAt lease identity w =
      conclude_attempt orc c assignment attempt (loop_done r err) False result w' \<and>
    collected (ra_Verified assignment) startedAt attempt r result \<and>
    ready orc (pl_BuildID (va_Payload (ra_Verified assignment))) owner d startedAt w'"
proof -
  let ?b = "pl_BuildID (va_Payload (ra_Verified assignment))"
  obtain w1 where loop: "execution_loop MemoryExec orc c ?b owner attempt (aa_last (or_attempt orc attempt))
      (aa_signals (or_attempt orc attempt)) w = (loop_done r err, w1)" and w1: "ready orc ?b owner d startedAt w1"
    using execution_loop_quiet [OF assms(1-3,6,4)] assms(5) by metis
  have poll: "fst (poll_cancelled orc u) = False" "fst (revokeLease orc lease u) = False" for u :: "run_map world"
    using assms(1) by (simp_all add: poll_cancelled_def revokeLease_def healthy_def)
  let ?w4 = "snd (revokeLease orc lease (record_effect (EffRelease attempt) (snd (poll_cancelled orc w1))))"
  have w4: "ready orc ?b owner d startedAt ?w4" by (intro ready_steps [OF assms(1)] w1)
  then have fin: "startedAt \<le> fst (read_clock orc ?w4)" "0 < fst (read_clock orc ?w4)"
    using assms(1) by (simp_all add: ready_def read_clock_def healthy_def)
  have clean: "cleanupProvenClean (attempt_cleanup ?b (loop_done r err) (report, False) False)"
    "cr_BuildID (attempt_cleanup ?b (loop_done r err) (report, False) False) = ?b"
    using assms(8,9) by (simp_all add: attempt_cleanup_def loop_done_def combine_clean)
  show ?thesis
    unfolding run_worker_def Let_def loop case_prod_beta poll
    using fin clean assms(7,10) ready_steps(1) [OF assms(1) w4]
    by (intro exI conjI) (auto simp: loop loop_done_def collected_def result_of_def)
qed

lemma runAttempt_delivers:
  assumes "healthy orc expiresAt" "lease_ttl_ok c" "attempt \<le> DefaultMaxAttempts"
    and "ready orc (pl_BuildID (va_Payload (ra_Verified assignment))) owner d startedAt w"
    and "delivers orc (ra_Verified assignment) expiresAt attempt r err"
  shows "\<exists>result w'. runAttempt MemoryExec orc c assignment owner attempt startedAt expiresAt w =
      conclude_attempt orc c assignment attempt (loop_done r err) False result w' \<and>
    collected (ra_Verified assignment) startedAt attempt r result \<and>
    ready orc (pl_BuildID (va_Payload (ra_Verified assignment))) owner d startedAt w'"
proof -
  let ?b = "pl_BuildID (va_Payload (ra_Verified assignment))"
  obtain lease identity signals rest report where ans:
    "aa_acquire (or_attempt orc attempt) = (lease, False)"
    "\<And>n. validateCapabilityLease lease (ra_Verified assignment) (or_clock orc n) expiresAt"
    "aa_allocate (or_attempt orc attempt) = Inr identity" "identity \<noteq> []"
    "aa_signals (or_attempt orc attempt) = signals @ SigDone r err # rest" "list_all quiet signals"
    "aa_release (or_attempt orc attempt) = (report, False)" "report_fits ?b report" "report_fits ?b (wr_Cleanup r)"
    using assms(5) by (auto simp: delivers_def Let_def)
  obtain w1 where poll: "poll_cancelled orc w = (False, w1)" "ready orc ?b owner d startedAt w1"
    using ready_steps(2) [OF assms(1,4)] assms(1) by (auto simp: poll_cancelled_def healthy_def)
  obtain w2 where up: "update_run MemoryExec orc c ?b owner PhaseAllocating attempt w1 = (None, w2)" "ready orc ?b owner d startedAt w2"
    using healthy_update [OF assms(1) poll(2) assms(2,3), of PhaseAllocating] by (auto simp: validRunPhase_def)
  have clock: "\<not> time_sub expiresAt (fst (read_clock orc u)) \<le> 0" "validateCapabilityLease lease (ra_Verified assignment) (fst (read_clock orc u)) expiresAt"
    for u :: "run_map world"
  proof -
    have "or_clock orc (wd_clock u) < expiresAt" using assms(1) by (simp add: healthy_def)
    then show "\<not> time_sub expiresAt (fst (read_clock orc u)) \<le> 0" by (simp add: read_clock_def time_sub_def max_duration_def max_def min_def min_duration_def)
  qed (use ans(2) in \<open>simp add: read_clock_def\<close>)
  define u where "u = record_effect (EffAllocate attempt True) (snd (read_clock orc (snd (read_clock orc
     (record_effect (EffAcquire lease False) (emit_phase orc PhaseAllocating attempt
        ''Acquiring short-lived capabilities and a disposable worker.'' w2))))))"
  have u: "ready orc ?b owner d startedAt u" unfolding u_def by (intro ready_steps [OF assms(1)] up(2))
  have "runAttempt MemoryExec orc c assignment owner attempt startedAt expiresAt w =
      run_worker MemoryExec orc c assignment owner attempt startedAt lease identity u"
    using clock by (simp add: runAttempt_def poll up ans Let_def case_prod_beta u_def)
  then show ?thesis
    using run_worker_delivers [OF assms(1-3) u ans(5-9,4)] by simp
qed

text \<open>A worker that is lost, and a worker whose result the journal accepts as complete.\<close>

definition loses :: "ctx_error option surroundings \<Rightarrow> VerifiedAssignment \<Rightarrow> time \<Rightarrow> uint32 \<Rightarrow> bool" where
  "loses orc v expiresAt attempt \<longleftrightarrow>
     (\<exists>r err. delivers orc v expiresAt attempt r err \<and> wr_ErrorCode r = ''worker_lost'') \<and>
     0 \<le> aa_retryDelay (or_attempt orc attempt) \<and> aa_retryDelay (or_attempt orc attempt) \<le> minute \<and>
     \<not> aa_retryInterrupted (or_attempt orc attempt)"

definition completes :: "ctx_error option surroundings \<Rightarrow> ResolvedAssignment \<Rightarrow> time \<Rightarrow> uint32 \<Rightarrow> WorkerResult \<Rightarrow> bool" where
  "completes orc assignment expiresAt attempt r \<longleftrightarrow>
     delivers orc (ra_Verified assignment) expiresAt attempt r False \<and> validateSuccessfulResult assignment r \<and>
     wr_Phase r = PhaseComplete \<and> wr_ErrorCode r \<noteq> ''worker_lost'' \<and> wr_Attempt r = attempt \<and> cleanupProvenClean (wr_Cleanup r) \<and>
     cs_Hits (wr_Cache r) \<ge> 0 \<and> cs_Misses (wr_Cache r) \<ge> 0 \<and> wr_Outputs r \<noteq> [] \<and>
     check_unique (\<lambda>output. if valid_output output then None else Some ()) ou_Name () [] (wr_Outputs r) = None"

lemma runAttempt_loses:
  assumes "healthy orc expiresAt" "lease_ttl_ok c" "attempt \<le> DefaultMaxAttempts" "attempt < co_MaxAttempts c"
    and "ready orc (pl_BuildID (va_Payload (ra_Verified assignment))) owner d startedAt w"
    and "loses orc (ra_Verified assignment) expiresAt attempt"
  shows "\<exists>result w'. runAttempt MemoryExec orc c assignment owner attempt startedAt expiresAt w = (Inr (result, True), w') \<and>
    ready orc (pl_BuildID (va_Payload (ra_Verified assignment))) owner d startedAt w'"
proof -
  obtain r err where r: "delivers orc (ra_Verified assignment) expiresAt attempt r err" "wr_ErrorCode r = ''worker_lost''"
    using assms(6) by (auto simp: loses_def)
  then show ?thesis
    using runAttempt_delivers [OF assms(1-3,5) r(1)] assms(4)
    by (auto simp: conclude_attempt_def collected_def loop_done_def)
qed

lemma runAttempt_completes:
  assumes "healthy orc expiresAt" "lease_ttl_ok c" "attempt \<le> DefaultMaxAttempts"
    and "ready orc (pl_BuildID (va_Payload (ra_Verified assignment))) owner d startedAt w"
    and "completes orc assignment expiresAt attempt r"
  shows "\<exists>result w'. runAttempt MemoryExec orc c assignment owner attempt startedAt expiresAt w = (Inr (result, False), w') \<and>
    re_Phase result = PhaseComplete \<and> collected (ra_Verified assignment) startedAt attempt r result \<and>
    ready orc (pl_BuildID (va_Payload (ra_Verified assignment))) owner d startedAt w'"
proof -
  obtain result w' where run: "runAttempt MemoryExec orc c assignment owner attempt startedAt expiresAt w =
      conclude_attempt orc c assignment attempt (loop_done r False) False result w'"
    "collected (ra_Verified assignment) startedAt attempt r result"
    "ready orc (pl_BuildID (va_Payload (ra_Verified assignment))) owner d startedAt w'"
    using runAttempt_delivers [OF assms(1-4)] assms(5) unfolding completes_def by blast
  then show ?thesis
    using assms(5) ready_steps(3) [OF assms(1) run(3)]
    by (simp add: conclude_attempt_def completes_def loop_done_def collected_def result_of_def)
qed

lemma finishResult_completes:
  assumes "healthy orc t" "ready orc (pl_BuildID (va_Payload v)) owner (va_PayloadDigest v) startedAt w" "0 < startedAt"
    and "collected v startedAt attempt r result" "re_Phase result = PhaseComplete" "completes orc assignment t attempt r"
    and "ra_Verified assignment = v" "attempt \<le> DefaultMaxAttempts" "\<And>x. digest_pattern (bytesDigest l x)"
  shows "\<exists>d w'. finishResult MemoryExec orc l owner result w = (Inr (result\<lparr>re_LogsDigest := d\<rparr>), w')"
proof -
  obtain rec where rec: "mget (wd_runs w) (pl_BuildID (va_Payload v)) = Some rec" "rr_Owner rec = owner"
    "rr_PayloadDigest rec = va_PayloadDigest v" "\<not> Terminal (rr_Result rec)" "\<not> rr_CancelRequested rec" "\<not> em_digestErr (wd_emit w)"
    using assms(2) by (auto simp: ready_def)
  let ?d = "bytesDigest l (em_transcript (wd_emit w))"
  have h: "or_others orc (wd_calls w) = []" "or_env orc (wd_calls w) = None" "or_clock orc (wd_clock w) \<noteq> 0"
    using assms(1) unfolding healthy_def by (metis less_irrefl)+
  have zero: "attempt \<noteq> 0" using assms(6) by (auto simp: completes_def validateSuccessfulResult_def Let_def)
  have "validateTerminalResult (result\<lparr>re_LogsDigest := ?d\<rparr>) (pl_BuildID (va_Payload v)) (va_PayloadDigest v)"
    using assms(3-9) zero
    by (auto simp: validateTerminalResult_def Terminal_def collected_def result_of_def completes_def validateSuccessfulResult_def
        worker_clean_def Let_def)
  then have "\<exists>w'. call_runs MemoryExec orc (OpFinish (re_BuildID result) owner (result\<lparr>re_LogsDigest := ?d\<rparr>) (or_clock orc (wd_clock w)))
      (snd (read_clock orc w)) = (ReplyDone, w')"
    using assms(4) rec h by (simp add: call_runs_def read_clock_def memory_defs terminalAllowedForRecord_def collected_def result_of_def)
  then show ?thesis using rec(6) by (auto simp: finishResult_def emit_digest_def read_clock_def reply_error_def Let_def)
qed

section \<open>Runs that complete\<close>

lemma phases: "validRunPhase PhaseRetrying False" "validRunPhase PhaseResolving False"
  by (simp_all add: validRunPhase_def)

lemma attempt_loop_completes:
  assumes "healthy orc expiresAt" "lease_ttl_ok c" "attempt \<le> DefaultMaxAttempts" "0 < startedAt"
    and "completes orc assignment expiresAt attempt r" "attempt \<le> co_MaxAttempts c" "\<And>x. digest_pattern (bytesDigest l x)"
  shows "list_all (\<lambda>a. a < attempt \<and> loses orc (ra_Verified assignment) expiresAt a) lost \<Longrightarrow>
    ready orc (pl_BuildID (va_Payload (ra_Verified assignment))) owner (va_PayloadDigest (ra_Verified assignment)) startedAt w \<Longrightarrow>
    \<exists>result w'. attempt_loop MemoryExec orc l c assignment owner startedAt expiresAt (lost @ attempt # rest) w = (Some (Inr result), w') \<and>
      \<not> re_Replay result \<and> re_Phase result = PhaseComplete \<and> re_Attempts result = attempt \<and> re_Worker result = r"
proof (induction lost arbitrary: w)
  case Nil
  obtain result w1 where run: "runAttempt MemoryExec orc c assignment owner attempt startedAt expiresAt w = (Inr (result, False), w1)"
    "re_Phase result = PhaseComplete" "collected (ra_Verified assignment) startedAt attempt r result"
    "ready orc (pl_BuildID (va_Payload (ra_Verified assignment))) owner (va_PayloadDigest (ra_Verified assignment)) startedAt w1"
    using runAttempt_completes [OF assms(1-3) Nil.prems(2) assms(5)] by blast
  obtain d w2 where "finishResult MemoryExec orc l owner result w1 = (Inr (result\<lparr>re_LogsDigest := d\<rparr>), w2)"
    using finishResult_completes [OF assms(1) run(4) assms(4) run(3,2) assms(5) refl assms(3,7)] by blast
  then show ?case using run by (simp add: collected_def result_of_def)
next
  case (Cons a lost)
  let ?b = "pl_BuildID (va_Payload (ra_Verified assignment))" and ?d = "va_PayloadDigest (ra_Verified assignment)"
  have lt: "a < attempt" using Cons.prems(1) by simp
  have a: "a < co_MaxAttempts c" "loses orc (ra_Verified assignment) expiresAt a"
    using Cons.prems(1) order_less_le_trans [OF lt assms(6)] by simp_all
  have le: "a \<le> DefaultMaxAttempts" using less_imp_le [OF lt] assms(3) by (rule order_trans)
  obtain result w1 where run: "runAttempt MemoryExec orc c assignment owner a startedAt expiresAt w = (Inr (result, True), w1)"
    "ready orc ?b owner ?d startedAt w1"
    using runAttempt_loses [OF assms(1,2) le a(1) Cons.prems(2) a(2)] by blast
  obtain w2 where up: "update_run MemoryExec orc c ?b owner PhaseRetrying a
      (emit_phase orc PhaseRetrying a ''Disposable worker was lost; retrying from the immutable assignment.'' w1) = (None, w2)"
    "ready orc ?b owner ?d startedAt w2"
    using healthy_update [OF assms(1) ready_steps(3) [OF assms(1) run(2)] assms(2) le phases(1)] by blast
  have delay: "\<not> aa_retryDelay (or_attempt orc a) < 0" "\<not> aa_retryDelay (or_attempt orc a) > minute" "\<not> aa_retryInterrupted (or_attempt orc a)"
    using a(2) by (auto simp: loses_def)
  show ?case using Cons.IH [OF _ up(2)] Cons.prems(1) run(1) up(1) delay by (simp add: Let_def)
qed

lemma attempts_split:
  assumes "1 \<le> attempt" "attempt \<le> m"
  shows "\<exists>rest. attempts_from 1 m = attempts_from 1 (attempt - 1) @ attempt # rest"
proof -
  have "unat (attempt - 1) = unat attempt - 1" "1 \<le> unat attempt" "unat attempt \<le> unat m"
    using assms by (auto simp: unat_sub word_le_nat_alt)
  then have "[1 ..< Suc (unat m)] = [1 ..< Suc (unat (attempt - 1))] @ unat attempt # [Suc (unat attempt) ..< Suc (unat m)]"
    using upt_add_eq_append [of 1 "unat attempt" "Suc (unat m) - unat attempt"] by (simp add: upt_conv_Cons del: upt_Suc)
  then show ?thesis by (auto simp: attempts_from_def simp del: upt_Suc)
qed

lemma run_claimed_completes:
  assumes "healthy orc expiresAt" "lease_ttl_ok c" "attempt \<le> DefaultMaxAttempts" "0 < startedAt"
    and "Resolve l v (Some store) = Inr assignment"
    and "completes orc assignment expiresAt attempt r" "1 \<le> attempt" "attempt \<le> co_MaxAttempts c"
    and "list_all (loses orc v expiresAt) (attempts_from 1 (attempt - 1))"
    and "\<And>x. digest_pattern (bytesDigest (as_audit l) x)"
    and "ready orc (pl_BuildID (va_Payload v)) owner (va_PayloadDigest v) startedAt w" "rr_Attempt rec = 0" "\<not> rr_CancelRequested rec"
  shows "\<exists>result w'. run_claimed MemoryExec orc l c v store owner startedAt expiresAt False rec w = (Inr result, w') \<and> \<not> re_Replay result \<and>
    re_Phase result = PhaseComplete \<and> re_Attempts result = attempt \<and> re_Worker result = r"
proof -
  have v: "ra_Verified assignment = v" using mem_runs.Resolve_verified [OF assms(5)] .
  obtain rest where rest: "attempts_from 1 (co_MaxAttempts c) = attempts_from 1 (attempt - 1) @ attempt # rest"
    using attempts_split [OF assms(7,8)] by blast
  have lost: "list_all (\<lambda>a. a < attempt \<and> loses orc (ra_Verified assignment) expiresAt a) (attempts_from 1 (attempt - 1))"
  proof -
    have "a < attempt" if a: "a \<in> set (attempts_from 1 (attempt - 1))" for a
    proof -
      obtain i where i: "a = of_nat i" "i < unat attempt"
        using a assms(7) by (auto simp: attempts_from_def unat_sub word_le_nat_alt simp del: upt_Suc)
      then have "unat a < unat attempt" by (metis le_less_trans unat_of_nat mod_less_eq_dividend)
      then show ?thesis by (simp add: word_less_nat_alt)
    qed
    then show ?thesis using assms(9) v by (simp add: list_all_iff)
  qed
  let ?w1 = "emit_phase orc PhaseAccepted 0 ''Assignment signature, audience, generation, expiry, and replay identity verified.'' w"
  have w1: "ready orc (pl_BuildID (va_Payload v)) owner (va_PayloadDigest v) startedAt ?w1" by (intro ready_steps [OF assms(1)] assms(11))
  obtain w2 where up: "update_run MemoryExec orc c (pl_BuildID (va_Payload v)) owner PhaseResolving 0 ?w1 = (None, w2)"
    "ready orc (pl_BuildID (va_Payload v)) owner (va_PayloadDigest v) startedAt w2"
    using healthy_update [OF assms(1) w1 assms(2) _ phases(2)] by (metis word_zero_le)
  have w3: "ready orc (pl_BuildID (va_Payload v)) owner (va_PayloadDigest v) startedAt
      (emit_phase orc PhaseResolving 0 ''Resolving signed immutable build artifacts.'' w2)" by (intro ready_steps [OF assms(1)] up(2))
  have f: "first_attempt 0 = 1" by (simp add: first_attempt_def)
  obtain result w' where "attempt_loop MemoryExec orc (as_audit l) c assignment owner startedAt expiresAt (attempts_from 1 (co_MaxAttempts c))
      (emit_phase orc PhaseResolving 0 ''Resolving signed immutable build artifacts.'' w2) = (Some (Inr result), w')"
    "\<not> re_Replay result" "re_Phase result = PhaseComplete" "re_Attempts result = attempt" "re_Worker result = r"
    using attempt_loop_completes [OF assms(1-4,6,8,10) lost, of owner] w3 rest v by metis
  then show ?thesis
    by (simp add: run_claimed_def resolve_and_run_def run_attempts_def assms(5,12,13) up(1) f Let_def)
qed

lemma Run_progress:
  assumes "healthy orc expiresAt" "lease_ttl_ok c" "attempt \<le> DefaultMaxAttempts"
    and "Verify l verifier (or_clock orc (wd_clock w)) envelope = Inr v" "rfc3339_utc (pl_ExpiresAt (va_Payload v)) = Some expiresAt"
    and "has_id_prefix (pl_BuildID (va_Payload v)) ''bld''" "pl_Generation (va_Payload v) \<noteq> 0"
    and "\<And>x. digest_pattern (bytesDigest (as_audit l) x)" "\<And>x. reserve x = Inr ReservationAccepted"
    and "or_owner orc = Some owner" "runOwnerPattern owner" "mget (wd_runs w) (pl_BuildID (va_Payload v)) = None"
    and "Resolve l v (Some store) = Inr assignment" "completes orc assignment expiresAt attempt r" "1 \<le> attempt" "attempt \<le> co_MaxAttempts c"
    and "list_all (loses orc v expiresAt) (attempts_from 1 (attempt - 1))"
  shows "\<exists>result w'. Run MemoryExec orc l c verifier reserve store envelope w = (Inr result, w') \<and> \<not> re_Replay result \<and>
    re_Phase result = PhaseComplete \<and> re_Attempts result = attempt \<and> re_Worker result = r"
proof -
  let ?now = "or_clock orc (Suc (wd_clock w))"
  define q where "q = \<lparr>cq_BuildID = pl_BuildID (va_Payload v), cq_Generation = pl_Generation (va_Payload v),
    cq_PayloadDigest = va_PayloadDigest v, cq_Owner = owner, cq_Now = ?now, cq_LeaseTTL = co_LeaseTTL c\<rparr>"
  have now: "0 < ?now" "?now \<le> or_clock orc (Suc (Suc (wd_clock w)))"
    using assms(1) unfolding healthy_def mono_def by auto
  have d: "digest_pattern (va_PayloadDigest v)" by (rule Verify_parts [OF assms(4)]) (simp add: assms(8))
  have q: "validateClaim q" using assms(2,6,7,11) now d by (simp add: q_def validateClaim_def lease_ttl_ok_def)
  have owner: "owner \<noteq> []" using assms(11) by (auto simp: runOwnerPattern_def)
  define w4 where "w4 = w\<lparr>wd_runs := mput (cq_BuildID q) (newRunRecord q) (wd_runs w), wd_polls := Suc (wd_polls w),
    wd_clock := Suc (Suc (wd_clock w)), wd_calls := Suc (wd_calls w)\<rparr>"
  have call: "call_runs MemoryExec orc (OpClaim q) (w\<lparr>wd_polls := Suc (wd_polls w), wd_clock := Suc (Suc (wd_clock w))\<rparr>) =
      (ReplyClaim ClaimAccepted (newRunRecord q), w4)"
    using assms(1,12) q by (simp add: call_runs_def healthy_def memory_defs w4_def q_def)
  have rec: "re_StartedAt (rr_Result (newRunRecord q)) = ?now" "rr_Attempt (newRunRecord q) = 0" "\<not> rr_CancelRequested (newRunRecord q)"
    by (simp_all add: newRunRecord_def q_def)
  have "ready orc (pl_BuildID (va_Payload v)) owner (va_PayloadDigest v) ?now (w4\<lparr>wd_emit := newEventEmitter\<rparr>)"
    using now by (simp add: ready_def w4_def q_def newRunRecord_def newEventEmitter_def Terminal_def)
  from run_claimed_completes [OF assms(1-3) now(1) assms(13-17,8) this rec(2,3)]
  obtain result w' where run: "run_claimed MemoryExec orc l c v store owner ?now expiresAt False (newRunRecord q)
      (w4\<lparr>wd_emit := newEventEmitter\<rparr>) = (Inr result, w')"
    "\<not> re_Replay result" "re_Phase result = PhaseComplete" "re_Attempts result = attempt" "re_Worker result = r" by blast
  have "Run MemoryExec orc l c verifier reserve store envelope w = (Inr result, w')"
    using assms(1) less_imp_neq [OF now(1), symmetric] rec(1) run(1) call owner
    by (simp add: Run_def poll_cancelled_def read_clock_def healthy_def assms(4,5,9,10) q_def [symmetric] Let_def)
  then show ?thesis using run by blast
qed

text \<open>
  C14: A run makes progress. In surroundings without faults and cancellations, a fresh assignment whose
  first workers are lost and whose next worker delivers a valid result ends with \<open>Run\<close> returning that
  worker's result as complete, provided that the attempt is within the configured limit and within
  the three attempts that the run stores record, whatever the configured limit is. A later attempt
  cannot be recorded (\<open>attempts_bounded_by_default\<close>).
\<close>

theorem Run_completes:
  assumes "healthy orc expiresAt" "lease_ttl_ok c" "attempt \<le> DefaultMaxAttempts"
    and "Verify l verifier (or_clock orc (wd_clock w)) envelope = Inr v" "rfc3339_utc (pl_ExpiresAt (va_Payload v)) = Some expiresAt"
    and "has_id_prefix (pl_BuildID (va_Payload v)) ''bld''" "pl_Generation (va_Payload v) \<noteq> 0"
    and "\<And>x. digest_pattern (bytesDigest (as_audit l) x)" "\<And>x. reserve x = Inr ReservationAccepted"
    and "or_owner orc = Some owner" "runOwnerPattern owner" "mget (wd_runs w) (pl_BuildID (va_Payload v)) = None"
    and "Resolve l v (Some store) = Inr assignment" "completes orc assignment expiresAt attempt r" "1 \<le> attempt" "attempt \<le> co_MaxAttempts c"
    and "list_all (loses orc v expiresAt) (attempts_from 1 (attempt - 1))"
  shows "\<exists>result w'. Run MemoryExec orc l c verifier reserve store envelope w = (Inr result, w') \<and> \<not> re_Replay result \<and>
    re_Phase result = PhaseComplete \<and> re_Attempts result = attempt \<and> re_Worker result = r"
  using assms by (rule Run_progress)

section \<open>Results are durable and complete runs are proven\<close>

text \<open>
  C13: A result that \<open>Run\<close> returns is durable: the journal then holds a terminal record of the build
  that the signed envelope names, with the payload digest of the verified assignment and exactly the
  returned result (up to the mark of a replay). If a cancellation was recorded before the run was
  finished, the result is canceled or quarantined.
\<close>

theorem Run_result_durable:
  assumes "Run MemoryExec orc l c verifier reserve store envelope w = (Inr result, w')"
  shows "\<exists>now v r. Verify l verifier now envelope = Inr v \<and> mget (wd_runs w') (pl_BuildID (va_Payload v)) = Some r \<and>
    rr_PayloadDigest r = va_PayloadDigest v \<and> Terminal (rr_Result r) \<and> result = (rr_Result r)\<lparr>re_Replay := re_Replay result\<rparr> \<and>
    (re_Replay result \<or> \<not> rr_CancelRequested r \<or> re_Phase result = PhaseCanceled \<or> re_Phase result = PhaseQuarantined)"
  using mem_runs.Run_recorded [OF assms] unfolding recorded_def terminalAllowedForRecord_def by blast

text \<open>
  C12: A run is reported complete only when its worker proved every output of the resolved assignment
  against the signed lock, no error is recorded, and the combined cleanup of the worker is clean. A
  replayed result is the one recorded earlier.
\<close>

theorem Run_complete_proven:
  assumes "Run MemoryExec orc l c verifier reserve store envelope w = (Inr result, w')"
    and "re_Phase result = PhaseComplete" "\<not> re_Replay result"
  shows "\<exists>now v assignment. Verify l verifier now envelope = Inr v \<and> Resolve l v (Some store) = Inr assignment \<and>
    re_BuildID result = pl_BuildID (va_Payload v) \<and> validateSuccessfulResult assignment (re_Worker result) \<and>
    cleanupProvenClean (re_Cleanup result) \<and> re_ErrorCode result = []"
  using mem_runs.Run_recorded [OF assms(1)] assms(2,3) unfolding recorded_def proven_def result_of_def by blast

section \<open>A run that loses one worker\<close>

definition digest_of :: "char \<Rightarrow> string" where
  "digest_of c = ''sha256:'' @ replicate 64 c"

lemma digest_of_pattern: "is_lower_hex c \<Longrightarrow> digest_pattern (digest_of c)"
  by (simp add: digest_of_def digest_pattern_def has_prefix_def list_all_iff)

lemma digest_of_inject [simp]: "digest_of c = digest_of c' \<longleftrightarrow> c = c'"
  by (simp add: digest_of_def)

definition sample_evidence :: "string \<Rightarrow> char \<Rightarrow> EvidenceReference" where
  "sample_evidence kind c = \<lparr>ev_Kind = kind, ev_Reference = ''r@'' @ digest_of c, ev_ManifestDigest = digest_of c, ev_PayloadDigest = sample_digest\<rparr>"

definition sample_output :: OutputResult where
  "sample_output = \<lparr>ou_Name = ''app'', ou_Kind = ''oci_image'', ou_ArtifactRef = ''r@x'', ou_ArtifactPath = [], ou_ArtifactDigest = sample_digest,
     ou_ArtifactSize = 1, ou_ConfigDigest = sample_digest, ou_ManifestDigest = sample_digest, ou_PublicationManifestRef = [],
     ou_LayerDigests = [sample_digest], ou_ExporterResponse = [],
     ou_SupplyChain = \<lparr>sc_PolicyState = ''accepted'', sc_ScanState = ''passed'', sc_PolicyDigest = sample_digest,
       sc_SignerKeyID = ''lrail-build-evidence'', sc_SignerKeyVersion = 1, sc_SignerPublicKeyDigest = sample_digest,
       sc_Evidence = [sample_evidence ''sbom'' CHR ''1'', sample_evidence ''vulnerability_scan'' CHR ''2'', sample_evidence ''provenance'' CHR ''3'',
         sample_evidence ''signature'' CHR ''4'', sample_evidence ''policy_decision'' CHR ''5'']\<rparr>\<rparr>"

lemma sample_output_valid: "valid_output sample_output" "validStoredSupplyChainIdentity sample_output" "validOutputContentIdentity sample_output"
proof -
  have d: "digest_pattern (digest_of CHR ''1'')" "digest_pattern (digest_of CHR ''2'')" "digest_pattern (digest_of CHR ''3'')"
    "digest_pattern (digest_of CHR ''4'')" "digest_pattern (digest_of CHR ''5'')"
    by (simp_all add: digest_of_pattern is_lower_hex_def char_classes)
  show v: "validStoredSupplyChainIdentity sample_output"
    using d by (simp add: validStoredSupplyChainIdentity_def sample_output_def evidenceKinds_def sample_evidence_def)
  show c: "validOutputContentIdentity sample_output"
    by (simp add: validOutputContentIdentity_def sample_output_def)
  show "valid_output sample_output"
    using v c by (simp add: valid_output_def sample_output_def)
qed

definition sample_worker :: WorkerResult where
  "sample_worker = \<lparr>wr_BuildID = sample_id ''bld'', wr_Attempt = 2, wr_Phase = PhaseComplete, wr_Outputs = [sample_output],
     wr_StartedAt = 1, wr_FinishedAt = 2, wr_ErrorCode = [], wr_LogsDigest = sample_digest, wr_Cache = \<lparr>cs_Hits = 0, cs_Misses = 1\<rparr>,
     wr_Cleanup = noResourceCleanup (sample_id ''bld'')\<rparr>"

lemma sample_worker_valid: "validateSuccessfulResult sample_resolved sample_worker"
  using sample_output_valid
  by (simp add: validateSuccessfulResult_def sample_resolved_def sample_verified_def sample_payload_def sample_worker_def output_proves_def
      noResourceCleanup_def validSupplyChainIdentity_def sample_lock_def PlatformSupplyChainPolicy_def sortedUnique_def)
    (simp add: sample_output_def)

definition sample_answers :: "uint32 \<Rightarrow> attempt_answers" where
  "sample_answers attempt = \<lparr>
     aa_acquire = (\<lparr>ls_ID = ''lease'', ls_ExpiresAt = sample_now + minute, ls_Secrets = [], ls_Network = dl_Network sample_lock, ls_Caches = []\<rparr>, False),
     aa_allocate = Inr ''worker'',
     aa_signals = [SigTick [] (Returned zeroWorkerResult True), SigDone (if attempt = 2 then sample_worker
       else zeroWorkerResult\<lparr>wr_ErrorCode := ''worker_lost'', wr_Cleanup := noResourceCleanup (sample_id ''bld'')\<rparr>) (attempt \<noteq> 2)],
     aa_last = (zeroWorkerResult, True), aa_release = (noResourceCleanup (sample_id ''bld''), False), aa_retryDelay = second,
     aa_retryInterrupted = False\<rparr>"

definition sample_surroundings :: "ctx_error option surroundings" where
  "sample_surroundings = \<lparr>or_clock = (\<lambda>_. sample_now), or_others = (\<lambda>_. []), or_env = (\<lambda>_. None), or_cancelled = (\<lambda>_. False),
     or_revokeFails = (\<lambda>_. False), or_attempt = sample_answers, or_cleanupBuild = (zeroCleanupReport, False), or_owner = Some ''run-a'',
     or_encode = (\<lambda>_. Some [])\<rparr>"

definition sample_controller :: ControllerOptions where
  "sample_controller = \<lparr>co_MaxAttempts = 3, co_LeaseTTL = 30 * second, co_CancelGrace = 15 * second, co_ForceTimeout = 15 * second,
     co_ReleaseTimeout = 30 * second, co_RevokeTimeout = 15 * second\<rparr>"

definition sample_world :: "run_map world" where
  "sample_world = \<lparr>wd_runs = [], wd_clock = 0, wd_calls = 0, wd_polls = 0, wd_revokes = 0, wd_emit = newEventEmitter, wd_trace = []\<rparr>"

lemma sample_healthy: "healthy sample_surroundings (sample_now + 30 * minute)"
  by (simp add: healthy_def sample_surroundings_def mono_def)

lemma sample_lease: "validateCapabilityLease (fst (aa_acquire (sample_answers attempt))) sample_verified sample_now (sample_now + 30 * minute)"
  by (simp add: validateCapabilityLease_def sample_answers_def sample_verified_def sample_payload_def sample_lock_def allowed_secrets_def)

lemma sample_delivers:
  "delivers sample_surroundings sample_verified (sample_now + 30 * minute) 2 sample_worker False"
  "delivers sample_surroundings sample_verified (sample_now + 30 * minute) 1
     (zeroWorkerResult\<lparr>wr_ErrorCode := ''worker_lost'', wr_Cleanup := noResourceCleanup (sample_id ''bld'')\<rparr>) True"
proof -
  have sig: "aa_signals (sample_answers 2) = [SigTick [] (Returned zeroWorkerResult True)] @ SigDone sample_worker False # []"
    "aa_signals (sample_answers 1) = [SigTick [] (Returned zeroWorkerResult True)] @
      SigDone (zeroWorkerResult\<lparr>wr_ErrorCode := ''worker_lost'', wr_Cleanup := noResourceCleanup (sample_id ''bld'')\<rparr>) True # []"
    by (simp_all add: sample_answers_def)
  have fits: "report_fits (sample_id ''bld'') (noResourceCleanup (sample_id ''bld''))"
    by (simp add: report_fits_def) (simp add: noResourceCleanup_def)
  have or: "or_attempt sample_surroundings = sample_answers" "or_clock sample_surroundings n = sample_now" for n
    by (simp_all add: sample_surroundings_def)
  have id: "pl_BuildID (va_Payload sample_verified) = sample_id ''bld''" by (simp add: sample_verified_def sample_payload_def)
  have w: "wr_Cleanup sample_worker = noResourceCleanup (sample_id ''bld'')" by (simp add: sample_worker_def)
  have ans: "aa_acquire (sample_answers n) = (fst (aa_acquire (sample_answers n)), False)" "aa_allocate (sample_answers n) = Inr ''worker''"
    "aa_release (sample_answers n) = (noResourceCleanup (sample_id ''bld''), False)" for n
    by (simp_all add: sample_answers_def)
  show "delivers sample_surroundings sample_verified (sample_now + 30 * minute) 2 sample_worker False"
    unfolding delivers_def Let_def or id
    by (intro exI conjI allI, rule ans, rule sample_lease, rule ans, simp, rule sig, simp, rule ans, rule fits, simp add: w fits)
  show "delivers sample_surroundings sample_verified (sample_now + 30 * minute) 1
     (zeroWorkerResult\<lparr>wr_ErrorCode := ''worker_lost'', wr_Cleanup := noResourceCleanup (sample_id ''bld'')\<rparr>) True"
    unfolding delivers_def Let_def or id
    by (intro exI conjI allI, rule ans, rule sample_lease, rule ans, simp, rule sig, simp, rule ans, rule fits, simp add: fits)
qed

lemma sample_completes: "completes sample_surroundings sample_resolved (sample_now + 30 * minute) 2 sample_worker"
proof -
  have "check_unique (\<lambda>output. if valid_output output then None else Some ()) ou_Name () [] (wr_Outputs sample_worker) = None"
    using sample_output_valid(1) by (simp add: sample_worker_def)
  moreover have "ra_Verified sample_resolved = sample_verified" by (simp add: sample_resolved_def)
  ultimately show ?thesis
    using sample_delivers(1) sample_worker_valid unfolding completes_def by (simp add: sample_worker_def)
qed

lemma sample_loses: "list_all (loses sample_surroundings sample_verified (sample_now + 30 * minute)) (attempts_from 1 (2 - 1))"
proof -
  have "loses sample_surroundings sample_verified (sample_now + 30 * minute) 1"
    unfolding loses_def using sample_delivers(2) by (intro conjI exI) (auto simp: sample_surroundings_def sample_answers_def)
  then show ?thesis by (simp add: attempts_from_def)
qed

lemma sample_facts:
  "lease_ttl_ok sample_controller" "co_MaxAttempts sample_controller = 3"
  "Verify sample_assignment_lib sample_verifier (or_clock sample_surroundings (wd_clock sample_world)) sample_envelope = Inr sample_verified"
  "rfc3339_utc (pl_ExpiresAt (va_Payload sample_verified)) = Some (sample_now + 30 * minute)"
  "has_id_prefix (pl_BuildID (va_Payload sample_verified)) ''bld''" "pl_Generation (va_Payload sample_verified) \<noteq> 0"
  "digest_pattern (bytesDigest (as_audit sample_assignment_lib) x)" "or_owner sample_surroundings = Some ''run-a''"
  "mget (wd_runs sample_world) (pl_BuildID (va_Payload sample_verified)) = None"
  using sample_verified_ok sample_time(2) bytesDigest_sample
  by (simp_all add: lease_ttl_ok_def sample_controller_def sample_surroundings_def sample_verified_def sample_payload_def allowedPrefixes_def
      sample_assignment_lib_def sample_world_def)

abbreviation sample_run :: "(control_error + Result) \<times> run_map world" where
  "sample_run \<equiv> Run MemoryExec sample_surroundings sample_assignment_lib sample_controller sample_verifier (\<lambda>_. Inr ReservationAccepted)
     (\<lambda>_ _. Stream ''x'' True) sample_envelope sample_world"

lemma sample_attempt: "(1 :: uint32) \<le> 2" "(2 :: uint32) \<le> co_MaxAttempts sample_controller" "(2 :: uint32) \<le> DefaultMaxAttempts"
  by (simp_all add: sample_facts DefaultMaxAttempts_def)

lemma sample_run_completes:
  obtains result w' where "sample_run = (Inr result, w')" "\<not> re_Replay result" "re_Phase result = PhaseComplete"
  using Run_progress [OF sample_healthy sample_facts(1) sample_attempt(3) sample_facts(3-7) refl sample_facts(8) runOwnerPattern_samples(1)
      sample_facts(9) sample_resolved_ok sample_completes sample_attempt(1,2) sample_loses]
  by blast

theorem Run_completes_witness:
  "\<exists>result w'. sample_run = (Inr result, w') \<and> re_Phase result = PhaseComplete \<and> re_Attempts result = 2"
  using Run_completes [OF sample_healthy sample_facts(1) sample_attempt(3) sample_facts(3-7) refl sample_facts(8) runOwnerPattern_samples(1)
      sample_facts(9) sample_resolved_ok sample_completes sample_attempt(1,2) sample_loses]
  by blast

theorem Run_result_durable_witness:
  "\<exists>result w' b r. sample_run = (Inr result, w') \<and> mget (wd_runs w') b = Some r \<and> Terminal (rr_Result r)"
  by (rule sample_run_completes) (use Run_result_durable in blast)

theorem Run_complete_proven_witness:
  "\<exists>result w' assignment. sample_run = (Inr result, w') \<and> re_Phase result = PhaseComplete \<and>
     validateSuccessfulResult assignment (re_Worker result) \<and> cleanupProvenClean (re_Cleanup result)"
  by (rule sample_run_completes) (use Run_complete_proven in blast)

end
