(* ===== verification/Meter.thy ===== *)
theory Meter
  imports Go_Codec Platform_Id
begin

text \<open>
  The usage meter (\<^verbatim>\<open>src/services/telemetry/internal/meter/meter.go\<close>): signed usage facts are verified
  and appended to a journal that keeps, per source and epoch, the digest of every sequence number and
  a watermark below which no sequence number is missing. Canonical JSON, SHA-256 and Ed25519 are
  parameters.
\<close>

section \<open>Facts\<close>

record Fact =
  fc_FactID :: string
  fc_OrganizationID :: string
  fc_ResourceID :: string
  fc_SourceID :: string
  fc_SourceEpoch :: string
  fc_Sequence :: uint64
  fc_MeterType :: string
  fc_Quantity :: int
  fc_Unit :: string
  fc_StartTime :: time
  fc_EndTime :: time
  fc_CorrelationID :: string
  fc_CorrectionOf :: string
  fc_Attributes :: "string strmap"
  fc_KeyID :: string
  fc_Signature :: string

record VerifiedFact =
  vf_Fact :: Fact
  vf_Digest :: string

record BatchResult =
  br_Accepted :: nat
  br_Duplicates :: nat
  br_MissingSequences :: "uint64 list strmap"
  br_Watermarks :: "uint64 strmap"

record meter_lib =
  ml_json :: "Fact \<Rightarrow> string option"
  ml_sha :: "string \<Rightarrow> uint8 list"
  ml_sign :: "string \<Rightarrow> string \<Rightarrow> uint8 list"
  ml_verify :: "string \<Rightarrow> string \<Rightarrow> uint8 list \<Rightarrow> bool"

definition MaxBatchFacts :: nat where "MaxBatchFacts = 1000"
definition MaxFactWindow :: duration where "MaxFactWindow = 24 * hour"
definition FutureSkew :: duration where "FutureSkew = 5 * minute"

definition factSigningBytes :: "meter_lib \<Rightarrow> Fact \<Rightarrow> string option" where
  "factSigningBytes l item = ml_json l (item\<lparr>fc_Signature := []\<rparr>)"

definition SignFact :: "meter_lib \<Rightarrow> Fact \<Rightarrow> string \<Rightarrow> string \<Rightarrow> Fact option" where
  "SignFact l item keyID privateKey =
     (if keyID = [] \<or> length privateKey \<noteq> 64 then None
      else let unsigned = item\<lparr>fc_KeyID := keyID, fc_Signature := []\<rparr> in
        case factSigningBytes l unsigned of None \<Rightarrow> None
        | Some payload \<Rightarrow> Some (unsigned\<lparr>fc_Signature := b64std_encode (ml_sign l privateKey payload)\<rparr>))"

definition allowedUnits :: "string strmap" where
  "allowedUnits = [(''compute_cpu_seconds'', ''cpu_second''), (''compute_memory_bytes_seconds'', ''byte_second''),
     (''storage_bytes_seconds'', ''byte_second''), (''network_egress_bytes'', ''byte''), (''build_seconds'', ''second''),
     (''cdn_requests'', ''request''), (''cdn_bytes'', ''byte'')]"

definition is_id :: "string \<Rightarrow> bool" where
  "is_id s \<longleftrightarrow> (case Parse s of Inl _ \<Rightarrow> False | Inr _ \<Rightarrow> True)"

definition verify_fact :: "meter_lib \<Rightarrow> string strmap strmap \<Rightarrow> time \<Rightarrow> Fact \<Rightarrow> string + string" where
  "verify_fact l sourceKeys now item =
     (if \<not> has_id_prefix (fc_FactID item) ''use'' then Inl ''fact ID is invalid''
      else if \<not> has_id_prefix (fc_OrganizationID item) ''org'' then Inl ''organization ID is invalid''
      else if \<not> is_id (fc_ResourceID item) then Inl ''resource ID is invalid''
      else if fc_SourceID item = [] \<or> fc_SourceEpoch item = [] \<or> fc_Sequence item = 0 \<or> fc_CorrelationID item = []
      then Inl ''source, sequence, and correlation are required''
      else if mget allowedUnits (fc_MeterType item) \<noteq> Some (fc_Unit item) then Inl ''meter type or unit is invalid''
      else if fc_Quantity item = 0 \<or> (fc_Quantity item < 0 \<and> fc_CorrectionOf item = [])
      then Inl ''quantity requires a positive measurement or named correction''
      else if \<not> fc_EndTime item > fc_StartTime item \<or> time_sub (fc_EndTime item) (fc_StartTime item) > MaxFactWindow \<or>
              fc_EndTime item > now + FutureSkew
      then Inl ''fact time window is outside policy''
      else case mget sourceKeys (fc_SourceID item) of None \<Rightarrow> Inl ''source is not trusted''
      | Some keys \<Rightarrow>
      (case mget keys (fc_KeyID item) of None \<Rightarrow> Inl ''source key is not trusted''
       | Some key \<Rightarrow>
         if length key \<noteq> 32 then Inl ''source key is not trusted''
         else case b64std_decode (fc_Signature item) of None \<Rightarrow> Inl ''signature encoding is invalid''
         | Some signature \<Rightarrow>
           if length signature \<noteq> 64 then Inl ''signature encoding is invalid''
           else case factSigningBytes l item of None \<Rightarrow> Inl ''signing payload canonicalization failed''
           | Some payload \<Rightarrow>
             if \<not> ml_verify l key payload signature then Inl ''signature verification failed''
             else case ml_json l item of None \<Rightarrow> Inl ''fact canonicalization failed''
             | Some full \<Rightarrow> Inr (''sha256:'' @ hex_encode (ml_sha l full))))"

section \<open>The journal\<close>

lemma unat_bound: "unat w < 2 ^ LENGTH('a)" for w :: "'a::len word"
  by (rule unsigned_less)

lemma unat_inc:
  fixes a b :: "'a::len word"
  assumes "a < b"
  shows "unat (a + 1) = Suc (unat a)"
proof -
  have "Suc (unat a) < 2 ^ LENGTH('a)" using assms unat_bound [of b] unfolding word_less_nat_alt by linarith
  then show ?thesis by (simp add: unat_word_ariths(1) unat_1)
qed

record sourceState =
  ss_watermark :: uint64
  ss_records :: "(uint64, string) gomap"

type_synonym meter_journal = "sourceState strmap"

definition sourceKey :: "Fact \<Rightarrow> string" where
  "sourceKey item = fc_SourceID item @ ''/'' @ fc_SourceEpoch item"

definition records_of :: "sourceState option \<Rightarrow> (uint64, string) gomap" where
  "records_of state = (case state of None \<Rightarrow> [] | Some s \<Rightarrow> ss_records s)"

definition clashes :: "string option \<Rightarrow> string \<Rightarrow> bool" where
  "clashes existing digest \<longleftrightarrow> (case existing of None \<Rightarrow> False | Some d \<Rightarrow> d \<noteq> digest)"

text \<open>The first pass refuses the batch before anything is stored.\<close>

fun check_facts :: "meter_journal \<Rightarrow> (uint64, string) gomap strmap \<Rightarrow> VerifiedFact list \<Rightarrow> string option" where
  "check_facts journal batch [] = None"
| "check_facts journal batch (f # fs) =
     (let key = sourceKey (vf_Fact f); n = fc_Sequence (vf_Fact f);
          seen = (case mget batch key of None \<Rightarrow> [] | Some m \<Rightarrow> m) in
      if clashes (mget seen n) (vf_Digest f) then Some ''sequence is inconsistent within the batch''
      else if clashes (mget (records_of (mget journal key)) n) (vf_Digest f) then Some ''sequence was reused with different content''
      else check_facts journal (mput key (mput n (vf_Digest f) seen) batch) fs)"

fun append_facts :: "VerifiedFact list \<Rightarrow> meter_journal \<times> nat \<times> nat \<Rightarrow> meter_journal \<times> nat \<times> nat" where
  "append_facts [] acc = acc"
| "append_facts (f # fs) (journal, accepted, duplicates) =
     (let key = sourceKey (vf_Fact f); n = fc_Sequence (vf_Fact f);
          state = (case mget journal key of None \<Rightarrow> \<lparr>ss_watermark = 0, ss_records = []\<rparr> | Some s \<Rightarrow> s) in
      if mget (ss_records state) n \<noteq> None then append_facts fs (mput key state journal, accepted, Suc duplicates)
      else append_facts fs (mput key (state\<lparr>ss_records := mput n (vf_Digest f) (ss_records state)\<rparr>) journal, Suc accepted, duplicates))"

text \<open>The loop that raises the watermark. Its counter wraps, so it need not end for every map.\<close>

partial_function (option) advance :: "(uint64, string) gomap \<Rightarrow> uint64 \<Rightarrow> uint64 option" where
  "advance records watermark =
     (if mget records (watermark + 1) = None then Some watermark else advance records (watermark + 1))"

function missing_from :: "(uint64, string) gomap \<Rightarrow> uint64 \<Rightarrow> uint64 \<Rightarrow> uint64 list \<Rightarrow> uint64 list" where
  "missing_from records missing maximum found =
     (if missing < maximum \<and> length found < 1000
      then missing_from records (missing + 1) maximum (if mget records missing = None then found @ [missing] else found)
      else found)"
  by pat_completeness auto
termination
proof (relation "measure (\<lambda>(records, missing, maximum, found). unat maximum - unat missing)", goal_cases)
  case (2 records missing maximum found)
  then have less: "missing < maximum" by simp
  then have "unat (missing + 1) = Suc (unat missing)" by (rule unat_inc)
  then show ?case using less by (simp add: word_less_nat_alt)
qed simp

declare missing_from.simps [simp del]

definition missing_sequences :: "sourceState \<Rightarrow> uint64 list" where
  "missing_sequences state =
     (let sequences = sort (map fst (ss_records state)) in
      if sequences = [] then [] else missing_from (ss_records state) (ss_watermark state + 1) (last sequences) [])"

fun settle_sources :: "meter_journal \<Rightarrow> (meter_journal \<times> uint64 list strmap \<times> uint64 strmap) option" where
  "settle_sources [] = Some ([], [], [])"
| "settle_sources ((key, state) # rest) =
     (case advance (ss_records state) (ss_watermark state) of None \<Rightarrow> None
      | Some w \<Rightarrow>
      (case settle_sources rest of None \<Rightarrow> None
       | Some (journal, missing, watermarks) \<Rightarrow>
           let state' = state\<lparr>ss_watermark := w\<rparr>; gaps = missing_sequences state' in
           Some ((key, state') # journal, (if gaps = [] then missing else (key, gaps) # missing), (key, w) # watermarks)))"

text \<open>\<open>None\<close> when the call does not return.\<close>

definition AppendBatch :: "bool \<Rightarrow> VerifiedFact list \<Rightarrow> meter_journal \<Rightarrow> ((string + BatchResult) \<times> meter_journal) option" where
  "AppendBatch canceled facts journal =
     (if canceled then Some (Inl ''context'', journal)
      else case check_facts journal [] facts of Some e \<Rightarrow> Some (Inl e, journal)
      | None \<Rightarrow>
      (case append_facts facts (journal, 0, 0) of (journal1, accepted, duplicates) \<Rightarrow>
      (case settle_sources journal1 of None \<Rightarrow> None
       | Some (journal2, missing, watermarks) \<Rightarrow>
           Some (Inr \<lparr>br_Accepted = accepted, br_Duplicates = duplicates, br_MissingSequences = missing, br_Watermarks = watermarks\<rparr>,
                 journal2))))"

text \<open>Every fact is checked at its own reading of the clock; \<open>clock i\<close> is the one for fact \<open>i\<close>.\<close>

fun verify_facts :: "meter_lib \<Rightarrow> string strmap strmap \<Rightarrow> (nat \<Rightarrow> time) \<Rightarrow> Fact list \<Rightarrow> string + VerifiedFact list" where
  "verify_facts l keys clock [] = Inr []"
| "verify_facts l keys clock (f # fs) =
     (case verify_fact l keys (clock 0) f of Inl e \<Rightarrow> Inl e
      | Inr digest \<Rightarrow>
      (case verify_facts l keys (clock \<circ> Suc) fs of Inl e \<Rightarrow> Inl e | Inr vs \<Rightarrow> Inr (\<lparr>vf_Fact = f, vf_Digest = digest\<rparr> # vs)))"

definition Ingest :: "meter_lib \<Rightarrow> string strmap strmap \<Rightarrow> (nat \<Rightarrow> time) \<Rightarrow> bool \<Rightarrow> Fact list \<Rightarrow> meter_journal \<Rightarrow>
    ((string + BatchResult) \<times> meter_journal) option" where
  "Ingest l keys clock canceled facts journal =
     (if facts = [] \<or> length facts > MaxBatchFacts then Some (Inl ''batch size is outside policy'', journal)
      else case verify_facts l keys clock facts of Inl e \<Rightarrow> Some (Inl e, journal)
      | Inr verified \<Rightarrow> AppendBatch canceled verified journal)"

section \<open>The watermark\<close>

text \<open>The loop ends as soon as some sequence number is not recorded.\<close>

lemma advance_returns:
  assumes "mget records (w + of_nat (Suc n)) = None"
  shows "\<exists>w'. advance records w = Some w'"
  using assms
proof (induction n arbitrary: w)
  case 0
  then show ?case by (simp add: advance.simps [of records w])
next
  case (Suc n)
  show ?case
  proof (cases "mget records (w + 1) = None")
    case False
    have "mget records (w + 1 + of_nat (Suc n)) = None" using Suc.prems by (simp add: algebra_simps)
    then show ?thesis using Suc.IH [of "w + 1"] False by (simp add: advance.simps [of records w])
  qed (simp add: advance.simps [of records w])
qed

lemma advance_zero_missing:
  assumes "mget records 0 = None"
  shows "\<exists>w'. advance records w = Some w'"
proof -
  let ?n = "2 ^ 64 - 1 - unat w"
  have "w + of_nat (Suc ?n) = of_nat (unat w + Suc ?n)" by simp
  also have "unat w + Suc ?n = 2 ^ 64" using unat_bound [of w] by simp
  also have "(of_nat (2 ^ 64) :: uint64) = 0" by simp
  finally show ?thesis using advance_returns [of records w ?n] assms by simp
qed

text \<open>All sequence numbers from 1 to the watermark are recorded.\<close>

definition filled :: "(uint64, string) gomap \<Rightarrow> uint64 \<Rightarrow> bool" where
  "filled records w \<longleftrightarrow> (\<forall>s. 1 \<le> s \<and> s \<le> w \<longrightarrow> mget records s \<noteq> None)"

lemma filled_inc:
  assumes "filled records w" "mget records (w + 1) \<noteq> None" "mget records 0 = None"
  shows "filled records (w + 1)"
  unfolding filled_def
proof (intro allI impI)
  fix s assume s: "1 \<le> s \<and> s \<le> w + 1"
  show "mget records s \<noteq> None"
  proof (cases "s = w + 1")
    case False
    have "w + 1 \<noteq> 0" using assms(2,3) by auto
    then have "unat (w + 1) = Suc (unat w)" using unatSuc [of w] by (simp add: add.commute)
    moreover have "s < w + 1" using s False by (simp add: order_less_le)
    ultimately have "s \<le> w" by (simp add: word_less_nat_alt word_le_nat_alt)
    then show ?thesis using assms(1) s by (simp add: filled_def)
  qed (use assms(2) in simp)
qed

lemma advance_filled:
  "advance records w = Some w' \<Longrightarrow> filled records w \<Longrightarrow> mget records 0 = None \<Longrightarrow>
   filled records w' \<and> mget records (w' + 1) = None"
proof (induction rule: advance.raw_induct [rotated 1, consumes 1])
  case (1 adv records w w')
  show ?case
  proof (cases "mget records (w + 1) = None")
    case True
    then show ?thesis using 1 by simp
  next
    case False
    then have "adv records (w + 1) = Some w'" "filled records (w + 1)" using 1 filled_inc by auto
    then show ?thesis using 1 by blast
  qed
qed

end
