(* ===== verification/Meter_Laws.thy ===== *)
theory Meter_Laws
  imports Meter
begin

text \<open>
  The journal of the usage meter: every batch returns, watermarks are exact, each fact is counted
  once, and sending a batch again changes nothing.
\<close>

section \<open>Where a fact is stored\<close>

definition place :: "VerifiedFact \<Rightarrow> string \<times> uint64" where
  "place f = (sourceKey (vf_Fact f), fc_Sequence (vf_Fact f))"

definition stored :: "meter_journal \<Rightarrow> string \<times> uint64 \<Rightarrow> string option" where
  "stored journal p = mget (records_of (mget journal (fst p))) (snd p)"

definition batched :: "(uint64, string) gomap strmap \<Rightarrow> string \<times> uint64 \<Rightarrow> string option" where
  "batched batch p = mget (case mget batch (fst p) of None \<Rightarrow> [] | Some m \<Rightarrow> m) (snd p)"

lemma mput_same: "mget m k = Some v \<Longrightarrow> mput k v m = m"
  by (induction m) (auto split: if_splits)

definition fresh_state :: "sourceState option \<Rightarrow> sourceState" where
  "fresh_state state = (case state of None \<Rightarrow> \<lparr>ss_watermark = 0, ss_records = []\<rparr> | Some s \<Rightarrow> s)"

lemma records_fresh: "ss_records (fresh_state state) = records_of state"
  by (simp add: fresh_state_def records_of_def split: option.split)

definition put_fact :: "VerifiedFact \<Rightarrow> meter_journal \<Rightarrow> meter_journal" where
  "put_fact f journal =
     (let state = fresh_state (mget journal (fst (place f))) in
      mput (fst (place f)) (if stored journal (place f) = None
        then state\<lparr>ss_records := mput (snd (place f)) (vf_Digest f) (ss_records state)\<rparr> else state) journal)"

lemma append_facts_Cons:
  "append_facts (f # fs) (journal, a, d) =
     append_facts fs (put_fact f journal, if stored journal (place f) = None then Suc a else a,
       if stored journal (place f) = None then d else Suc d)"
  by (cases "mget journal (sourceKey (vf_Fact f))")
    (auto simp: put_fact_def place_def stored_def fresh_state_def records_of_def Let_def)

declare append_facts.simps(2) [simp del]

lemma stored_put_fact:
  "stored (put_fact f journal) p =
     (if p = place f then Some (case stored journal p of None \<Rightarrow> vf_Digest f | Some d \<Rightarrow> d) else stored journal p)"
  by (cases p; cases "place f") (auto simp: stored_def put_fact_def records_of_def fresh_state_def Let_def split: option.splits)

lemma append_facts_stored:
  "stored (fst (append_facts fs (journal, a, d))) p =
     (case stored journal p of Some x \<Rightarrow> Some x | None \<Rightarrow> map_of (map (\<lambda>f. (place f, vf_Digest f)) fs) p)"
  by (induction fs arbitrary: journal a d) (auto simp: append_facts_Cons stored_put_fact split: option.split)

lemma append_facts_counts:
  "append_facts fs (journal, a, d) = (journal', a', d') \<Longrightarrow> a' + d' = a + d + length fs"
  by (induction fs arbitrary: journal a d) (auto simp: append_facts_Cons split: if_splits)

section \<open>Accepted batches\<close>

definition agrees :: "string option \<Rightarrow> string \<Rightarrow> bool" where
  "agrees existing digest \<longleftrightarrow> existing = None \<or> existing = Some digest"

lemma clashes_iff: "clashes existing digest \<longleftrightarrow> \<not> agrees existing digest"
  by (auto simp: clashes_def agrees_def split: option.splits)

definition batch_with :: "VerifiedFact \<Rightarrow> (uint64, string) gomap strmap \<Rightarrow> (uint64, string) gomap strmap" where
  "batch_with f batch =
     mput (fst (place f)) (mput (snd (place f)) (vf_Digest f) (case mget batch (fst (place f)) of None \<Rightarrow> [] | Some m \<Rightarrow> m)) batch"

lemma batched_with: "batched (batch_with f batch) p = (if p = place f then Some (vf_Digest f) else batched batch p)"
  by (cases p; cases "place f") (auto simp: batched_def batch_with_def split: option.split)

lemma check_facts_Cons:
  "check_facts journal batch (f # fs) = None \<longleftrightarrow>
     agrees (batched batch (place f)) (vf_Digest f) \<and> agrees (stored journal (place f)) (vf_Digest f) \<and>
     check_facts journal (batch_with f batch) fs = None"
  by (simp add: clashes_iff batched_def stored_def place_def batch_with_def Let_def)

declare check_facts.simps(2) [simp del]

text \<open>The facts of a batch agree with each other: no place has two digests.\<close>

definition consistent :: "VerifiedFact list \<Rightarrow> bool" where
  "consistent fs \<longleftrightarrow> (\<forall>f \<in> set fs. \<forall>g \<in> set fs. place f = place g \<longrightarrow> vf_Digest f = vf_Digest g)"

lemma consistent_Cons:
  "consistent (f # fs) \<longleftrightarrow> consistent fs \<and> (\<forall>g \<in> set fs. place g = place f \<longrightarrow> vf_Digest g = vf_Digest f)"
proof -
  have "(\<forall>g \<in> set fs. place f = place g \<longrightarrow> vf_Digest f = vf_Digest g) \<longleftrightarrow>
      (\<forall>g \<in> set fs. place g = place f \<longrightarrow> vf_Digest g = vf_Digest f)"
    by metis
  then show ?thesis unfolding consistent_def list.set ball_simps ball_conj_distrib by argo
qed

lemma agrees_batch_with:
  assumes "agrees (batched batch (place f)) (vf_Digest f)"
  shows "agrees (batched (batch_with f batch) (place g)) (vf_Digest g) \<longleftrightarrow>
    (place g = place f \<longrightarrow> vf_Digest g = vf_Digest f) \<and> agrees (batched batch (place g)) (vf_Digest g)"
proof (cases "place g = place f")
  case True
  then show ?thesis using assms by (simp add: batched_with agrees_def) metis
qed (simp add: batched_with)

lemma check_facts_iff:
  "check_facts journal batch fs = None \<longleftrightarrow>
     (\<forall>f \<in> set fs. agrees (stored journal (place f)) (vf_Digest f)) \<and>
     (\<forall>f \<in> set fs. agrees (batched batch (place f)) (vf_Digest f)) \<and> consistent fs"
proof (induction fs arbitrary: batch)
  case (Cons f fs)
  show ?case
  proof (cases "agrees (batched batch (place f)) (vf_Digest f)")
    case True
    show ?thesis unfolding check_facts_Cons Cons.IH agrees_batch_with [OF True] ball_conj_distrib consistent_Cons list.set ball_simps
      using True by argo
  qed (simp add: check_facts_Cons)
qed (simp add: consistent_def)

lemma map_of_places:
  assumes "f \<in> set fs" "consistent fs"
  shows "map_of (map (\<lambda>f. (place f, vf_Digest f)) fs) (place f) = Some (vf_Digest f)"
  using assms by (induction fs) (auto simp: consistent_Cons)

lemma accepted_stored:
  assumes "check_facts journal [] fs = None" "f \<in> set fs"
  shows "stored (fst (append_facts fs (journal, a, d))) (place f) = Some (vf_Digest f)"
proof -
  have "agrees (stored journal (place f)) (vf_Digest f)"
    "map_of (map (\<lambda>f. (place f, vf_Digest f)) fs) (place f) = Some (vf_Digest f)"
    using assms map_of_places unfolding check_facts_iff by blast+
  then show ?thesis by (auto simp: append_facts_stored agrees_def)
qed

lemma append_stored:
  "\<forall>f \<in> set fs. stored journal (place f) \<noteq> None \<Longrightarrow> append_facts fs (journal, a, d) = (journal, a, d + length fs)"
proof (induction fs arbitrary: d)
  case (Cons f fs)
  have "stored journal (place f) \<noteq> None" using Cons.prems by simp
  moreover have "put_fact f journal = journal"
  proof -
    obtain s where "mget journal (fst (place f)) = Some s"
      using Cons.prems by (cases "mget journal (fst (place f))") (auto simp: stored_def records_of_def)
    then show ?thesis using Cons.prems by (auto simp: put_fact_def fresh_state_def mput_same Let_def)
  qed
  ultimately show ?case using Cons by (auto simp: append_facts_Cons)
qed simp

section \<open>The invariant\<close>

definition state_ok :: "sourceState \<Rightarrow> bool" where
  "state_ok s \<longleftrightarrow> wf_map (ss_records s) \<and> mget (ss_records s) 0 = None \<and> filled (ss_records s) (ss_watermark s)"

definition journal_ok :: "meter_journal \<Rightarrow> bool" where
  "journal_ok journal \<longleftrightarrow> wf_map journal \<and> list_all (\<lambda>(k, s). state_ok s) journal"

definition facts_total :: "meter_journal \<Rightarrow> nat" where
  "facts_total journal = sum_list (map (\<lambda>(k, s). length (ss_records s)) journal)"

lemma filled_mput: "filled records w \<Longrightarrow> filled (mput n x records) w"
  by (simp add: filled_def)

lemma state_ok_fresh: "journal_ok journal \<Longrightarrow> state_ok (fresh_state (mget journal k))"
  by (auto simp: fresh_state_def journal_ok_def list_all_iff state_ok_def filled_def wf_map_def dest!: map_of_SomeD split: option.split)

lemma wf_put_fact: "journal_ok journal \<Longrightarrow> snd (place f) \<noteq> 0 \<Longrightarrow> journal_ok (put_fact f journal)"
proof -
  assume j: "journal_ok journal" and z: "snd (place f) \<noteq> 0"
  let ?s = "fresh_state (mget journal (fst (place f)))"
  have s: "state_ok ?s" using state_ok_fresh [OF j] .
  then have "state_ok (?s\<lparr>ss_records := mput (snd (place f)) (vf_Digest f) (ss_records ?s)\<rparr>)"
    using z by (simp add: state_ok_def filled_mput)
  then have "state_ok (if stored journal (place f) = None
      then ?s\<lparr>ss_records := mput (snd (place f)) (vf_Digest f) (ss_records ?s)\<rparr> else ?s)" using s by simp
  then show ?thesis using j list_all_mput [of "\<lambda>(k, s). state_ok s" journal]
    by (simp add: journal_ok_def put_fact_def Let_def)
qed

lemma append_facts_ok:
  "journal_ok journal \<Longrightarrow> \<forall>f \<in> set fs. snd (place f) \<noteq> 0 \<Longrightarrow> journal_ok (fst (append_facts fs (journal, a, d)))"
  by (induction fs arbitrary: journal a d) (simp_all add: append_facts_Cons wf_put_fact)

lemma total_mput:
  "wf_map journal \<Longrightarrow> facts_total (mput k s journal) + length (records_of (mget journal k)) = facts_total journal + length (ss_records s)"
  by (induction journal) (auto simp: facts_total_def records_of_def wf_map_def split: option.split)

lemma total_put_fact:
  assumes "wf_map journal"
  shows "facts_total (put_fact f journal) = (if stored journal (place f) = None then Suc (facts_total journal) else facts_total journal)"
proof -
  let ?k = "fst (place f)" and ?n = "snd (place f)"
  let ?s = "fresh_state (mget journal ?k)"
  have len: "length (records_of (mget journal ?k)) = length (ss_records ?s)" by (simp only: records_fresh)
  show ?thesis
  proof (cases "stored journal (place f) = None")
    case True
    have "length (mput ?n (vf_Digest f) (ss_records ?s)) = Suc (length (ss_records ?s))"
      using True by (simp add: stored_def records_fresh length_mput)
    then show ?thesis
      using total_mput [OF assms, of ?k "?s\<lparr>ss_records := mput ?n (vf_Digest f) (ss_records ?s)\<rparr>"] True len
      by (simp add: put_fact_def Let_def)
  next
    case False
    then show ?thesis using total_mput [OF assms, of ?k ?s] len by (auto simp: put_fact_def Let_def)
  qed
qed

lemma append_facts_total:
  "journal_ok journal \<Longrightarrow> \<forall>f \<in> set fs. snd (place f) \<noteq> 0 \<Longrightarrow> append_facts fs (journal, a, d) = (journal', a', d') \<Longrightarrow>
   facts_total journal' + a = facts_total journal + a'"
proof (induction fs arbitrary: journal a d)
  case (Cons f fs)
  have "wf_map journal" using Cons.prems(1) by (simp add: journal_ok_def)
  then have t: "facts_total (put_fact f journal) = (if stored journal (place f) = None then Suc (facts_total journal) else facts_total journal)"
    by (rule total_put_fact)
  have ok: "journal_ok (put_fact f journal)" using wf_put_fact Cons.prems(1,2) by simp
  show ?case
  proof (cases "stored journal (place f) = None")
    case True
    then show ?thesis using Cons.IH [OF ok, of "Suc a" d] Cons.prems t by (simp add: append_facts_Cons)
  next
    case False
    then have "append_facts fs (put_fact f journal, a, Suc d) = (journal', a', d')" "facts_total (put_fact f journal) = facts_total journal"
      using Cons.prems(3) t by (auto simp: append_facts_Cons)
    then show ?thesis using Cons.IH [OF ok, of a "Suc d"] Cons.prems by simp
  qed
qed simp

section \<open>Settling the watermarks\<close>

definition exact :: "string \<times> sourceState \<Rightarrow> bool" where
  "exact ks \<longleftrightarrow> state_ok (snd ks) \<and> mget (ss_records (snd ks)) (ss_watermark (snd ks) + 1) = None"

definition same_records :: "string \<times> sourceState \<Rightarrow> string \<times> sourceState \<Rightarrow> bool" where
  "same_records x y \<longleftrightarrow> fst x = fst y \<and> ss_records (snd x) = ss_records (snd y)"

lemma settle_sources_ok:
  "list_all (\<lambda>(k, s). state_ok s) journal \<Longrightarrow>
   \<exists>journal' missing. settle_sources journal = Some (journal', missing, map (\<lambda>(k, s). (k, ss_watermark s)) journal') \<and>
     list_all exact journal' \<and> list_all2 same_records journal journal'"
proof (induction journal)
  case (Cons x journal)
  obtain k s where x: "x = (k, s)" by fastforce
  have ok: "state_ok s" using Cons.prems x by simp
  then obtain w where w: "advance (ss_records s) (ss_watermark s) = Some w" using advance_zero_missing by (auto simp: state_ok_def)
  then have "exact (k, s\<lparr>ss_watermark := w\<rparr>)" using advance_filled ok by (simp add: exact_def state_ok_def)
  moreover have "same_records (k, s) (k, s\<lparr>ss_watermark := w\<rparr>)" by (simp add: same_records_def)
  ultimately show ?case using Cons x w by (auto simp: Let_def)
qed simp

lemma settle_sources_exact: "list_all exact journal \<Longrightarrow> \<exists>missing marks. settle_sources journal = Some (journal, missing, marks)"
proof (induction journal)
  case (Cons x journal)
  obtain k s where x: "x = (k, s)" by fastforce
  have "advance (ss_records s) (ss_watermark s) = Some (ss_watermark s)"
    using Cons.prems x by (simp add: exact_def advance.simps [of "ss_records s" "ss_watermark s"])
  then show ?case using Cons x by (auto simp: Let_def)
qed simp

lemma same_records_stored: "list_all2 same_records journal journal' \<Longrightarrow> stored journal' p = stored journal p"
  by (induction rule: list_all2_induct) (auto simp: same_records_def stored_def records_of_def)

lemma same_records_total: "list_all2 same_records journal journal' \<Longrightarrow> facts_total journal' = facts_total journal"
  by (induction rule: list_all2_induct) (auto simp: same_records_def facts_total_def)

lemma same_records_keys: "list_all2 same_records journal journal' \<Longrightarrow> map fst journal' = map fst journal"
  by (induction rule: list_all2_induct) (auto simp: same_records_def)

lemma exact_ok: "list_all exact journal \<Longrightarrow> list_all (\<lambda>(k, s). state_ok s) journal"
  by (auto simp: list_all_iff exact_def)

text \<open>The gaps that are reported, as a list.\<close>

lemma missing_from_eq:
  "missing_from records m x found =
     found @ take (1000 - length found) (filter (\<lambda>s. mget records s = None) (map of_nat [unat m ..< unat x]))"
proof (induction records m x found rule: missing_from.induct)
  case (1 records m x found)
  show ?case
  proof (cases "m < x \<and> length found < 1000")
    case True
    have "unat (m + 1) = Suc (unat m)" using unat_inc True by blast
    moreover have "[unat m ..< unat x] = unat m # [Suc (unat m) ..< unat x]" using True by (simp add: upt_conv_Cons word_less_nat_alt)
    moreover have "1000 - length found = Suc (1000 - Suc (length found))" using True by linarith
    ultimately show ?thesis using 1 True by (simp add: missing_from.simps [of records m x found])
  next
    case False
    then have "[unat m ..< unat x] = [] \<or> 1000 - length found = 0" by (auto simp: word_less_nat_alt not_less)
    then show ?thesis using False by (auto simp: missing_from.simps [of records m x found])
  qed
qed

section \<open>The guarantees of the journal\<close>

lemma accepted_batch:
  assumes "journal_ok journal" "\<forall>f \<in> set facts. snd (place f) \<noteq> 0" "check_facts journal [] facts = None"
  obtains journal1 a d journal' missing where
    "append_facts facts (journal, 0, 0) = (journal1, a, d)" "journal_ok journal1" "list_all2 same_records journal1 journal'"
    "list_all exact journal'" "journal_ok journal'"
    "AppendBatch False facts journal =
       Some (Inr \<lparr>br_Accepted = a, br_Duplicates = d, br_MissingSequences = missing,
                  br_Watermarks = map (\<lambda>(k, s). (k, ss_watermark s)) journal'\<rparr>, journal')"
proof -
  obtain journal1 a d where app: "append_facts facts (journal, 0, 0) = (journal1, a, d)" by (cases "append_facts facts (journal, 0, 0)")
  then have ok: "journal_ok journal1" using append_facts_ok [OF assms(1,2), of 0 0] by simp
  then obtain journal' missing where set:
    "settle_sources journal1 = Some (journal', missing, map (\<lambda>(k, s). (k, ss_watermark s)) journal')"
    "list_all exact journal'" "list_all2 same_records journal1 journal'"
    using settle_sources_ok [of journal1] by (auto simp: journal_ok_def)
  have "journal_ok journal'" using ok exact_ok [OF set(2)] same_records_keys [OF set(3)] by (simp add: journal_ok_def wf_map_def)
  then show thesis using that [OF app ok set(3,2)] set(1) app assms(3) by (simp add: AppendBatch_def)
qed

lemma verify_facts_places: "verify_facts l keys clock fs = Inr vs \<Longrightarrow> f \<in> set vs \<Longrightarrow> snd (place f) \<noteq> 0"
  by (induction fs arbitrary: clock vs)
    (auto simp: place_def verify_fact_def split: sum.splits if_splits option.splits)

text \<open>
  C33: Ingesting a batch always returns, although the loop that raises a watermark runs on a wrapping
  counter, and leaves a journal in which every watermark is exact: all sequence numbers from 1 up to
  it are recorded and the next one is not. A refused batch leaves the journal as it was.
\<close>

theorem Ingest_returns:
  assumes "journal_ok journal"
  shows "\<exists>out journal'. Ingest l keys clock canceled facts journal = Some (out, journal') \<and> journal_ok journal' \<and>
    (case out of Inl e \<Rightarrow> journal' = journal | Inr result \<Rightarrow> list_all exact journal')"
proof (cases "facts = [] \<or> length facts > MaxBatchFacts")
  case False
  show ?thesis
  proof (cases "verify_facts l keys clock facts")
    case (Inr vs)
    show ?thesis
    proof (cases "canceled \<or> check_facts journal [] vs \<noteq> None")
      case True
      then show ?thesis using False Inr assms by (auto simp: Ingest_def AppendBatch_def)
    next
      case ok: False
      then have check: "check_facts journal [] vs = None" by simp
      have "\<forall>f \<in> set vs. snd (place f) \<noteq> 0" using verify_facts_places [OF Inr] by blast
      from accepted_batch [OF assms this check] obtain out journal' where
        "AppendBatch False vs journal = Some (Inr out, journal')" "list_all exact journal'" "journal_ok journal'" by metis
      then show ?thesis using False Inr ok by (simp add: Ingest_def)
    qed
  qed (use False assms in \<open>simp add: Ingest_def\<close>)
qed (use assms in \<open>auto simp: Ingest_def\<close>)

text \<open>
  C34: Every usage fact is counted exactly once. An accepted batch records each of its facts with its
  digest, reports as accepted exactly the number of records it adds and everything else as duplicate;
  sending the same batch again accepts nothing and leaves the journal unchanged.
\<close>

theorem AppendBatch_exactly_once:
  assumes "journal_ok journal" "list_all (\<lambda>f. fc_Sequence (vf_Fact f) \<noteq> 0) facts"
    and "AppendBatch False facts journal = Some (Inr result, journal')"
  shows "br_Accepted result + br_Duplicates result = length facts \<and>
    facts_total journal' = facts_total journal + br_Accepted result \<and>
    list_all (\<lambda>f. stored journal' (place f) = Some (vf_Digest f)) facts \<and>
    (\<exists>again. AppendBatch False facts journal' = Some (Inr again, journal') \<and> br_Accepted again = 0 \<and> br_Duplicates again = length facts)"
proof -
  have places: "\<forall>f \<in> set facts. snd (place f) \<noteq> 0" using assms(2) by (auto simp: list_all_iff place_def)
  have check: "check_facts journal [] facts = None" using assms(3) by (auto simp: AppendBatch_def split: option.splits)
  obtain journal1 a d missing where parts: "append_facts facts (journal, 0, 0) = (journal1, a, d)" "journal_ok journal1"
    "list_all2 same_records journal1 journal'" "list_all exact journal'" "br_Accepted result = a" "br_Duplicates result = d"
    by (rule accepted_batch [OF assms(1) places check]) (use assms(3) in auto)
  have stored: "stored journal' (place f) = Some (vf_Digest f)" if "f \<in> set facts" for f
    using accepted_stored [OF check that, of 0 0] parts(1) same_records_stored [OF parts(3)] by simp
  have "check_facts journal' [] facts = None"
    using check stored by (simp add: check_facts_iff agrees_def)
  moreover have "append_facts facts (journal', 0, 0) = (journal', 0, length facts)"
    using append_stored [of facts journal' 0 0] stored by simp
  ultimately have "\<exists>again. AppendBatch False facts journal' = Some (Inr again, journal') \<and> br_Accepted again = 0 \<and> br_Duplicates again = length facts"
    using settle_sources_exact [OF parts(4)] by (auto simp: AppendBatch_def)
  then show ?thesis
    using append_facts_counts [OF parts(1)] append_facts_total [OF assms(1) places parts(1)] same_records_total [OF parts(3)] parts(5,6) stored
    by (simp add: list_all_iff)
qed

text \<open>
  The gaps reported for a source are the first thousand sequence numbers above the watermark and
  below the largest recorded number that are not recorded, in increasing order.
\<close>

theorem missing_sequences_spec:
  "missing_sequences state =
     (let sequences = sort (map fst (ss_records state)) in
      if sequences = [] then []
      else take 1000 (filter (\<lambda>s. mget (ss_records state) s = None)
             (map of_nat [unat (ss_watermark state + 1) ..< unat (last sequences)])))"
  by (simp add: missing_sequences_def missing_from_eq Let_def)

text \<open>The key of a source joins its name and epoch with a slash, which both may contain.\<close>

lemma sourceKey_collision:
  "sourceKey (f\<lparr>fc_SourceID := ''a/b'', fc_SourceEpoch := ''c''\<rparr>) = sourceKey (f\<lparr>fc_SourceID := ''a'', fc_SourceEpoch := ''b/c''\<rparr>)"
  by (simp add: sourceKey_def)

definition sample_fact :: "uint64 \<Rightarrow> Fact" where
  "sample_fact n = \<lparr>fc_FactID = sample_id ''use'', fc_OrganizationID = sample_id ''org'', fc_ResourceID = sample_id ''svc'', fc_SourceID = ''s'',
     fc_SourceEpoch = ''e'', fc_Sequence = n, fc_MeterType = ''build_seconds'', fc_Quantity = 1, fc_Unit = ''second'', fc_StartTime = 1,
     fc_EndTime = 2, fc_CorrelationID = ''c'', fc_CorrectionOf = [], fc_Attributes = [], fc_KeyID = ''k'',
     fc_Signature = b64std_encode (replicate 64 0)\<rparr>"

definition sample_meter_lib :: meter_lib where
  "sample_meter_lib = \<lparr>ml_json = (\<lambda>_. Some []), ml_sha = (\<lambda>_. replicate 32 0), ml_sign = (\<lambda>_ _. replicate 64 0),
     ml_verify = (\<lambda>_ _ signature. signature = replicate 64 0)\<rparr>"

lemma sample_fact_verified:
  "n \<noteq> 0 \<Longrightarrow> \<exists>d. verify_fact sample_meter_lib [(''s'', [(''k'', replicate 32 CHR ''0'')])] 2 (sample_fact n) = Inr d"
proof -
  assume n: "n \<noteq> 0"
  have "is_id (sample_id ''svc'')" using sample_id [of "''svc''"]
    by (auto simp: is_id_def has_id_prefix_def allowedPrefixes_def split: sum.splits)
  then show ?thesis using n
    by (simp add: verify_fact_def sample_fact_def sample_meter_lib_def allowedPrefixes_def allowedUnits_def time_sub_def max_duration_def
        min_duration_def MaxFactWindow_def FutureSkew_def b64std_roundtrip factSigningBytes_def)
qed

theorem Ingest_returns_witness:
  "journal_ok [] \<and> (\<exists>out journal'. Ingest sample_meter_lib [(''s'', [(''k'', replicate 32 CHR ''0'')])] (\<lambda>_. 2) False [sample_fact 1] [] =
     Some (out, journal') \<and> journal_ok journal')"
  using Ingest_returns [of "[]" sample_meter_lib "[(''s'', [(''k'', replicate 32 CHR ''0'')])]" "\<lambda>_. 2" False "[sample_fact 1]"]
  by (auto simp: journal_ok_def wf_map_def)

theorem AppendBatch_exactly_once_witness:
  "AppendBatch False [\<lparr>vf_Fact = sample_fact 1, vf_Digest = ''d''\<rparr>] [] =
     Some (Inr \<lparr>br_Accepted = 1, br_Duplicates = 0, br_MissingSequences = [], br_Watermarks = [(''s/e'', 1)]\<rparr>,
       [(''s/e'', \<lparr>ss_watermark = 1, ss_records = [(1, ''d'')]\<rparr>)]) \<and>
   facts_total [(''s/e'', \<lparr>ss_watermark = 1, ss_records = [(1, ''d'')]\<rparr>)] = 1"
proof -
  have adv: "advance [(1, ''d'')] 0 = Some 1" by (simp add: advance.simps [of _ 0] advance.simps [of _ 1])
  have run: "AppendBatch False [\<lparr>vf_Fact = sample_fact 1, vf_Digest = ''d''\<rparr>] [] =
     Some (Inr \<lparr>br_Accepted = 1, br_Duplicates = 0, br_MissingSequences = [], br_Watermarks = [(''s/e'', 1)]\<rparr>,
       [(''s/e'', \<lparr>ss_watermark = 1, ss_records = [(1, ''d'')]\<rparr>)])"
    using adv
    by (simp add: AppendBatch_def check_facts.simps append_facts.simps sample_fact_def sourceKey_def records_of_def clashes_def
        missing_sequences_def missing_from.simps Let_def)
  show ?thesis using AppendBatch_exactly_once [OF _ _ run] run by (simp add: journal_ok_def wf_map_def sample_fact_def facts_total_def)
qed

end
