(* ===== verification/Target_Bundle.thy ===== *)
theory Target_Bundle
  imports Go_Codec Platform_Id
begin

text \<open>
  Regional target bundles
  (\<^verbatim>\<open>src/services/regional-control/internal/targetbundle/bundle.go\<close>): a cell accepts a signed
  desired-state bundle when it is complete, addressed to the cell, within its validity window and
  the next generation of its environment. JSON, SHA-256 and Ed25519 are parameters; a store is any
  implementation of the interface \<open>generation_store\<close>.
\<close>

section \<open>Bundles\<close>

record ProcessResources =
  rs_CPUMillis :: uint64
  rs_MemoryBytes :: uint64
  rs_EphemeralStorageBytes :: uint64

record ProcessReplicas =
  rp_Minimum :: uint32
  rp_Maximum :: uint32

record ProcessSpec =
  ps_Name :: string
  ps_Kind :: string
  ps_Command :: "string list"
  ps_Port :: "uint16 option"
  ps_RuntimeClass :: string
  ps_Resources :: ProcessResources
  ps_Replicas :: ProcessReplicas

record ServiceSpec =
  sv_ID :: string
  sv_RevisionDigest :: string
  sv_ConfigDigest :: string
  sv_Processes :: "ProcessSpec list"

record RouteSpec =
  rt_ID :: string
  rt_ServiceID :: string
  rt_Hostname :: string
  rt_PathPrefix :: string
  rt_Protocol :: string

record VersionedRef =
  vr_ID :: string
  vr_Version :: uint64

record GenerationRef =
  gr_ID :: string
  gr_Generation :: uint64

record ArtifactSpec =
  at_Digest :: string
  at_Platform :: string
  at_SignatureRef :: string
  at_ProvenanceRef :: string
  at_SBOMRef :: string
  at_PolicyRef :: string

record BundleSignature =
  sg_KeyID :: string
  sg_Algorithm :: string
  sg_Value :: string

record Bundle =
  tb_APIVersion :: string
  tb_BundleID :: string
  tb_CellID :: string
  tb_OrganizationID :: string
  tb_ProjectID :: string
  tb_EnvironmentID :: string
  tb_Generation :: uint64
  tb_PreviousGeneration :: "uint64 option"
  tb_IssuedAt :: time
  tb_ExpiresAt :: time
  tb_PolicyDigest :: string
  tb_Services :: "ServiceSpec list"
  tb_Routes :: "RouteSpec list"
  tb_SecretRefs :: "VersionedRef list"
  tb_Volumes :: "GenerationRef list"
  tb_AddonBindings :: "GenerationRef list"
  tb_Schedules :: "GenerationRef list"
  tb_Artifacts :: "ArtifactSpec list"
  tb_Signature :: BundleSignature

definition BundleAPIVersion :: string where "BundleAPIVersion = ''regional.lrail.dev/v1''"
definition MaxBundleBytes :: nat where "MaxBundleBytes = 2 * 1024 * 1024"
definition MaxValidity :: duration where "MaxValidity = 24 * hour"
definition ClockSkew :: duration where "ClockSkew = 5 * minute"

text \<open>
  Canonical encoding, strict decoding of a first value (with a flag for data after it), hash and
  signatures. The private key is 64 bytes, a public key 32.
\<close>

record bundle_lib =
  bl_encode :: "Bundle \<Rightarrow> string option"
  bl_decode :: "string \<Rightarrow> (Bundle \<times> bool) option"
  bl_sha :: "string \<Rightarrow> uint8 list"
  bl_sign :: "string \<Rightarrow> string \<Rightarrow> uint8 list"
  bl_verify :: "string \<Rightarrow> string \<Rightarrow> uint8 list \<Rightarrow> bool"

definition bundleSigningBytes :: "bundle_lib \<Rightarrow> Bundle \<Rightarrow> string option" where
  "bundleSigningBytes l bundle = bl_encode l (bundle\<lparr>tb_Signature := (tb_Signature bundle)\<lparr>sg_Value := []\<rparr>\<rparr>)"

text \<open>\<open>Sign\<close> updates the bundle in place: a failed encoding leaves it with an empty signature value.\<close>

definition SignBundle :: "bundle_lib \<Rightarrow> Bundle \<Rightarrow> string \<Rightarrow> string \<Rightarrow> string option \<times> Bundle" where
  "SignBundle l bundle keyID privateKey =
     (if length privateKey \<noteq> 64 \<or> keyID = [] then (Some ''signing input is invalid'', bundle)
      else let bundle = bundle\<lparr>tb_Signature := \<lparr>sg_KeyID = keyID, sg_Algorithm = ''ed25519'', sg_Value = []\<rparr>\<rparr> in
        case bundleSigningBytes l bundle of None \<Rightarrow> (Some ''signing payload canonicalization failed'', bundle)
        | Some payload \<Rightarrow>
            (None, bundle\<lparr>tb_Signature := (tb_Signature bundle)\<lparr>sg_Value := b64std_encode (bl_sign l privateKey payload)\<rparr>\<rparr>))"

section \<open>Validation\<close>

text \<open>The identifiers are the keys of a map literal, so equal identifiers leave one entry.\<close>

definition bundle_ids :: "Bundle \<Rightarrow> string strmap" where
  "bundle_ids b = mput (tb_EnvironmentID b) ''env'' (mput (tb_ProjectID b) ''prj'' (mput (tb_OrganizationID b) ''org''
     (mput (tb_CellID b) ''cell'' (mput (tb_BundleID b) ''tgt'' []))))"

definition bad_artifact :: "ArtifactSpec \<Rightarrow> bool" where
  "bad_artifact a \<longleftrightarrow> \<not> digest_pattern (at_Digest a) \<or> at_SignatureRef a = [] \<or> at_ProvenanceRef a = [] \<or> at_SBOMRef a = [] \<or> at_PolicyRef a = []"

definition check_process :: "ProcessSpec \<Rightarrow> string option" where
  "check_process p =
     (if ps_Name p = [] \<or> rs_CPUMillis (ps_Resources p) = 0 \<or> rs_MemoryBytes (ps_Resources p) < 32 * 1024 * 1024 \<or>
        rp_Maximum (ps_Replicas p) < rp_Minimum (ps_Replicas p) \<or> rp_Maximum (ps_Replicas p) = 0
      then Some ''service has an invalid process envelope''
      else if (ps_Kind p = ''web'' \<or> ps_Kind p = ''private_service'') \<and> ps_Port p = None then Some ''network process requires a port''
      else None)"

definition check_service :: "string list \<Rightarrow> ServiceSpec \<Rightarrow> string option" where
  "check_service artifacts s =
     (if \<not> has_id_prefix (sv_ID s) ''svc'' \<or> \<not> digest_pattern (sv_ConfigDigest s)
      then Some ''service identity or configuration digest is invalid''
      else if sv_RevisionDigest s \<notin> set artifacts then Some ''service revision does not have a supplied artifact''
      else if sv_Processes s = [] then Some ''service has no process groups''
      else check_each check_process (sv_Processes s))"

definition check_route :: "string list \<Rightarrow> RouteSpec \<Rightarrow> string option" where
  "check_route services r =
     (if \<not> has_id_prefix (rt_ID r) ''rte'' \<or> rt_Hostname r = [] \<or> rt_PathPrefix r = [] then Some ''route identity or match is invalid''
      else if rt_ServiceID r \<notin> set services then Some ''route references an unknown service''
      else None)"

definition validateGenerationRefs :: "GenerationRef list \<Rightarrow> string \<Rightarrow> string option" where
  "validateGenerationRefs references prefix =
     check_each (\<lambda>r. if \<not> has_id_prefix (gr_ID r) prefix \<or> gr_Generation r = 0 then Some (prefix @ '' generation reference is invalid'') else None) references"

definition check_signature :: "bundle_lib \<Rightarrow> string strmap \<Rightarrow> Bundle \<Rightarrow> string option" where
  "check_signature l keys b =
     (case mget keys (sg_KeyID (tb_Signature b)) of None \<Rightarrow> Some ''signature identity is not trusted''
      | Some key \<Rightarrow>
        if sg_Algorithm (tb_Signature b) \<noteq> ''ed25519'' \<or> length key \<noteq> 32 then Some ''signature identity is not trusted''
        else case b64std_decode (sg_Value (tb_Signature b)) of None \<Rightarrow> Some ''signature encoding is invalid''
        | Some signature \<Rightarrow>
          if length signature \<noteq> 64 then Some ''signature encoding is invalid''
          else case bundleSigningBytes l b of None \<Rightarrow> Some ''signing payload canonicalization failed''
          | Some payload \<Rightarrow> if \<not> bl_verify l key payload signature then Some ''signature verification failed'' else None)"

definition check_contents :: "Bundle \<Rightarrow> string option" where
  "check_contents b =
     (if tb_Services b = [] \<or> tb_Artifacts b = [] then Some ''bundle must contain services and artifacts''
      else case check_each (\<lambda>a. if bad_artifact a then Some ''artifact evidence is incomplete'' else None) (tb_Artifacts b) of Some e \<Rightarrow> Some e
      | None \<Rightarrow>
      (case check_each (check_service (map at_Digest (tb_Artifacts b))) (tb_Services b) of Some e \<Rightarrow> Some e
       | None \<Rightarrow>
      (case check_each (check_route (map sv_ID (tb_Services b))) (tb_Routes b) of Some e \<Rightarrow> Some e
       | None \<Rightarrow>
      (case check_each (\<lambda>s. if \<not> has_id_prefix (vr_ID s) ''sec'' \<or> vr_Version s = 0 then Some ''secret reference is invalid'' else None)
              (tb_SecretRefs b) of Some e \<Rightarrow> Some e
       | None \<Rightarrow>
      (case validateGenerationRefs (tb_Volumes b) ''vol'' of Some e \<Rightarrow> Some e
       | None \<Rightarrow>
      (case validateGenerationRefs (tb_AddonBindings b) ''add'' of Some e \<Rightarrow> Some e
       | None \<Rightarrow> validateGenerationRefs (tb_Schedules b) ''sch''))))))"

definition check_terms :: "string \<Rightarrow> time \<Rightarrow> Bundle \<Rightarrow> string option" where
  "check_terms cellID now b =
     (if tb_APIVersion b \<noteq> BundleAPIVersion then Some ''unsupported api_version''
      else if tb_CellID b \<noteq> cellID then Some ''bundle audience does not match this cell''
      else case check_each (\<lambda>(value, prefix). if has_id_prefix value prefix then None else Some ''resource identifier'') (bundle_ids b) of
        Some e \<Rightarrow> Some e
      | None \<Rightarrow>
        if tb_IssuedAt b > now + ClockSkew \<or> \<not> tb_ExpiresAt b > now then Some ''bundle is not currently valid''
        else if \<not> tb_ExpiresAt b > tb_IssuedAt b \<or> time_sub (tb_ExpiresAt b) (tb_IssuedAt b) > MaxValidity
        then Some ''bundle validity window is outside policy''
        else if \<not> digest_pattern (tb_PolicyDigest b) then Some ''policy digest is invalid''
        else None)"

definition validate_bundle :: "bundle_lib \<Rightarrow> string \<Rightarrow> string strmap \<Rightarrow> time \<Rightarrow> Bundle \<Rightarrow> string option" where
  "validate_bundle l cellID keys now b =
     (case check_terms cellID now b of Some e \<Rightarrow> Some e
      | None \<Rightarrow> (case check_contents b of Some e \<Rightarrow> Some e | None \<Rightarrow> check_signature l keys b))"

section \<open>The generation store and acceptance\<close>

record generationRecord =
  gn_generation :: uint64
  gn_digest :: string

type_synonym generation_map = "generationRecord strmap"

definition generation_key :: "string \<Rightarrow> string \<Rightarrow> string" where
  "generation_key cellID environmentID = cellID @ ''/'' @ environmentID"

definition CompareAndPut ::
  "bool \<Rightarrow> string \<Rightarrow> string \<Rightarrow> uint64 option \<Rightarrow> uint64 \<Rightarrow> string \<Rightarrow> generation_map \<Rightarrow> (string + bool) \<times> generation_map" where
  "CompareAndPut canceled cellID environmentID previous generation digest records =
     (if canceled then (Inl ''context'', records)
      else let key = generation_key cellID environmentID;
               put = mput key \<lparr>gn_generation = generation, gn_digest = digest\<rparr> records in
        case mget records key of
          None \<Rightarrow>
            if generation \<noteq> 1 \<or> previous \<noteq> None then (Inl ''first generation must be 1 without predecessor'', records)
            else (Inr False, put)
        | Some record \<Rightarrow>
            if gn_generation record = generation \<and> gn_digest record = digest then (Inr True, records)
            else if previous \<noteq> Some (gn_generation record) then (Inl ''predecessor does not match'', records)
            else if generation \<le> gn_generation record then (Inl ''generation is not newer'', records)
            else (Inr False, put))"

record Accepted =
  ac_Bundle :: Bundle
  ac_Digest :: string
  ac_Replay :: bool

definition bundle_digest :: "bundle_lib \<Rightarrow> string \<Rightarrow> string" where
  "bundle_digest l canonical = ''sha256:'' @ hex_encode (bl_sha l canonical)"

text \<open>\<open>Accept\<close> over any store operation; the clock and the store of the validator are present.\<close>

definition Accept ::
  "bundle_lib \<Rightarrow> string \<Rightarrow> string strmap \<Rightarrow> time \<Rightarrow>
   (string \<Rightarrow> string \<Rightarrow> uint64 option \<Rightarrow> uint64 \<Rightarrow> string \<Rightarrow> 's \<Rightarrow> (string + bool) \<times> 's) \<Rightarrow> string \<Rightarrow> 's \<Rightarrow> (string + Accepted) \<times> 's" where
  "Accept l cellID keys now compareAndPut raw store =
     (if cellID = [] then (Inl ''validator dependencies are incomplete'', store)
      else if raw = [] \<or> length raw > MaxBundleBytes then (Inl ''bundle size is outside policy'', store)
      else case bl_decode l raw of None \<Rightarrow> (Inl ''bundle JSON is invalid'', store)
      | Some (b, extra) \<Rightarrow>
      if extra then (Inl ''bundle contains trailing JSON'', store)
      else
      (case validate_bundle l cellID keys now b of Some e \<Rightarrow> (Inl e, store)
       | None \<Rightarrow>
      (case bl_encode l b of None \<Rightarrow> (Inl ''bundle canonicalization failed'', store)
       | Some canonical \<Rightarrow>
      (case compareAndPut (tb_CellID b) (tb_EnvironmentID b) (tb_PreviousGeneration b) (tb_Generation b) (bundle_digest l canonical) store of
         (Inl e, store') \<Rightarrow> (Inl ''persist generation'', store')
       | (Inr replay, store') \<Rightarrow> (Inr \<lparr>ac_Bundle = b, ac_Digest = bundle_digest l canonical, ac_Replay = replay\<rparr>, store')))))"

end
