(* ===== verification/Target_Laws.thy ===== *)
theory Target_Laws
  imports Target_Bundle
begin

text \<open>
  Regional target bundles, the laws: the contract of a generation store, proved of the in-memory
  store, and what a cell may conclude from an accepted bundle and from a sequence of them.
\<close>

section \<open>The contract of a generation store\<close>

text \<open>
  \<open>latest\<close> reads the recorded generation and digest of an environment of a cell, and \<open>live\<close> says that
  a context is not cancelled. The laws hold for identifiers without a slash, which separates them in
  the store's keys.
\<close>

locale generation_store =
  fixes cap :: "'c \<Rightarrow> string \<Rightarrow> string \<Rightarrow> uint64 option \<Rightarrow> uint64 \<Rightarrow> string \<Rightarrow> 's \<Rightarrow> (string + bool) \<times> 's"
    and latest :: "'s \<Rightarrow> string \<Rightarrow> string \<Rightarrow> (uint64 \<times> string) option"
    and live :: "'c \<Rightarrow> bool"
  assumes refused: "cap ctx c e p g d s = (Inl err, s') \<Longrightarrow> s' = s"
    and replayed: "cap ctx c e p g d s = (Inr True, s') \<Longrightarrow> s' = s \<and> latest s c e = Some (g, d)"
    and advanced: "cap ctx c e p g d s = (Inr False, s') \<Longrightarrow>
      (case latest s c e of None \<Rightarrow> g = 1 \<and> p = None | Some (g0, d0) \<Rightarrow> p = Some g0 \<and> g0 < g) \<and> latest s' c e = Some (g, d)"
    and others: "cap ctx c e p g d s = (res, s') \<Longrightarrow> CHR ''/'' \<notin> set c \<Longrightarrow> CHR ''/'' \<notin> set c' \<Longrightarrow> (c', e') \<noteq> (c, e) \<Longrightarrow>
      latest s' c' e' = latest s c' e'"
    and current: "live ctx \<Longrightarrow> latest s c e = Some (g, d) \<Longrightarrow> cap ctx c e p g d s = (Inr True, s)"
    and stopped: "\<not> live ctx \<Longrightarrow> \<exists>err. cap ctx c e p g d s = (Inl err, s)"

definition latest_record :: "generation_map \<Rightarrow> string \<Rightarrow> string \<Rightarrow> (uint64 \<times> string) option" where
  "latest_record records cellID environmentID =
     map_option (\<lambda>r. (gn_generation r, gn_digest r)) (mget records (generation_key cellID environmentID))"

lemma generation_key_inject:
  assumes "CHR ''/'' \<notin> set c" "CHR ''/'' \<notin> set c'"
  shows "generation_key c e = generation_key c' e' \<longleftrightarrow> c = c' \<and> e = e'"
proof
  assume "generation_key c e = generation_key c' e'"
  then have "cut CHR ''/'' (c @ CHR ''/'' # e) = cut CHR ''/'' (c' @ CHR ''/'' # e')" by (simp only: generation_key_def append_Cons append_Nil)
  then show "c = c' \<and> e = e'" unfolding cut_append [OF assms(1)] cut_append [OF assms(2)] by simp
qed (simp only:)

lemma CompareAndPut_cases:
  assumes "CompareAndPut ctx c e p g d s = (res, s')"
  obtains (refused) err where "res = Inl err" "s' = s"
  | (replayed) "res = Inr True" "s' = s" "\<not> ctx" "latest_record s c e = Some (g, d)"
  | (first) "res = Inr False" "\<not> ctx" "latest_record s c e = None" "g = 1" "p = None"
      "s' = mput (generation_key c e) \<lparr>gn_generation = g, gn_digest = d\<rparr> s"
  | (later) g0 d0 where "res = Inr False" "\<not> ctx" "latest_record s c e = Some (g0, d0)" "p = Some g0" "g0 < g"
      "s' = mput (generation_key c e) \<lparr>gn_generation = g, gn_digest = d\<rparr> s"
proof (cases "mget s (generation_key c e)")
  case None
  then show thesis using assms that(1,3) by (auto simp: CompareAndPut_def Let_def latest_record_def split: if_splits)
next
  case (Some r)
  have l: "latest_record s c e = Some (gn_generation r, gn_digest r)" using Some by (simp add: latest_record_def)
  note that = that [unfolded l]
  show thesis using Some assms that(1,2,4) by (auto simp: CompareAndPut_def Let_def not_le split: if_splits)
qed

lemma latest_record_mput:
  "latest_record (mput (generation_key c e) \<lparr>gn_generation = g, gn_digest = d\<rparr> s) c e = Some (g, d)"
  by (simp add: latest_record_def)

lemma latest_record_mput_other:
  "CHR ''/'' \<notin> set c \<Longrightarrow> CHR ''/'' \<notin> set c' \<Longrightarrow> (c', e') \<noteq> (c, e) \<Longrightarrow>
   latest_record (mput (generation_key c e) r s) c' e' = latest_record s c' e'"
  using generation_key_inject [of c' c e' e] by (auto simp: latest_record_def)

lemma CompareAndPut_current: "\<not> ctx \<Longrightarrow> latest_record s c e = Some (g, d) \<Longrightarrow> CompareAndPut ctx c e p g d s = (Inr True, s)"
  by (auto simp: CompareAndPut_def latest_record_def)

lemma CompareAndPut_stopped: "\<not> \<not> ctx \<Longrightarrow> \<exists>err. CompareAndPut ctx c e p g d s = (Inl err, s)"
  by (simp add: CompareAndPut_def)

lemma CompareAndPut_refused: "CompareAndPut ctx c e p g d s = (Inl err, s') \<Longrightarrow> s' = s"
  by (erule CompareAndPut_cases) simp_all

lemma CompareAndPut_replayed: "CompareAndPut ctx c e p g d s = (Inr True, s') \<Longrightarrow> s' = s \<and> latest_record s c e = Some (g, d)"
  by (erule CompareAndPut_cases) simp_all

lemma CompareAndPut_advanced:
  "CompareAndPut ctx c e p g d s = (Inr False, s') \<Longrightarrow>
   (case latest_record s c e of None \<Rightarrow> g = 1 \<and> p = None | Some (g0, d0) \<Rightarrow> p = Some g0 \<and> g0 < g) \<and>
   latest_record s' c e = Some (g, d)"
  by (erule CompareAndPut_cases) (simp_all add: latest_record_mput)

lemma CompareAndPut_others:
  "CompareAndPut ctx c e p g d s = (res, s') \<Longrightarrow> CHR ''/'' \<notin> set c \<Longrightarrow> CHR ''/'' \<notin> set c' \<Longrightarrow> (c', e') \<noteq> (c, e) \<Longrightarrow>
   latest_record s' c' e' = latest_record s c' e'"
  by (erule CompareAndPut_cases) (simp_all add: latest_record_mput_other)

interpretation mem_generations: generation_store CompareAndPut latest_record Not
  by unfold_locales (fact CompareAndPut_refused CompareAndPut_replayed CompareAndPut_advanced CompareAndPut_others
      CompareAndPut_current CompareAndPut_stopped)+

section \<open>What validation establishes\<close>

text \<open>The identifiers all have the shape of an identifier, whichever entries the map literal kept.\<close>

lemma bundle_ids_cover:
  "i \<in> {tb_BundleID b, tb_CellID b, tb_OrganizationID b, tb_ProjectID b, tb_EnvironmentID b} \<Longrightarrow> \<exists>p. (i, p) \<in> set (bundle_ids b)"
proof -
  assume i: "i \<in> {tb_BundleID b, tb_CellID b, tb_OrganizationID b, tb_ProjectID b, tb_EnvironmentID b}"
  have "fst ` set (bundle_ids b) = {tb_BundleID b, tb_CellID b, tb_OrganizationID b, tb_ProjectID b, tb_EnvironmentID b}"
    by (auto simp: bundle_ids_def keyset_mput simp del: update.simps)
  then show ?thesis using i by (metis (no_types, lifting) imageE prod.collapse)
qed

lemma validate_bundle_ids:
  assumes "validate_bundle l cellID keys now b = None"
    and "i \<in> {tb_BundleID b, tb_CellID b, tb_OrganizationID b, tb_ProjectID b, tb_EnvironmentID b}"
  shows "\<exists>p. has_id_prefix i p"
proof -
  have "\<forall>x \<in> set (bundle_ids b). case x of (v, p) \<Rightarrow> has_id_prefix v p"
    using assms(1) by (fastforce simp: validate_bundle_def check_terms_def split: if_splits option.splits)
  then show ?thesis using bundle_ids_cover [OF assms(2)] by auto
qed

lemma validate_bundle_no_slash:
  assumes "validate_bundle l cellID keys now b = None"
  shows "CHR ''/'' \<notin> set (tb_CellID b)"
proof -
  obtain p where "has_id_prefix (tb_CellID b) p" using validate_bundle_ids [OF assms, of "tb_CellID b"] by auto
  then show ?thesis by (rule has_id_prefix_chars(2))
qed

lemma validate_bundle_parts:
  assumes "validate_bundle l cellID keys now b = None"
  shows "tb_CellID b = cellID" "check_contents b = None" "check_signature l keys b = None"
    "now < tb_ExpiresAt b" "tb_IssuedAt b \<le> now + ClockSkew" "time_sub (tb_ExpiresAt b) (tb_IssuedAt b) \<le> MaxValidity"
    "tb_IssuedAt b < tb_ExpiresAt b"
  using assms by (auto simp: validate_bundle_def check_terms_def split: if_splits option.splits)

lemma check_contents_parts:
  assumes "check_contents b = None"
  shows "tb_Services b \<noteq> []" "\<forall>a \<in> set (tb_Artifacts b). \<not> bad_artifact a"
    "\<forall>s \<in> set (tb_Services b). check_service (map at_Digest (tb_Artifacts b)) s = None"
    "\<forall>r \<in> set (tb_Routes b). check_route (map sv_ID (tb_Services b)) r = None"
  using assms by (auto simp: check_contents_def split: if_splits option.splits)

definition backed :: "Bundle \<Rightarrow> ServiceSpec \<Rightarrow> bool" where
  "backed b s \<longleftrightarrow> list_ex (\<lambda>a. at_Digest a = sv_RevisionDigest s \<and> \<not> bad_artifact a) (tb_Artifacts b)"

definition authentic :: "bundle_lib \<Rightarrow> string strmap \<Rightarrow> Bundle \<Rightarrow> bool" where
  "authentic l keys b \<longleftrightarrow>
     (case (mget keys (sg_KeyID (tb_Signature b)), b64std_decode (sg_Value (tb_Signature b)), bundleSigningBytes l b) of
        (Some key, Some signature, Some payload) \<Rightarrow> bl_verify l key payload signature
      | _ \<Rightarrow> False)"

lemma check_signature_authentic: "check_signature l keys b = None \<Longrightarrow> authentic l keys b"
  by (auto simp: check_signature_def authentic_def split: option.splits if_splits)

text \<open>Terms and contents do not depend on the signature.\<close>

lemma check_terms_signature: "check_terms cellID now (b\<lparr>tb_Signature := x\<rparr>) = check_terms cellID now b"
proof -
  have "bundle_ids (b\<lparr>tb_Signature := x\<rparr>) = bundle_ids b" by (cases b) (simp only: bundle_ids_def Bundle.simps)
  then show ?thesis by (cases b) (simp only: check_terms_def Bundle.simps)
qed

lemma check_contents_signature: "check_contents (b\<lparr>tb_Signature := x\<rparr>) = check_contents b"
  by (cases b) (simp only: check_contents_def Bundle.simps)

lemma Accept_InrE:
  assumes "Accept l cellID keys now cap raw s = (Inr a, s')"
  obtains canonical where "bl_decode l raw = Some (ac_Bundle a, False)" "validate_bundle l cellID keys now (ac_Bundle a) = None"
    "bl_encode l (ac_Bundle a) = Some canonical" "ac_Digest a = bundle_digest l canonical"
    "cap (tb_CellID (ac_Bundle a)) (tb_EnvironmentID (ac_Bundle a)) (tb_PreviousGeneration (ac_Bundle a))
       (tb_Generation (ac_Bundle a)) (ac_Digest a) s = (Inr (ac_Replay a), s')"
  using assms by (auto simp: Accept_def split: if_splits option.splits sum.splits prod.splits)

text \<open>Of the checks on a bundle only the window depends on the clock.\<close>

definition in_window :: "time \<Rightarrow> Bundle \<Rightarrow> bool" where
  "in_window now b \<longleftrightarrow> tb_IssuedAt b \<le> now + ClockSkew \<and> now < tb_ExpiresAt b"

lemma validate_bundle_later:
  assumes "validate_bundle l cellID keys now b = None"
  shows "validate_bundle l cellID keys now' b = None \<longleftrightarrow> in_window now' b"
  using assms by (auto simp: validate_bundle_def check_terms_def in_window_def split: if_splits option.splits)

lemma Accept_later:
  assumes "Accept l cellID keys now cap raw s = (Inr a, s')"
  shows "if in_window now' (ac_Bundle a)
    then Accept l cellID keys now' cap' raw later =
      (case cap' (tb_CellID (ac_Bundle a)) (tb_EnvironmentID (ac_Bundle a)) (tb_PreviousGeneration (ac_Bundle a))
              (tb_Generation (ac_Bundle a)) (ac_Digest a) later of
         (Inl e, later') \<Rightarrow> (Inl ''persist generation'', later')
       | (Inr replay, later') \<Rightarrow> (Inr (a\<lparr>ac_Replay := replay\<rparr>), later'))
    else \<exists>e. Accept l cellID keys now' cap' raw later = (Inl e, later)"
proof (rule Accept_InrE [OF assms])
  fix canonical
  assume a: "bl_decode l raw = Some (ac_Bundle a, False)" "validate_bundle l cellID keys now (ac_Bundle a) = None"
    "bl_encode l (ac_Bundle a) = Some canonical" "ac_Digest a = bundle_digest l canonical"
  have r: "cellID \<noteq> []" "raw \<noteq> []" "length raw \<le> MaxBundleBytes"
    using assms by (auto simp: Accept_def split: if_splits)
  have e: "\<lparr>ac_Bundle = ac_Bundle a, ac_Digest = ac_Digest a, ac_Replay = replay\<rparr> = a\<lparr>ac_Replay := replay\<rparr>" for replay
    by (cases a) simp
  show ?thesis
    using validate_bundle_later [OF a(2), of now'] a(1,3) r
    by (cases "validate_bundle l cellID keys now' (ac_Bundle a)") (simp_all add: Accept_def e a(4) [symmetric] split: prod.split sum.split)
qed

section \<open>Sequences of bundles\<close>

text \<open>A cell receives bundles one after the other, each with its context and the time of its check.\<close>

fun accept_all :: "bundle_lib \<Rightarrow> string \<Rightarrow> string strmap \<Rightarrow>
   ('c \<Rightarrow> string \<Rightarrow> string \<Rightarrow> uint64 option \<Rightarrow> uint64 \<Rightarrow> string \<Rightarrow> 's \<Rightarrow> (string + bool) \<times> 's) \<Rightarrow>
   ('c \<times> time \<times> string) list \<Rightarrow> 's \<Rightarrow> (string + Accepted) list \<times> 's" where
  "accept_all l cellID keys cap [] s = ([], s)"
| "accept_all l cellID keys cap ((ctx, now, raw) # requests) s =
     (let (r, s') = Accept l cellID keys now (cap ctx) raw s; (rs, s'') = accept_all l cellID keys cap requests s' in (r # rs, s''))"

text \<open>The bundles that newly took effect in an environment, in order.\<close>

definition effective :: "string \<Rightarrow> (string + Accepted) list \<Rightarrow> Bundle list" where
  "effective environmentID results =
     concat (map (\<lambda>r. case r of Inl e \<Rightarrow> []
       | Inr a \<Rightarrow> if \<not> ac_Replay a \<and> tb_EnvironmentID (ac_Bundle a) = environmentID then [ac_Bundle a] else []) results)"

text \<open>A chain of generations: each names its predecessor and is newer; the first is number 1.\<close>

fun chained :: "uint64 option \<Rightarrow> Bundle list \<Rightarrow> bool" where
  "chained current [] \<longleftrightarrow> True"
| "chained current (b # bs) \<longleftrightarrow>
     tb_PreviousGeneration b = current \<and> (case current of None \<Rightarrow> tb_Generation b = 1 | Some g \<Rightarrow> g < tb_Generation b) \<and>
     chained (Some (tb_Generation b)) bs"

lemma chained_sorted: "chained current bs \<Longrightarrow>
   sorted_wrt (<) (map tb_Generation bs) \<and> (case current of None \<Rightarrow> True | Some g \<Rightarrow> \<forall>b \<in> set bs. g < tb_Generation b)"
proof (induction bs arbitrary: current)
  case (Cons b bs)
  then have "sorted_wrt (<) (map tb_Generation bs)" "\<forall>x \<in> set bs. tb_Generation b < tb_Generation x"
    using Cons.IH [of "Some (tb_Generation b)"] by auto
  then show ?case using Cons.prems by (auto split: option.splits intro: less_trans)
qed (simp split: option.split)

context generation_store
begin

lemma Accept_refused: "Accept l cellID keys now (cap ctx) raw s = (Inl e, s') \<Longrightarrow> s' = s"
  by (auto simp: Accept_def dest: refused split: if_splits option.splits sum.splits prod.splits)

text \<open>The recorded generation of an environment never goes back.\<close>

lemma Accept_latest:
  assumes "Accept l cellID keys now (cap ctx) raw s = (r, s')" "latest s cellID e = Some (g, d)"
  shows "\<exists>g' d'. latest s' cellID e = Some (g', d') \<and> g \<le> g' \<and> (g' = g \<longrightarrow> d' = d)"
proof (cases r)
  case (Inl err)
  then show ?thesis using Accept_refused assms by blast
next
  case (Inr a)
  let ?b = "ac_Bundle a"
  have inr: "Accept l cellID keys now (cap ctx) raw s = (Inr a, s')" using assms Inr by simp
  obtain v: "validate_bundle l cellID keys now ?b = None"
    and c: "cap ctx (tb_CellID ?b) (tb_EnvironmentID ?b) (tb_PreviousGeneration ?b) (tb_Generation ?b) (ac_Digest a) s = (Inr (ac_Replay a), s')"
    by (rule Accept_InrE [OF inr])
  have cell: "tb_CellID ?b = cellID" using validate_bundle_parts(1) [OF v] .
  show ?thesis
  proof (cases "tb_EnvironmentID ?b = e")
    case True
    show ?thesis
    proof (cases "ac_Replay a")
      case True
      then show ?thesis using replayed [OF c [unfolded eqTrueI [OF True]]] assms(2) by auto
    next
      case False
      then have "cap ctx cellID e (tb_PreviousGeneration ?b) (tb_Generation ?b) (ac_Digest a) s = (Inr False, s')" using c True cell by simp
      then show ?thesis using advanced assms(2) by fastforce
    qed
  next
    case False
    then show ?thesis using others [OF c, of cellID e] cell validate_bundle_no_slash [OF v] assms(2) by simp
  qed
qed

lemma accept_all_latest:
  "latest s cellID e = Some (g, d) \<Longrightarrow>
   \<exists>g' d'. latest (snd (accept_all l cellID keys cap requests s)) cellID e = Some (g', d') \<and> g \<le> g' \<and> (g' = g \<longrightarrow> d' = d)"
proof (induction requests arbitrary: s g d)
  case (Cons q requests)
  obtain ctx now raw where q: "q = (ctx, now, raw)" using prod_cases3 by blast
  obtain r s' where a: "Accept l cellID keys now (cap ctx) raw s = (r, s')" by fastforce
  have snd: "snd (accept_all l cellID keys cap (q # requests) s) = snd (accept_all l cellID keys cap requests s')"
    using a q by (simp add: case_prod_beta Let_def)
  obtain g1 d1 where 1: "latest s' cellID e = Some (g1, d1)" "g \<le> g1" "g1 = g \<longrightarrow> d1 = d" using Accept_latest [OF a Cons.prems] by blast
  obtain g2 d2 where 2: "latest (snd (accept_all l cellID keys cap requests s')) cellID e = Some (g2, d2)" "g1 \<le> g2" "g2 = g1 \<longrightarrow> d2 = d1"
    using Cons.IH [OF 1(1)] by blast
  have "g2 = g \<longrightarrow> d2 = d" using 1(2,3) 2(2,3) by auto
  then show ?case unfolding snd using 2(1) order_trans [OF 1(2) 2(2)] by blast
qed simp

text \<open>A bundle presented again after any other requests: a replay, or refused if overtaken.\<close>

lemma cap_repeated:
  assumes "latest s c e = Some (g', d')" "g \<le> g'" "g' = g \<longrightarrow> d' = d"
  shows "if live ctx \<and> g' = g then cap ctx c e p g d s = (Inr True, s) else \<exists>err. cap ctx c e p g d s = (Inl err, s)"
proof (cases "live ctx \<and> g' = g")
  case True
  then show ?thesis using current assms by simp
next
  case False
  obtain res s' where r: "cap ctx c e p g d s = (res, s')" by fastforce
  have "\<exists>err. res = Inl err"
  proof (cases "live ctx")
    case False
    then show ?thesis using stopped [of ctx c e p g d s] r by auto
  next
    case True
    then have "g < g'" using False assms(2) by simp
    then have "res \<noteq> Inr True" "res \<noteq> Inr False"
      using r assms(1) replayed [of ctx c e p g d s s'] advanced [of ctx c e p g d s s'] by auto
    then show ?thesis by (metis (full_types) old.sum.exhaust)
  qed
  then obtain err where "res = Inl err" ..
  then have "cap ctx c e p g d s = (Inl err, s)" using r refused [of ctx c e p g d s err s'] by simp
  then show ?thesis unfolding if_not_P [OF False] ..
qed

lemma Accept_recorded:
  assumes "Accept l cellID keys now (cap ctx) raw s = (Inr a, s')"
  shows "latest s' cellID (tb_EnvironmentID (ac_Bundle a)) = Some (tb_Generation (ac_Bundle a), ac_Digest a)"
proof -
  let ?b = "ac_Bundle a"
  obtain v: "validate_bundle l cellID keys now ?b = None"
    and c: "cap ctx (tb_CellID ?b) (tb_EnvironmentID ?b) (tb_PreviousGeneration ?b) (tb_Generation ?b) (ac_Digest a) s = (Inr (ac_Replay a), s')"
    by (rule Accept_InrE [OF assms])
  have "tb_CellID ?b = cellID" using validate_bundle_parts(1) [OF v] .
  then show ?thesis using c replayed advanced by (cases "ac_Replay a") fastforce+
qed

text \<open>
  Whatever was received in between, an accepted bundle never takes effect again; it is answered as a
  replay as long as it is in its window and no newer generation was accepted.
\<close>

lemma Accept_repeated:
  assumes "Accept l cellID keys now (cap ctx) raw s = (Inr a, s1)" "later = snd (accept_all l cellID keys cap requests s1)"
  shows "if live ctx' \<and> in_window now' (ac_Bundle a) \<and>
      (\<forall>g d. latest later cellID (tb_EnvironmentID (ac_Bundle a)) = Some (g, d) \<longrightarrow> g \<le> tb_Generation (ac_Bundle a))
    then Accept l cellID keys now' (cap ctx') raw later = (Inr (a\<lparr>ac_Replay := True\<rparr>), later)
    else \<exists>e. Accept l cellID keys now' (cap ctx') raw later = (Inl e, later)"
proof -
  let ?b = "ac_Bundle a"
  have v: "validate_bundle l cellID keys now ?b = None" by (rule Accept_InrE [OF assms(1)])
  have cell: "tb_CellID ?b = cellID" using validate_bundle_parts(1) [OF v] .
  obtain g' d' where g: "latest later cellID (tb_EnvironmentID ?b) = Some (g', d')" "tb_Generation ?b \<le> g'" "g' = tb_Generation ?b \<longrightarrow> d' = ac_Digest a"
    using accept_all_latest [OF Accept_recorded [OF assms(1)], of l keys requests] assms(2) by blast
  have newest: "(\<forall>g d. latest later cellID (tb_EnvironmentID ?b) = Some (g, d) \<longrightarrow> g \<le> tb_Generation ?b) \<longleftrightarrow> g' = tb_Generation ?b"
    using g(1,2) by auto
  note store = cap_repeated [OF g, of ctx' "tb_PreviousGeneration ?b"]
  note answer = Accept_later [OF assms(1), of now' "cap ctx'" later]
  show ?thesis
  proof (cases "in_window now' ?b")
    case True
    then show ?thesis using store answer unfolding newest cell by (auto split: if_splits)
  next
    case False
    then show ?thesis using answer by simp
  qed
qed

lemma Accept_step:
  assumes "Accept l cellID keys now (cap ctx) raw s = (r, s')"
  shows "effective e [r] = [] \<and> latest s' cellID e = latest s cellID e \<or>
     (\<exists>b d. effective e [r] = [b] \<and> latest s' cellID e = Some (tb_Generation b, d) \<and>
        chained (map_option fst (latest s cellID e)) [b])"
proof (cases r)
  case (Inl err)
  then show ?thesis using Accept_refused [of l cellID keys now ctx raw s err s'] assms by (simp add: effective_def)
next
  case (Inr a)
  let ?b = "ac_Bundle a"
  have inr: "Accept l cellID keys now (cap ctx) raw s = (Inr a, s')" using assms Inr by simp
  obtain v: "validate_bundle l cellID keys now ?b = None"
    and c: "cap ctx (tb_CellID ?b) (tb_EnvironmentID ?b) (tb_PreviousGeneration ?b) (tb_Generation ?b) (ac_Digest a) s = (Inr (ac_Replay a), s')"
    by (rule Accept_InrE [OF inr])
  have cell: "tb_CellID ?b = cellID" using validate_bundle_parts(1) [OF v] .
  show ?thesis
  proof (cases "ac_Replay a")
    case True
    then have "s' = s" using replayed [OF c [unfolded eqTrueI [OF True]]] by simp
    then show ?thesis using True Inr by (simp add: effective_def)
  next
    case fresh: False
    show ?thesis
    proof (cases "tb_EnvironmentID ?b = e")
      case True
      from c fresh True cell have "cap ctx cellID e (tb_PreviousGeneration ?b) (tb_Generation ?b) (ac_Digest a) s = (Inr False, s')" by simp
      note p = advanced [OF this]
      have "effective e [r] = [?b]" using Inr fresh True by (simp add: effective_def)
      moreover have "chained (map_option fst (latest s cellID e)) [?b]" using p by (auto split: option.splits)
      ultimately show ?thesis using p by blast
    next
      case False
      then have "latest s' cellID e = latest s cellID e" using others [OF c, of cellID e] cell validate_bundle_no_slash [OF v] by simp
      then show ?thesis using False Inr by (simp add: effective_def)
    qed
  qed
qed

lemma effective_Cons: "effective e (r # rs) = effective e [r] @ effective e rs"
  by (simp add: effective_def)

lemma accept_all_chained:
  "chained (map_option fst (latest s cellID e)) (effective e (fst (accept_all l cellID keys cap requests s)))"
proof (induction requests arbitrary: s)
  case Nil
  then show ?case by (simp add: effective_def)
next
  case (Cons q requests)
  obtain ctx now raw where q: "q = (ctx, now, raw)" using prod_cases3 by blast
  obtain r s' where a: "Accept l cellID keys now (cap ctx) raw s = (r, s')" by fastforce
  let ?rest = "fst (accept_all l cellID keys cap requests s')"
  have f: "fst (accept_all l cellID keys cap (q # requests) s) = r # ?rest" using a q by (simp add: case_prod_beta Let_def)
  from Accept_step [OF a, of e] Cons.IH [of s'] show ?case
    unfolding f effective_Cons [of e r ?rest] by auto
qed

end

section \<open>Properties\<close>

text \<open>
  C8: rollback protection. Whatever bundles a cell receives, at whatever times and with whatever
  cancellations, the ones that take effect in an environment form a chain: the first is generation
  1 without a predecessor, and each later one names the generation before it and is newer.
\<close>

theorem target_generations_chained:
  "chained None (effective environmentID (fst (accept_all l cellID keys CompareAndPut requests []))) \<and>
   sorted_wrt (<) (map tb_Generation (effective environmentID (fst (accept_all l cellID keys CompareAndPut requests []))))"
  using mem_generations.accept_all_chained [of "[]" cellID environmentID l keys requests] chained_sorted
  by (simp add: latest_record_def)

text \<open>
  C35: an accepted bundle is addressed to this cell, currently valid for a window of at most a day,
  signed under a trusted key, and complete: every service runs a revision with full artifact
  evidence, and every route leads to one of its services.
\<close>

theorem Accept_admits:
  assumes "Accept l cellID keys now (CompareAndPut canceled) raw records = (Inr accepted, records')"
  shows "tb_CellID (ac_Bundle accepted) = cellID \<and> authentic l keys (ac_Bundle accepted) \<and>
     now < tb_ExpiresAt (ac_Bundle accepted) \<and> tb_ExpiresAt (ac_Bundle accepted) - tb_IssuedAt (ac_Bundle accepted) \<le> 24 * hour \<and>
     list_all (backed (ac_Bundle accepted)) (tb_Services (ac_Bundle accepted)) \<and>
     list_all (\<lambda>r. rt_ServiceID r \<in> set (map sv_ID (tb_Services (ac_Bundle accepted)))) (tb_Routes (ac_Bundle accepted))"
proof -
  let ?b = "ac_Bundle accepted"
  have v: "validate_bundle l cellID keys now ?b = None" by (rule Accept_InrE [OF assms])
  note parts = validate_bundle_parts [OF v] and contents = check_contents_parts [OF validate_bundle_parts(2) [OF v]]
  have "list_all (backed ?b) (tb_Services ?b)"
    using contents(2,3) by (fastforce simp: backed_def list_all_iff list_ex_iff check_service_def split: if_splits)
  moreover have "list_all (\<lambda>r. rt_ServiceID r \<in> set (map sv_ID (tb_Services ?b))) (tb_Routes ?b)"
    using contents(4) by (auto simp: list_all_iff check_route_def split: if_splits)
  moreover have "tb_ExpiresAt ?b - tb_IssuedAt ?b \<le> 24 * hour"
    using parts(6) time_sub_le [of MaxValidity] by (simp add: MaxValidity_def min_duration_def max_duration_def)
  ultimately show ?thesis using parts check_signature_authentic [OF parts(3)] by simp
qed

text \<open>
  C36: a bundle with valid terms and contents that was signed and published in canonical form is
  accepted by the cell, up to the verdict of the store, and its digest is that of the published
  bytes; this uses that Ed25519 signatures have 64 bytes and verify under the public key.
\<close>

theorem SignBundle_Accept:
  assumes "SignBundle l bundle keyID privateKey = (None, sealed)" "check_terms cellID now bundle = None" "check_contents bundle = None"
    and "mget keys keyID = Some publicKey" "length publicKey = 32"
    and "\<forall>m. length (bl_sign l privateKey m) = 64 \<and> bl_verify l publicKey m (bl_sign l privateKey m)"
    and "bl_encode l sealed = Some raw" "bl_decode l raw = Some (sealed, False)" "0 < length raw \<and> length raw \<le> MaxBundleBytes" "cellID \<noteq> []"
  shows "Accept l cellID keys now (CompareAndPut canceled) raw records =
    (case CompareAndPut canceled (tb_CellID bundle) (tb_EnvironmentID bundle) (tb_PreviousGeneration bundle) (tb_Generation bundle)
            (bundle_digest l raw) records of
       (Inl e, records') \<Rightarrow> (Inl ''persist generation'', records')
     | (Inr replay, records') \<Rightarrow> (Inr \<lparr>ac_Bundle = sealed, ac_Digest = bundle_digest l raw, ac_Replay = replay\<rparr>, records'))"
proof -
  obtain payload where p: "bundleSigningBytes l (bundle\<lparr>tb_Signature := \<lparr>sg_KeyID = keyID, sg_Algorithm = ''ed25519'', sg_Value = []\<rparr>\<rparr>) = Some payload"
    and s: "sealed = bundle\<lparr>tb_Signature := \<lparr>sg_KeyID = keyID, sg_Algorithm = ''ed25519'', sg_Value = b64std_encode (bl_sign l privateKey payload)\<rparr>\<rparr>"
    using assms(1) by (auto simp: SignBundle_def Let_def split: if_splits option.splits)
  have "bundleSigningBytes l sealed = Some payload" using p by (simp add: s bundleSigningBytes_def)
  then have "check_signature l keys sealed = None" using assms(4-6) by (simp add: check_signature_def s b64std_roundtrip)
  moreover have "check_terms cellID now sealed = None" "check_contents sealed = None"
    using assms(2,3) unfolding s check_terms_signature check_contents_signature .
  ultimately have "validate_bundle l cellID keys now sealed = None" by (simp add: validate_bundle_def)
  moreover have "tb_CellID sealed = tb_CellID bundle" "tb_EnvironmentID sealed = tb_EnvironmentID bundle"
    "tb_PreviousGeneration sealed = tb_PreviousGeneration bundle" "tb_Generation sealed = tb_Generation bundle" by (simp_all add: s)
  ultimately show ?thesis using assms(7-10) by (simp add: Accept_def not_less)
qed

text \<open>
  C37: a bundle takes effect at most once. After it was accepted, and after whatever other bundles were
  received since, presenting it again at any time changes nothing: it is reported as a replay when the
  context is live, the time is in its validity window and no newer generation of its environment was
  accepted, and it is refused otherwise. A refused bundle of any kind leaves the recorded generations
  as they are.
\<close>

theorem Accept_idempotent:
  assumes "Accept l cellID keys now (CompareAndPut canceled) raw records = (Inr accepted, records1)"
    and "later = snd (accept_all l cellID keys CompareAndPut requests records1)"
  shows "(if \<not> canceled' \<and> in_window now' (ac_Bundle accepted) \<and>
      (\<forall>g d. latest_record later cellID (tb_EnvironmentID (ac_Bundle accepted)) = Some (g, d) \<longrightarrow> g \<le> tb_Generation (ac_Bundle accepted))
    then Accept l cellID keys now' (CompareAndPut canceled') raw later = (Inr (accepted\<lparr>ac_Replay := True\<rparr>), later)
    else \<exists>e. Accept l cellID keys now' (CompareAndPut canceled') raw later = (Inl e, later)) \<and>
    (\<forall>other e s'. Accept l cellID keys now' (CompareAndPut canceled') other later = (Inl e, s') \<longrightarrow> s' = later)"
  using mem_generations.Accept_repeated [OF assms] mem_generations.Accept_refused by blast

section \<open>A sample bundle\<close>

definition sample_bundle :: Bundle where
  "sample_bundle = \<lparr>tb_APIVersion = BundleAPIVersion, tb_BundleID = sample_id ''tgt'', tb_CellID = sample_id ''cell'',
     tb_OrganizationID = sample_id ''org'', tb_ProjectID = sample_id ''prj'', tb_EnvironmentID = sample_id ''env'',
     tb_Generation = 1, tb_PreviousGeneration = None, tb_IssuedAt = unix_epoch, tb_ExpiresAt = unix_epoch + hour,
     tb_PolicyDigest = sample_digest,
     tb_Services = [\<lparr>sv_ID = sample_id ''svc'', sv_RevisionDigest = sample_digest, sv_ConfigDigest = sample_digest,
       sv_Processes = [\<lparr>ps_Name = ''web'', ps_Kind = ''web'', ps_Command = [], ps_Port = Some 3000, ps_RuntimeClass = ''sandbox'',
         ps_Resources = \<lparr>rs_CPUMillis = 500, rs_MemoryBytes = 0x20000000, rs_EphemeralStorageBytes = 0x40000000\<rparr>,
         ps_Replicas = \<lparr>rp_Minimum = 2, rp_Maximum = 10\<rparr>\<rparr>]\<rparr>],
     tb_Routes = [\<lparr>rt_ID = sample_id ''rte'', rt_ServiceID = sample_id ''svc'', rt_Hostname = ''app.example.com'', rt_PathPrefix = ''/'', rt_Protocol = ''https''\<rparr>],
     tb_SecretRefs = [], tb_Volumes = [], tb_AddonBindings = [], tb_Schedules = [],
     tb_Artifacts = [\<lparr>at_Digest = sample_digest, at_Platform = ''linux/amd64'', at_SignatureRef = ''s'', at_ProvenanceRef = ''p'', at_SBOMRef = ''b'', at_PolicyRef = ''o''\<rparr>],
     tb_Signature = \<lparr>sg_KeyID = ''k'', sg_Algorithm = ''ed25519'', sg_Value = b64std_encode (replicate 64 7)\<rparr>\<rparr>"

definition sample_bundle_lib :: bundle_lib where
  "sample_bundle_lib = \<lparr>bl_encode = (\<lambda>_. Some ''{}''), bl_decode = (\<lambda>_. Some (sample_bundle, False)), bl_sha = (\<lambda>_. replicate 32 0),
     bl_sign = (\<lambda>_ _. replicate 64 7), bl_verify = (\<lambda>_ _ s. s = replicate 64 7)\<rparr>"

abbreviation sample_trust :: "string strmap" where
  "sample_trust \<equiv> [(''k'', replicate 32 CHR ''0'')]"

lemma sample_bundle_ids: "check_each (\<lambda>(value, prefix). if has_id_prefix value prefix then None else Some ''resource identifier'') (bundle_ids sample_bundle) = None"
proof -
  have "bundle_ids sample_bundle = [(sample_id ''tgt'', ''tgt''), (sample_id ''cell'', ''cell''), (sample_id ''org'', ''org''),
      (sample_id ''prj'', ''prj''), (sample_id ''env'', ''env'')]"
    by (simp add: bundle_ids_def sample_bundle_def sample_id_def)
  then show ?thesis by (simp add: allowedPrefixes_def)
qed

lemma sample_bundle_terms: "check_terms (sample_id ''cell'') unix_epoch sample_bundle = None"
  unfolding check_terms_def sample_bundle_ids
  by (simp add: sample_bundle_def ClockSkew_def MaxValidity_def time_sub_def min_duration_def max_duration_def)

lemma sample_bundle_contents: "check_contents sample_bundle = None"
  by (simp add: check_contents_def sample_bundle_def bad_artifact_def check_service_def check_process_def check_route_def
      validateGenerationRefs_def allowedPrefixes_def)

lemma sample_bundle_signed: "SignBundle sample_bundle_lib sample_bundle ''k'' (replicate 64 CHR ''0'') = (None, sample_bundle)"
  by (simp add: SignBundle_def bundleSigningBytes_def sample_bundle_lib_def sample_bundle_def)

theorem SignBundle_Accept_witness:
  "fst (Accept sample_bundle_lib (sample_id ''cell'') sample_trust unix_epoch (CompareAndPut False) ''{}'' []) =
   Inr \<lparr>ac_Bundle = sample_bundle, ac_Digest = bundle_digest sample_bundle_lib ''{}'', ac_Replay = False\<rparr>"
proof -
  have "Accept sample_bundle_lib (sample_id ''cell'') sample_trust unix_epoch (CompareAndPut False) ''{}'' [] =
    (case CompareAndPut False (tb_CellID sample_bundle) (tb_EnvironmentID sample_bundle) (tb_PreviousGeneration sample_bundle)
        (tb_Generation sample_bundle) (bundle_digest sample_bundle_lib ''{}'') [] of
       (Inl e, records') \<Rightarrow> (Inl ''persist generation'', records')
     | (Inr replay, records') \<Rightarrow> (Inr \<lparr>ac_Bundle = sample_bundle, ac_Digest = bundle_digest sample_bundle_lib ''{}'', ac_Replay = replay\<rparr>, records'))"
    by (rule SignBundle_Accept [OF sample_bundle_signed sample_bundle_terms sample_bundle_contents, where publicKey = "replicate 32 CHR ''0''"])
      (simp_all add: sample_bundle_lib_def MaxBundleBytes_def sample_id_def)
  then show ?thesis by (simp add: CompareAndPut_def sample_bundle_def)
qed

lemma sample_bundle_accepted:
  "\<exists>records. Accept sample_bundle_lib (sample_id ''cell'') sample_trust unix_epoch (CompareAndPut False) ''{}'' [] =
   (Inr \<lparr>ac_Bundle = sample_bundle, ac_Digest = bundle_digest sample_bundle_lib ''{}'', ac_Replay = False\<rparr>, records)"
proof -
  have "check_signature sample_bundle_lib sample_trust sample_bundle = None"
    by (simp add: check_signature_def sample_bundle_def sample_bundle_lib_def bundleSigningBytes_def b64std_roundtrip)
  then have "validate_bundle sample_bundle_lib (sample_id ''cell'') sample_trust unix_epoch sample_bundle = None"
    using sample_bundle_terms sample_bundle_contents by (simp add: validate_bundle_def)
  moreover have "sample_id ''cell'' \<noteq> []" by (simp add: sample_id_def)
  moreover have "bl_decode sample_bundle_lib ''{}'' = Some (sample_bundle, False)" "bl_encode sample_bundle_lib sample_bundle = Some ''{}''"
    by (simp_all add: sample_bundle_lib_def)
  moreover have "tb_Generation sample_bundle = 1" "tb_PreviousGeneration sample_bundle = None" by (simp_all add: sample_bundle_def)
  ultimately show ?thesis by (simp add: Accept_def MaxBundleBytes_def CompareAndPut_def)
qed

theorem Accept_admits_witness:
  "(\<exists>records. Accept sample_bundle_lib (sample_id ''cell'') sample_trust unix_epoch (CompareAndPut False) ''{}'' [] =
     (Inr \<lparr>ac_Bundle = sample_bundle, ac_Digest = bundle_digest sample_bundle_lib ''{}'', ac_Replay = False\<rparr>, records)) \<and>
   authentic sample_bundle_lib sample_trust sample_bundle \<and> list_all (backed sample_bundle) (tb_Services sample_bundle)"
proof -
  obtain records where r: "Accept sample_bundle_lib (sample_id ''cell'') sample_trust unix_epoch (CompareAndPut False) ''{}'' [] =
     (Inr \<lparr>ac_Bundle = sample_bundle, ac_Digest = bundle_digest sample_bundle_lib ''{}'', ac_Replay = False\<rparr>, records)"
    using sample_bundle_accepted by blast
  show ?thesis using Accept_admits [OF r] r by simp
qed

theorem Accept_idempotent_witness:
  "\<exists>records. fst (Accept sample_bundle_lib (sample_id ''cell'') sample_trust (unix_epoch + minute) (CompareAndPut False) ''{}'' records) =
     Inr \<lparr>ac_Bundle = sample_bundle, ac_Digest = bundle_digest sample_bundle_lib ''{}'', ac_Replay = True\<rparr> \<and>
   (\<exists>e. Accept sample_bundle_lib (sample_id ''cell'') sample_trust (unix_epoch + hour) (CompareAndPut False) ''{}'' records = (Inl e, records))"
proof -
  obtain records where r: "Accept sample_bundle_lib (sample_id ''cell'') sample_trust unix_epoch (CompareAndPut False) ''{}'' [] =
     (Inr \<lparr>ac_Bundle = sample_bundle, ac_Digest = bundle_digest sample_bundle_lib ''{}'', ac_Replay = False\<rparr>, records)"
    using sample_bundle_accepted by blast
  have "latest_record records (sample_id ''cell'') (tb_EnvironmentID sample_bundle) = Some (tb_Generation sample_bundle, bundle_digest sample_bundle_lib ''{}'')"
    using mem_generations.Accept_recorded [OF r] by simp
  moreover have "in_window (unix_epoch + minute) sample_bundle" "\<not> in_window (unix_epoch + hour) sample_bundle"
    by (simp_all add: in_window_def sample_bundle_def ClockSkew_def)
  ultimately show ?thesis
    using Accept_idempotent [OF r, of records "[]" False "unix_epoch + minute"] Accept_idempotent [OF r, of records "[]" False "unix_epoch + hour"]
    by (intro exI [of _ records]) simp
qed

text \<open>
  The map literal drops all but the last of equal identifiers: a project identifier that is the
  environment's passes, although it does not name a project.
\<close>

lemma project_may_be_environment:
  "check_terms (sample_id ''cell'') unix_epoch (sample_bundle\<lparr>tb_ProjectID := sample_id ''env''\<rparr>) = None"
proof -
  have "bundle_ids (sample_bundle\<lparr>tb_ProjectID := sample_id ''env''\<rparr>) = [(sample_id ''tgt'', ''tgt''), (sample_id ''cell'', ''cell''),
      (sample_id ''org'', ''org''), (sample_id ''env'', ''env'')]"
    by (simp add: bundle_ids_def sample_bundle_def sample_id_def)
  then have ids: "check_each (\<lambda>(value, prefix). if has_id_prefix value prefix then None else Some ''resource identifier'')
      (bundle_ids (sample_bundle\<lparr>tb_ProjectID := sample_id ''env''\<rparr>)) = None" by (simp add: allowedPrefixes_def)
  show ?thesis unfolding check_terms_def ids
    by (simp add: sample_bundle_def ClockSkew_def MaxValidity_def time_sub_def min_duration_def max_duration_def)
qed

end
