(* ===== verification/Go_Net.thy ===== *)
theory Go_Net
  imports Go_Text
begin

text \<open>
  What the network components use of Go's standard library: IP addresses and prefixes of
  \<^verbatim>\<open>net/netip\<close> with their text form, the test for surrounding white space behind
  \<open>strings.TrimSpace\<close>, and \<open>url.ParseRequestURI\<close> on rooted paths.
\<close>

section \<open>White space\<close>

text \<open>The UTF-8 encodings of the characters with the Unicode property White Space.\<close>

definition white_space :: "string list" where
  "white_space = [[CHR 0x09], [CHR 0x0A], [CHR 0x0B], [CHR 0x0C], [CHR 0x0D], [CHR 0x20], [CHR 0xC2, CHR 0x85], [CHR 0xC2, CHR 0xA0],
     [CHR 0xE1, CHR 0x9A, CHR 0x80], [CHR 0xE2, CHR 0x80, CHR 0xA8], [CHR 0xE2, CHR 0x80, CHR 0xA9], [CHR 0xE2, CHR 0x80, CHR 0xAF],
     [CHR 0xE2, CHR 0x81, CHR 0x9F], [CHR 0xE3, CHR 0x80, CHR 0x80]] @
     map (\<lambda>n. [CHR 0xE2, CHR 0x80, char_of n]) [0x80..<(0x8B::nat)]"

text \<open>\<^verbatim>\<open>s != strings.TrimSpace(s)\<close>\<close>

definition padded :: "string \<Rightarrow> bool" where
  "padded s \<longleftrightarrow> list_ex (has_prefix s) white_space \<or> list_ex (has_suffix s) white_space"

section \<open>Addresses\<close>

text \<open>A valid address; the second argument of an IPv6 address is its zone.\<close>

datatype Addr = IPv4 "32 word" | IPv6 "128 word" string

definition join_bytes :: "nat list \<Rightarrow> nat" where
  "join_bytes bs = foldl (\<lambda>acc b. acc * 256 + b) 0 bs"

definition ipv4_octet :: "string \<Rightarrow> nat option" where
  "ipv4_octet s =
     (if s \<noteq> [] \<and> length s \<le> 3 \<and> list_all is_digit s \<and> (hd s = CHR ''0'' \<longrightarrow> length s = 1)
      then (case atoi_digits s of Some v \<Rightarrow> if v \<le> 255 then Some (nat v) else None | None \<Rightarrow> None)
      else None)"

fun all_some :: "'a option list \<Rightarrow> 'a list option" where
  "all_some [] = Some []"
| "all_some (None # xs) = None"
| "all_some (Some x # xs) = map_option ((#) x) (all_some xs)"

definition parse_ipv4_octets :: "string \<Rightarrow> nat list option" where
  "parse_ipv4_octets s =
     (case all_some (map ipv4_octet (split_on CHR ''.'' s)) of
        Some bs \<Rightarrow> if length bs = 4 then Some bs else None
      | None \<Rightarrow> None)"

definition is_hex :: "char \<Rightarrow> bool" where
  "is_hex c \<longleftrightarrow> hex_value c \<noteq> None"

definition hex_number :: "string \<Rightarrow> nat" where
  "hex_number s = foldl (\<lambda>acc c. 16 * acc + the (hex_value c)) 0 s"

text \<open>
  The loop over the groups: the bytes read so far, where a double colon stood, and the text left.
  At most eight groups are read.
\<close>

fun v6_groups :: "nat \<Rightarrow> string \<Rightarrow> nat list \<Rightarrow> nat option \<Rightarrow> (nat list \<times> nat option \<times> string) option" where
  "v6_groups 0 s ip ellipsis = Some (ip, ellipsis, s)"
| "v6_groups (Suc k) s ip ellipsis =
     (let digits = takeWhile is_hex s; rest = dropWhile is_hex s;
          ip' = ip @ [hex_number digits div 256, hex_number digits mod 256] in
      if digits = [] \<or> length digits > 4 then None
      else case rest of
        [] \<Rightarrow> Some (ip', ellipsis, [])
      | c # after \<Rightarrow>
          if c = CHR ''.''
          then if ellipsis = None \<and> length ip \<noteq> 12 \<or> length ip > 12 then None
               else map_option (\<lambda>octets. (ip @ octets, ellipsis, [])) (parse_ipv4_octets s)
          else if c \<noteq> CHR '':'' then None
          else case after of
            [] \<Rightarrow> None
          | d # s' \<Rightarrow>
              if d \<noteq> CHR '':'' then v6_groups k after ip' ellipsis
              else if ellipsis \<noteq> None then None
              else if s' = [] then Some (ip', Some (length ip'), [])
              else v6_groups k s' ip' (Some (length ip')))"

definition v6_bytes :: "string \<Rightarrow> nat list option" where
  "v6_bytes s =
     (let leading = has_prefix s ''::''; body = (if leading then drop 2 s else s) in
      if leading \<and> body = [] then Some (replicate 16 0)
      else case v6_groups 8 body [] (if leading then Some 0 else None) of
        None \<Rightarrow> None
      | Some (ip, ellipsis, rest) \<Rightarrow>
          if rest \<noteq> [] then None
          else if length ip < 16
          then (case ellipsis of None \<Rightarrow> None
                | Some e \<Rightarrow> Some (take e ip @ replicate (16 - length ip) 0 @ drop e ip))
          else if ellipsis \<noteq> None then None else Some ip)"

definition parse_ipv6 :: "string \<Rightarrow> Addr option" where
  "parse_ipv6 s =
     (case cut CHR ''%'' s of
        None \<Rightarrow> map_option (\<lambda>bs. IPv6 (of_nat (join_bytes bs)) []) (v6_bytes s)
      | Some (text, zone) \<Rightarrow> if zone = [] then None else map_option (\<lambda>bs. IPv6 (of_nat (join_bytes bs)) zone) (v6_bytes text))"

text \<open>\<open>netip.ParseAddr\<close>: the first dot, colon or percent sign tells the form.\<close>

definition ParseAddr :: "string \<Rightarrow> Addr option" where
  "ParseAddr s =
     (case find (\<lambda>c. c \<in> set ''.:%'') s of
        None \<Rightarrow> None
      | Some c \<Rightarrow>
          if c = CHR ''.'' then map_option (\<lambda>bs. IPv4 (of_nat (join_bytes bs))) (parse_ipv4_octets s)
          else if c = CHR '':'' then parse_ipv6 s
          else None)"

definition AddrFromSlice :: "nat list \<Rightarrow> Addr option" where
  "AddrFromSlice bs =
     (if length bs = 4 then Some (IPv4 (of_nat (join_bytes bs)))
      else if length bs = 16 then Some (IPv6 (of_nat (join_bytes bs)) [])
      else None)"

fun Unmap :: "Addr \<Rightarrow> Addr" where
  "Unmap (IPv4 a) = IPv4 a"
| "Unmap (IPv6 a zone) = (if drop_bit 32 a = 0xffff then IPv4 (ucast a) else IPv6 a zone)"

text \<open>Blocks of addresses: those that agree with a value above the low bits.\<close>

fun v4_block :: "nat \<Rightarrow> nat \<Rightarrow> Addr \<Rightarrow> bool" where
  "v4_block len value (IPv4 a) \<longleftrightarrow> unat (drop_bit (32 - len) a) = value"
| "v4_block len value (IPv6 a zone) \<longleftrightarrow> False"

fun v6_block :: "nat \<Rightarrow> nat \<Rightarrow> Addr \<Rightarrow> bool" where
  "v6_block len value (IPv4 a) \<longleftrightarrow> False"
| "v6_block len value (IPv6 a zone) \<longleftrightarrow> unat (drop_bit (128 - len) a) = value"

text \<open>The predicates of \<open>netip.Addr\<close>, on addresses that \<open>Unmap\<close> has seen.\<close>

definition IsUnspecified :: "Addr \<Rightarrow> bool" where
  "IsUnspecified a \<longleftrightarrow> a = IPv4 0 \<or> a = IPv6 0 []"

definition IsLoopback :: "Addr \<Rightarrow> bool" where
  "IsLoopback a \<longleftrightarrow> v4_block 8 127 a \<or> v6_block 128 1 a"

definition IsPrivate :: "Addr \<Rightarrow> bool" where
  "IsPrivate a \<longleftrightarrow> v4_block 8 10 a \<or> v4_block 12 0xac1 a \<or> v4_block 16 0xc0a8 a \<or> v6_block 7 0x7e a"

definition IsLinkLocalUnicast :: "Addr \<Rightarrow> bool" where
  "IsLinkLocalUnicast a \<longleftrightarrow> v4_block 16 0xa9fe a \<or> v6_block 10 0x3fa a"

definition IsMulticast :: "Addr \<Rightarrow> bool" where
  "IsMulticast a \<longleftrightarrow> v4_block 4 0xe a \<or> v6_block 8 0xff a"

fun IsLinkLocalMulticast :: "Addr \<Rightarrow> bool" where
  "IsLinkLocalMulticast (IPv4 a) \<longleftrightarrow> v4_block 24 0xe00000 (IPv4 a)"
| "IsLinkLocalMulticast (IPv6 a zone) \<longleftrightarrow> unat (drop_bit 112 a) div 256 = 0xff \<and> unat (drop_bit 112 a) mod 16 = 2"

text \<open>A prefix of \<open>netip\<close>; an address with a zone is in none, and families never mix.\<close>

datatype AddrPrefix = Prefix4 nat nat | Prefix6 nat nat

fun PrefixContains :: "AddrPrefix \<Rightarrow> Addr \<Rightarrow> bool" where
  "PrefixContains (Prefix4 len value) (IPv4 a) \<longleftrightarrow> v4_block len value (IPv4 a)"
| "PrefixContains (Prefix6 len value) (IPv6 a zone) \<longleftrightarrow> zone = [] \<and> v6_block len value (IPv6 a zone)"
| "PrefixContains p a \<longleftrightarrow> False"

fun addr_compare :: "Addr \<Rightarrow> Addr \<Rightarrow> int" where
  "addr_compare (IPv4 a) (IPv4 b) = (if a < b then - 1 else if a = b then 0 else 1)"
| "addr_compare (IPv4 a) (IPv6 b zone) = - 1"
| "addr_compare (IPv6 a zone) (IPv4 b) = 1"
| "addr_compare (IPv6 a zone) (IPv6 b zone') = (if a < b then - 1 else if b < a then 1 else str_compare zone zone')"

text \<open>\<open>net.JoinHostPort\<close>\<close>

definition JoinHostPort :: "string \<Rightarrow> string \<Rightarrow> string" where
  "JoinHostPort host port =
     (if contains_str host '':'' \<or> contains_str host ''%'' then ''['' @ host @ '']:'' @ port else host @ '':'' @ port)"

section \<open>Rooted request paths\<close>

text \<open>
  \<open>url.ParseRequestURI\<close> on a text that begins with a slash has no scheme and no authority. It fails
  on a control character and on a percent sign without two hexadecimal digits before the first
  question mark, gives the text after that as the query, and never has a fragment.
\<close>

fun escapes_ok :: "string \<Rightarrow> bool" where
  "escapes_ok [] \<longleftrightarrow> True"
| "escapes_ok (c # s) \<longleftrightarrow>
     (if c = CHR ''%'' then (case s of a # b # s' \<Rightarrow> is_hex a \<and> is_hex b | _ \<Rightarrow> False) else True) \<and> escapes_ok s"

definition rooted_query :: "string \<Rightarrow> string option" where
  "rooted_query s =
     (if list_ex (\<lambda>c. of_char c < (32::nat) \<or> c = CHR 0x7F) s then None
      else case cut CHR ''?'' s of
        None \<Rightarrow> if escapes_ok s then Some [] else None
      | Some (path, query) \<Rightarrow> if escapes_ok path then Some query else None)"

end
