(* ===== verification/Go_Sort.thy ===== *)
theory Go_Sort
  imports Go_Prelude "HOL-Library.Multiset"
begin

text \<open>
  Sorting with a three-way comparison. The locale states what \<open>slices.SortFunc\<close> asks of its
  argument on the elements to be sorted: a total preorder. A comparison that is wrong on other
  elements, such as one that subtracts integers, can still be used within its carrier.
\<close>

lemma mset_insert_by [simp]: "mset (insert_by cmp x ys) = add_mset x (mset ys)"
  by (induction ys) auto

lemma mset_sort_by [simp]: "mset (sort_by cmp xs) = mset xs"
  by (induction xs) auto

lemma distinct_sort_by [simp]: "distinct (sort_by cmp xs) \<longleftrightarrow> distinct xs"
  by (metis mset_sort_by mset_eq_imp_distinct_iff)

lemma sorted_wrt_mset_unique:
  assumes "sorted_wrt R xs" "sorted_wrt R ys" "mset xs = mset ys"
    and "\<And>x y. x \<in> set xs \<Longrightarrow> y \<in> set xs \<Longrightarrow> R x y \<Longrightarrow> R y x \<Longrightarrow> x = y"
  shows "xs = ys"
  using assms
proof (induction xs arbitrary: ys)
  case (Cons x xs)
  obtain y zs where ys: "ys = y # zs" using Cons.prems(3) by (cases ys) auto
  have set: "set (x # xs) = set (y # zs)" using Cons.prems(3) ys by (metis set_mset_mset)
  have "x = y"
  proof (rule ccontr)
    assume "x \<noteq> y"
    then have "x \<in> set zs" "y \<in> set xs" using set by auto
    then have "R y x" "R x y" using Cons.prems(1,2) ys by auto
    then show False using Cons.prems(4) [of x y] \<open>x \<noteq> y\<close> \<open>y \<in> set xs\<close> by simp
  qed
  moreover have "xs = zs"
    using Cons.prems calculation ys by (intro Cons.IH) auto
  ultimately show ?case using ys by simp
qed simp

locale comparison =
  fixes cmp :: "'a \<Rightarrow> 'a \<Rightarrow> int" and carrier :: "'a \<Rightarrow> bool"
  assumes total_cmp: "carrier x \<Longrightarrow> carrier y \<Longrightarrow> cmp x y \<le> 0 \<or> cmp y x \<le> 0"
    and trans_cmp: "carrier x \<Longrightarrow> carrier y \<Longrightarrow> carrier z \<Longrightarrow> cmp x y \<le> 0 \<Longrightarrow> cmp y z \<le> 0 \<Longrightarrow> cmp x z \<le> 0"
begin

lemma sorted_insert_by:
  assumes "list_all carrier ys" "carrier x" "sorted_wrt (\<lambda>x y. cmp x y \<le> 0) ys"
  shows "sorted_wrt (\<lambda>x y. cmp x y \<le> 0) (insert_by cmp x ys)"
  using assms
proof (induction ys)
  case (Cons y ys)
  show ?case
  proof (cases "cmp x y \<le> 0")
    case True
    have "cmp x z \<le> 0" if "z \<in> set ys" for z
      using trans_cmp [of x y z] that Cons.prems True by (auto simp: list_all_iff)
    then show ?thesis using Cons.prems True by simp
  next
    case False
    then have "cmp y x \<le> 0" using total_cmp [of x y] Cons.prems by auto
    then show ?thesis using Cons False by simp
  qed
qed simp

lemma sorted_sort_by: "list_all carrier xs \<Longrightarrow> sorted_wrt (\<lambda>x y. cmp x y \<le> 0) (sort_by cmp xs)"
  by (induction xs) (simp_all add: sorted_insert_by list_all_iff)

lemma sort_by_unique:
  assumes "list_all carrier xs" "mset xs = mset ys"
    and "\<And>x y. x \<in> set xs \<Longrightarrow> y \<in> set xs \<Longrightarrow> cmp x y \<le> 0 \<Longrightarrow> cmp y x \<le> 0 \<Longrightarrow> x = y"
  shows "sort_by cmp xs = sort_by cmp ys"
proof (rule sorted_wrt_mset_unique [where R = "\<lambda>x y. cmp x y \<le> 0"])
  have "list_all carrier ys" using assms(1,2) by (metis list_all_iff set_mset_mset)
  then show "sorted_wrt (\<lambda>x y. cmp x y \<le> 0) (sort_by cmp ys)" by (rule sorted_sort_by)
qed (use assms sorted_sort_by in auto)

end

text \<open>Strings under \<open>strings.Compare\<close>, by a key.\<close>

interpretation string_order: comparison "\<lambda>x y. str_compare (f x) (f y)" "\<lambda>_. True" for f
  by unfold_locales (auto simp: str_compare_le)

end
