(* ===== verification/Edge_Compiler.thy ===== *)
theory Edge_Compiler
  imports Go_Net Go_Sort Platform_Id "HOL-Library.Product_Lexorder"
begin

text \<open>
  The edge configuration compiler (\<^verbatim>\<open>src/services/edge-control/internal/compiler/compiler.go\<close>): route
  intents become an immutable generation in which host names do not cross organizations and routes
  stand in order of precedence. The IDNA conversion, the syntax check of regular expressions, the
  canonical encoding and SHA-256 are parameters.
\<close>

section \<open>Intents and generations\<close>

abbreviation MatchExact :: string where "MatchExact \<equiv> ''exact''"
abbreviation MatchPrefix :: string where "MatchPrefix \<equiv> ''prefix''"
abbreviation MatchRegex :: string where "MatchRegex \<equiv> ''regex''"

record RouteTarget =
  tg_ReleaseID :: string
  tg_ClusterID :: string
  tg_Weight :: uint32

record RouteIntent =
  ri_ID :: string
  ri_OrganizationID :: string
  ri_Hostname :: string
  ri_Match :: string
  ri_Path :: string
  ri_Priority :: "64 word"
  ri_Targets :: "RouteTarget list"

record Intent =
  it_GenerationID :: string
  it_CompilerVersion :: string
  it_SchemaVersion :: string
  it_PolicyDigest :: string
  it_PreviousGeneration :: string
  it_CreatedAt :: time
  it_Routes :: "RouteIntent list"

record CompiledRoute =
  cr_ID :: string
  cr_OrganizationID :: string
  cr_Hostname :: string
  cr_Wildcard :: bool
  cr_Match :: string
  cr_Path :: string
  cr_Priority :: "64 word"
  cr_Targets :: "RouteTarget list"

record EdgeGeneration =
  eg_GenerationID :: string
  eg_CompilerVersion :: string
  eg_SchemaVersion :: string
  eg_PolicyDigest :: string
  eg_PreviousGeneration :: string
  eg_CreatedAt :: time
  eg_Routes :: "CompiledRoute list"
  eg_CanonicalDigest :: string

record edge_lib =
  el_toASCII :: "string \<Rightarrow> string option"
  el_regexp :: "string \<Rightarrow> bool"
  el_encode :: "EdgeGeneration \<Rightarrow> string option"
  el_sha :: "string \<Rightarrow> uint8 list"

section \<open>Routes\<close>

definition validateIdentifier :: "string \<Rightarrow> string \<Rightarrow> string option" where
  "validateIdentifier value prefix = (if has_id_prefix value prefix then None else Some ''identifier must use prefix'')"

definition validDigest :: "string \<Rightarrow> bool" where
  "validDigest value \<longleftrightarrow> length value = 71 \<and> has_prefix value ''sha256:'' \<and> hex_decode (trim_prefix value ''sha256:'') \<noteq> None"

definition normalizeHostname :: "edge_lib \<Rightarrow> string \<Rightarrow> string + string \<times> bool" where
  "normalizeHostname l value =
     (if value = [] \<or> padded value then Inl ''hostname is empty or padded''
      else let value = trim_suffix (to_lower value) ''.''; wildcard = has_prefix value ''*.'' in
        if wildcard \<and> length (filter (\<lambda>c. c = CHR ''*'') value) \<noteq> 1 then Inl ''wildcard hostname is invalid''
        else if \<not> wildcard \<and> CHR ''*'' \<in> set value then Inl ''wildcard must be the complete leftmost label''
        else case el_toASCII l (if wildcard then trim_prefix value ''*.'' else value) of
          None \<Rightarrow> Inl ''hostname is invalid''
        | Some ascii \<Rightarrow>
            if ascii = [] \<or> length ascii > 253 then Inl ''hostname is invalid''
            else if ParseAddr ascii \<noteq> None \<or> CHR ''.'' \<notin> set ascii then Inl ''hostname must be a DNS name''
            else Inr (if wildcard then ''*.'' @ ascii else ascii, wildcard))"

text \<open>A literal path begins with a slash, so parsing it as a request URI is \<open>rooted_query\<close>.\<close>

definition validatePath :: "edge_lib \<Rightarrow> string \<Rightarrow> string \<Rightarrow> string option" where
  "validatePath l kind value =
     (if value = [] \<or> CHR 0x5C \<in> set value \<or> list_ex (\<lambda>c. c \<in> {CHR 0x0D, CHR 0x0A, CHR 0x00}) value then Some ''path is malformed''
      else if contains_str (to_lower value) ''%2f'' \<or> contains_str (to_lower value) ''%5c'' \<or> contains_str (to_lower value) ''%2e''
      then Some ''encoded slash, backslash, or dot is not allowed''
      else if kind = MatchRegex
      then (if length value > 1024 then Some ''regex path exceeds limit''
            else if \<not> el_regexp l value then Some ''regex path is invalid''
            else None)
      else if \<not> has_prefix value ''/'' then Some ''literal path must start with a slash''
      else if rooted_query value \<noteq> Some [] \<or> contains_str value ''/../'' \<or> has_suffix value ''/..''
      then Some ''path is not canonical''
      else None)"

text \<open>The loop over the targets, with the releases seen and the running weight, which wraps.\<close>

fun check_targets :: "RouteTarget list \<Rightarrow> string list \<Rightarrow> uint32 \<Rightarrow> string + uint32" where
  "check_targets [] seen weight = Inr weight"
| "check_targets (t # ts) seen weight =
     (case validateIdentifier (tg_ReleaseID t) ''rel'' of Some e \<Rightarrow> Inl e
      | None \<Rightarrow>
          if tg_ClusterID t = [] \<or> tg_Weight t = 0 then Inl ''incomplete target''
          else if tg_ReleaseID t \<in> set seen then Inl ''repeats release''
          else check_targets ts (tg_ReleaseID t # seen) (weight + tg_Weight t))"

definition compileRoute :: "edge_lib \<Rightarrow> RouteIntent \<Rightarrow> string + CompiledRoute" where
  "compileRoute l route =
     (case validateIdentifier (ri_ID route) ''rte'' of Some e \<Rightarrow> Inl e | None \<Rightarrow>
     (case validateIdentifier (ri_OrganizationID route) ''org'' of Some e \<Rightarrow> Inl e | None \<Rightarrow>
     (case normalizeHostname l (ri_Hostname route) of Inl e \<Rightarrow> Inl e | Inr (hostname, wildcard) \<Rightarrow>
      if ri_Match route \<notin> {MatchExact, MatchPrefix, MatchRegex} then Inl ''unknown match kind''
      else case validatePath l (ri_Match route) (ri_Path route) of Some e \<Rightarrow> Inl e | None \<Rightarrow>
      if ri_Match route = MatchRegex \<and> ri_Priority route = 0 then Inl ''regex route requires explicit priority''
      else if ri_Match route \<noteq> MatchRegex \<and> ri_Priority route \<noteq> 0 then Inl ''priority is reserved for regex routes''
      else if ri_Targets route = [] \<or> length (ri_Targets route) > 32 then Inl ''target count is outside policy''
      else case check_targets (ri_Targets route) [] 0 of Inl e \<Rightarrow> Inl e | Inr weight \<Rightarrow>
      if weight \<noteq> 100 then Inl ''target weights do not sum to 100''
      else Inr \<lparr>cr_ID = ri_ID route, cr_OrganizationID = ri_OrganizationID route, cr_Hostname = hostname, cr_Wildcard = wildcard,
             cr_Match = ri_Match route, cr_Path = ri_Path route, cr_Priority = ri_Priority route,
             cr_Targets = sort_by (\<lambda>a b. str_compare (tg_ReleaseID a) (tg_ReleaseID b)) (ri_Targets route)\<rparr>)))"

section \<open>Ownership of host names\<close>

record owners =
  ow_exact :: "string strmap"
  ow_wildcard :: "string strmap"
  ow_children :: "string list strmap"

definition children_of :: "owners \<Rightarrow> string \<Rightarrow> string list" where
  "children_of o1 suffix = (case mget (ow_children o1) suffix of None \<Rightarrow> [] | Some orgs \<Rightarrow> orgs)"

fun foreign :: "string \<Rightarrow> string option \<Rightarrow> bool" where
  "foreign org None \<longleftrightarrow> False"
| "foreign org (Some other) \<longleftrightarrow> other \<noteq> org"

definition claimHostname :: "CompiledRoute \<Rightarrow> owners \<Rightarrow> string + owners" where
  "claimHostname route o1 =
     (let org = cr_OrganizationID route in
      if cr_Wildcard route
      then let suffix = trim_prefix (cr_Hostname route) ''*.'' in
        if foreign org (mget (ow_wildcard o1) suffix) then Inl ''hostname crosses organization ownership''
        else if list_ex (\<lambda>other. other \<noteq> org) (children_of o1 suffix) then Inl ''wildcard overlaps another organization''
        else Inr (o1\<lparr>ow_wildcard := mput suffix org (ow_wildcard o1)\<rparr>)
      else if foreign org (mget (ow_exact o1) (cr_Hostname route)) then Inl ''hostname crosses organization ownership''
      else case cut CHR ''.'' (cr_Hostname route) of
        None \<Rightarrow> Inr (o1\<lparr>ow_exact := mput (cr_Hostname route) org (ow_exact o1)\<rparr>)
      | Some (first, suffix) \<Rightarrow>
          if foreign org (mget (ow_wildcard o1) suffix) then Inl ''hostname overlaps wildcard of another organization''
          else Inr (o1\<lparr>ow_children := mput suffix (List.insert org (children_of o1 suffix)) (ow_children o1),
                      ow_exact := mput (cr_Hostname route) org (ow_exact o1)\<rparr>))"

section \<open>Precedence\<close>

definition match_rank :: "string \<Rightarrow> int" where
  "match_rank kind = (if kind = MatchExact then 0 else if kind = MatchPrefix then 1 else 2)"

text \<open>The difference of the priorities is a machine integer.\<close>

definition compareRoutes :: "CompiledRoute \<Rightarrow> CompiledRoute \<Rightarrow> int" where
  "compareRoutes a b =
     (let hostRank = (\<lambda>r. if cr_Wildcard r then 1 else 0 :: int) in
      if hostRank a \<noteq> hostRank b then hostRank a - hostRank b
      else if length (cr_Hostname a) \<noteq> length (cr_Hostname b) then int (length (cr_Hostname b)) - int (length (cr_Hostname a))
      else if str_compare (cr_Hostname a) (cr_Hostname b) \<noteq> 0 then str_compare (cr_Hostname a) (cr_Hostname b)
      else if match_rank (cr_Match a) \<noteq> match_rank (cr_Match b) then match_rank (cr_Match a) - match_rank (cr_Match b)
      else if cr_Match a = MatchRegex \<and> cr_Priority a \<noteq> cr_Priority b then sint (cr_Priority b - cr_Priority a)
      else if length (cr_Path a) \<noteq> length (cr_Path b) then int (length (cr_Path b)) - int (length (cr_Path a))
      else str_compare (cr_ID a) (cr_ID b))"

section \<open>Compilation\<close>

definition int_text :: "int \<Rightarrow> string" where
  "int_text n = (if n < 0 then ''-'' @ decimal (nat (- n)) else decimal (nat n))"

definition route_identity :: "CompiledRoute \<Rightarrow> string" where
  "route_identity r = cr_Hostname r @ [CHR 0x00] @ cr_Match r @ [CHR 0x00] @ cr_Path r @ [CHR 0x00] @ int_text (sint (cr_Priority r))"

fun compile_routes :: "edge_lib \<Rightarrow> RouteIntent list \<Rightarrow> owners \<Rightarrow> string list \<Rightarrow> string + CompiledRoute list" where
  "compile_routes l [] o1 identities = Inr []"
| "compile_routes l (route # routes) o1 identities =
     (case compileRoute l route of Inl e \<Rightarrow> Inl e | Inr compiled \<Rightarrow>
     (case claimHostname compiled o1 of Inl e \<Rightarrow> Inl e | Inr o2 \<Rightarrow>
      if route_identity compiled \<in> set identities then Inl ''duplicate or ambiguous route''
      else (case compile_routes l routes o2 (route_identity compiled # identities) of
        Inl e \<Rightarrow> Inl e | Inr rest \<Rightarrow> Inr (compiled # rest))))"

definition no_owners :: owners where
  "no_owners = \<lparr>ow_exact = [], ow_wildcard = [], ow_children = []\<rparr>"

text \<open>
  The routes are sorted stably; on routes for which the comparison is a total preorder every stable
  sort gives the same list.
\<close>

definition Compile :: "edge_lib \<Rightarrow> Intent \<Rightarrow> string + EdgeGeneration" where
  "Compile l intent =
     (case validateIdentifier (it_GenerationID intent) ''edg'' of Some e \<Rightarrow> Inl e | None \<Rightarrow>
     (case (if it_PreviousGeneration intent \<noteq> [] then validateIdentifier (it_PreviousGeneration intent) ''edg'' else None) of Some e \<Rightarrow> Inl e | None \<Rightarrow>
      if it_CompilerVersion intent = [] \<or> it_SchemaVersion intent = [] \<or> \<not> validDigest (it_PolicyDigest intent) \<or> it_CreatedAt intent = 0
      then Inl ''generation metadata is incomplete''
      else if it_Routes intent = [] \<or> length (it_Routes intent) > 100000 then Inl ''route count is outside policy''
      else case compile_routes l (it_Routes intent) no_owners [] of Inl e \<Rightarrow> Inl e | Inr routes \<Rightarrow>
        let generation = \<lparr>eg_GenerationID = it_GenerationID intent, eg_CompilerVersion = it_CompilerVersion intent,
              eg_SchemaVersion = it_SchemaVersion intent, eg_PolicyDigest = it_PolicyDigest intent,
              eg_PreviousGeneration = it_PreviousGeneration intent, eg_CreatedAt = it_CreatedAt intent,
              eg_Routes = sort_by compareRoutes routes, eg_CanonicalDigest = []\<rparr> in
        case el_encode l generation of None \<Rightarrow> Inl ''canonicalization failed''
        | Some canonical \<Rightarrow> Inr (generation\<lparr>eg_CanonicalDigest := ''sha256:'' @ hex_encode (el_sha l canonical)\<rparr>)))"

end
