(* ===== verification/Edge_Laws.thy ===== *)
theory Edge_Laws
  imports Edge_Compiler
begin

text \<open>
  The edge compiler, the laws: no host name is served for two organizations, the outcome does not
  depend on the order of the intents, routes stand in order of precedence, and what the weights of
  a route add up to.
\<close>

section \<open>Claims\<close>

definition wild_suffix :: "CompiledRoute \<Rightarrow> string" where
  "wild_suffix r = trim_prefix (cr_Hostname r) ''*.''"

text \<open>The name without its first label.\<close>

definition parent :: "string \<Rightarrow> string option" where
  "parent host = map_option snd (cut CHR ''.'' host)"

text \<open>A route serves its own host name; a wildcard serves the names one label below its suffix.\<close>

definition serves :: "CompiledRoute \<Rightarrow> string \<Rightarrow> bool" where
  "serves r host \<longleftrightarrow> (if cr_Wildcard r then parent host = Some (wild_suffix r) else host = cr_Hostname r)"

definition overlap :: "CompiledRoute \<Rightarrow> CompiledRoute \<Rightarrow> bool" where
  "overlap r q \<longleftrightarrow>
     (if cr_Wildcard r then (if cr_Wildcard q then wild_suffix r = wild_suffix q else parent (cr_Hostname q) = Some (wild_suffix r))
      else if cr_Wildcard q then parent (cr_Hostname r) = Some (wild_suffix q) else cr_Hostname r = cr_Hostname q)"

definition compatible :: "CompiledRoute \<Rightarrow> CompiledRoute \<Rightarrow> bool" where
  "compatible r q \<longleftrightarrow> (overlap r q \<longrightarrow> cr_OrganizationID r = cr_OrganizationID q)"

lemma overlap_sym: "overlap r q \<longleftrightarrow> overlap q r"
  by (auto simp: overlap_def)

lemma compatible_sym: "compatible r q \<longleftrightarrow> compatible q r"
  by (auto simp: compatible_def overlap_sym)

lemma serves_overlap: "serves r host \<Longrightarrow> serves q host \<Longrightarrow> overlap r q"
  by (auto simp: serves_def overlap_def split: if_splits)

text \<open>The owner tables describe the routes claimed so far.\<close>

definition describes :: "owners \<Rightarrow> CompiledRoute set \<Rightarrow> bool" where
  "describes o1 R \<longleftrightarrow>
     (\<forall>h org. mget (ow_exact o1) h = Some org \<longleftrightarrow> (\<exists>r \<in> R. \<not> cr_Wildcard r \<and> cr_Hostname r = h \<and> cr_OrganizationID r = org)) \<and>
     (\<forall>s org. mget (ow_wildcard o1) s = Some org \<longleftrightarrow> (\<exists>r \<in> R. cr_Wildcard r \<and> wild_suffix r = s \<and> cr_OrganizationID r = org)) \<and>
     (\<forall>s org. org \<in> set (children_of o1 s) \<longleftrightarrow> (\<exists>r \<in> R. \<not> cr_Wildcard r \<and> parent (cr_Hostname r) = Some s \<and> cr_OrganizationID r = org))"

lemma describes_empty: "describes no_owners {}"
  by (simp add: describes_def no_owners_def children_of_def)

lemma describes_exact:
  "describes o1 R \<Longrightarrow> mget (ow_exact o1) h = Some org \<longleftrightarrow> (\<exists>r \<in> R. \<not> cr_Wildcard r \<and> cr_Hostname r = h \<and> cr_OrganizationID r = org)"
  by (simp add: describes_def)

lemma describes_wildcard:
  "describes o1 R \<Longrightarrow> mget (ow_wildcard o1) s = Some org \<longleftrightarrow> (\<exists>r \<in> R. cr_Wildcard r \<and> wild_suffix r = s \<and> cr_OrganizationID r = org)"
  by (simp add: describes_def)

lemma describes_children:
  "describes o1 R \<Longrightarrow> org \<in> set (children_of o1 s) \<longleftrightarrow> (\<exists>r \<in> R. \<not> cr_Wildcard r \<and> parent (cr_Hostname r) = Some s \<and> cr_OrganizationID r = org)"
  by (simp add: describes_def)

lemma foreign_iff: "foreign org owner \<longleftrightarrow> (\<exists>other. owner = Some other \<and> other \<noteq> org)"
  by (cases owner) auto

lemma foreign_exact:
  "describes o1 R \<Longrightarrow> foreign org (mget (ow_exact o1) h) \<longleftrightarrow> (\<exists>r \<in> R. \<not> cr_Wildcard r \<and> cr_Hostname r = h \<and> cr_OrganizationID r \<noteq> org)"
  unfolding foreign_iff by (simp only: describes_exact) blast

lemma foreign_wildcard:
  "describes o1 R \<Longrightarrow> foreign org (mget (ow_wildcard o1) s) \<longleftrightarrow> (\<exists>r \<in> R. cr_Wildcard r \<and> wild_suffix r = s \<and> cr_OrganizationID r \<noteq> org)"
  unfolding foreign_iff by (simp only: describes_wildcard) blast

lemma foreign_children:
  "describes o1 R \<Longrightarrow> list_ex (\<lambda>other. other \<noteq> org) (children_of o1 s) \<longleftrightarrow>
   (\<exists>r \<in> R. \<not> cr_Wildcard r \<and> parent (cr_Hostname r) = Some s \<and> cr_OrganizationID r \<noteq> org)"
  unfolding list_ex_iff Bex_def by (simp only: describes_children) blast

lemma parent_cut: "cut CHR ''.'' h = Some (a, s) \<Longrightarrow> parent h = Some s" "cut CHR ''.'' h = None \<Longrightarrow> parent h = None"
  by (simp_all add: parent_def)

lemma compatible_exact:
  "\<not> cr_Wildcard r \<Longrightarrow> compatible r q \<longleftrightarrow>
     \<not> (\<not> cr_Wildcard q \<and> cr_Hostname q = cr_Hostname r \<and> cr_OrganizationID q \<noteq> cr_OrganizationID r) \<and>
     \<not> (cr_Wildcard q \<and> parent (cr_Hostname r) = Some (wild_suffix q) \<and> cr_OrganizationID q \<noteq> cr_OrganizationID r)"
  by (auto simp: compatible_def overlap_def)

lemma compatible_wild:
  "cr_Wildcard r \<Longrightarrow> compatible r q \<longleftrightarrow>
     \<not> (cr_Wildcard q \<and> wild_suffix q = wild_suffix r \<and> cr_OrganizationID q \<noteq> cr_OrganizationID r) \<and>
     \<not> (\<not> cr_Wildcard q \<and> parent (cr_Hostname q) = Some (wild_suffix r) \<and> cr_OrganizationID q \<noteq> cr_OrganizationID r)"
  by (auto simp: compatible_def overlap_def)

lemma claim_ok_iff:
  assumes d: "describes o1 R"
  shows "(\<exists>o2. claimHostname r o1 = Inr o2) \<longleftrightarrow> (\<forall>q \<in> R. compatible r q)"
proof (cases "cr_Wildcard r")
  case True
  then have "(\<exists>o2. claimHostname r o1 = Inr o2) \<longleftrightarrow> \<not> foreign (cr_OrganizationID r) (mget (ow_wildcard o1) (wild_suffix r)) \<and>
      \<not> list_ex (\<lambda>other. other \<noteq> cr_OrganizationID r) (children_of o1 (wild_suffix r))"
    by (simp add: claimHostname_def Let_def wild_suffix_def)
  then show ?thesis unfolding foreign_wildcard [OF d] foreign_children [OF d] compatible_wild [OF True] by blast
next
  case False
  have "(\<exists>o2. claimHostname r o1 = Inr o2) \<longleftrightarrow> \<not> foreign (cr_OrganizationID r) (mget (ow_exact o1) (cr_Hostname r)) \<and>
      (\<forall>s. parent (cr_Hostname r) = Some s \<longrightarrow> \<not> foreign (cr_OrganizationID r) (mget (ow_wildcard o1) s))"
    using False by (cases "cut CHR ''.'' (cr_Hostname r)") (auto simp: claimHostname_def Let_def parent_cut)
  then show ?thesis unfolding foreign_wildcard [OF d] foreign_exact [OF d] compatible_exact [OF False] by blast
qed

lemma children_mput:
  "children_of (o1\<lparr>ow_children := mput s orgs (ow_children o1)\<rparr>) t = (if t = s then orgs else children_of o1 t)"
  by (simp add: children_of_def)

lemma children_others [simp]:
  "children_of (o1\<lparr>ow_wildcard := w\<rparr>) t = children_of o1 t" "children_of (o1\<lparr>ow_exact := x\<rparr>) t = children_of o1 t"
  by (simp_all add: children_of_def)

lemma claim_describes:
  assumes d: "describes o1 R" and c: "claimHostname r o1 = Inr o2"
  shows "describes o2 (insert r R)"
proof (cases "cr_Wildcard r")
  case True
  then have o2: "o2 = o1\<lparr>ow_wildcard := mput (wild_suffix r) (cr_OrganizationID r) (ow_wildcard o1)\<rparr>"
    and f: "\<not> foreign (cr_OrganizationID r) (mget (ow_wildcard o1) (wild_suffix r))"
    using c by (auto simp: claimHostname_def Let_def wild_suffix_def split: if_splits)
  have "mget (ow_wildcard o2) s = Some org \<longleftrightarrow> (\<exists>q \<in> insert r R. cr_Wildcard q \<and> wild_suffix q = s \<and> cr_OrganizationID q = org)" for s org
    using True f unfolding foreign_wildcard [OF d] o2 by (auto simp: describes_wildcard [OF d])
  then show ?thesis using True d unfolding describes_def by (simp add: o2)
next
  case False
  have f: "\<not> foreign (cr_OrganizationID r) (mget (ow_exact o1) (cr_Hostname r))"
    and w: "ow_wildcard o2 = ow_wildcard o1"
    and e: "ow_exact o2 = mput (cr_Hostname r) (cr_OrganizationID r) (ow_exact o1)"
    and ch: "children_of o2 s = (if parent (cr_Hostname r) = Some s then List.insert (cr_OrganizationID r) (children_of o1 s) else children_of o1 s)" for s
    using False c by (auto simp: claimHostname_def Let_def parent_cut children_mput split: if_splits option.splits)
  have "mget (ow_exact o2) h = Some org \<longleftrightarrow> (\<exists>q \<in> insert r R. \<not> cr_Wildcard q \<and> cr_Hostname q = h \<and> cr_OrganizationID q = org)" for h org
    using False f unfolding foreign_exact [OF d] e by (auto simp: describes_exact [OF d])
  moreover have "org \<in> set (children_of o2 s) \<longleftrightarrow>
      (\<exists>q \<in> insert r R. \<not> cr_Wildcard q \<and> parent (cr_Hostname q) = Some s \<and> cr_OrganizationID q = org)" for s org
    using False unfolding ch by (auto simp: describes_children [OF d])
  ultimately show ?thesis using False unfolding describes_def w by (simp add: describes_wildcard [OF d])
qed

lemma compile_routes_iff:
  "describes o1 R \<Longrightarrow> compile_routes l routes o1 identities = Inr rs \<longleftrightarrow>
     map (compileRoute l) routes = map Inr rs \<and> distinct (map route_identity rs) \<and>
     set (map route_identity rs) \<inter> set identities = {} \<and>
     (\<forall>r \<in> set rs. \<forall>q \<in> set rs \<union> R. compatible r q)"
proof (induction routes arbitrary: o1 R identities rs)
  case Nil
  then show ?case by auto
next
  case (Cons route routes)
  show ?case
  proof (cases "compileRoute l route")
    case (Inl e)
    then show ?thesis by (cases rs) auto
  next
    case (Inr c)
    show ?thesis
    proof (cases "claimHostname c o1")
      case (Inl e)
      then have "\<exists>q \<in> R. \<not> compatible c q" using claim_ok_iff [OF Cons.prems, of c] by auto
      then show ?thesis using Inl Inr by (cases rs) auto
    next
      case claimed: (Inr o2)
      then have all: "\<forall>q \<in> R. compatible c q" using claim_ok_iff [OF Cons.prems, of c] by auto
      note ih = Cons.IH [OF claim_describes [OF Cons.prems claimed]]
      have self: "compatible c c" by (simp add: compatible_def)
      have step: "compile_routes l (route # routes) o1 identities = Inr rs \<longleftrightarrow>
          (\<exists>rest. rs = c # rest \<and> route_identity c \<notin> set identities \<and>
             compile_routes l routes o2 (route_identity c # identities) = Inr rest)"
        using Inr claimed by (auto split: sum.splits)
      show ?thesis
      proof (cases rs)
        case Nil
        then show ?thesis using step by simp
      next
        case rs: (Cons d rest)
        define P where "P = (\<forall>r \<in> set rest. \<forall>q \<in> set rest \<union> insert c R. compatible r q)"
        have P: "(\<forall>r \<in> set (c # rest). \<forall>q \<in> set (c # rest) \<union> R. compatible r q) \<longleftrightarrow> P"
          unfolding P_def using all self compatible_sym by simp blast
        show ?thesis
        proof (cases "d = c")
          case True
          have "compile_routes l (route # routes) o1 identities = Inr (c # rest) \<longleftrightarrow>
              route_identity c \<notin> set identities \<and> compile_routes l routes o2 (route_identity c # identities) = Inr rest"
            unfolding step [unfolded rs True] by simp
          then show ?thesis unfolding rs True P ih P_def [symmetric] using Inr by auto
        qed (use step rs Inr in simp)
      qed
    qed
  qed
qed

section \<open>Precedence as a key\<close>

text \<open>
  Exact hosts come before wildcards, then longer names; within a name exact paths come before
  prefixes and prefixes before regular expressions, these by falling priority; then longer paths.
\<close>

definition route_key :: "CompiledRoute \<Rightarrow> bool \<times> int \<times> string \<times> int \<times> int \<times> int \<times> string" where
  "route_key r = (cr_Wildcard r, - int (length (cr_Hostname r)), cr_Hostname r, match_rank (cr_Match r),
     (if cr_Match r = MatchRegex then - sint (cr_Priority r) else 0), - int (length (cr_Path r)), cr_ID r)"

text \<open>Routes whose priorities are small enough for the difference of two of them.\<close>

definition comparable :: "CompiledRoute \<Rightarrow> bool" where
  "comparable r \<longleftrightarrow> cr_Match r \<in> {MatchExact, MatchPrefix, MatchRegex} \<and> - (2 ^ 62) \<le> sint (cr_Priority r) \<and> sint (cr_Priority r) < 2 ^ 62"

lemma sint_inject: "sint a = sint b \<longleftrightarrow> a = b" for a b :: "64 word"
  by (auto intro: signed_word_eqI)

lemma sint_diff:
  fixes a b :: "64 word"
  assumes "- (2 ^ 62) \<le> sint a" "sint a < 2 ^ 62" "- (2 ^ 62) \<le> sint b" "sint b < 2 ^ 62"
  shows "sint (a - b) = sint a - sint b"
proof -
  have "sint (a - b) = signed_take_bit 63 (sint a - sint b)" by (simp add: sint_word_ariths)
  moreover have "signed_take_bit 63 (sint a - sint b) = sint a - sint b"
    using assms by (intro signed_take_bit_int_eq_self) simp_all
  ultimately show ?thesis by simp
qed

lemma match_rank_regex: "k \<in> {MatchExact, MatchPrefix, MatchRegex} \<Longrightarrow> j \<in> {MatchExact, MatchPrefix, MatchRegex} \<Longrightarrow>
   match_rank k = match_rank j \<longleftrightarrow> k = j"
  by (auto simp: match_rank_def)

text \<open>One level of a comparison against one component of a key.\<close>

lemma lexicographic:
  fixes x y :: "'a::linorder" and p q :: "'b::linorder"
  assumes "(same \<longleftrightarrow> x = y)" "\<not> same \<Longrightarrow> d \<le> 0 \<longleftrightarrow> x < y" "same \<Longrightarrow> e \<le> 0 \<longleftrightarrow> p \<le> q"
  shows "(if \<not> same then d else e) \<le> (0 :: int) \<longleftrightarrow> (x, p) \<le> (y, q)"
  using assms by auto

lemma str_compare_less: "x \<noteq> y \<Longrightarrow> str_compare x y \<le> 0 \<longleftrightarrow> x < y"
  by (auto simp: str_compare_def)

lemma compareRoutes_key:
  assumes "comparable a" "comparable b"
  shows "compareRoutes a b \<le> 0 \<longleftrightarrow> route_key a \<le> route_key b"
proof -
  have d: "sint (cr_Priority b - cr_Priority a) = sint (cr_Priority b) - sint (cr_Priority a)"
    using assms by (intro sint_diff) (simp_all add: comparable_def)
  have m: "match_rank (cr_Match a) = match_rank (cr_Match b) \<longleftrightarrow> cr_Match a = cr_Match b"
    using assms by (intro match_rank_regex) (simp_all add: comparable_def)
  have p: "(cr_Match a = MatchRegex \<and> cr_Priority a \<noteq> cr_Priority b) = (\<not> (cr_Match a = MatchRegex \<longrightarrow> cr_Priority a = cr_Priority b))" by blast
  show ?thesis unfolding compareRoutes_def route_key_def Let_def p str_compare_0
  proof (intro lexicographic)
    assume same: "match_rank (cr_Match a) = match_rank (cr_Match b)"
    then show "(cr_Match a = MatchRegex \<longrightarrow> cr_Priority a = cr_Priority b) \<longleftrightarrow>
        (if cr_Match a = MatchRegex then - sint (cr_Priority a) else 0) = (if cr_Match b = MatchRegex then - sint (cr_Priority b) else 0)"
      using m by (simp add: sint_inject)
    show "\<not> (cr_Match a = MatchRegex \<longrightarrow> cr_Priority a = cr_Priority b) \<Longrightarrow> sint (cr_Priority b - cr_Priority a) \<le> 0 \<longleftrightarrow>
        (if cr_Match a = MatchRegex then - sint (cr_Priority a) else 0) < (if cr_Match b = MatchRegex then - sint (cr_Priority b) else 0)"
      using same m by (auto simp: d order_less_le sint_inject)
  qed (simp_all add: str_compare_less str_compare_le order_less_le split: if_splits)
qed

interpretation route_order: comparison compareRoutes comparable
proof unfold_locales
  show "comparable x \<Longrightarrow> comparable y \<Longrightarrow> compareRoutes x y \<le> 0 \<or> compareRoutes y x \<le> 0" for x y
    using linear [of "route_key x" "route_key y"] compareRoutes_key [of x y] compareRoutes_key [of y x] by blast
  show "comparable x \<Longrightarrow> comparable y \<Longrightarrow> comparable z \<Longrightarrow> compareRoutes x y \<le> 0 \<Longrightarrow> compareRoutes y z \<le> 0 \<Longrightarrow> compareRoutes x z \<le> 0" for x y z
    using order_trans [of "route_key x" "route_key y" "route_key z"] compareRoutes_key [of x y] compareRoutes_key [of y z] compareRoutes_key [of x z]
    by blast
qed

section \<open>Compiled routes\<close>

lemma compileRoute_InrE:
  assumes "compileRoute l route = Inr c"
  obtains hostname wildcard where "normalizeHostname l (ri_Hostname route) = Inr (hostname, wildcard)"
    "ri_Match route \<in> {MatchExact, MatchPrefix, MatchRegex}" "ri_Targets route \<noteq> []" "length (ri_Targets route) \<le> 32"
    "check_targets (ri_Targets route) [] 0 = Inr 100"
    "c = \<lparr>cr_ID = ri_ID route, cr_OrganizationID = ri_OrganizationID route, cr_Hostname = hostname, cr_Wildcard = wildcard,
       cr_Match = ri_Match route, cr_Path = ri_Path route, cr_Priority = ri_Priority route,
       cr_Targets = sort_by (\<lambda>a b. str_compare (tg_ReleaseID a) (tg_ReleaseID b)) (ri_Targets route)\<rparr>"
proof (cases "normalizeHostname l (ri_Hostname route)")
  case (Inl e)
  then show ?thesis using assms by (simp add: compileRoute_def split: option.splits)
next
  case (Inr hw)
  obtain hostname wildcard where hw: "hw = (hostname, wildcard)" by fastforce
  show ?thesis using assms that [OF Inr [unfolded hw]] unfolding compileRoute_def Inr hw
    by (simp add: not_less split: option.splits if_splits sum.splits)
qed

lemma check_targets_sum:
  "check_targets ts seen weight = Inr result \<Longrightarrow>
   result = weight + of_nat (sum_list (map (\<lambda>t. unat (tg_Weight t)) ts)) \<and> distinct (map tg_ReleaseID ts) \<and>
   set (map tg_ReleaseID ts) \<inter> set seen = {} \<and> list_all (\<lambda>t. 0 < unat (tg_Weight t)) ts"
proof (induction ts seen weight rule: check_targets.induct)
  case (2 t ts seen weight)
  then have "check_targets ts (tg_ReleaseID t # seen) (weight + tg_Weight t) = Inr result" "tg_ReleaseID t \<notin> set seen" "tg_Weight t \<noteq> 0"
    by (auto split: option.splits if_splits)
  moreover from this 2 have "result = weight + tg_Weight t + of_nat (sum_list (map (\<lambda>t. unat (tg_Weight t)) ts)) \<and> distinct (map tg_ReleaseID ts) \<and>
     set (map tg_ReleaseID ts) \<inter> set (tg_ReleaseID t # seen) = {} \<and> list_all (\<lambda>t. 0 < unat (tg_Weight t)) ts"
    by (auto split: option.splits if_splits)
  ultimately show ?case by (auto simp: unat_gt_0)
qed simp

lemma sorted_wrt_strict:
  fixes f :: "'a \<Rightarrow> 'b::linorder"
  shows "sorted_wrt (\<lambda>a b. f a \<le> f b) xs \<Longrightarrow> distinct (map f xs) \<Longrightarrow> sorted_wrt (<) (map f xs)"
  by (induction xs) (auto simp: order_less_le)

lemma sum_list_bound: "list_all (\<lambda>t. f t \<le> (k :: nat)) ts \<Longrightarrow> sum_list (map f ts) \<le> length ts * k"
  by (induction ts) auto

lemma Compile_InrE:
  assumes "Compile l intent = Inr g"
  obtains routes where "compile_routes l (it_Routes intent) no_owners [] = Inr routes" "eg_Routes g = sort_by compareRoutes routes"
  using assms by (auto simp: Compile_def Let_def split: option.splits if_splits sum.splits)

lemma Compile_cong:
  assumes "compile_routes l routes no_owners [] = Inr ss" "compile_routes l (it_Routes intent) no_owners [] = Inr rs"
    and "sort_by compareRoutes ss = sort_by compareRoutes rs" "length routes = length (it_Routes intent)" "routes = [] \<longleftrightarrow> it_Routes intent = []"
  shows "Compile l (intent\<lparr>it_Routes := routes\<rparr>) = Compile l intent"
  using assms by (cases intent) (simp only: Compile_def Intent.simps sum.case)

text \<open>
  C9: in a compiled generation no host name is served for two organizations, whether by a route of
  that name or by a wildcard one label above it.
\<close>

theorem Compile_ownership:
  assumes "Compile l intent = Inr g" "r \<in> set (eg_Routes g)" "q \<in> set (eg_Routes g)" "serves r host" "serves q host"
  shows "cr_OrganizationID r = cr_OrganizationID q"
proof (rule Compile_InrE [OF assms(1)])
  fix routes
  assume c: "compile_routes l (it_Routes intent) no_owners [] = Inr routes" "eg_Routes g = sort_by compareRoutes routes"
  have "\<forall>r \<in> set routes. \<forall>q \<in> set routes \<union> {}. compatible r q" using compile_routes_iff [OF describes_empty, THEN iffD1, OF c(1)] by blast
  then have "compatible r q" using assms(2,3) c(2) by simp
  then show ?thesis using serves_overlap [OF assms(4,5)] by (simp add: compatible_def)
qed

lemma compiled_comparable:
  "compileRoute l route = Inr c \<Longrightarrow> - (2 ^ 62) \<le> sint (ri_Priority route) \<Longrightarrow> sint (ri_Priority route) < 2 ^ 62 \<Longrightarrow> comparable c"
  by (erule compileRoute_InrE) (simp add: comparable_def)

lemma compiled_ids: "map (compileRoute l) routes = map Inr rs \<Longrightarrow> map cr_ID rs = map ri_ID routes"
  by (induction routes arbitrary: rs) (auto elim: compileRoute_InrE)

lemma compiled_in:
  "map f routes = map Inr rs \<Longrightarrow> c \<in> set rs \<Longrightarrow> \<exists>route \<in> set routes. f route = Inr c"
  by (induction routes arbitrary: rs) auto

lemma map_Inr_perm:
  assumes "map f xs = map Inr rs" "mset xs = mset ys"
  shows "\<exists>ss. map f ys = map Inr ss \<and> mset ss = mset rs"
proof -
  have "\<exists>r. f y = Inr r" if "y \<in> set ys" for y
  proof -
    have "y \<in> set xs" using that assms(2) by (metis set_mset_mset)
    then have "f y \<in> set (map Inr rs)" using assms(1) by (metis image_eqI list.set_map)
    then show ?thesis by auto
  qed
  then have ys: "map f ys = map Inr (map (projr \<circ> f) ys)" by (auto simp: comp_def) fastforce
  have "rs = map (projr \<circ> f) xs"
    using arg_cong [OF assms(1), of "map projr"] by (simp add: comp_def)
  then have "mset (map (projr \<circ> f) ys) = mset rs" using assms(2) by simp
  then show ?thesis using ys by blast
qed

lemma comparable_antisym:
  assumes "distinct (map cr_ID rs)" "list_all comparable rs" "x \<in> set rs" "y \<in> set rs" "compareRoutes x y \<le> 0" "compareRoutes y x \<le> 0"
  shows "x = y"
proof -
  have "comparable x" "comparable y" using assms(2-4) by (auto simp: list_all_iff)
  then have "route_key x = route_key y" using assms(5,6) compareRoutes_key by (metis order_antisym)
  then have "cr_ID x = cr_ID y" by (simp add: route_key_def)
  then show ?thesis using assms(1,3,4) by (metis distinct_map inj_on_def)
qed

text \<open>
  C38: compilation does not depend on the order of the intents, provided that route identifiers are
  distinct and priorities are below 2^62 in size: then every arrangement of the routes compiles to
  the same generation, digest included, and its routes stand in order of precedence. Without the two
  provisos it can depend on the order (\<open>shared_identifier_order\<close>, \<open>priorities_may_wrap\<close>).
\<close>

theorem Compile_deterministic:
  assumes "Compile l intent = Inr g" "mset routes = mset (it_Routes intent)" "distinct (map ri_ID routes)"
    and "list_all (\<lambda>r. - (2 ^ 62) \<le> sint (ri_Priority r) \<and> sint (ri_Priority r) < 2 ^ 62) routes"
  shows "Compile l (intent\<lparr>it_Routes := routes\<rparr>) = Inr g \<and> sorted_wrt (\<lambda>a b. route_key a \<le> route_key b) (eg_Routes g)"
proof (rule Compile_InrE [OF assms(1)])
  fix rs
  assume c: "compile_routes l (it_Routes intent) no_owners [] = Inr rs" "eg_Routes g = sort_by compareRoutes rs"
  have set: "set (it_Routes intent) = set routes" using assms(2) by (metis set_mset_mset)
  note r = compile_routes_iff [OF describes_empty, THEN iffD1, OF c(1)]
  obtain ss where ss: "map (compileRoute l) routes = map Inr ss" "mset ss = mset rs"
    using map_Inr_perm [of "compileRoute l" "it_Routes intent" rs routes] r assms(2) by auto
  have same: "set ss = set rs" "distinct (map route_identity ss) \<longleftrightarrow> distinct (map route_identity rs)"
    using ss(2) by (metis set_mset_mset) (metis mset_eq_imp_distinct_iff mset_map ss(2))
  then have "compile_routes l routes no_owners [] = Inr ss"
    using compile_routes_iff [OF describes_empty, of l routes "[]" ss] r ss(1) by simp
  have comp: "list_all comparable ss" unfolding list_all_iff
  proof
    fix x assume "x \<in> set ss"
    then obtain route where "route \<in> set routes" "compileRoute l route = Inr x" using compiled_in [OF ss(1)] by blast
    then show "comparable x" using compiled_comparable assms(4) by (auto simp: list_all_iff)
  qed
  have ids: "distinct (map cr_ID ss)" using compiled_ids [OF ss(1)] assms(3) by simp
  have sort: "sort_by compareRoutes ss = sort_by compareRoutes rs"
    by (rule route_order.sort_by_unique [OF comp ss(2)]) (rule comparable_antisym [OF ids comp])
  have len: "length routes = length (it_Routes intent)" "routes = [] \<longleftrightarrow> it_Routes intent = []"
    using assms(2) by (metis size_mset) (metis assms(2) mset_zero_iff)
  have "Compile l (intent\<lparr>it_Routes := routes\<rparr>) = Compile l intent"
    by (rule Compile_cong [OF \<open>compile_routes l routes no_owners [] = Inr ss\<close> c(1) sort len])
  moreover have "sorted_wrt (\<lambda>a b. route_key a \<le> route_key b) (eg_Routes g)"
  proof -
    have "sorted_wrt (\<lambda>a b. compareRoutes a b \<le> 0) (eg_Routes g)" unfolding c(2) sort [symmetric] by (rule route_order.sorted_sort_by [OF comp])
    moreover have "\<forall>x \<in> set (eg_Routes g). comparable x" using comp c(2) same(1) by (simp add: list_all_iff)
    ultimately show ?thesis
      using sorted_wrt_mono_rel [of "eg_Routes g" "\<lambda>a b. compareRoutes a b \<le> 0" "\<lambda>a b. route_key a \<le> route_key b"] compareRoutes_key by blast
  qed
  ultimately show ?thesis using assms(1) by simp
qed

text \<open>
  C39: the targets of a compiled route are those of the intent, ordered by distinct releases and
  with positive weights whose sum is 100 modulo 2^32; it is 100 when no weight exceeds 2^26.
\<close>

theorem compileRoute_weights:
  assumes "compileRoute l route = Inr c"
  shows "mset (cr_Targets c) = mset (ri_Targets route) \<and> sorted_wrt (<) (map tg_ReleaseID (cr_Targets c)) \<and>
     list_all (\<lambda>t. 0 < unat (tg_Weight t)) (cr_Targets c) \<and>
     sum_list (map (\<lambda>t. unat (tg_Weight t)) (cr_Targets c)) mod 2 ^ 32 = 100 \<and>
     (list_all (\<lambda>t. unat (tg_Weight t) \<le> 2 ^ 26) (cr_Targets c) \<longrightarrow> sum_list (map (\<lambda>t. unat (tg_Weight t)) (cr_Targets c)) = 100)"
proof -
  let ?cmp = "\<lambda>a b. str_compare (tg_ReleaseID a) (tg_ReleaseID b)" and ?w = "\<lambda>t. unat (tg_Weight t)"
  have t: "check_targets (ri_Targets route) [] 0 = Inr 100" "cr_Targets c = sort_by ?cmp (ri_Targets route)" "length (ri_Targets route) \<le> 32"
    by (rule compileRoute_InrE [OF assms]; simp)+
  have ms: "mset (cr_Targets c) = mset (ri_Targets route)" using t(2) by simp
  note s = check_targets_sum [OF t(1)]
  have sum: "sum_list (map ?w (cr_Targets c)) = sum_list (map ?w (ri_Targets route))"
    using arg_cong [OF ms, of "\<lambda>m. sum_mset (image_mset ?w m)"] by (simp only: mset_map [symmetric] sum_mset_sum_list)
  have "(100 :: uint32) = of_nat (sum_list (map ?w (ri_Targets route)))" using s by simp
  then have "unat (100 :: uint32) = sum_list (map ?w (ri_Targets route)) mod 2 ^ 32" by (simp only: unat_of_nat len_num0 len_bit0 len_num1) simp
  then have m: "sum_list (map ?w (cr_Targets c)) mod 2 ^ 32 = 100" unfolding sum by simp
  have d: "distinct (map tg_ReleaseID (cr_Targets c))" using s mset_eq_imp_distinct_iff [of "map tg_ReleaseID (cr_Targets c)" "map tg_ReleaseID (ri_Targets route)"] ms by simp
  have "sorted_wrt (\<lambda>a b. ?cmp a b \<le> 0) (cr_Targets c)" unfolding t(2) by (rule string_order.sorted_sort_by) (simp add: list_all_iff)
  then have "sorted_wrt (<) (map tg_ReleaseID (cr_Targets c))"
    using d sorted_wrt_strict by (simp add: str_compare_le)
  moreover have "list_all (\<lambda>t. 0 < ?w t) (cr_Targets c)" using s ms by (metis list_all_iff set_mset_mset)
  moreover have "sum_list (map ?w (cr_Targets c)) = 100" if "list_all (\<lambda>t. ?w t \<le> 2 ^ 26) (cr_Targets c)"
  proof -
    have "sum_list (map ?w (cr_Targets c)) \<le> length (cr_Targets c) * 2 ^ 26" using sum_list_bound [OF that] .
    also have "\<dots> \<le> 32 * 2 ^ 26" using t(2,3) by simp
    finally show ?thesis using m by simp
  qed
  ultimately show ?thesis using m ms by blast
qed

section \<open>A sample generation\<close>

definition sample_target :: "uint32 \<Rightarrow> RouteTarget" where
  "sample_target weight = \<lparr>tg_ReleaseID = sample_id ''rel'', tg_ClusterID = ''c'', tg_Weight = weight\<rparr>"

definition sample_route :: RouteIntent where
  "sample_route = \<lparr>ri_ID = sample_id ''rte'', ri_OrganizationID = sample_id ''org'', ri_Hostname = ''app.example.com'', ri_Match = MatchRegex,
     ri_Path = ''a'', ri_Priority = 5, ri_Targets = [sample_target 100]\<rparr>"

definition sample_compiled :: CompiledRoute where
  "sample_compiled = \<lparr>cr_ID = sample_id ''rte'', cr_OrganizationID = sample_id ''org'', cr_Hostname = ''app.example.com'', cr_Wildcard = False,
     cr_Match = MatchRegex, cr_Path = ''a'', cr_Priority = 5, cr_Targets = [sample_target 100]\<rparr>"

definition sample_edge_lib :: edge_lib where
  "sample_edge_lib = \<lparr>el_toASCII = Some, el_regexp = (\<lambda>_. True), el_encode = (\<lambda>_. Some ''{}''), el_sha = (\<lambda>_. replicate 32 0)\<rparr>"

definition sample_intent :: Intent where
  "sample_intent = \<lparr>it_GenerationID = sample_id ''edg'', it_CompilerVersion = ''1'', it_SchemaVersion = ''1'', it_PolicyDigest = sample_digest,
     it_PreviousGeneration = [], it_CreatedAt = unix_epoch, it_Routes = [sample_route]\<rparr>"

definition sample_generation :: EdgeGeneration where
  "sample_generation = \<lparr>eg_GenerationID = sample_id ''edg'', eg_CompilerVersion = ''1'', eg_SchemaVersion = ''1'', eg_PolicyDigest = sample_digest,
     eg_PreviousGeneration = [], eg_CreatedAt = unix_epoch, eg_Routes = [sample_compiled],
     eg_CanonicalDigest = ''sha256:'' @ hex_encode (replicate 32 0)\<rparr>"

lemma sample_host: "normalizeHostname sample_edge_lib ''app.example.com'' = Inr (''app.example.com'', False)"
proof -
  have "\<not> padded ''app.example.com''" by (simp add: padded_def white_space_def has_prefix_def has_suffix_def upt_rec)
  moreover have "trim_suffix (to_lower ''app.example.com'') ''.'' = ''app.example.com''"
    by (simp add: trim_suffix_def to_lower_def lower_char_def has_suffix_def has_prefix_def)
  moreover have "ParseAddr ''app.example.com'' = None"
    by (simp add: ParseAddr_def parse_ipv4_octets_def ipv4_octet_def is_digit_def in_range_def)
  ultimately show ?thesis by (simp add: normalizeHostname_def sample_edge_lib_def has_prefix_def Let_def)
qed

lemma sample_path: "validatePath sample_edge_lib MatchRegex ''a'' = None"
  by (simp add: validatePath_def to_lower_def lower_char_def has_prefix_def sample_edge_lib_def)

lemma sample_route_ok: "compileRoute sample_edge_lib sample_route = Inr sample_compiled"
  using sample_host sample_path
  by (simp add: compileRoute_def sample_route_def sample_compiled_def sample_target_def validateIdentifier_def allowedPrefixes_def)

lemma sample_digest_valid: "validDigest sample_digest"
  using hex_decode_lower [of "replicate 64 CHR ''0''"]
  by (auto simp: validDigest_def sample_digest_def has_prefix_def trim_prefix_def is_lower_hex_def is_digit_def in_range_def list_all_iff)

lemma sample_intent_ok: "Compile sample_edge_lib sample_intent = Inr sample_generation"
proof -
  have "compile_routes sample_edge_lib [sample_route] no_owners [] = Inr [sample_compiled]"
    by (subst compile_routes_iff [OF describes_empty]) (simp add: sample_route_ok compatible_def)
  then show ?thesis using sample_digest_valid
    by (simp add: Compile_def sample_intent_def sample_generation_def validateIdentifier_def allowedPrefixes_def Let_def sample_edge_lib_def unix_epoch_def)
qed

theorem Compile_ownership_witness:
  "Compile sample_edge_lib sample_intent = Inr sample_generation \<and> serves sample_compiled ''app.example.com'' \<and>
   cr_OrganizationID sample_compiled = sample_id ''org''"
proof -
  have "sample_compiled \<in> set (eg_Routes sample_generation)" "serves sample_compiled ''app.example.com''"
    by (simp_all add: sample_generation_def serves_def sample_compiled_def)
  then have "cr_OrganizationID sample_compiled = cr_OrganizationID sample_compiled"
    using Compile_ownership [OF sample_intent_ok] by blast
  then show ?thesis using sample_intent_ok \<open>serves sample_compiled ''app.example.com''\<close> by (simp add: sample_compiled_def)
qed

text \<open>A second route with an identifier and a path of its own and a higher priority.\<close>

definition second_id :: string where
  "second_id = ''rte_00000000-0000-7000-8000-000000000001''"

lemma second_id_ok: "has_id_prefix second_id ''rte''"
proof -
  let ?raw = "[0, 0, 0, 0, 0, 0, 0x70, 0, 0x80, 0, 0, 0, 0, 0, 0, 1] :: uint8 list"
  have "second_id = ''rte'' @ ''_'' @ canonical_uuid ?raw"
    by (simp add: second_id_def canonical_uuid_def subslice_def hex_byte_def hex_digit_numerals hex_digit_numerals(2) [simplified])
  moreover have "length ?raw = 16" "drop_bit 4 (?raw ! 6) = 7" "?raw ! 8 AND 0xc0 = 0x80" by simp_all
  moreover have "''rte'' \<in> set allowedPrefixes" by (simp add: allowedPrefixes_def)
  ultimately show ?thesis unfolding has_id_prefix_iff by blast
qed

definition second_route :: RouteIntent where
  "second_route = sample_route\<lparr>ri_ID := second_id, ri_Path := ''b'', ri_Priority := 9\<rparr>"

definition second_compiled :: CompiledRoute where
  "second_compiled = sample_compiled\<lparr>cr_ID := second_id, cr_Path := ''b'', cr_Priority := 9\<rparr>"

lemma second_path: "validatePath sample_edge_lib MatchRegex ''b'' = None"
  by (simp add: validatePath_def to_lower_def lower_char_def has_prefix_def sample_edge_lib_def)

lemma second_route_ok: "compileRoute sample_edge_lib second_route = Inr second_compiled"
  using sample_host second_path second_id_ok
  by (simp add: compileRoute_def second_route_def second_compiled_def sample_route_def sample_compiled_def sample_target_def
      validateIdentifier_def allowedPrefixes_def)

definition two_routes :: "RouteIntent list \<Rightarrow> Intent" where
  "two_routes routes = sample_intent\<lparr>it_Routes := routes\<rparr>"

lemma two_routes_ok: "\<exists>g. Compile sample_edge_lib (two_routes [sample_route, second_route]) = Inr g"
proof -
  have "compile_routes sample_edge_lib [sample_route, second_route] no_owners [] = Inr [sample_compiled, second_compiled]"
    by (subst compile_routes_iff [OF describes_empty])
      (simp add: sample_route_ok second_route_ok compatible_def route_identity_def second_compiled_def sample_compiled_def)
  then show ?thesis using sample_digest_valid
    by (simp add: Compile_def two_routes_def sample_intent_def validateIdentifier_def allowedPrefixes_def Let_def sample_edge_lib_def unix_epoch_def)
qed

theorem Compile_deterministic_witness:
  "\<exists>g. Compile sample_edge_lib (two_routes [sample_route, second_route]) = Inr g \<and>
     Compile sample_edge_lib (two_routes [second_route, sample_route]) = Inr g"
proof -
  obtain g where g: "Compile sample_edge_lib (two_routes [sample_route, second_route]) = Inr g" using two_routes_ok by blast
  have "second_id \<noteq> sample_id ''rte''" by (simp add: second_id_def sample_id_def)
  then have "Compile sample_edge_lib (two_routes [sample_route, second_route]\<lparr>it_Routes := [second_route, sample_route]\<rparr>) = Inr g"
    using Compile_deterministic [OF g, of "[second_route, sample_route]"]
    by (simp add: two_routes_def second_route_def sample_route_def)
  then show ?thesis using g by (simp add: two_routes_def)
qed

theorem compileRoute_weights_witness:
  "compileRoute sample_edge_lib sample_route = Inr sample_compiled \<and>
   sum_list (map (\<lambda>t. unat (tg_Weight t)) (cr_Targets sample_compiled)) = 100"
  using compileRoute_weights [OF sample_route_ok] sample_route_ok by (simp add: sample_compiled_def sample_target_def)

text \<open>The running weight wraps: two targets whose weights add up to 2^32 + 100 pass.\<close>

lemma weights_may_wrap:
  assumes "has_id_prefix other ''rel''" "other \<noteq> sample_id ''rel''"
  shows "\<exists>c. compileRoute sample_edge_lib (sample_route\<lparr>ri_Targets := [sample_target 0xFFFFFFFF, (sample_target 101)\<lparr>tg_ReleaseID := other\<rparr>]\<rparr>) = Inr c"
  using sample_host sample_path assms
  by (simp add: compileRoute_def sample_route_def sample_target_def validateIdentifier_def allowedPrefixes_def)

text \<open>
  Routes that share an identifier, a host and the length of their paths keep the order of the
  intents, although they are different routes.
\<close>

lemma shared_identifier_order:
  "compareRoutes (sample_compiled\<lparr>cr_Path := ''b''\<rparr>) sample_compiled = 0 \<and> compareRoutes sample_compiled (sample_compiled\<lparr>cr_Path := ''b''\<rparr>) = 0 \<and>
   route_identity (sample_compiled\<lparr>cr_Path := ''b''\<rparr>) \<noteq> route_identity sample_compiled"
  by (simp add: compareRoutes_def sample_compiled_def route_identity_def)

text \<open>Priorities that differ by 2^63 or more compare the wrong way around.\<close>

lemma priorities_may_wrap:
  "compareRoutes (sample_compiled\<lparr>cr_Priority := 0x7FFFFFFFFFFFFFFF\<rparr>) (sample_compiled\<lparr>cr_Priority := - 2\<rparr>) > 0"
  by (simp add: compareRoutes_def sample_compiled_def)

end
