(* ===== verification/Net_Policy.thy ===== *)
theory Net_Policy
  imports Go_Net Go_Sort
begin

text \<open>
  Destination policy for controlled egress (\<^verbatim>\<open>src/internal/netpolicy/destination.go\<close>): a URL is
  resolved once, every address must be public unicast, and the decision pins the addresses to dial.
  The URL parser, the IDNA conversion, the resolver and the text form of an address are parameters.
\<close>

section \<open>URLs\<close>

text \<open>A parsed URL; the path and the query are kept as one opaque text.\<close>

record ParsedURL =
  pu_Scheme :: string
  pu_User :: bool
  pu_Host :: string
  pu_PathQuery :: string
  pu_Fragment :: string

fun last_colon :: "string \<Rightarrow> (string \<times> string) option" where
  "last_colon [] = None"
| "last_colon (c # s) =
     (case last_colon s of Some (a, b) \<Rightarrow> Some (c # a, b)
      | None \<Rightarrow> if c = CHR '':'' then Some ([], s) else None)"

text \<open>\<open>URL.Hostname\<close> and \<open>URL.Port\<close>\<close>

definition splitHostPort :: "string \<Rightarrow> string \<times> string" where
  "splitHostPort hostPort =
     (let (host, port) = (case last_colon hostPort of
            Some (h, p) \<Rightarrow> if list_all is_digit p then (h, p) else (hostPort, [])
          | None \<Rightarrow> (hostPort, [])) in
      (if has_prefix host ''['' \<and> has_suffix host '']'' then butlast (tl host) else host, port))"

section \<open>The policy\<close>

record 'c dest_policy =
  dp_Resolver :: "('c \<Rightarrow> string \<Rightarrow> nat list list option) option"
  dp_AllowHTTP :: bool
  dp_AllowedPorts :: "uint16 list"
  dp_MaxURLBytes :: int
  dp_MaxIPs :: int

record Decision =
  dc_URL :: ParsedURL
  dc_Host :: string
  dc_Port :: uint16
  dc_Addresses :: "Addr list"

record net_lib =
  nl_parse :: "string \<Rightarrow> ParsedURL option"
  nl_toASCII :: "string \<Rightarrow> string option"
  nl_show :: "Addr \<Rightarrow> string"

definition DefaultMaxURLBytes :: int where "DefaultMaxURLBytes = 2048"
definition DefaultMaxIPs :: int where "DefaultMaxIPs = 16"

text \<open>Each prefix by its length and the value of its leading bits.\<close>

definition blockedPrefixes :: "AddrPrefix list" where
  "blockedPrefixes = [Prefix4 8 0, Prefix4 10 0x191, Prefix4 24 0xc00000, Prefix4 24 0xc00002, Prefix4 15 0x6309,
     Prefix4 24 0xc63364, Prefix4 24 0xcb0071, Prefix4 4 0xf, Prefix6 32 0x20010db8]"

definition DefaultPolicy :: "('c \<Rightarrow> string \<Rightarrow> nat list list option) option \<Rightarrow> 'c dest_policy" where
  "DefaultPolicy resolver = \<lparr>dp_Resolver = resolver, dp_AllowHTTP = False, dp_AllowedPorts = [443],
     dp_MaxURLBytes = DefaultMaxURLBytes, dp_MaxIPs = DefaultMaxIPs\<rparr>"

definition validateAddress :: "Addr \<Rightarrow> string option" where
  "validateAddress address =
     (if IsUnspecified address \<or> IsLoopback address \<or> IsPrivate address \<or> IsLinkLocalUnicast address \<or>
         IsLinkLocalMulticast address \<or> IsMulticast address then Some ''address is not public unicast''
      else if list_ex (\<lambda>p. PrefixContains p address) blockedPrefixes then Some ''address range is reserved by policy''
      else None)"

fun resolve_all :: "nat list list \<Rightarrow> Addr list \<Rightarrow> string + Addr list" where
  "resolve_all [] unique = Inr unique"
| "resolve_all (item # items) unique =
     (case AddrFromSlice item of None \<Rightarrow> Inl ''DNS returned an invalid address''
      | Some address \<Rightarrow>
          (case validateAddress (Unmap address) of Some e \<Rightarrow> Inl e
           | None \<Rightarrow> resolve_all items (List.insert (Unmap address) unique)))"

definition resolve :: "('c \<Rightarrow> string \<Rightarrow> nat list list option) \<Rightarrow> 'c \<Rightarrow> string \<Rightarrow> int \<Rightarrow> string + Addr list" where
  "resolve lookup ctx hostname maxIPs =
     (case ParseAddr hostname of
        Some literal \<Rightarrow> (case validateAddress (Unmap literal) of Some e \<Rightarrow> Inl e | None \<Rightarrow> Inr [Unmap literal])
      | None \<Rightarrow>
          (case lookup ctx hostname of None \<Rightarrow> Inl ''DNS resolution failed''
           | Some resolved \<Rightarrow>
               if resolved = [] \<or> int (length resolved) > maxIPs then Inl ''DNS answer count is outside policy''
               else case resolve_all resolved [] of Inl e \<Rightarrow> Inl e | Inr unique \<Rightarrow> Inr (sort_by addr_compare unique)))"

definition destinationPort :: "ParsedURL \<Rightarrow> string + uint16" where
  "destinationPort parsed =
     (let portText = snd (splitHostPort (pu_Host parsed)) in
      if portText = [] then Inr (if pu_Scheme parsed = ''https'' then 443 else 80)
      else if \<not> list_all is_digit portText \<or> decimal_value portText > 65535 \<or> decimal_value portText = 0 then Inl ''port is invalid''
      else Inr (of_nat (decimal_value portText)))"

definition allowed_ports :: "'c dest_policy \<Rightarrow> uint16 list" where
  "allowed_ports policy =
     (if dp_AllowedPorts policy = [] then 443 # (if dp_AllowHTTP policy then [80] else []) else dp_AllowedPorts policy)"

definition normalized_url :: "ParsedURL \<Rightarrow> string \<Rightarrow> uint16 \<Rightarrow> ParsedURL" where
  "normalized_url parsed asciiHost port =
     (let scheme = to_lower (pu_Scheme parsed) in
      parsed\<lparr>pu_Scheme := scheme,
        pu_Host := (if scheme = ''https'' \<and> port = 443 \<or> scheme = ''http'' \<and> port = 80 then asciiHost
                    else JoinHostPort asciiHost (decimal (unat port)))\<rparr>)"

definition ValidateDestination :: "net_lib \<Rightarrow> 'c dest_policy \<Rightarrow> 'c option \<Rightarrow> string \<Rightarrow> string + Decision" where
  "ValidateDestination l policy ctx rawURL =
     (case ctx of None \<Rightarrow> Inl ''context is nil'' | Some ctx \<Rightarrow>
     (case dp_Resolver policy of None \<Rightarrow> Inl ''resolver is required'' | Some lookup \<Rightarrow>
      let maxURLBytes = (if dp_MaxURLBytes policy = 0 then DefaultMaxURLBytes else dp_MaxURLBytes policy);
          maxIPs = (if dp_MaxIPs policy = 0 then DefaultMaxIPs else dp_MaxIPs policy) in
      if rawURL = [] \<or> int (length rawURL) > maxURLBytes then Inl ''URL size is outside policy''
      else if contains_str rawURL ''#'' then Inl ''fragments are not allowed''
      else case nl_parse l rawURL of None \<Rightarrow> Inl ''invalid URL'' | Some parsed \<Rightarrow>
        if pu_Scheme parsed \<noteq> ''https'' \<and> \<not> (dp_AllowHTTP policy \<and> pu_Scheme parsed = ''http'') then Inl ''scheme is not allowed''
        else if pu_User parsed \<or> pu_Fragment parsed \<noteq> [] then Inl ''userinfo and fragments are not allowed''
        else let hostname = trim_suffix (to_lower (fst (splitHostPort (pu_Host parsed)))) ''.'' in
          if hostname = [] then Inl ''hostname is required''
          else case nl_toASCII l hostname of None \<Rightarrow> Inl ''hostname is not valid IDNA'' | Some asciiHost \<Rightarrow>
            if length asciiHost > 253 then Inl ''hostname is not valid IDNA''
            else case destinationPort parsed of Inl e \<Rightarrow> Inl e | Inr port \<Rightarrow>
              if port \<notin> set (allowed_ports policy) then Inl ''port is not allowed''
              else case resolve lookup ctx asciiHost maxIPs of Inl e \<Rightarrow> Inl e
              | Inr addresses \<Rightarrow> Inr \<lparr>dc_URL = normalized_url parsed asciiHost port, dc_Host = asciiHost, dc_Port = port, dc_Addresses = addresses\<rparr>))"

definition DialAddress :: "net_lib \<Rightarrow> Decision \<Rightarrow> int \<Rightarrow> string + string" where
  "DialAddress l decision index =
     (if index < 0 \<or> index \<ge> int (length (dc_Addresses decision)) then Inl ''resolved address index is outside decision''
      else Inr (JoinHostPort (nl_show l (dc_Addresses decision ! nat index)) (decimal (unat (dc_Port decision)))))"

section \<open>Address blocks as ranges\<close>

lemma div_power_range: "n div 2 ^ k = v \<longleftrightarrow> v * 2 ^ k \<le> n \<and> n \<le> v * 2 ^ k + (2 ^ k - 1)" for n v k :: nat
proof
  assume "n div 2 ^ k = v"
  then have "n = v * 2 ^ k + n mod 2 ^ k" by (metis div_mult_mod_eq)
  moreover have "n mod 2 ^ k < 2 ^ k" by simp
  ultimately show "v * 2 ^ k \<le> n \<and> n \<le> v * 2 ^ k + (2 ^ k - 1)" by linarith
next
  assume r: "v * 2 ^ k \<le> n \<and> n \<le> v * 2 ^ k + (2 ^ k - 1)"
  moreover have "(0::nat) < 2 ^ k" by simp
  ultimately have "n < v * 2 ^ k + 2 ^ k" by linarith
  then have "n < 2 ^ k * Suc v" by (simp only: mult_Suc_right mult.commute [of _ v] add.commute)
  then show "n div 2 ^ k = v" using r by (intro div_nat_eqI) (simp_all only: mult.commute)
qed

lemma unat_drop_bit: "unat (drop_bit k a) = unat a div 2 ^ k" for a :: "'a::len word"
  by (subst unsigned_drop_bit_eq) (simp add: drop_bit_eq_div flip: unsigned_take_bit_eq)

lemma drop_bit_range: "unat (drop_bit k a) = v \<longleftrightarrow> v * 2 ^ k \<le> unat a \<and> unat a \<le> v * 2 ^ k + (2 ^ k - 1)"
  for a :: "'a::len word"
  by (simp only: unat_drop_bit div_power_range)

text \<open>The special-purpose ranges that the policy keeps out, by first and last address.\<close>

definition v4_addr :: "nat \<Rightarrow> nat \<Rightarrow> nat \<Rightarrow> nat \<Rightarrow> nat" where
  "v4_addr a b c d = ((a * 256 + b) * 256 + c) * 256 + d"

definition special4 :: "(nat \<times> nat) list" where
  "special4 =
    [(v4_addr 0 0 0 0, v4_addr 0 255 255 255), (v4_addr 10 0 0 0, v4_addr 10 255 255 255),
     (v4_addr 100 64 0 0, v4_addr 100 127 255 255), (v4_addr 127 0 0 0, v4_addr 127 255 255 255),
     (v4_addr 169 254 0 0, v4_addr 169 254 255 255), (v4_addr 172 16 0 0, v4_addr 172 31 255 255),
     (v4_addr 192 0 0 0, v4_addr 192 0 0 255), (v4_addr 192 0 2 0, v4_addr 192 0 2 255),
     (v4_addr 192 168 0 0, v4_addr 192 168 255 255), (v4_addr 198 18 0 0, v4_addr 198 19 255 255),
     (v4_addr 198 51 100 0, v4_addr 198 51 100 255), (v4_addr 203 0 113 0, v4_addr 203 0 113 255),
     (v4_addr 224 0 0 0, v4_addr 239 255 255 255), (v4_addr 240 0 0 0, v4_addr 255 255 255 255)]"

definition special6 :: "(nat \<times> nat) list" where
  "special6 =
    [(0, 0), (1, 1), (0x20010db8 * 2 ^ 96, 0x20010db9 * 2 ^ 96 - 1), (0xfc * 2 ^ 120, 0xfe * 2 ^ 120 - 1),
     (0xfe80 * 2 ^ 112, 0xfec0 * 2 ^ 112 - 1), (0xff * 2 ^ 120, 0x100 * 2 ^ 120 - 1)]"

definition outside :: "nat \<Rightarrow> (nat \<times> nat) list \<Rightarrow> bool" where
  "outside n ranges \<longleftrightarrow> list_all (\<lambda>(first, final). \<not> (first \<le> n \<and> n \<le> final)) ranges"

fun public_unicast :: "Addr \<Rightarrow> bool" where
  "public_unicast (IPv4 a) \<longleftrightarrow> outside (unat a) special4"
| "public_unicast (IPv6 a zone) \<longleftrightarrow> outside (unat a) special6"

lemma validateAddress_None:
  "validateAddress a = None \<longleftrightarrow> \<not> IsUnspecified a \<and> \<not> IsLoopback a \<and> \<not> IsPrivate a \<and> \<not> IsLinkLocalUnicast a \<and>
     \<not> IsLinkLocalMulticast a \<and> \<not> IsMulticast a \<and> \<not> list_ex (\<lambda>p. PrefixContains p a) blockedPrefixes"
  by (simp add: validateAddress_def)

lemma validateAddress_v4: "validateAddress (IPv4 a) = None \<longleftrightarrow> public_unicast (IPv4 a)"
proof -
  have u: "IsUnspecified (IPv4 a) \<Longrightarrow> v4_block 8 0 (IPv4 a)" by (simp add: IsUnspecified_def)
  have m: "IsLinkLocalMulticast (IPv4 a) \<Longrightarrow> IsMulticast (IPv4 a)"
    by (simp add: IsMulticast_def drop_bit_range)
  have "validateAddress (IPv4 a) = None \<longleftrightarrow>
      \<not> v4_block 8 0 (IPv4 a) \<and> \<not> v4_block 8 10 (IPv4 a) \<and> \<not> v4_block 10 0x191 (IPv4 a) \<and> \<not> v4_block 8 127 (IPv4 a) \<and>
      \<not> v4_block 16 0xa9fe (IPv4 a) \<and> \<not> v4_block 12 0xac1 (IPv4 a) \<and> \<not> v4_block 24 0xc00000 (IPv4 a) \<and> \<not> v4_block 24 0xc00002 (IPv4 a) \<and>
      \<not> v4_block 16 0xc0a8 (IPv4 a) \<and> \<not> v4_block 15 0x6309 (IPv4 a) \<and> \<not> v4_block 24 0xc63364 (IPv4 a) \<and> \<not> v4_block 24 0xcb0071 (IPv4 a) \<and>
      \<not> v4_block 4 0xe (IPv4 a) \<and> \<not> v4_block 4 0xf (IPv4 a)"
    unfolding validateAddress_None blockedPrefixes_def list_ex_iff list.set ball_simps bex_simps PrefixContains.simps IsLoopback_def IsPrivate_def IsLinkLocalUnicast_def
    using u m [unfolded IsMulticast_def] unfolding IsMulticast_def v6_block.simps by blast
  also have "\<dots> \<longleftrightarrow> public_unicast (IPv4 a)"
    by (simp add: drop_bit_range special4_def v4_addr_def outside_def)
  finally show ?thesis .
qed

lemma validateAddress_v6: "validateAddress (IPv6 a []) = None \<longleftrightarrow> public_unicast (IPv6 a [])"
proof -
  have u: "IsUnspecified (IPv6 a []) \<longleftrightarrow> 0 \<le> unat a \<and> unat a \<le> 0" by (simp add: IsUnspecified_def unat_eq_0)
  have m: "IsLinkLocalMulticast (IPv6 a []) \<Longrightarrow> v6_block 8 0xff (IPv6 a [])"
    by (simp add: unat_drop_bit flip: div_mult2_eq del: drop_bit_eq_div)
  have "validateAddress (IPv6 a []) = None \<longleftrightarrow>
      \<not> (0 \<le> unat a \<and> unat a \<le> 0) \<and> \<not> v6_block 128 1 (IPv6 a []) \<and> \<not> v6_block 32 0x20010db8 (IPv6 a []) \<and> \<not> v6_block 7 0x7e (IPv6 a []) \<and>
      \<not> v6_block 10 0x3fa (IPv6 a []) \<and> \<not> v6_block 8 0xff (IPv6 a [])"
    unfolding validateAddress_None blockedPrefixes_def list_ex_iff list.set ball_simps bex_simps PrefixContains.simps IsLoopback_def IsPrivate_def IsLinkLocalUnicast_def u
    using m unfolding IsMulticast_def v4_block.simps by blast
  also have "\<dots> \<longleftrightarrow> public_unicast (IPv6 a [])"
    by (simp add: drop_bit_range special6_def outside_def Suc_le_eq le_Suc_eq cong: conj_cong)
  finally show ?thesis .
qed

section \<open>Decisions\<close>

interpretation addr_order: comparison addr_compare "\<lambda>_. True"
proof unfold_locales
  show "addr_compare x y \<le> 0 \<or> addr_compare y x \<le> 0" for x y
    by (cases x; cases y) (auto simp: str_compare_le)
  show "addr_compare x y \<le> 0 \<Longrightarrow> addr_compare y z \<le> 0 \<Longrightarrow> addr_compare x z \<le> 0" for x y z
    by (cases x; cases y; cases z) (auto simp: str_compare_le split: if_splits)
qed

lemma addr_compare_0: "addr_compare x y = 0 \<longleftrightarrow> x = y"
  by (cases x; cases y) auto

lemma addr_compare_antisym: "addr_compare x y \<le> 0 \<Longrightarrow> addr_compare y x \<le> 0 \<Longrightarrow> x = y"
  by (cases x; cases y) (auto simp: str_compare_le split: if_splits)

fun no_zone :: "Addr \<Rightarrow> bool" where
  "no_zone (IPv4 a) \<longleftrightarrow> True"
| "no_zone (IPv6 a zone) \<longleftrightarrow> zone = []"

lemma validateAddress_public: "no_zone a \<Longrightarrow> validateAddress a = None \<longleftrightarrow> public_unicast a"
  by (cases a) (simp_all only: validateAddress_v4 validateAddress_v6 no_zone.simps)

lemma no_zone_Unmap: "no_zone a \<Longrightarrow> no_zone (Unmap a)"
  by (cases a) auto

lemma no_zone_AddrFromSlice: "AddrFromSlice bs = Some a \<Longrightarrow> no_zone a"
  by (auto simp: AddrFromSlice_def split: if_splits)

lemma no_zone_ParseAddr: "CHR ''%'' \<notin> set s \<Longrightarrow> ParseAddr s = Some a \<Longrightarrow> no_zone a"
proof -
  assume p: "CHR ''%'' \<notin> set s" "ParseAddr s = Some a"
  have "cut CHR ''%'' s = None" using p(1) cut_Some_append by (cases "cut CHR ''%'' s") fastforce+
  then show ?thesis using p(2) by (auto simp: ParseAddr_def parse_ipv6_def split: option.splits if_splits)
qed

lemma resolve_all_public:
  "resolve_all items unique = Inr addresses \<Longrightarrow> distinct unique \<Longrightarrow> list_all public_unicast unique \<Longrightarrow>
   distinct addresses \<and> list_all public_unicast addresses \<and> set unique \<subseteq> set addresses \<and>
   length addresses \<le> length unique + length items \<and> (items \<noteq> [] \<longrightarrow> addresses \<noteq> [])"
proof (induction items unique rule: resolve_all.induct)
  case (2 item items unique)
  obtain a where a: "AddrFromSlice item = Some a" "validateAddress (Unmap a) = None"
    "resolve_all items (List.insert (Unmap a) unique) = Inr addresses"
    using 2(2) by (auto split: option.splits)
  have "public_unicast (Unmap a)"
    using a validateAddress_public no_zone_Unmap no_zone_AddrFromSlice by blast
  then have "distinct (List.insert (Unmap a) unique)" "list_all public_unicast (List.insert (Unmap a) unique)"
    using 2(3,4) by (auto simp: list_all_iff)
  from 2(1) [OF a(1,2,3) this] have ih: "distinct addresses" "list_all public_unicast addresses"
    "set (List.insert (Unmap a) unique) \<subseteq> set addresses"
    "length addresses \<le> length (List.insert (Unmap a) unique) + length items" by auto
  moreover have "length (List.insert (Unmap a) unique) \<le> Suc (length unique)" by (simp add: List.insert_def)
  ultimately show ?case by auto
qed auto

lemma resolve_public:
  assumes "resolve lookup ctx host maxIPs = Inr addresses" "CHR ''%'' \<notin> set host"
  shows "list_all public_unicast addresses \<and> addresses \<noteq> [] \<and> distinct addresses \<and>
     sorted_wrt (\<lambda>a b. addr_compare a b < 0) addresses \<and> (int (length addresses) \<le> maxIPs \<or> length addresses = 1)"
proof (cases "ParseAddr host")
  case (Some literal)
  then have "validateAddress (Unmap literal) = None" "addresses = [Unmap literal]"
    using assms(1) by (auto simp: resolve_def split: option.splits)
  moreover have "no_zone (Unmap literal)" using no_zone_Unmap no_zone_ParseAddr [OF assms(2) Some] by blast
  ultimately show ?thesis using validateAddress_public by simp
next
  case None
  obtain resolved unique where r: "resolved \<noteq> []" "int (length resolved) \<le> maxIPs" "resolve_all resolved [] = Inr unique"
    "addresses = sort_by addr_compare unique"
    using assms(1) None by (auto simp: resolve_def split: option.splits if_splits sum.splits)
  have u: "distinct unique" "list_all public_unicast unique" "unique \<noteq> []" "length unique \<le> length resolved"
    using resolve_all_public [OF r(3)] r(1) by auto
  have d: "distinct addresses" using u(1) r(4) by simp
  have "sorted_wrt (\<lambda>a b. addr_compare a b \<le> 0) addresses"
    unfolding r(4) by (rule addr_order.sorted_sort_by) (simp add: list_all_iff)
  then have "sorted_wrt (\<lambda>a b. addr_compare a b < 0) addresses"
    using d by (induction addresses) (auto simp: order_less_le addr_compare_0)
  moreover have "addresses \<noteq> []" using u(3) r(4) by (metis length_0_conv length_sort_by)
  moreover have "list_all public_unicast addresses" using u(2) r(4) by (simp add: list_all_iff)
  ultimately show ?thesis using d u(4) r(2,4) by simp
qed

lemma ValidateDestination_InrE:
  assumes "ValidateDestination l policy (Some ctx) rawURL = Inr decision"
  obtains lookup parsed where "dp_Resolver policy = Some lookup" "nl_parse l rawURL = Some parsed"
    "pu_Scheme parsed = ''https'' \<or> dp_AllowHTTP policy \<and> pu_Scheme parsed = ''http''"
    "nl_toASCII l (trim_suffix (to_lower (fst (splitHostPort (pu_Host parsed)))) ''.'') = Some (dc_Host decision)"
    "destinationPort parsed = Inr (dc_Port decision)" "dc_Port decision \<in> set (allowed_ports policy)"
    "resolve lookup ctx (dc_Host decision) (if dp_MaxIPs policy = 0 then DefaultMaxIPs else dp_MaxIPs policy) = Inr (dc_Addresses decision)"
    "dc_URL decision = normalized_url parsed (dc_Host decision) (dc_Port decision)"
  using assms by (auto simp: ValidateDestination_def Let_def split: option.splits if_splits sum.splits)

text \<open>
  C11: a permitted destination is reached over an allowed scheme and port, and its decision pins at
  least one address, in strictly increasing order and no more than the policy admits, where an
  address given in place of a name is always one; none of them lies in a private, loopback,
  link-local, multicast or reserved range. This uses that the IDNA conversion never yields a percent
  sign.
\<close>

theorem ValidateDestination_public:
  assumes "ValidateDestination l policy (Some ctx) rawURL = Inr decision"
    and "\<forall>h a. nl_toASCII l h = Some a \<longrightarrow> CHR ''%'' \<notin> set a"
  shows "list_all public_unicast (dc_Addresses decision) \<and> dc_Addresses decision \<noteq> [] \<and>
     sorted_wrt (\<lambda>a b. addr_compare a b < 0) (dc_Addresses decision) \<and>
     (int (length (dc_Addresses decision)) \<le> (if dp_MaxIPs policy = 0 then DefaultMaxIPs else dp_MaxIPs policy) \<or>
      length (dc_Addresses decision) = 1) \<and>
     dc_Port decision \<in> set (allowed_ports policy) \<and>
     (\<exists>parsed. nl_parse l rawURL = Some parsed \<and> (pu_Scheme parsed = ''https'' \<or> dp_AllowHTTP policy \<and> pu_Scheme parsed = ''http''))"
proof (rule ValidateDestination_InrE [OF assms(1)])
  fix lookup parsed
  assume v: "nl_parse l rawURL = Some parsed" "pu_Scheme parsed = ''https'' \<or> dp_AllowHTTP policy \<and> pu_Scheme parsed = ''http''"
    "nl_toASCII l (trim_suffix (to_lower (fst (splitHostPort (pu_Host parsed)))) ''.'') = Some (dc_Host decision)"
    "dc_Port decision \<in> set (allowed_ports policy)"
    "resolve lookup ctx (dc_Host decision) (if dp_MaxIPs policy = 0 then DefaultMaxIPs else dp_MaxIPs policy) = Inr (dc_Addresses decision)"
  have "CHR ''%'' \<notin> set (dc_Host decision)" using assms(2) v(3) by blast
  then show ?thesis using resolve_public [OF v(5)] v(1,2,4) by blast
qed

definition sample_net_lib :: net_lib where
  "sample_net_lib = \<lparr>nl_parse = (\<lambda>_. Some \<lparr>pu_Scheme = ''https'', pu_User = False, pu_Host = ''example.com:443'', pu_PathQuery = ''/'', pu_Fragment = []\<rparr>),
     nl_toASCII = (\<lambda>h. if CHR ''%'' \<in> set h then None else Some h), nl_show = (\<lambda>_. ''93.184.216.34'')\<rparr>"

definition sample_lookup :: "unit \<Rightarrow> string \<Rightarrow> nat list list option" where
  "sample_lookup ctx host = Some [[93, 184, 216, 34], [93, 184, 216, 33], [93, 184, 216, 34]]"

lemma sample_address: "validateAddress (IPv4 0x5db8d821) = None" "validateAddress (IPv4 0x5db8d822) = None"
  unfolding validateAddress_v4 by (simp_all add: outside_def special4_def v4_addr_def)

lemma sample_literal: "ParseAddr ''example.com'' = None"
  by (simp add: ParseAddr_def parse_ipv4_octets_def ipv4_octet_def is_digit_def in_range_def)

lemma sample_resolve: "resolve sample_lookup () ''example.com'' 16 = Inr [IPv4 0x5db8d821, IPv4 0x5db8d822]"
  by (simp add: resolve_def sample_literal sample_lookup_def AddrFromSlice_def join_bytes_def sample_address List.insert_def)

lemma sample_destination:
  "ValidateDestination sample_net_lib (DefaultPolicy (Some sample_lookup)) (Some ()) ''https://example.com/'' =
   Inr \<lparr>dc_URL = \<lparr>pu_Scheme = ''https'', pu_User = False, pu_Host = ''example.com'', pu_PathQuery = ''/'', pu_Fragment = []\<rparr>,
     dc_Host = ''example.com'', dc_Port = 443, dc_Addresses = [IPv4 0x5db8d821, IPv4 0x5db8d822]\<rparr>"
proof -
  have h: "splitHostPort ''example.com:443'' = (''example.com'', ''443'')" by (simp add: splitHostPort_def is_digit_def in_range_def has_prefix_def)
  have t: "trim_suffix (to_lower ''example.com'') ''.'' = ''example.com''" "to_lower ''https'' = ''https''"
    by (simp_all add: to_lower_def lower_char_def trim_suffix_def has_suffix_def has_prefix_def)
  have p: "decimal_value ''443'' = 443" by (simp add: decimal_value_def)
  show ?thesis
    by (simp add: ValidateDestination_def DefaultPolicy_def DefaultMaxURLBytes_def DefaultMaxIPs_def sample_net_lib_def destinationPort_def
        allowed_ports_def normalized_url_def sample_resolve h t p is_digit_def in_range_def has_prefix_def Let_def)
qed

theorem ValidateDestination_public_witness:
  "ValidateDestination sample_net_lib (DefaultPolicy (Some sample_lookup)) (Some ()) ''https://example.com/'' =
   Inr \<lparr>dc_URL = \<lparr>pu_Scheme = ''https'', pu_User = False, pu_Host = ''example.com'', pu_PathQuery = ''/'', pu_Fragment = []\<rparr>,
     dc_Host = ''example.com'', dc_Port = 443, dc_Addresses = [IPv4 0x5db8d821, IPv4 0x5db8d822]\<rparr> \<and>
   public_unicast (IPv4 0x5db8d821) \<and> public_unicast (IPv4 0x5db8d822)"
proof -
  have "\<forall>h a. nl_toASCII sample_net_lib h = Some a \<longrightarrow> CHR ''%'' \<notin> set a" by (simp add: sample_net_lib_def)
  from ValidateDestination_public [OF sample_destination this] show ?thesis
    using sample_destination by (simp only: Decision.simps list.pred_inject)
qed

text \<open>
  The embedding of a private IPv4 address under the translation prefix \<^verbatim>\<open>64:ff9b::/96\<close> passes, since
  only the IPv4-mapped form is undone before the ranges are checked.
\<close>

lemma nat64_private_accepted:
  "validateAddress (Unmap (IPv6 0x0064ff9b00000000000000000a000001 [])) = None"
proof -
  have "Unmap (IPv6 0x0064ff9b00000000000000000a000001 []) = IPv6 0x0064ff9b00000000000000000a000001 []" by simp
  then show ?thesis by (simp only: validateAddress_v6) (simp add: outside_def special6_def)
qed

end
