(* ===== verification/Domain_Ownership.thy ===== *)
theory Domain_Ownership
  imports Go_Net Go_Codec Platform_Id
begin

text \<open>
  Domain ownership (\<^verbatim>\<open>src/services/dns-certificate/internal/domain/domain.go\<close>): canonical host
  names, and challenges that prove control of a name once. The IDNA conversion, the public suffix
  list and HMAC-SHA256 are parameters.
\<close>

section \<open>Canonical names\<close>

record domain_lib =
  dl_toASCII :: "string \<Rightarrow> string option"
  dl_suffix :: "string \<Rightarrow> string"
  dl_registrable :: "string \<Rightarrow> string option"
  dl_hmac :: "string \<Rightarrow> string \<Rightarrow> uint8 list"

record CanonicalName =
  cn_ASCII :: string
  cn_Wildcard :: bool
  cn_Base :: string

definition bad_label :: "string \<Rightarrow> bool" where
  "bad_label label \<longleftrightarrow> label = [] \<or> length label > 63 \<or> has_prefix label ''-'' \<or> has_suffix label ''-''"

definition Canonicalize :: "domain_lib \<Rightarrow> string \<Rightarrow> bool \<Rightarrow> string + CanonicalName" where
  "Canonicalize l value allowWildcard =
     (if value = [] \<or> padded value then Inl ''hostname is empty or padded''
      else let value = trim_suffix (to_lower value) ''.''; wildcard = has_prefix value ''*.'' in
        if wildcard \<and> (\<not> allowWildcard \<or> length (filter (\<lambda>c. c = CHR ''*'') value) \<noteq> 1) then Inl ''wildcard is not allowed''
        else if \<not> wildcard \<and> CHR ''*'' \<in> set value then Inl ''wildcard must be the complete leftmost label''
        else case dl_toASCII l (if wildcard then trim_prefix value ''*.'' else value) of
          None \<Rightarrow> Inl ''hostname is not valid IDNA''
        | Some ascii \<Rightarrow>
            if ascii = [] \<or> length ascii > 253 then Inl ''hostname is not valid IDNA''
            else if ParseAddr ascii \<noteq> None then Inl ''IP literals cannot be owned as domains''
            else let labels = split_on CHR ''.'' ascii in
              if length labels < 2 then Inl ''hostname must have a registrable parent''
              else if list_ex bad_label labels then Inl ''hostname contains an invalid label''
              else if dl_suffix l ascii = ascii then Inl ''public suffix cannot be claimed''
              else case dl_registrable l ascii of
                None \<Rightarrow> Inl ''hostname is not registrable''
              | Some registrable \<Rightarrow>
                  Inr \<lparr>cn_ASCII = (if wildcard then ''*.'' @ ascii else ascii), cn_Wildcard = wildcard, cn_Base = registrable\<rparr>)"

section \<open>Challenges\<close>

record Challenge =
  ch_OrganizationID :: string
  ch_Domain :: string
  ch_RecordName :: string
  ch_Verifier :: "uint8 list"
  ch_ExpiresAt :: time
  ch_ConsumedAt :: "time option"

definition challengeBytes :: nat where "challengeBytes = 32"

definition challengeVerifier :: "domain_lib \<Rightarrow> string \<Rightarrow> string \<Rightarrow> string \<Rightarrow> string \<Rightarrow> uint8 list" where
  "challengeVerifier l key organizationID domainName token =
     dl_hmac l key (organizationID @ [CHR 0x00] @ domainName @ [CHR 0x00] @ token)"

text \<open>\<open>io.ReadFull\<close> from a reader with the given bytes left.\<close>

definition ReadFull :: "nat \<Rightarrow> uint8 list \<Rightarrow> uint8 list option" where
  "ReadFull n available = (if n \<le> length available then Some (take n available) else None)"

definition NewChallenge ::
  "domain_lib \<Rightarrow> string \<Rightarrow> CanonicalName \<Rightarrow> time \<Rightarrow> duration \<Rightarrow> uint8 list option \<Rightarrow> string \<Rightarrow> string + Challenge \<times> string" where
  "NewChallenge l organizationID domainName now ttl randomness hmacKey =
     (if \<not> has_id_prefix organizationID ''org'' then Inl ''organization ID is invalid''
      else if ttl \<le> 0 \<or> ttl > 24 * hour then Inl ''challenge TTL is outside policy''
      else case randomness of None \<Rightarrow> Inl ''challenge entropy or HMAC key is insufficient''
      | Some available \<Rightarrow>
          if length hmacKey < 32 then Inl ''challenge entropy or HMAC key is insufficient''
          else case ReadFull challengeBytes available of None \<Rightarrow> Inl ''generate ownership challenge''
          | Some raw \<Rightarrow>
              let token = b64_encode raw in
              Inr (\<lparr>ch_OrganizationID = organizationID, ch_Domain = cn_ASCII domainName,
                 ch_RecordName = ''_lrail-challenge.'' @ trim_prefix (cn_ASCII domainName) ''*.'',
                 ch_Verifier = challengeVerifier l hmacKey organizationID (cn_ASCII domainName) token,
                 ch_ExpiresAt = now + ttl, ch_ConsumedAt = None\<rparr>, token))"

text \<open>
  \<open>Verify\<close> consumes the challenge in place when the proof matches. A nil receiver, which the code
  refuses first, is not a value of the model.
\<close>

definition VerifyChallenge :: "domain_lib \<Rightarrow> string \<Rightarrow> time \<Rightarrow> string \<Rightarrow> Challenge \<Rightarrow> string option \<times> Challenge" where
  "VerifyChallenge l presented now hmacKey c =
     (if length hmacKey < 32 then (Some ''challenge HMAC key is insufficient'', c)
      else if ch_ConsumedAt c \<noteq> None then (Some ''challenge was already consumed'', c)
      else if \<not> now < ch_ExpiresAt c then (Some ''challenge expired'', c)
      else if challengeVerifier l hmacKey (ch_OrganizationID c) (ch_Domain c) presented \<noteq> ch_Verifier c
      then (Some ''challenge proof does not match'', c)
      else (None, c\<lparr>ch_ConsumedAt := Some now\<rparr>))"

section \<open>Single use\<close>

text \<open>A challenge under a sequence of attempts: the outcome of each.\<close>

fun attempts :: "domain_lib \<Rightarrow> (string \<times> time \<times> string) list \<Rightarrow> Challenge \<Rightarrow> string option list" where
  "attempts l [] c = []"
| "attempts l ((presented, now, key) # rest) c =
     (let (e, c') = VerifyChallenge l presented now key c in e # attempts l rest c')"

lemma attempts_consumed: "ch_ConsumedAt c \<noteq> None \<Longrightarrow> None \<notin> set (attempts l tries c)"
  by (induction l tries c rule: attempts.induct) (auto simp: VerifyChallenge_def split: if_splits)

lemma VerifyChallenge_None:
  assumes "VerifyChallenge l presented now key c = (None, c')"
  shows "c' = c\<lparr>ch_ConsumedAt := Some now\<rparr>" "ch_ConsumedAt c = None" "now < ch_ExpiresAt c"
    "challengeVerifier l key (ch_OrganizationID c) (ch_Domain c) presented = ch_Verifier c"
  using assms by (auto simp: VerifyChallenge_def split: if_splits)

lemma VerifyChallenge_Some: "VerifyChallenge l presented now key c = (Some e, c') \<Longrightarrow> c' = c"
  by (auto simp: VerifyChallenge_def split: if_splits)

lemma attempts_once: "length (filter (\<lambda>e. e = None) (attempts l tries c)) \<le> 1"
proof (induction l tries c rule: attempts.induct)
  case (2 l presented now key rest c)
  obtain e c' where v: "VerifyChallenge l presented now key c = (e, c')" by fastforce
  show ?case
  proof (cases e)
    case None
    then have "ch_ConsumedAt c' \<noteq> None" using VerifyChallenge_None(1) v by fastforce
    then have "filter (\<lambda>e. e = None) (attempts l rest c') = []" using attempts_consumed [of c' l rest] by (intro filter_False) metis
    then show ?thesis using v None by simp
  next
    case (Some a)
    then show ?thesis using 2 v by simp
  qed
qed simp

text \<open>
  C10: whatever is presented, at whatever times and under whatever keys, an ownership challenge is
  passed at most once, and an attempt passes exactly when the key is long enough, the challenge is
  fresh and unexpired and the keyed digest matches.
\<close>

theorem challenge_single_use:
  "length (filter (\<lambda>e. e = None) (attempts l tries c)) \<le> 1 \<and>
   (fst (VerifyChallenge l presented now key c) = None \<longleftrightarrow>
      32 \<le> length key \<and> ch_ConsumedAt c = None \<and> now < ch_ExpiresAt c \<and>
      challengeVerifier l key (ch_OrganizationID c) (ch_Domain c) presented = ch_Verifier c)"
  using attempts_once by (auto simp: VerifyChallenge_def)

text \<open>Two texts with the same keyed digest.\<close>

definition collides :: "domain_lib \<Rightarrow> string \<Rightarrow> string \<Rightarrow> string \<Rightarrow> bool" where
  "collides l key x y \<longleftrightarrow> x \<noteq> y \<and> dl_hmac l key x = dl_hmac l key y"

text \<open>
  a new challenge expires within a day. Until then and under its key it is passed by the issued
  token, which encodes 32 random bytes, and by another text only if the two proofs, which name the
  organization and the domain, collide under the keyed digest.
\<close>

theorem NewChallenge_VerifyChallenge:
  assumes "NewChallenge l organizationID domainName now ttl randomness key = Inr (c, token)"
  shows "(fst (VerifyChallenge l presented later key c) = None \<longleftrightarrow>
       later < ch_ExpiresAt c \<and>
       (presented = token \<or> collides l key (organizationID @ [CHR 0x00] @ cn_ASCII domainName @ [CHR 0x00] @ presented)
          (organizationID @ [CHR 0x00] @ cn_ASCII domainName @ [CHR 0x00] @ token))) \<and>
     now < ch_ExpiresAt c \<and> ch_ExpiresAt c \<le> now + 24 * hour \<and> (\<exists>raw. length raw = 32 \<and> b64_decode token = Some raw)"
proof -
  obtain available where r: "32 \<le> length available" "token = b64_encode (take 32 available)"
    using assms(1) by (auto simp: NewChallenge_def ReadFull_def challengeBytes_def Let_def split: if_splits option.splits)
  then have "b64_decode token = Some (take 32 available) \<and> length (take 32 available) = 32" by (simp add: b64_roundtrip)
  then have raw: "\<exists>raw. length raw = 32 \<and> b64_decode token = Some raw" by blast
  have c: "ch_Verifier c = challengeVerifier l key organizationID (cn_ASCII domainName) token" "ch_OrganizationID c = organizationID"
    "ch_Domain c = cn_ASCII domainName" "ch_ConsumedAt c = None" "ch_ExpiresAt c = now + ttl" "32 \<le> length key" "0 < ttl" "ttl \<le> 24 * hour"
    using assms(1) by (auto simp: NewChallenge_def Let_def split: if_splits option.splits)
  show ?thesis using c raw by (auto simp: VerifyChallenge_def challengeVerifier_def collides_def)
qed

definition sample_domain_lib :: domain_lib where
  "sample_domain_lib = \<lparr>dl_toASCII = Some, dl_suffix = (\<lambda>_. ''com''), dl_registrable = (\<lambda>_. Some ''example.com''),
     dl_hmac = (\<lambda>key m. map (\<lambda>c. of_char c) m)\<rparr>"

theorem NewChallenge_VerifyChallenge_witness:
  "\<exists>c token. NewChallenge sample_domain_lib (sample_id ''org'') \<lparr>cn_ASCII = ''example.com'', cn_Wildcard = False, cn_Base = ''example.com''\<rparr>
       unix_epoch hour (Some (replicate 40 7)) (replicate 32 CHR ''k'') = Inr (c, token) \<and>
     fst (VerifyChallenge sample_domain_lib token unix_epoch (replicate 32 CHR ''k'') c) = None"
proof -
  have "\<exists>c token. NewChallenge sample_domain_lib (sample_id ''org'') \<lparr>cn_ASCII = ''example.com'', cn_Wildcard = False, cn_Base = ''example.com''\<rparr>
       unix_epoch hour (Some (replicate 40 7)) (replicate 32 CHR ''k'') = Inr (c, token)"
    by (simp add: NewChallenge_def ReadFull_def challengeBytes_def allowedPrefixes_def Let_def)
  then show ?thesis using NewChallenge_VerifyChallenge by metis
qed

section \<open>Canonical names are canonical\<close>

text \<open>The letters, digits, hyphens and dots of a converted name.\<close>

definition ldh :: "char \<Rightarrow> bool" where
  "ldh c \<longleftrightarrow> is_lower c \<or> is_digit c \<or> c = CHR ''-'' \<or> c = CHR ''.''"

definition name_text :: "string \<Rightarrow> bool" where
  "name_text s \<longleftrightarrow> list_all (\<lambda>c. ldh c \<or> c = CHR ''*'') s"

lemma to_lower_name_text: "name_text s \<Longrightarrow> to_lower s = s"
  by (induction s) (auto simp: name_text_def to_lower_def ldh_def lower_char_def is_lower_def is_digit_def in_range_def)

lemma white_space_not_name: "w \<in> set white_space \<Longrightarrow> w \<noteq> [] \<and> \<not> ldh (hd w) \<and> hd w \<noteq> CHR ''*''"
  by (auto simp: white_space_def ldh_def is_lower_def is_digit_def in_range_def)

lemma name_text_not_padded: "name_text s \<Longrightarrow> \<not> padded s"
proof
  assume n: "name_text s" and "padded s"
  then obtain w where w: "w \<in> set white_space" "has_prefix s w \<or> has_suffix s w" by (auto simp: padded_def list_ex_iff)
  then have "set w \<subseteq> set s" by (auto simp: has_prefix_iff has_suffix_iff)
  then have "hd w \<in> set s" using white_space_not_name [OF w(1)] by auto
  then show False using n white_space_not_name [OF w(1)] by (auto simp: name_text_def list_all_iff)
qed

lemma split_on_trailing: "has_suffix s [c] \<Longrightarrow> [] \<in> set (split_on c s)"
proof -
  have "split_on c (t @ [c]) = split_on c t @ [[]]" for t
    by (induction t) (auto split: list.splits)
  then show "has_suffix s [c] \<Longrightarrow> [] \<in> set (split_on c s)" by (auto simp: has_suffix_iff)
qed

lemma Canonicalize_InrE:
  assumes "Canonicalize l value allow = Inr c"
  obtains ascii host where "dl_toASCII l host = Some ascii" "ascii \<noteq> []" "length ascii \<le> 253" "ParseAddr ascii = None"
    "2 \<le> length (split_on CHR ''.'' ascii)" "\<not> list_ex bad_label (split_on CHR ''.'' ascii)"
    "dl_suffix l ascii \<noteq> ascii" "dl_registrable l ascii = Some (cn_Base c)" "cn_Wildcard c \<Longrightarrow> allow"
    "cn_ASCII c = (if cn_Wildcard c then ''*.'' @ ascii else ascii)"
  using assms by (auto simp: Canonicalize_def Let_def not_less split: if_splits option.splits)

lemma Canonicalize_ascii:
  assumes "dl_toASCII l ascii = Some ascii" "list_all ldh ascii" "ascii \<noteq> []" "length ascii \<le> 253" "ParseAddr ascii = None"
    "2 \<le> length (split_on CHR ''.'' ascii)" "\<not> list_ex bad_label (split_on CHR ''.'' ascii)"
    "dl_suffix l ascii \<noteq> ascii" "dl_registrable l ascii = Some base" "wildcard \<Longrightarrow> allow"
  shows "Canonicalize l (if wildcard then ''*.'' @ ascii else ascii) allow =
    Inr \<lparr>cn_ASCII = (if wildcard then ''*.'' @ ascii else ascii), cn_Wildcard = wildcard, cn_Base = base\<rparr>"
proof -
  define v where "v = (if wildcard then ''*.'' @ ascii else ascii)"
  have n: "name_text v" using assms(2) by (auto simp: v_def name_text_def list_all_iff ldh_def)
  have star: "CHR ''*'' \<notin> set ascii" using assms(2) by (auto simp: list_all_iff ldh_def is_lower_def is_digit_def in_range_def)
  have "\<not> has_suffix ascii ''.''" using assms(7) split_on_trailing [of ascii "CHR ''.''"] by (auto simp: list_ex_iff bad_label_def)
  then have "\<not> has_suffix v ''.''"
    using assms(3) by (cases ascii rule: rev_cases) (simp_all add: v_def has_suffix_def has_prefix_def)
  then have t: "trim_suffix (to_lower v) ''.'' = v" using to_lower_name_text [OF n] by (simp add: trim_suffix_def)
  have p: "has_prefix v ''*.'' \<longleftrightarrow> wildcard" using star by (cases ascii) (auto simp: v_def has_prefix_def)
  have "filter (\<lambda>c. c = CHR ''*'') ascii = []" using star by (intro filter_False) blast
  then have count: "wildcard \<Longrightarrow> length (filter (\<lambda>c. c = CHR ''*'') v) = 1" by (simp add: v_def)
  have trim: "(if wildcard then trim_prefix v ''*.'' else v) = ascii" using trim_prefix_append [of "''*.''" ascii] by (simp add: v_def)
  have ne: "v \<noteq> []" using assms(3) by (simp add: v_def)
  have absent: "\<not> (\<not> wildcard \<and> CHR ''*'' \<in> set v)" using star by (simp add: v_def)
  have allowed: "\<not> (wildcard \<and> (\<not> allow \<or> length (filter (\<lambda>c. c = CHR ''*'') v) \<noteq> 1))" using count assms(10) by blast
  have "Canonicalize l v allow = Inr \<lparr>cn_ASCII = (if wildcard then ''*.'' @ ascii else ascii), cn_Wildcard = wildcard, cn_Base = base\<rparr>"
    unfolding Canonicalize_def Let_def t p trim assms(1)
    using name_text_not_padded [OF n] ne absent allowed assms(3-9) by (simp only: if_False simp_thms option.simps not_less if_not_P not_le)
  then show ?thesis by (simp only: v_def)
qed

text \<open>
  canonical names are canonical: canonicalizing the outcome again, with wildcards allowed if it
  is one, gives the same name. This uses that the IDNA conversion yields lower-case letters, digits,
  hyphens and dots and leaves its own outcome alone.
\<close>

theorem Canonicalize_idempotent:
  assumes "Canonicalize l value allowWildcard = Inr c"
    and "\<forall>h a. dl_toASCII l h = Some a \<longrightarrow> list_all ldh a \<and> dl_toASCII l a = Some a"
  shows "Canonicalize l (cn_ASCII c) allowWildcard = Inr c"
proof (rule Canonicalize_InrE [OF assms(1)])
  fix ascii host
  assume a: "dl_toASCII l host = Some ascii" "ascii \<noteq> []" "length ascii \<le> 253" "ParseAddr ascii = None"
    "2 \<le> length (split_on CHR ''.'' ascii)" "\<not> list_ex bad_label (split_on CHR ''.'' ascii)"
    "dl_suffix l ascii \<noteq> ascii" "dl_registrable l ascii = Some (cn_Base c)" "cn_Wildcard c \<Longrightarrow> allowWildcard"
    "cn_ASCII c = (if cn_Wildcard c then ''*.'' @ ascii else ascii)"
  have "Canonicalize l (cn_ASCII c) allowWildcard = Inr \<lparr>cn_ASCII = cn_ASCII c, cn_Wildcard = cn_Wildcard c, cn_Base = cn_Base c\<rparr>"
    unfolding a(10) using assms(2) a by (intro Canonicalize_ascii) auto
  then show ?thesis by simp
qed

lemma sample_canonical:
  "Canonicalize (sample_domain_lib\<lparr>dl_toASCII := (\<lambda>h. if list_all ldh h then Some h else None)\<rparr>) ''*.example.com.'' True =
   Inr \<lparr>cn_ASCII = ''*.example.com'', cn_Wildcard = True, cn_Base = ''example.com''\<rparr>"
proof -
  have "\<not> padded ''*.example.com.''" by (rule name_text_not_padded) (simp add: name_text_def ldh_def is_lower_def is_digit_def in_range_def)
  moreover have "trim_suffix (to_lower ''*.example.com.'') ''.'' = ''*.example.com''"
    by (simp add: trim_suffix_def to_lower_def lower_char_def has_suffix_def has_prefix_def)
  moreover have "ParseAddr ''example.com'' = None"
    by (simp add: ParseAddr_def parse_ipv4_octets_def ipv4_octet_def is_digit_def in_range_def)
  ultimately show ?thesis
    by (simp add: Canonicalize_def sample_domain_lib_def has_prefix_def has_suffix_def trim_prefix_def bad_label_def ldh_def is_lower_def
        is_digit_def in_range_def Let_def)
qed

theorem Canonicalize_idempotent_witness:
  "Canonicalize (sample_domain_lib\<lparr>dl_toASCII := (\<lambda>h. if list_all ldh h then Some h else None)\<rparr>) ''*.example.com.'' True =
     Inr \<lparr>cn_ASCII = ''*.example.com'', cn_Wildcard = True, cn_Base = ''example.com''\<rparr> \<and>
   Canonicalize (sample_domain_lib\<lparr>dl_toASCII := (\<lambda>h. if list_all ldh h then Some h else None)\<rparr>) ''*.example.com'' True =
     Inr \<lparr>cn_ASCII = ''*.example.com'', cn_Wildcard = True, cn_Base = ''example.com''\<rparr>"
proof -
  have "\<forall>h a. dl_toASCII (sample_domain_lib\<lparr>dl_toASCII := (\<lambda>h. if list_all ldh h then Some h else None)\<rparr>) h = Some a \<longrightarrow>
      list_all ldh a \<and> dl_toASCII (sample_domain_lib\<lparr>dl_toASCII := (\<lambda>h. if list_all ldh h then Some h else None)\<rparr>) a = Some a"
    by simp
  from Canonicalize_idempotent [OF sample_canonical this] show ?thesis
    using sample_canonical by (simp only: CanonicalName.simps)
qed

end
