(* ===== verification/Broker_Types.thy ===== *)
theory Broker_Types
  imports Assignment Worker_Types
begin

text \<open>
  The requests, events and results of the build broker
  (\<^verbatim>\<open>src/services/build-plane/internal/buildorchestrator/types.go\<close>) and their checks. The URL parser
  and the conversion of RFC 3339 times with fractions of a second are parameters.
\<close>

section \<open>Data\<close>

record BuildSource =
  bs_SnapshotID :: string
  bs_SnapshotDigest :: string
  bs_ManifestDigest :: string
  bs_ArchiveDigest :: string
  bs_ArchiveRef :: string
  bs_SizeBytes :: int
  bs_SelectedRoot :: string

record ConfigurationIntent =
  bc_Mode :: string
  bc_BuildFile :: string
  bc_AcceptDetected :: bool

record BuildRequest =
  bq_Version :: int
  bq_BuildID :: string
  bq_OrganizationID :: string
  bq_ProjectID :: string
  bq_DeploymentID :: string
  bq_OperationID :: string
  bq_Generation :: uint64
  bq_Source :: BuildSource
  bq_Configuration :: ConfigurationIntent
  bq_TargetPlatform :: string
  bq_Deadline :: string

record BrokerOutput =
  bu_Name :: string
  bu_Kind :: string
  bu_ArtifactRef :: string
  bu_ArtifactDigest :: string
  bu_ArtifactSize :: int
  bu_ConfigDigest :: string
  bu_ManifestDigest :: string
  bu_LayerDigests :: "string list"
  bu_PublicationManifestRef :: string
  bu_SupplyChain :: SupplyChainResult

record ServiceBuild =
  sb_Strategy :: string
  sb_InstallCommand :: "string list"
  sb_BuildCommand :: "string list"
  sb_OutputPath :: string
  sb_CachePaths :: "string list"

record ServiceProcess =
  sq_Name :: string
  sq_Kind :: string
  sq_Command :: "string list"
  sq_Port :: "int option"
  sq_Protocol :: string
  sq_HealthPath :: string

record ServiceResult =
  sr_Name :: string
  sr_Root :: string
  sr_Kind :: string
  sr_Language :: string
  sr_Framework :: string
  sr_RuntimeVersion :: string
  sr_Build :: ServiceBuild
  sr_Processes :: "ServiceProcess list"

record CleanupSummary =
  cu_Status :: string
  cu_ResidueCount :: uint32
  cu_QuarantineReason :: string

record BrokerResult =
  bt_Version :: int
  bt_BuildID :: string
  bt_Generation :: uint64
  bt_State :: string
  bt_SourceSnapshotID :: string
  bt_SourceDigest :: string
  bt_DetectionDigest :: string
  bt_ManifestDigest :: string
  bt_BuildIRDigest :: string
  bt_DefinitionDigest :: string
  bt_AssignmentDigest :: string
  bt_LogsDigest :: string
  bt_Outputs :: "BrokerOutput list"
  bt_Services :: "ServiceResult list"
  bt_FailureCode :: string
  bt_FailureMessage :: string
  bt_StartedAt :: string
  bt_FinishedAt :: string
  bt_WorkerIdentity :: string
  bt_Cleanup :: CleanupSummary
  bt_CacheHits :: int
  bt_CacheMisses :: int
  bt_DetectorResultRef :: string
  bt_ManifestRef :: string
  bt_GeneratedBuildRef :: string
  bt_BuildIRRef :: string
  bt_DefinitionLockRef :: string

record BuildEvent =
  be_Version :: int
  be_BuildID :: string
  be_Generation :: uint64
  be_Sequence :: uint64
  be_Attempt :: uint32
  be_Stage :: string
  be_Kind :: string
  be_Output :: string
  be_Vertex :: string
  be_Name :: string
  be_Current :: int
  be_Total :: int
  be_Cached :: bool
  be_Stream :: uint32
  be_Line :: string
  be_Code :: string
  be_Message :: string
  be_OccurredAt :: string
  be_Terminal :: "BrokerResult option"

text \<open>A parsed archive reference, as far as the checks look at it.\<close>

record ArchiveURL =
  au_Scheme :: string
  au_Host :: string
  au_Path :: string
  au_User :: bool
  au_RawQuery :: string
  au_Fragment :: string

record type_lib =
  tl_url :: "string \<Rightarrow> ArchiveURL option"
  tl_time :: "string \<Rightarrow> time option"
  tl_format :: "time \<Rightarrow> string"

definition CurrentRequestVersion :: int where "CurrentRequestVersion = 1"
definition CurrentEventVersion :: int where "CurrentEventVersion = 1"
definition CurrentResultVersion :: int where "CurrentResultVersion = 1"
definition MaxEventLineBytes :: nat where "MaxEventLineBytes = 16384"
definition MaxEventMessageBytes :: nat where "MaxEventMessageBytes = 4096"

section \<open>Patterns\<close>

text \<open>\<^verbatim>\<open>^[a-z][a-z0-9_]{0,63}$\<close>\<close>

definition stagePattern :: "string \<Rightarrow> bool" where
  "stagePattern = token_pattern is_lower (\<lambda>c. lower_or_digit c \<or> c = CHR ''_'') 63"

text \<open>\<^verbatim>\<open>^[a-z][a-z0-9_.-]{0,63}$\<close>\<close>

definition eventKindPattern :: "string \<Rightarrow> bool" where
  "eventKindPattern = token_pattern is_lower name_char 63"

text \<open>\<^verbatim>\<open>^(source|detect|dsl|solve|artifact|security|build)_[a-z0-9_.-]{1,95}$\<close>\<close>

definition failureCodePattern :: "string \<Rightarrow> bool" where
  "failureCodePattern s \<longleftrightarrow>
     list_ex (\<lambda>p. has_prefix s p \<and> (let rest = trim_prefix s p in 1 \<le> length rest \<and> length rest \<le> 95 \<and> list_all name_char rest))
       [''source_'', ''detect_'', ''dsl_'', ''solve_'', ''artifact_'', ''security_'', ''build_'']"

definition validRelativePath :: "string \<Rightarrow> bool \<Rightarrow> bool" where
  "validRelativePath value allowDot =
     (if value = ''.'' then allowDot
      else if value = [] \<or> length value > 1024 \<or> \<not> valid_utf8 value \<or> list_ex (\<lambda>c. c \<in> {CHR 0x5C, CHR 0x00, CHR '':''}) value \<or>
        has_prefix value ''/'' \<or> has_suffix value ''/'' \<or> contains_str value ''//'' \<or> has_prefix value ''./''
      then False
      else ''..'' \<notin> set (split_on CHR ''/'' value) \<and> ''.'' \<notin> set (split_on CHR ''/'' value))"

section \<open>Checks\<close>

definition request_ids :: "BuildRequest \<Rightarrow> (string \<times> string) list" where
  "request_ids q = [(bq_BuildID q, ''bld''), (bq_OrganizationID q, ''org''), (bq_ProjectID q, ''prj''), (bq_DeploymentID q, ''dep''),
     (bq_OperationID q, ''op''), (bs_SnapshotID (bq_Source q), ''snp'')]"

definition valid_source :: "type_lib \<Rightarrow> BuildSource \<Rightarrow> bool" where
  "valid_source l s \<longleftrightarrow>
     digest_pattern (bs_SnapshotDigest s) \<and> digest_pattern (bs_ManifestDigest s) \<and> digest_pattern (bs_ArchiveDigest s) \<and>
     0 < bs_SizeBytes s \<and> bs_SizeBytes s \<le> 2 ^ 30 \<and>
     (case tl_url l (bs_ArchiveRef s) of None \<Rightarrow> False
      | Some u \<Rightarrow> au_Scheme u = ''s3'' \<and> au_Host u \<noteq> [] \<and> au_Path u \<noteq> [] \<and> \<not> au_User u \<and> au_RawQuery u = [] \<and> au_Fragment u = [] \<and>
          \<not> contains_str (au_Path u) ''//'' \<and> ''..'' \<notin> set (split_on CHR ''/'' (au_Path u))) \<and>
     length (bs_ArchiveRef s) \<le> 2048 \<and> validRelativePath (bs_SelectedRoot s) True"

definition RequestValidate :: "type_lib \<Rightarrow> BuildRequest \<Rightarrow> time \<Rightarrow> string option" where
  "RequestValidate l q now =
     (if bq_Version q \<noteq> CurrentRequestVersion \<or> bq_Generation q = 0 then Some ''build request version or generation is invalid''
      else if \<not> list_all (\<lambda>(value, prefix). has_id_prefix value prefix) (request_ids q) then Some ''build request resource identity is invalid''
      else if \<not> valid_source l (bq_Source q) then Some ''build request source is invalid''
      else let c = bq_Configuration q in
        if bc_Mode c \<noteq> ''auto'' \<and> bc_Mode c \<noteq> ''repository'' then Some ''build request configuration mode is invalid''
        else if bc_Mode c = ''repository'' \<and> (\<not> validRelativePath (bc_BuildFile c) False \<or> \<not> has_suffix (bc_BuildFile c) ''.star'')
        then Some ''repository build file is invalid''
        else if bc_Mode c \<noteq> ''repository'' \<and> bc_BuildFile c \<noteq> [] then Some ''automatic configuration cannot select a repository build file''
        else if bq_TargetPlatform q \<noteq> ''linux/amd64'' \<and> bq_TargetPlatform q \<noteq> ''linux/arm64'' then Some ''build target platform is unsupported''
        else case tl_time l (bq_Deadline q) of None \<Rightarrow> Some ''build request deadline is invalid''
        | Some deadline \<Rightarrow>
            if \<not> deadline > now \<or> time_sub deadline now > 2 * hour then Some ''build request deadline is invalid'' else None)"

text \<open>The loop over the evidence: the kinds still expected and the manifests seen.\<close>

fun evidence_complete :: "string \<Rightarrow> EvidenceReference list \<Rightarrow> string list \<Rightarrow> string list \<Rightarrow> bool" where
  "evidence_complete repository [] expected manifests \<longleftrightarrow> expected = []"
| "evidence_complete repository (r # rs) expected manifests \<longleftrightarrow>
     ev_Kind r \<in> set expected \<and> ev_Reference r = repository @ ''@'' @ ev_ManifestDigest r \<and> digest_pattern (ev_ManifestDigest r) \<and>
     digest_pattern (ev_PayloadDigest r) \<and> ev_ManifestDigest r \<notin> set manifests \<and>
     evidence_complete repository rs (removeAll (ev_Kind r) expected) (ev_ManifestDigest r # manifests)"

definition expected_evidence :: "string list" where
  "expected_evidence = [''sbom'', ''vulnerability_scan'', ''provenance'', ''signature'', ''policy_decision'']"

definition validSupplyChain :: "BrokerOutput \<Rightarrow> bool" where
  "validSupplyChain out \<longleftrightarrow>
     (let e = bu_SupplyChain out in
      sc_PolicyState e = ''accepted'' \<and> sc_ScanState e = ''passed'' \<and> digest_pattern (sc_PolicyDigest e) \<and> sc_SignerKeyID e \<noteq> [] \<and>
      1 \<le> sc_SignerKeyVersion e \<and> digest_pattern (sc_SignerPublicKeyDigest e) \<and>
      (case cut CHR ''@'' (bu_ArtifactRef out) of None \<Rightarrow> False
       | Some (repository, rest) \<Rightarrow> repository \<noteq> [] \<and> evidence_complete repository (sc_Evidence e) expected_evidence []))"

definition terminal_states :: "string list" where
  "terminal_states = [''complete'', ''failed'', ''canceled'', ''waiting'']"

definition complete_evidence :: "BrokerResult \<Rightarrow> bool" where
  "complete_evidence r \<longleftrightarrow>
     bt_Outputs r \<noteq> [] \<and> length (bt_Services r) = length (bt_Outputs r) \<and> bt_FailureCode r = [] \<and> bt_FailureMessage r = [] \<and>
     list_all digest_pattern [bt_DetectionDigest r, bt_ManifestDigest r, bt_BuildIRDigest r, bt_DefinitionDigest r, bt_AssignmentDigest r, bt_LogsDigest r] \<and>
     bt_DetectorResultRef r \<noteq> [] \<and> bt_ManifestRef r \<noteq> [] \<and> bt_GeneratedBuildRef r \<noteq> [] \<and> bt_BuildIRRef r \<noteq> [] \<and> bt_DefinitionLockRef r \<noteq> [] \<and>
     cu_Status (bt_Cleanup r) = ''clean''"

definition check_output :: "BrokerOutput \<Rightarrow> string option" where
  "check_output out =
     (if \<not> output_name_pattern (bu_Name out) \<or> bu_Kind out \<notin> {''oci_image'', ''static_bundle''} \<or> \<not> digest_pattern (bu_ArtifactDigest out) \<or>
         \<not> digest_pattern (bu_ConfigDigest out) \<or> \<not> digest_pattern (bu_ManifestDigest out) \<or> bu_ArtifactRef out = [] \<or> bu_ArtifactSize out \<le> 0
      then Some ''build output result is invalid''
      else if \<not> validSupplyChain out then Some ''build output supply-chain result is invalid''
      else None)"

definition bad_service :: "ServiceResult \<Rightarrow> bool" where
  "bad_service s \<longleftrightarrow>
     \<not> output_name_pattern (sr_Name s) \<or> \<not> validRelativePath (sr_Root s) True \<or> sr_Kind s \<notin> {''web'', ''worker'', ''private_service'', ''static''} \<or>
     sr_Language s \<notin> {''ruby'', ''node'', ''python'', ''go'', ''static'', ''docker''} \<or> sr_Framework s = [] \<or> length (sr_Framework s) > 64 \<or>
     sr_Processes s = [] \<or> length (sr_Processes s) > 32"

definition BrokerResultValidate :: "type_lib \<Rightarrow> BrokerResult \<Rightarrow> string option" where
  "BrokerResultValidate l r =
     (if bt_Version r \<noteq> CurrentResultVersion \<or> bt_Generation r = 0 \<or> bt_State r \<notin> set terminal_states
      then Some ''build result version, generation, or state is invalid''
      else if \<not> has_id_prefix (bt_BuildID r) ''bld'' \<or> \<not> has_id_prefix (bt_SourceSnapshotID r) ''snp'' then Some ''build result resource identity is invalid''
      else if \<not> digest_pattern (bt_SourceDigest r) then Some ''build result source digest is invalid''
      else if (case (tl_time l (bt_StartedAt r), tl_time l (bt_FinishedAt r)) of (Some started, Some finished) \<Rightarrow> finished < started | _ \<Rightarrow> True)
      then Some ''build result timing is invalid''
      else if bt_State r = ''complete'' \<and> \<not> complete_evidence r then Some ''complete build result is missing immutable evidence''
      else if bt_State r \<noteq> ''complete'' \<and>
         (\<not> failureCodePattern (bt_FailureCode r) \<or> bt_FailureMessage r = [] \<or> length (bt_FailureMessage r) > MaxEventMessageBytes)
      then Some ''non-complete build result lacks a safe failure''
      else case check_each check_output (bt_Outputs r) of Some e \<Rightarrow> Some e
      | None \<Rightarrow>
        if \<not> strictly_sorted (map bu_Name (bt_Outputs r)) then Some ''build output results must be sorted and unique''
        else if list_ex bad_service (bt_Services r) then Some ''build service result is invalid''
        else if bt_State r = ''complete'' \<and> map sr_Name (bt_Services r) \<noteq> map bu_Name (bt_Outputs r) then Some ''build services do not match immutable outputs''
        else None)"

definition EventValidate :: "type_lib \<Rightarrow> BuildEvent \<Rightarrow> string option" where
  "EventValidate l e =
     (if be_Version e \<noteq> CurrentEventVersion \<or> be_Generation e = 0 \<or> be_Sequence e = 0 \<or> be_Attempt e = 0 \<or>
         \<not> stagePattern (be_Stage e) \<or> \<not> eventKindPattern (be_Kind e) \<or>
         length (be_Line e) > MaxEventLineBytes \<or> length (be_Message e) > MaxEventMessageBytes \<or>
         \<not> valid_utf8 (be_Line e) \<or> \<not> valid_utf8 (be_Message e) \<or> CHR 0x00 \<in> set (be_Line e) \<or> CHR 0x00 \<in> set (be_Message e)
      then Some ''build event is invalid''
      else if \<not> has_id_prefix (be_BuildID e) ''bld'' then Some ''build event identity is invalid''
      else if tl_time l (be_OccurredAt e) = None then Some ''build event time is invalid''
      else case be_Terminal e of None \<Rightarrow> None
      | Some r \<Rightarrow>
          if be_Kind e \<noteq> ''terminal'' \<or> bt_BuildID r \<noteq> be_BuildID e \<or> bt_Generation r \<noteq> be_Generation e then Some ''terminal build event is inconsistent''
          else BrokerResultValidate l r)"

end
