(* ===== verification/Broker_Store.thy ===== *)
theory Broker_Store
  imports Broker_Types
begin

text \<open>
  The durable store of the build broker
  (\<^verbatim>\<open>src/services/build-plane/internal/buildorchestrator/broker_store.go\<close>): runs by build and generation,
  the events of each run by sequence number, and checkpoints, in three buckets of a Bolt database.
  A write happens in a transaction that is kept only when its body succeeds and the commit does.
  Canonical JSON enters as one codec per kind of record.
\<close>

section \<open>Records and buckets\<close>

record BrokerRun =
  bn_Version :: int
  bn_Request :: BuildRequest
  bn_RequestDigest :: string
  bn_State :: string
  bn_Stage :: string
  bn_Attempt :: uint32
  bn_LastSequence :: uint64
  bn_Dispatched :: bool
  bn_Result :: "BrokerResult option"
  bn_CreatedAt :: string
  bn_UpdatedAt :: string

record Checkpoint =
  ck_Version :: int
  ck_BuildID :: string
  ck_Generation :: uint64
  ck_RequestDigest :: string
  ck_StartedAt :: string
  ck_Partial :: BrokerResult
  ck_Envelope :: Envelope
  ck_UpdatedAt :: string

text \<open>The keys of a bucket of events are big-endian, so they are ordered as the numbers are.\<close>

record 'b broker_db =
  db_runs :: "'b strmap"
  db_events :: "(uint64, 'b) gomap strmap"
  db_checkpoints :: "'b strmap"

record 'b broker_lib =
  bk_types :: type_lib
  bk_request :: "BuildRequest \<Rightarrow> 'b option"
  bk_payload :: "Payload \<Rightarrow> 'b option"
  bk_envelope :: "Envelope \<Rightarrow> 'b option"
  bk_result :: "BrokerResult \<Rightarrow> 'b option"
  bk_run :: "(BrokerRun, 'b) codec"
  bk_event :: "(BuildEvent, 'b) codec"
  bk_checkpoint :: "(Checkpoint, 'b) codec"
  bk_sha256 :: "'b \<Rightarrow> uint8 list"

definition BrokerRecordVersion :: int where "BrokerRecordVersion = 1"

definition digestBytes :: "'b broker_lib \<Rightarrow> 'b \<Rightarrow> string" where
  "digestBytes l contents = ''sha256:'' @ hex_encode (bk_sha256 l contents)"

definition digestCanonicalPayload :: "'b broker_lib \<Rightarrow> Payload \<Rightarrow> string" where
  "digestCanonicalPayload l payload = (case bk_payload l payload of None \<Rightarrow> [] | Some contents \<Rightarrow> digestBytes l contents)"

section \<open>Checks\<close>

definition RunTerminalState :: "BrokerRun \<Rightarrow> bool" where
  "RunTerminalState r \<longleftrightarrow> bn_State r \<in> set [''complete'', ''failed'', ''canceled'', ''waiting'']"

definition validateBrokerIdentity :: "string \<Rightarrow> uint64 \<Rightarrow> string option" where
  "validateBrokerIdentity buildID generation =
     (if \<not> has_id_prefix buildID ''bld'' \<or> generation = 0 then Some ''build broker identity is invalid'' else None)"

definition run_result_ok :: "'b broker_lib \<Rightarrow> BrokerRun \<Rightarrow> bool" where
  "run_result_ok l r \<longleftrightarrow>
     (case bn_Result r of None \<Rightarrow> False
      | Some result \<Rightarrow> bt_State result = bn_State r \<and> bt_BuildID result = bq_BuildID (bn_Request r) \<and>
          bt_Generation result = bq_Generation (bn_Request r) \<and> BrokerResultValidate (bk_types l) result = None)"

definition BrokerRunValidate :: "'b broker_lib \<Rightarrow> BrokerRun \<Rightarrow> string option" where
  "BrokerRunValidate l r =
     (if bn_Version r \<noteq> BrokerRecordVersion \<or> validateBrokerIdentity (bq_BuildID (bn_Request r)) (bq_Generation (bn_Request r)) \<noteq> None \<or>
         \<not> digest_pattern (bn_RequestDigest r) \<or>
         bn_State r \<notin> set [''accepted'', ''running'', ''retrying'', ''canceling'', ''complete'', ''failed'', ''canceled'', ''waiting''] \<or>
         \<not> stagePattern (bn_Stage r)
      then Some ''build broker run record identity or state is invalid''
      else if (case (tl_time (bk_types l) (bn_CreatedAt r), tl_time (bk_types l) (bn_UpdatedAt r)) of
           (Some created, Some updated) \<Rightarrow> updated < created \<or> RequestValidate (bk_types l) (bn_Request r) created \<noteq> None | _ \<Rightarrow> True)
      then Some ''build broker run record timing or request is invalid''
      else if (case bk_request l (bn_Request r) of None \<Rightarrow> True | Some contents \<Rightarrow> digestBytes l contents \<noteq> bn_RequestDigest r)
      then Some ''build broker run request digest is invalid''
      else if RunTerminalState r \<and> \<not> run_result_ok l r then Some ''terminal build broker run lacks a valid result''
      else if \<not> RunTerminalState r \<and> bn_Result r \<noteq> None then Some ''nonterminal build broker run contains a terminal result''
      else None)"

definition validateCheckpointRecord :: "'b broker_lib \<Rightarrow> Checkpoint \<Rightarrow> string option" where
  "validateCheckpointRecord l c =
     (if ck_Version c \<noteq> 1 \<or> validateBrokerIdentity (ck_BuildID c) (ck_Generation c) \<noteq> None \<or> \<not> digest_pattern (ck_RequestDigest c)
      then Some ''build checkpoint identity is invalid''
      else if (case (tl_time (bk_types l) (ck_StartedAt c), tl_time (bk_types l) (ck_UpdatedAt c)) of
           (Some started, Some updated) \<Rightarrow> updated < started | _ \<Rightarrow> True)
      then Some ''build checkpoint time is invalid''
      else let payload = en_Payload (ck_Envelope c) in
        if pl_BuildID payload \<noteq> [] \<and> (pl_BuildID payload \<noteq> ck_BuildID c \<or> pl_Generation payload \<noteq> ck_Generation c \<or>
            bt_AssignmentDigest (ck_Partial c) \<noteq> digestCanonicalPayload l payload)
        then Some ''signed build checkpoint payload is invalid''
        else None)"

definition validBrokerTransition :: "string \<Rightarrow> string \<Rightarrow> bool" where
  "validBrokerTransition source target \<longleftrightarrow>
     target \<in> set (if source = ''accepted'' then [''running'', ''canceling'']
       else if source = ''running'' then [''retrying'', ''canceling'']
       else if source = ''retrying'' then [''running'', ''canceling'']
       else []) \<or> source = target"

text \<open>Strict decoding: the bytes must be the canonical form of a valid value.\<close>

definition decodeCanonical :: "('a, 'b) codec \<Rightarrow> ('a \<Rightarrow> string option) \<Rightarrow> 'b \<Rightarrow> string + 'a" where
  "decodeCanonical c validate contents =
     (case cd_decode c contents of None \<Rightarrow> Inl ''build broker record is malformed''
      | Some value \<Rightarrow>
          if cd_encode c value \<noteq> Some contents then Inl ''build broker record is not canonical''
          else case validate value of Some e \<Rightarrow> Inl e | None \<Rightarrow> Inr value)"

text \<open>What \<open>putCanonical\<close> writes.\<close>

definition encodeCanonical :: "('a, 'b) codec \<Rightarrow> ('a \<Rightarrow> string option) \<Rightarrow> 'a \<Rightarrow> string + 'b" where
  "encodeCanonical c validate value =
     (case validate value of Some e \<Rightarrow> Inl e
      | None \<Rightarrow> (case cd_encode c value of None \<Rightarrow> Inl ''canonicalize build broker record'' | Some contents \<Rightarrow> Inr contents))"

abbreviation decode_run :: "'b broker_lib \<Rightarrow> 'b \<Rightarrow> string + BrokerRun" where
  "decode_run l \<equiv> decodeCanonical (bk_run l) (BrokerRunValidate l)"

abbreviation decode_event :: "'b broker_lib \<Rightarrow> 'b \<Rightarrow> string + BuildEvent" where
  "decode_event l \<equiv> decodeCanonical (bk_event l) (EventValidate (bk_types l))"

abbreviation decode_checkpoint :: "'b broker_lib \<Rightarrow> 'b \<Rightarrow> string + Checkpoint" where
  "decode_checkpoint l \<equiv> decodeCanonical (bk_checkpoint l) (validateCheckpointRecord l)"

text \<open>\<open>putCanonical\<close> of a run.\<close>

definition put_run :: "'b broker_lib \<Rightarrow> string \<Rightarrow> BrokerRun \<Rightarrow> 'b broker_db \<Rightarrow> string + 'b broker_db" where
  "put_run l key record db =
     (case encodeCanonical (bk_run l) (BrokerRunValidate l) record of Inl e \<Rightarrow> Inl e
      | Inr contents \<Rightarrow> Inr (db\<lparr>db_runs := mput key contents (db_runs db)\<rparr>))"

section \<open>Keys\<close>

text \<open>\<^verbatim>\<open>%020d\<close>\<close>

definition pad20 :: "uint64 \<Rightarrow> string" where
  "pad20 n = (let digits = decimal (unat n) in replicate (20 - length digits) CHR ''0'' @ digits)"

definition brokerRunKey :: "string \<Rightarrow> uint64 \<Rightarrow> string" where
  "brokerRunKey buildID generation = buildID @ ''/'' @ pad20 generation"

text \<open>The newest run of a build, over the keys with its prefix.\<close>

fun latest_of :: "'b broker_lib \<Rightarrow> 'b list \<Rightarrow> BrokerRun option \<Rightarrow> string + BrokerRun option" where
  "latest_of l [] latest = Inr latest"
| "latest_of l (contents # rest) latest =
     (case decode_run l contents of Inl e \<Rightarrow> Inl e
      | Inr record \<Rightarrow>
          latest_of l rest
            (case latest of None \<Rightarrow> Some record
             | Some r \<Rightarrow> if bq_Generation (bn_Request record) > bq_Generation (bn_Request r) then Some record else latest))"

definition latestRun :: "'b broker_lib \<Rightarrow> 'b strmap \<Rightarrow> string \<Rightarrow> string + BrokerRun option" where
  "latestRun l runs buildID =
     latest_of l (map snd (sort_by (\<lambda>a b. str_compare (fst a) (fst b)) (filter (\<lambda>(key, contents). has_prefix key (buildID @ ''/'')) runs))) None"

section \<open>Operations\<close>

text \<open>\<open>db.Update\<close>: the writes of a failed body or a failed commit are dropped.\<close>

definition db_update :: "bool \<Rightarrow> ('b broker_db \<Rightarrow> string + 'r \<times> 'b broker_db) \<Rightarrow> 'b broker_db \<Rightarrow> (string + 'r) \<times> 'b broker_db" where
  "db_update commit body db =
     (case body db of Inl e \<Rightarrow> (Inl e, db)
      | Inr (r, db') \<Rightarrow> if commit then (Inr r, db') else (Inl ''commit'', db))"

abbreviation stamp :: "'b broker_lib \<Rightarrow> time \<Rightarrow> string" where
  "stamp l now \<equiv> tl_format (bk_types l) now"

definition new_run :: "'b broker_lib \<Rightarrow> BuildRequest \<Rightarrow> string \<Rightarrow> time \<Rightarrow> BrokerRun" where
  "new_run l request requestDigest now =
     \<lparr>bn_Version = BrokerRecordVersion, bn_Request = request, bn_RequestDigest = requestDigest, bn_State = ''accepted'', bn_Stage = ''accepted'',
      bn_Attempt = 0, bn_LastSequence = 0, bn_Dispatched = False, bn_Result = None, bn_CreatedAt = stamp l now, bn_UpdatedAt = stamp l now\<rparr>"

definition StoreClaim ::
  "'b broker_lib \<Rightarrow> int \<Rightarrow> bool \<Rightarrow> bool \<Rightarrow> BuildRequest \<Rightarrow> time \<Rightarrow> 'b broker_db \<Rightarrow> (string + BrokerRun \<times> bool) \<times> 'b broker_db" where
  "StoreClaim l maxRuns canceled commit request now db =
     (case RequestValidate (bk_types l) request now of Some e \<Rightarrow> (Inl e, db) | None \<Rightarrow>
     (case bk_request l request of None \<Rightarrow> (Inl ''canonicalize broker request'', db) | Some requestBytes \<Rightarrow>
      let requestDigest = digestBytes l requestBytes; key = brokerRunKey (bq_BuildID request) (bq_Generation request) in
      db_update commit (\<lambda>db.
        if canceled then Inl ''context''
        else case mget (db_runs db) key of
          Some contents \<Rightarrow>
            (case decode_run l contents of Inl e \<Rightarrow> Inl e
             | Inr existing \<Rightarrow>
                 if bn_RequestDigest existing \<noteq> requestDigest then Inl ''build generation already has a different immutable request''
                 else Inr ((existing, False), db))
        | None \<Rightarrow>
            if int (length (db_runs db)) \<ge> maxRuns then Inl ''build broker run capacity is exhausted''
            else case latestRun l (db_runs db) (bq_BuildID request) of Inl e \<Rightarrow> Inl e
            | Inr latest \<Rightarrow>
                if (case latest of None \<Rightarrow> False | Some r \<Rightarrow> bq_Generation request \<le> bq_Generation (bn_Request r)) then Inl ''build generation is stale''
                else if (case latest of None \<Rightarrow> False | Some r \<Rightarrow> \<not> RunTerminalState r) then Inl ''a prior build generation is still active''
                else let record = new_run l request requestDigest now in
                  (case put_run l key record db of Inl e \<Rightarrow> Inl e | Inr db' \<Rightarrow> Inr ((record, True), db'))) db))"

definition StoreLookup :: "'b broker_lib \<Rightarrow> bool \<Rightarrow> string \<Rightarrow> uint64 \<Rightarrow> 'b broker_db \<Rightarrow> string + BrokerRun option" where
  "StoreLookup l canceled buildID generation db =
     (case validateBrokerIdentity buildID generation of Some e \<Rightarrow> Inl e
      | None \<Rightarrow>
          if canceled then Inl ''context''
          else case mget (db_runs db) (brokerRunKey buildID generation) of None \<Rightarrow> Inr None
          | Some contents \<Rightarrow> (case decode_run l contents of Inl e \<Rightarrow> Inl e | Inr record \<Rightarrow> Inr (Some record)))"

definition StoreSetState ::
  "'b broker_lib \<Rightarrow> bool \<Rightarrow> bool \<Rightarrow> string \<Rightarrow> uint64 \<Rightarrow> string \<Rightarrow> time \<Rightarrow> 'b broker_db \<Rightarrow> (string + BrokerRun) \<times> 'b broker_db" where
  "StoreSetState l canceled commit buildID generation state now db =
     (if validateBrokerIdentity buildID generation \<noteq> None \<or> state \<notin> set [''running'', ''retrying'', ''canceling''] \<or> now = 0
      then (Inl ''build broker state update is invalid'', db)
      else db_update commit (\<lambda>db.
        if canceled then Inl ''context''
        else let key = brokerRunKey buildID generation in
          case mget (db_runs db) key of None \<Rightarrow> Inl ''build broker run is absent''
          | Some contents \<Rightarrow>
              (case decode_run l contents of Inl e \<Rightarrow> Inl e
               | Inr record \<Rightarrow>
                   if RunTerminalState record \<or> \<not> validBrokerTransition (bn_State record) state then Inl ''build broker state transition is invalid''
                   else let record' = record\<lparr>bn_State := state, bn_UpdatedAt := stamp l now\<rparr> in
                     (case put_run l key record' db of Inl e \<Rightarrow> Inl e | Inr db' \<Rightarrow> Inr (record', db')))) db)"

text \<open>What an event does to its run.\<close>

definition event_applied :: "'b broker_lib \<Rightarrow> BuildEvent \<Rightarrow> time \<Rightarrow> BrokerRun \<Rightarrow> BrokerRun" where
  "event_applied l event now record =
     record\<lparr>bn_LastSequence := be_Sequence event, bn_Stage := be_Stage event, bn_Attempt := max (bn_Attempt record) (be_Attempt event),
       bn_Dispatched := (bn_Dispatched record \<or> be_Stage event = ''assigned''), bn_UpdatedAt := stamp l now,
       bn_Result := (case be_Terminal event of None \<Rightarrow> bn_Result record | Some result \<Rightarrow> Some result),
       bn_State := (case be_Terminal event of Some result \<Rightarrow> bt_State result
         | None \<Rightarrow> if bn_State record \<noteq> ''canceling'' then ''running'' else bn_State record)\<rparr>"

definition events_of :: "'b broker_db \<Rightarrow> string \<Rightarrow> (uint64, 'b) gomap" where
  "events_of db key = (case mget (db_events db) key of None \<Rightarrow> [] | Some events \<Rightarrow> events)"

definition event_in_window :: "'b broker_lib \<Rightarrow> BuildEvent \<Rightarrow> time \<Rightarrow> BrokerRun \<Rightarrow> bool" where
  "event_in_window l event now record \<longleftrightarrow>
     (case (tl_time (bk_types l) (be_OccurredAt event), tl_time (bk_types l) (bn_CreatedAt record)) of
        (Some occurredAt, Some createdAt) \<Rightarrow> \<not> occurredAt < createdAt - minute \<and> \<not> occurredAt > now + minute
      | _ \<Rightarrow> False)"

definition StoreAppend ::
  "'b broker_lib \<Rightarrow> int \<Rightarrow> bool \<Rightarrow> bool \<Rightarrow> BuildEvent \<Rightarrow> time \<Rightarrow> 'b broker_db \<Rightarrow> (string + BuildEvent \<times> BrokerRun) \<times> 'b broker_db" where
  "StoreAppend l maxEvents canceled commit event now db =
     (if EventValidate (bk_types l) event \<noteq> None \<or> now = 0 then (Inl ''build broker event is invalid'', db)
      else let key = brokerRunKey (be_BuildID event) (be_Generation event) in
        db_update commit (\<lambda>db.
          if canceled then Inl ''context''
          else case mget (db_runs db) key of None \<Rightarrow> Inl ''build broker run is absent''
          | Some contents \<Rightarrow>
          (case decode_run l contents of Inl e \<Rightarrow> Inl e
           | Inr record \<Rightarrow>
               if RunTerminalState record then Inl ''build broker run is already terminal''
               else if \<not> event_in_window l event now record then Inl ''build broker event time is outside the run window''
               else if int (length (events_of db key)) \<ge> maxEvents then Inl ''build broker event capacity is exhausted''
               else let persisted = event\<lparr>be_Sequence := bn_LastSequence record + 1\<rparr> in
                 case encodeCanonical (bk_event l) (EventValidate (bk_types l)) persisted of Inl e \<Rightarrow> Inl e
                 | Inr bytes \<Rightarrow>
                     let db1 = db\<lparr>db_events := mput key (mput (be_Sequence persisted) bytes (events_of db key)) (db_events db)\<rparr>;
                         record' = event_applied l persisted now record in
                     (case put_run l key record' db1 of Inl e \<Rightarrow> Inl e | Inr db' \<Rightarrow> Inr ((persisted, record'), db')))) db)"

fun decode_events :: "'b broker_lib \<Rightarrow> 'b list \<Rightarrow> string + BuildEvent list" where
  "decode_events l [] = Inr []"
| "decode_events l (contents # rest) =
     (case decode_event l contents of Inl e \<Rightarrow> Inl e
      | Inr event \<Rightarrow> (case decode_events l rest of Inl e \<Rightarrow> Inl e | Inr events \<Rightarrow> Inr (event # events)))"

text \<open>The cursor starts at the successor of \<open>after\<close>, which wraps.\<close>

definition EventsAfter ::
  "'b broker_lib \<Rightarrow> bool \<Rightarrow> string \<Rightarrow> uint64 \<Rightarrow> uint64 \<Rightarrow> int \<Rightarrow> 'b broker_db \<Rightarrow> string + BuildEvent list" where
  "EventsAfter l canceled buildID generation after limit db =
     (if validateBrokerIdentity buildID generation \<noteq> None \<or> limit < 1 \<or> limit > 1000 then Inl ''build broker event query is invalid''
      else if canceled then Inl ''context''
      else decode_events l (take (nat limit) (map snd (filter (\<lambda>(sequence, contents). after + 1 \<le> sequence)
             (sort_key fst (events_of db (brokerRunKey buildID generation)))))))"

fun nonterminal_of :: "'b broker_lib \<Rightarrow> bool \<Rightarrow> int \<Rightarrow> 'b list \<Rightarrow> BrokerRun list \<Rightarrow> string + BrokerRun list" where
  "nonterminal_of l canceled limit [] result = Inr result"
| "nonterminal_of l canceled limit (contents # rest) result =
     (if canceled then Inl ''context''
      else case decode_run l contents of Inl e \<Rightarrow> Inl e
      | Inr record \<Rightarrow>
          if RunTerminalState record then nonterminal_of l canceled limit rest result
          else if int (length result) \<ge> limit then Inl ''build broker recovery limit exceeded''
          else nonterminal_of l canceled limit rest (result @ [record]))"

definition Nonterminal :: "'b broker_lib \<Rightarrow> bool \<Rightarrow> int \<Rightarrow> 'b broker_db \<Rightarrow> string + BrokerRun list" where
  "Nonterminal l canceled limit db =
     (if limit < 1 \<or> limit > 10000 then Inl ''build broker recovery limit is invalid''
      else nonterminal_of l canceled limit (map snd (sort_by (\<lambda>a b. str_compare (fst a) (fst b)) (db_runs db))) [])"

definition LoadCheckpoint :: "'b broker_lib \<Rightarrow> bool \<Rightarrow> string \<Rightarrow> uint64 \<Rightarrow> 'b broker_db \<Rightarrow> string + Checkpoint option" where
  "LoadCheckpoint l canceled buildID generation db =
     (case validateBrokerIdentity buildID generation of Some e \<Rightarrow> Inl e
      | None \<Rightarrow>
          if canceled then Inl ''context''
          else case mget (db_checkpoints db) (brokerRunKey buildID generation) of None \<Rightarrow> Inr None
          | Some contents \<Rightarrow> (case decode_checkpoint l contents of Inl e \<Rightarrow> Inl e | Inr c \<Rightarrow> Inr (Some c)))"

definition signed_differs :: "'b broker_lib \<Rightarrow> Checkpoint \<Rightarrow> Checkpoint \<Rightarrow> bool" where
  "signed_differs l existing checkpoint \<longleftrightarrow>
     pl_BuildID (en_Payload (ck_Envelope existing)) \<noteq> [] \<and>
     (bk_envelope l (ck_Envelope existing) \<noteq> bk_envelope l (ck_Envelope checkpoint) \<or>
      bk_result l (ck_Partial existing) \<noteq> bk_result l (ck_Partial checkpoint))"

definition SaveCheckpoint :: "'b broker_lib \<Rightarrow> bool \<Rightarrow> bool \<Rightarrow> Checkpoint \<Rightarrow> 'b broker_db \<Rightarrow> (string + unit) \<times> 'b broker_db" where
  "SaveCheckpoint l canceled commit checkpoint db =
     (case validateCheckpointRecord l checkpoint of Some e \<Rightarrow> (Inl e, db)
      | None \<Rightarrow>
      let key = brokerRunKey (ck_BuildID checkpoint) (ck_Generation checkpoint) in
      db_update commit (\<lambda>db.
        if canceled then Inl ''context''
        else case mget (db_runs db) key of None \<Rightarrow> Inl ''build checkpoint has no broker run''
        | Some runContents \<Rightarrow>
          if (case decode_run l runContents of Inl e \<Rightarrow> True | Inr run \<Rightarrow> bn_RequestDigest run \<noteq> ck_RequestDigest checkpoint)
          then Inl ''build checkpoint request digest differs from broker run''
          else case (case mget (db_checkpoints db) key of None \<Rightarrow> None
             | Some contents \<Rightarrow>
                 (case decode_checkpoint l contents of Inl e \<Rightarrow> Some e
                  | Inr existing \<Rightarrow> if signed_differs l existing checkpoint then Some ''signed build checkpoint identity is immutable'' else None)) of
            Some e \<Rightarrow> Inl e
          | None \<Rightarrow>
              (case encodeCanonical (bk_checkpoint l) (validateCheckpointRecord l) checkpoint of Inl e \<Rightarrow> Inl e
               | Inr contents \<Rightarrow> Inr ((), db\<lparr>db_checkpoints := mput key contents (db_checkpoints db)\<rparr>))) db)"

end
