(* ===== verification/Broker_Laws.thy ===== *)
theory Broker_Laws
  imports Broker_Store
begin

text \<open>
  The broker store, the laws. The writes that the operations can make form a step relation; by rule
  induction over it every reachable database is well typed, has at most one active generation per
  build, never changes a terminal run or a signed checkpoint, and numbers events without gaps.
\<close>

section \<open>Keys\<close>

lemma decimal_value_zeros: "decimal_value (replicate k CHR ''0'' @ ds) = decimal_value ds"
  by (induction k) (simp_all add: decimal_value_def)

lemma pad20_value: "decimal_value (pad20 n) = unat n"
  by (simp add: pad20_def Let_def decimal_value_zeros)

lemma pad20_inject [simp]: "pad20 m = pad20 n \<longleftrightarrow> m = n"
  by (metis pad20_value word_unat_eq_iff)

lemma brokerRunKey_inject:
  assumes "CHR ''/'' \<notin> set b" "CHR ''/'' \<notin> set b'"
  shows "brokerRunKey b g = brokerRunKey b' g' \<longleftrightarrow> b = b' \<and> g = g'"
proof
  assume "brokerRunKey b g = brokerRunKey b' g'"
  then have "cut CHR ''/'' (b @ CHR ''/'' # pad20 g) = cut CHR ''/'' (b' @ CHR ''/'' # pad20 g')"
    by (simp only: brokerRunKey_def append_Cons append_Nil)
  then show "b = b' \<and> g = g'" unfolding cut_append [OF assms(1)] cut_append [OF assms(2)] by simp
qed (simp only:)

lemma brokerRunKey_prefix:
  assumes "CHR ''/'' \<notin> set b" "CHR ''/'' \<notin> set b'"
  shows "has_prefix (brokerRunKey b g) (b' @ ''/'') \<longleftrightarrow> b = b'"
proof
  assume "has_prefix (brokerRunKey b g) (b' @ ''/'')"
  then obtain t where "brokerRunKey b g = b' @ CHR ''/'' # t" by (auto simp: has_prefix_iff)
  then have "cut CHR ''/'' (b @ CHR ''/'' # pad20 g) = cut CHR ''/'' (b' @ CHR ''/'' # t)"
    by (simp only: brokerRunKey_def append_Cons append_Nil)
  then show "b = b'" unfolding cut_append [OF assms(1)] cut_append [OF assms(2)] by simp
qed (auto simp: brokerRunKey_def has_prefix_iff)

definition run_key :: "BrokerRun \<Rightarrow> string" where
  "run_key r = brokerRunKey (bq_BuildID (bn_Request r)) (bq_Generation (bn_Request r))"

section \<open>Records\<close>

lemma encodeCanonical_Inr: "encodeCanonical c v x = Inr y \<longleftrightarrow> v x = None \<and> cd_encode c x = Some y"
  by (auto simp: encodeCanonical_def split: option.splits)

lemma decodeCanonical_Inr: "decodeCanonical c v y = Inr x \<longleftrightarrow> cd_decode c y = Some x \<and> cd_encode c x = Some y \<and> v x = None"
  by (auto simp: decodeCanonical_def split: option.splits if_splits)

lemma decode_encode: "codec_ok c \<Longrightarrow> encodeCanonical c v x = Inr y \<Longrightarrow> decodeCanonical c v y = Inr x"
  by (auto simp: encodeCanonical_Inr decodeCanonical_Inr codec_ok_def)

lemma run_valid_id: "BrokerRunValidate l r = None \<Longrightarrow> has_id_prefix (bq_BuildID (bn_Request r)) ''bld''"
  by (auto simp: BrokerRunValidate_def validateBrokerIdentity_def split: if_splits)

lemma run_valid_no_slash: "BrokerRunValidate l r = None \<Longrightarrow> CHR ''/'' \<notin> set (bq_BuildID (bn_Request r))"
  using run_valid_id has_id_prefix_chars(2) by blast

lemma decode_run_valid: "decode_run l c = Inr r \<Longrightarrow> BrokerRunValidate l r = None"
  by (simp add: decodeCanonical_Inr)

lemma run_key_inject:
  "decode_run l c = Inr r \<Longrightarrow> decode_run l c' = Inr r' \<Longrightarrow> run_key r = run_key r' \<longleftrightarrow>
   bq_BuildID (bn_Request r) = bq_BuildID (bn_Request r') \<and> bq_Generation (bn_Request r) = bq_Generation (bn_Request r')"
  unfolding run_key_def by (intro brokerRunKey_inject) (erule run_valid_no_slash [OF decode_run_valid])+

section \<open>Steps\<close>

text \<open>The writes that an operation can make, with the conditions under which it makes them.\<close>

inductive store_step :: "'b broker_lib \<Rightarrow> 'b broker_db \<Rightarrow> 'b broker_db \<Rightarrow> bool" for l where
  unchanged: "store_step l db db"
| claimed: "r = new_run l request requestDigest now \<Longrightarrow> mget (db_runs db) (run_key r) = None \<Longrightarrow>
    latestRun l (db_runs db) (bq_BuildID request) = Inr latest \<Longrightarrow>
    (\<And>m. latest = Some m \<Longrightarrow> bq_Generation (bn_Request m) < bq_Generation request \<and> RunTerminalState m) \<Longrightarrow>
    encodeCanonical (bk_run l) (BrokerRunValidate l) r = Inr contents \<Longrightarrow>
    store_step l db (db\<lparr>db_runs := mput (run_key r) contents (db_runs db)\<rparr>)"
| moved: "mget (db_runs db) key = Some old \<Longrightarrow> decode_run l old = Inr r \<Longrightarrow> \<not> RunTerminalState r \<Longrightarrow>
    state \<in> {''running'', ''retrying'', ''canceling''} \<Longrightarrow> validBrokerTransition (bn_State r) state \<Longrightarrow>
    encodeCanonical (bk_run l) (BrokerRunValidate l) (r\<lparr>bn_State := state, bn_UpdatedAt := stamp l now\<rparr>) = Inr contents \<Longrightarrow>
    store_step l db (db\<lparr>db_runs := mput key contents (db_runs db)\<rparr>)"
| appended: "mget (db_runs db) key = Some old \<Longrightarrow> decode_run l old = Inr r \<Longrightarrow> \<not> RunTerminalState r \<Longrightarrow>
    key = brokerRunKey (be_BuildID event) (be_Generation event) \<Longrightarrow> be_Sequence event = bn_LastSequence r + 1 \<Longrightarrow>
    encodeCanonical (bk_event l) (EventValidate (bk_types l)) event = Inr bytes \<Longrightarrow>
    encodeCanonical (bk_run l) (BrokerRunValidate l) (event_applied l event now r) = Inr contents \<Longrightarrow>
    store_step l db (db\<lparr>db_events := mput key (mput (be_Sequence event) bytes (events_of db key)) (db_events db),
      db_runs := mput key contents (db_runs db)\<rparr>)"
| saved: "key = brokerRunKey (ck_BuildID checkpoint) (ck_Generation checkpoint) \<Longrightarrow> mget (db_runs db) key = Some old \<Longrightarrow>
    decode_run l old = Inr r \<Longrightarrow> bn_RequestDigest r = ck_RequestDigest checkpoint \<Longrightarrow>
    (\<And>c existing. mget (db_checkpoints db) key = Some c \<Longrightarrow> decode_checkpoint l c = Inr existing \<Longrightarrow> \<not> signed_differs l existing checkpoint) \<Longrightarrow>
    encodeCanonical (bk_checkpoint l) (validateCheckpointRecord l) checkpoint = Inr contents \<Longrightarrow>
    store_step l db (db\<lparr>db_checkpoints := mput key contents (db_checkpoints db)\<rparr>)"

lemma db_update_step:
  assumes "\<And>r db'. body db = Inr (r, db') \<Longrightarrow> store_step l db db'"
  shows "store_step l db (snd (db_update commit body db))"
  using assms unchanged by (auto simp: db_update_def split: sum.splits)

lemma put_run_Inr:
  "put_run l key r db = Inr db' \<longleftrightarrow> (\<exists>c. encodeCanonical (bk_run l) (BrokerRunValidate l) r = Inr c \<and> db' = db\<lparr>db_runs := mput key c (db_runs db)\<rparr>)"
  by (auto simp: put_run_def split: sum.splits)

lemma StoreClaim_step: "store_step l db (snd (StoreClaim l maxRuns canceled commit request now db))"
proof -
  have body: "store_step l db db'" if u: "mget (db_runs db) (brokerRunKey (bq_BuildID request) (bq_Generation request)) = None"
    "latestRun l (db_runs db) (bq_BuildID request) = Inr latest"
    "\<not> (case latest of None \<Rightarrow> False | Some r \<Rightarrow> bq_Generation request \<le> bq_Generation (bn_Request r))"
    "\<not> (case latest of None \<Rightarrow> False | Some r \<Rightarrow> \<not> RunTerminalState r)"
    "put_run l (brokerRunKey (bq_BuildID request) (bq_Generation request)) (new_run l request d now) db = Inr db'" for d latest db'
  proof -
    have k: "run_key (new_run l request d now) = brokerRunKey (bq_BuildID request) (bq_Generation request)" by (simp add: run_key_def new_run_def)
    from u(5) obtain c where c: "encodeCanonical (bk_run l) (BrokerRunValidate l) (new_run l request d now) = Inr c"
      "db' = db\<lparr>db_runs := mput (run_key (new_run l request d now)) c (db_runs db)\<rparr>" by (auto simp: put_run_Inr k)
    show ?thesis unfolding c(2) using u(1-4) c(1) k by (intro claimed [OF refl]) (auto split: option.splits)
  qed
  show ?thesis
    unfolding StoreClaim_def Let_def
    by (cases "RequestValidate (bk_types l) request now"; cases "bk_request l request")
      (auto intro!: db_update_step unchanged elim!: body split: if_splits option.splits sum.splits)
qed

lemma StoreSetState_step: "store_step l db (snd (StoreSetState l canceled commit buildID generation state now db))"
  unfolding StoreSetState_def Let_def
  by (auto intro!: db_update_step unchanged simp: put_run_Inr split: if_splits option.splits sum.splits)
    (rule moved; simp)+

lemma StoreAppend_step: "store_step l db (snd (StoreAppend l maxEvents canceled commit event now db))"
proof -
  have body: "store_step l db db'"
    if a: "mget (db_runs db) (brokerRunKey (be_BuildID event) (be_Generation event)) = Some old" "decode_run l old = Inr r" "\<not> RunTerminalState r"
      "encodeCanonical (bk_event l) (EventValidate (bk_types l)) (event\<lparr>be_Sequence := bn_LastSequence r + 1\<rparr>) = Inr bytes"
      "put_run l (brokerRunKey (be_BuildID event) (be_Generation event)) (event_applied l (event\<lparr>be_Sequence := bn_LastSequence r + 1\<rparr>) now r)
         (db\<lparr>db_events := mput (brokerRunKey (be_BuildID event) (be_Generation event))
            (mput (bn_LastSequence r + 1) bytes (events_of db (brokerRunKey (be_BuildID event) (be_Generation event)))) (db_events db)\<rparr>) = Inr db'"
    for old r bytes db'
  proof -
    let ?e = "event\<lparr>be_Sequence := bn_LastSequence r + 1\<rparr>" and ?k = "brokerRunKey (be_BuildID event) (be_Generation event)"
    from a(5) obtain c where c: "encodeCanonical (bk_run l) (BrokerRunValidate l) (event_applied l ?e now r) = Inr c"
      "db' = db\<lparr>db_events := mput ?k (mput (be_Sequence ?e) bytes (events_of db ?k)) (db_events db), db_runs := mput ?k c (db_runs db)\<rparr>"
      by (auto simp: put_run_Inr)
    show ?thesis unfolding c(2) using a(1-4) c(1) by (intro appended) simp_all
  qed
  show ?thesis
    unfolding StoreAppend_def Let_def
    by (auto intro!: db_update_step unchanged elim!: body split: if_splits option.splits sum.splits)
qed

lemma SaveCheckpoint_step: "store_step l db (snd (SaveCheckpoint l canceled commit checkpoint db))"
proof -
  let ?k = "brokerRunKey (ck_BuildID checkpoint) (ck_Generation checkpoint)"
  have body: "store_step l db (db\<lparr>db_checkpoints := mput ?k contents (db_checkpoints db)\<rparr>)"
    if a: "mget (db_runs db) ?k = Some old"
      "\<not> (case decode_run l old of Inl e \<Rightarrow> True | Inr run \<Rightarrow> bn_RequestDigest run \<noteq> ck_RequestDigest checkpoint)"
      "(case mget (db_checkpoints db) ?k of None \<Rightarrow> None
         | Some contents \<Rightarrow>
             (case decode_checkpoint l contents of Inl e \<Rightarrow> Some e
              | Inr existing \<Rightarrow> if signed_differs l existing checkpoint then Some ''signed build checkpoint identity is immutable'' else None)) = None"
      "encodeCanonical (bk_checkpoint l) (validateCheckpointRecord l) checkpoint = Inr contents" for old contents
  proof -
    obtain r where r: "decode_run l old = Inr r" "bn_RequestDigest r = ck_RequestDigest checkpoint" using a(2) by (auto split: sum.splits)
    show ?thesis using a(3) by (intro saved [OF refl a(1) r _ a(4)]) auto
  qed
  show ?thesis
    unfolding SaveCheckpoint_def Let_def
    by (cases "validateCheckpointRecord l checkpoint") (auto intro!: db_update_step unchanged elim!: body split: if_splits option.splits sum.splits)
qed

section \<open>Well-typed databases\<close>

definition run_in :: "'b broker_lib \<Rightarrow> 'b broker_db \<Rightarrow> string \<Rightarrow> BrokerRun \<Rightarrow> bool" where
  "run_in l db key r \<longleftrightarrow> (\<exists>c. mget (db_runs db) key = Some c \<and> decode_run l c = Inr r)"

text \<open>The events of a run: one for each number up to the last, each a valid event of this run.\<close>

definition numbered :: "'b broker_lib \<Rightarrow> BrokerRun \<Rightarrow> (uint64, 'b) gomap \<Rightarrow> bool" where
  "numbered l r events \<longleftrightarrow> wf_map events \<and>
     (\<forall>n. mget events n \<noteq> None \<longleftrightarrow> 1 \<le> n \<and> n \<le> bn_LastSequence r) \<and>
     (\<forall>n c. mget events n = Some c \<longrightarrow> (\<exists>e. decode_event l c = Inr e \<and> be_Sequence e = n \<and>
        be_BuildID e = bq_BuildID (bn_Request r) \<and> be_Generation e = bq_Generation (bn_Request r)))"

definition runs_typed :: "'b broker_lib \<Rightarrow> 'b broker_db \<Rightarrow> bool" where
  "runs_typed l db \<longleftrightarrow> wf_map (db_runs db) \<and> (\<forall>key c. mget (db_runs db) key = Some c \<longrightarrow> (\<exists>r. decode_run l c = Inr r \<and> run_key r = key))"

definition events_typed :: "'b broker_lib \<Rightarrow> 'b broker_db \<Rightarrow> bool" where
  "events_typed l db \<longleftrightarrow> (\<forall>key r. run_in l db key r \<longrightarrow> numbered l r (events_of db key)) \<and>
     (\<forall>key. mget (db_runs db) key = None \<longrightarrow> mget (db_events db) key = None)"

definition checkpoints_typed :: "'b broker_lib \<Rightarrow> 'b broker_db \<Rightarrow> bool" where
  "checkpoints_typed l db \<longleftrightarrow> (\<forall>key c. mget (db_checkpoints db) key = Some c \<longrightarrow>
     (\<exists>k r. decode_checkpoint l c = Inr k \<and> brokerRunKey (ck_BuildID k) (ck_Generation k) = key \<and> run_in l db key r \<and>
        bn_RequestDigest r = ck_RequestDigest k))"

text \<open>Of two runs of a build, the older one is over.\<close>

definition one_active :: "'b broker_lib \<Rightarrow> 'b broker_db \<Rightarrow> bool" where
  "one_active l db \<longleftrightarrow> (\<forall>key r key' r'. run_in l db key r \<longrightarrow> run_in l db key' r' \<longrightarrow>
     bq_BuildID (bn_Request r) = bq_BuildID (bn_Request r') \<longrightarrow> bq_Generation (bn_Request r) < bq_Generation (bn_Request r') \<longrightarrow> RunTerminalState r)"

definition codecs_ok :: "'b broker_lib \<Rightarrow> bool" where
  "codecs_ok l \<longleftrightarrow> codec_ok (bk_run l) \<and> codec_ok (bk_event l) \<and> codec_ok (bk_checkpoint l)"

lemma run_in_unique: "run_in l db key r \<Longrightarrow> run_in l db key r' \<Longrightarrow> r = r'"
  by (auto simp: run_in_def)

lemma run_in_key: "runs_typed l db \<Longrightarrow> run_in l db key r \<Longrightarrow> run_key r = key"
  unfolding runs_typed_def run_in_def by (metis sum.inject(2))

lemma run_in_mput:
  assumes "codecs_ok l" "encodeCanonical (bk_run l) (BrokerRunValidate l) r = Inr c"
  shows "run_in l (db\<lparr>db_runs := mput key c (db_runs db)\<rparr>) key' r' \<longleftrightarrow> (if key' = key then r' = r else run_in l db key' r')"
  using decode_encode [OF _ assms(2)] assms(1) by (auto simp: run_in_def codecs_ok_def)

lemma run_in_others [simp]:
  "run_in l (db\<lparr>db_events := e\<rparr>) key r = run_in l db key r" "run_in l (db\<lparr>db_checkpoints := c\<rparr>) key r = run_in l db key r"
  by (simp_all add: run_in_def)

lemma events_of_others [simp]:
  "events_of (db\<lparr>db_runs := x\<rparr>) key = events_of db key" "events_of (db\<lparr>db_checkpoints := c\<rparr>) key = events_of db key"
  by (simp_all add: events_of_def)

lemma runs_typed_mput:
  assumes "codecs_ok l" "runs_typed l db" "encodeCanonical (bk_run l) (BrokerRunValidate l) r = Inr c"
  shows "runs_typed l (db\<lparr>db_runs := mput (run_key r) c (db_runs db)\<rparr>)"
  using decode_encode [OF _ assms(3)] assms(1,2) by (auto simp: runs_typed_def codecs_ok_def)

text \<open>The newest run bounds the others.\<close>

lemma latest_of_bound:
  "latest_of l cs latest = Inr result \<Longrightarrow>
   (\<forall>c \<in> set cs. \<exists>r m. decode_run l c = Inr r \<and> result = Some m \<and> bq_Generation (bn_Request r) \<le> bq_Generation (bn_Request m)) \<and>
   (\<forall>r. latest = Some r \<longrightarrow> (\<exists>m. result = Some m \<and> bq_Generation (bn_Request r) \<le> bq_Generation (bn_Request m))) \<and>
   (\<forall>m. result = Some m \<longrightarrow> latest = Some m \<or> (\<exists>c \<in> set cs. decode_run l c = Inr m))"
proof (induction cs arbitrary: latest)
  case (Cons c cs)
  obtain r where r: "decode_run l c = Inr r" using Cons.prems by (auto split: sum.splits)
  define next_latest where "next_latest = (case latest of None \<Rightarrow> Some r
     | Some q \<Rightarrow> if bq_Generation (bn_Request r) > bq_Generation (bn_Request q) then Some r else latest)"
  have "latest_of l cs next_latest = Inr result" using Cons.prems r by (simp add: next_latest_def)
  note ih = Cons.IH [OF this]
  obtain q where q: "next_latest = Some q" "bq_Generation (bn_Request r) \<le> bq_Generation (bn_Request q)" "q = r \<or> latest = Some q"
    "\<And>p. latest = Some p \<Longrightarrow> bq_Generation (bn_Request p) \<le> bq_Generation (bn_Request q)"
  proof (cases latest)
    case None
    then show thesis using that [of r] by (simp add: next_latest_def)
  next
    case (Some a)
    then show thesis using that [of r] that [of a]
      by (cases "bq_Generation (bn_Request a) < bq_Generation (bn_Request r)") (simp_all add: next_latest_def)
  qed
  obtain m where m: "result = Some m" "bq_Generation (bn_Request q) \<le> bq_Generation (bn_Request m)" using ih q(1) by blast
  show ?case
  proof (intro conjI allI impI ballI)
    fix x assume "x \<in> set (c # cs)"
    then show "\<exists>r m. decode_run l x = Inr r \<and> result = Some m \<and> bq_Generation (bn_Request r) \<le> bq_Generation (bn_Request m)"
      using ih r m q(2) order_trans by (metis set_ConsD)
  next
    fix p assume "latest = Some p"
    then show "\<exists>m. result = Some m \<and> bq_Generation (bn_Request p) \<le> bq_Generation (bn_Request m)" using q(4) m order_trans by blast
  next
    fix p assume "result = Some p"
    then show "latest = Some p \<or> (\<exists>x \<in> set (c # cs). decode_run l x = Inr p)" using ih q(1,3) r by auto
  qed
qed auto

lemma latestRun_bound:
  assumes "runs_typed l db" "latestRun l (db_runs db) b = Inr latest" "CHR ''/'' \<notin> set b" "run_in l db key r" "bq_BuildID (bn_Request r) = b"
  shows "\<exists>m key'. latest = Some m \<and> run_in l db key' m \<and> bq_BuildID (bn_Request m) = b \<and> bq_Generation (bn_Request r) \<le> bq_Generation (bn_Request m)"
proof -
  let ?sel = "filter (\<lambda>(key, contents). has_prefix key (b @ ''/'')) (db_runs db)"
  note bound = latest_of_bound [OF assms(2) [unfolded latestRun_def]]
  obtain c where c: "mget (db_runs db) key = Some c" "decode_run l c = Inr r" using assms(4) by (auto simp: run_in_def)
  have "has_prefix key (b @ ''/'')"
    using run_in_key [OF assms(1,4)] assms(5) by (auto simp: run_key_def brokerRunKey_def has_prefix_iff)
  then have "(key, c) \<in> set ?sel" using c(1) by (simp add: map_of_SomeD)
  then have "c \<in> set (map snd (sort_by (\<lambda>a b. str_compare (fst a) (fst b)) ?sel))" by force
  then obtain m where m: "latest = Some m" "bq_Generation (bn_Request r) \<le> bq_Generation (bn_Request m)" using bound c(2) by fastforce
  then obtain c' where "c' \<in> set (map snd (sort_by (\<lambda>a b. str_compare (fst a) (fst b)) ?sel))" "decode_run l c' = Inr m" using bound by blast
  then obtain key' where k: "(key', c') \<in> set (db_runs db)" "has_prefix key' (b @ ''/'')" "decode_run l c' = Inr m" by auto
  have "mget (db_runs db) key' = Some c'" using k(1) assms(1) wf_map_in_set [of "db_runs db" key' c'] by (simp add: runs_typed_def)
  then have in': "run_in l db key' m" using k(3) by (auto simp: run_in_def)
  then have "bq_BuildID (bn_Request m) = b"
    using run_in_key [OF assms(1)] k(2) brokerRunKey_prefix [OF run_valid_no_slash [OF decode_run_valid [OF k(3)]] assms(3)]
    by (auto simp: run_key_def)
  then show ?thesis using m in' by blast
qed

section \<open>Every step keeps the types\<close>

text \<open>A step keeps the request of every run, and a terminal run as it is.\<close>

lemma moved_keeps: "run_key (r\<lparr>bn_State := x, bn_UpdatedAt := y\<rparr>) = run_key r" "run_key (event_applied l e now r) = run_key r"
  by (simp_all add: run_key_def event_applied_def)

lemma runs_typed_step:
  assumes "store_step l db db'" "codecs_ok l" "runs_typed l db"
  shows "runs_typed l db'"
  using assms(1)
proof cases
  case (claimed r request requestDigest now latest contents)
  then show ?thesis using runs_typed_mput [OF assms(2,3)] by simp
next
  case (moved key old r state now contents)
  then have "run_key r = key" using run_in_key [OF assms(3)] by (auto simp: run_in_def)
  then show ?thesis using runs_typed_mput [OF assms(2,3) moved(7)] moved(1) by (simp add: moved_keeps)
next
  case (appended key old r event bytes contents now)
  then have "run_key r = key" using run_in_key [OF assms(3)] by (auto simp: run_in_def)
  moreover define db1 where "db1 = db\<lparr>db_events := mput key (mput (be_Sequence event) bytes (events_of db key)) (db_events db)\<rparr>"
  then have "runs_typed l db1" "db_runs db1 = db_runs db" using assms(3) by (simp_all add: runs_typed_def)
  ultimately show ?thesis
    using runs_typed_mput [OF assms(2) _ appended(8), of db1] appended(1) by (simp add: moved_keeps db1_def)
next
  case (saved key checkpoint old r contents)
  then show ?thesis using assms(3) by (simp add: runs_typed_def)
qed (use assms(3) in simp)

lemma one_active_replace:
  assumes "one_active l db" "run_in l db key r" "codecs_ok l" "encodeCanonical (bk_run l) (BrokerRunValidate l) r' = Inr c"
    and "bn_Request r' = bn_Request r" "\<not> RunTerminalState r"
  shows "one_active l (db\<lparr>db_runs := mput key c (db_runs db)\<rparr>)"
  unfolding one_active_def run_in_mput [OF assms(3,4)]
proof (intro allI impI)
  fix k1 r1 k2 r2
  assume a: "if k1 = key then r1 = r' else run_in l db k1 r1" "if k2 = key then r2 = r' else run_in l db k2 r2"
    "bq_BuildID (bn_Request r1) = bq_BuildID (bn_Request r2)" "bq_Generation (bn_Request r1) < bq_Generation (bn_Request r2)"
  show "RunTerminalState r1"
  proof (cases "k1 = key")
    case True
    then have "k2 \<noteq> key" using a by auto
    then have "RunTerminalState r" using assms(1,2,5) a True unfolding one_active_def by metis
    then show ?thesis using assms(6) by simp
  next
    case False
    then show ?thesis using assms(1,2,5) a unfolding one_active_def by (metis (full_types))
  qed
qed

lemma one_active_step:
  assumes "store_step l db db'" "codecs_ok l" "runs_typed l db" "one_active l db"
  shows "one_active l db'"
  using assms(1)
proof cases
  case (claimed r request requestDigest now latest contents)
  have req: "bn_Request r = request" using claimed(2) by (simp add: new_run_def)
  have valid: "BrokerRunValidate l r = None" using claimed(6) by (simp add: encodeCanonical_Inr)
  have slash: "CHR ''/'' \<notin> set (bq_BuildID request)" using run_valid_no_slash [OF valid] req by simp
  have older: "RunTerminalState q \<and> bq_Generation (bn_Request q) < bq_Generation request"
    if q: "run_in l db key q" "bq_BuildID (bn_Request q) = bq_BuildID request" for key q
  proof -
    obtain m key' where m: "latest = Some m" "run_in l db key' m" "bq_BuildID (bn_Request m) = bq_BuildID request"
      "bq_Generation (bn_Request q) \<le> bq_Generation (bn_Request m)"
      using latestRun_bound [OF assms(3) claimed(4) slash q] by blast
    have less: "bq_Generation (bn_Request m) < bq_Generation request" "RunTerminalState m" using claimed(5) m(1) by auto
    have "RunTerminalState q"
    proof (cases "bq_Generation (bn_Request q) < bq_Generation (bn_Request m)")
      case True
      then show ?thesis using assms(4) q m unfolding one_active_def by metis
    next
      case False
      then have "key = key'" using m q run_in_key [OF assms(3)] by (metis run_key_def order_antisym not_less)
      then show ?thesis using run_in_unique q(1) m(2) less(2) by metis
    qed
    then show ?thesis using m(4) less(1) by auto
  qed
  show ?thesis unfolding claimed(1) one_active_def run_in_mput [OF assms(2) claimed(6)]
  proof (intro allI impI)
    fix k1 r1 k2 r2
    assume a: "if k1 = run_key r then r1 = r else run_in l db k1 r1" "if k2 = run_key r then r2 = r else run_in l db k2 r2"
      "bq_BuildID (bn_Request r1) = bq_BuildID (bn_Request r2)" "bq_Generation (bn_Request r1) < bq_Generation (bn_Request r2)"
    show "RunTerminalState r1"
    proof (cases "k1 = run_key r")
      case True
      then have "k2 \<noteq> run_key r" "r1 = r" using a by auto
      then have "bq_Generation (bn_Request r2) < bq_Generation (bn_Request r1)" using older [of k2 r2] a req by simp
      then show ?thesis using a(4) by auto
    next
      case False
      show ?thesis
      proof (cases "k2 = run_key r")
        case True
        then show ?thesis using older [of k1 r1] a req False by simp
      next
        case old: False
        then show ?thesis using a False assms(4) unfolding one_active_def by metis
      qed
    qed
  qed
next
  case (moved key old r state now contents)
  then have "run_in l db key r" by (auto simp: run_in_def)
  then show ?thesis using one_active_replace [OF assms(4) _ assms(2) moved(7)] moved(1,4) by simp
next
  case (appended key old r event bytes contents now)
  then have "run_in l db key r" by (auto simp: run_in_def)
  moreover define db1 where "db1 = db\<lparr>db_events := mput key (mput (be_Sequence event) bytes (events_of db key)) (db_events db)\<rparr>"
  then have "one_active l db1" using assms(4) by (simp add: one_active_def)
  ultimately show ?thesis
    using one_active_replace [OF _ _ assms(2) appended(8), of db1 key r] appended(1,4) by (simp add: event_applied_def db1_def)
next
  case (saved key checkpoint old r contents)
  then show ?thesis using assms(4) by (simp add: one_active_def)
qed (use assms(4) in simp)

lemma numbered_empty: "bn_LastSequence r = 0 \<Longrightarrow> numbered l r []"
  by (auto simp: numbered_def)

lemma numbered_same:
  "numbered l r events \<Longrightarrow> bn_LastSequence r' = bn_LastSequence r \<Longrightarrow> bn_Request r' = bn_Request r \<Longrightarrow> numbered l r' events"
  by (simp add: numbered_def)

lemma numbered_append:
  assumes "numbered l r events" "codecs_ok l" "be_Sequence event = bn_LastSequence r + 1"
    and "encodeCanonical (bk_event l) (EventValidate (bk_types l)) event = Inr bytes"
    and "be_BuildID event = bq_BuildID (bn_Request r)" "be_Generation event = bq_Generation (bn_Request r)"
  shows "numbered l (event_applied l event now r) (mput (be_Sequence event) bytes events)"
proof -
  have d: "decode_event l bytes = Inr event" using decode_encode [OF _ assms(4)] assms(2) by (simp add: codecs_ok_def)
  have "EventValidate (bk_types l) event = None" using assms(4) by (simp add: encodeCanonical_Inr)
  then have nz: "bn_LastSequence r + 1 \<noteq> 0" using assms(3) by (auto simp: EventValidate_def split: if_splits)
  have inc: "unat (bn_LastSequence r + 1) = Suc (unat (bn_LastSequence r))"
    using nz unatSuc [of "bn_LastSequence r"] by (simp add: add.commute)
  have next_number: "1 \<le> n \<and> n \<le> bn_LastSequence r + 1 \<longleftrightarrow> n = bn_LastSequence r + 1 \<or> 1 \<le> n \<and> n \<le> bn_LastSequence r" for n
    unfolding word_le_nat_alt word_unat_eq_iff inc by auto
  show ?thesis
    using assms(1,3,5,6) d next_number unfolding numbered_def by (auto simp: event_applied_def)
qed

lemma events_typed_replace:
  assumes "codecs_ok l" "events_typed l db" "run_in l db key r" "encodeCanonical (bk_run l) (BrokerRunValidate l) r' = Inr c"
    and "\<And>k. k \<noteq> key \<Longrightarrow> mget events k = mget (db_events db) k" "numbered l r' (case mget events key of None \<Rightarrow> [] | Some e \<Rightarrow> e)"
  shows "events_typed l (db\<lparr>db_events := events, db_runs := mput key c (db_runs db)\<rparr>)"
proof -
  have at: "run_in l (db\<lparr>db_events := events, db_runs := mput key c (db_runs db)\<rparr>) k q \<longleftrightarrow> (if k = key then q = r' else run_in l db k q)" for k q
    using run_in_mput [OF assms(1,4), where db = "db\<lparr>db_events := events\<rparr>"] by simp
  have ev: "events_of (db\<lparr>db_events := events, db_runs := mput key c (db_runs db)\<rparr>) k =
      (if k = key then (case mget events key of None \<Rightarrow> [] | Some e \<Rightarrow> e) else events_of db k)" for k
    using assms(5) by (simp add: events_of_def)
  show ?thesis unfolding events_typed_def at ev using assms(2,5,6) by (auto simp: events_typed_def)
qed

lemma events_typed_step:
  assumes "store_step l db db'" "codecs_ok l" "runs_typed l db" "events_typed l db"
  shows "events_typed l db'"
  using assms(1)
proof cases
  case (claimed r request requestDigest now latest contents)
  have "mget (db_events db) (run_key r) = None" using assms(4) claimed(3) by (simp add: events_typed_def)
  then have "events_of db (run_key r) = []" by (simp add: events_of_def)
  moreover have "bn_LastSequence r = 0" using claimed(2) by (simp add: new_run_def)
  ultimately show ?thesis
    using assms(4) numbered_empty unfolding claimed(1) events_typed_def run_in_mput [OF assms(2) claimed(6)] by auto
next
  case (moved key old r state now contents)
  have r: "run_in l db key r" using moved by (auto simp: run_in_def)
  then have "numbered l r (events_of db key)" using assms(4) by (simp add: events_typed_def)
  then have "numbered l (r\<lparr>bn_State := state, bn_UpdatedAt := stamp l now\<rparr>) (events_of db key)" by (rule numbered_same) simp_all
  then show ?thesis
    using events_typed_replace [OF assms(2,4) r moved(7), of "db_events db"] moved(1) by (simp add: events_of_def)
next
  case (appended key old r event bytes now contents)
  have r: "run_in l db key r" using appended by (auto simp: run_in_def)
  have valid: "EventValidate (bk_types l) event = None" using appended(7) by (simp add: encodeCanonical_Inr)
  then have "has_id_prefix (be_BuildID event) ''bld''" by (auto simp: EventValidate_def split: if_splits)
  then have slash: "CHR ''/'' \<notin> set (be_BuildID event)" by (rule has_id_prefix_chars(2))
  have "run_key r = key" using run_in_key [OF assms(3) r] .
  then have same: "be_BuildID event = bq_BuildID (bn_Request r)" "be_Generation event = bq_Generation (bn_Request r)"
    using brokerRunKey_inject [OF run_valid_no_slash [OF decode_run_valid [OF appended(3)]] slash] appended(5) by (auto simp: run_key_def)
  have "numbered l r (events_of db key)" using assms(4) r by (simp add: events_typed_def)
  note n = numbered_append [OF this assms(2) appended(6,7) same]
  show ?thesis unfolding appended(1) by (rule events_typed_replace [OF assms(2,4) r appended(8)]) (simp_all add: n)
next
  case (saved key checkpoint old r contents)
  then show ?thesis using assms(4) by (simp add: events_typed_def)
qed (use assms(4) in simp)

text \<open>Every step keeps the request and its digest of each run.\<close>

lemma step_keeps_request:
  assumes "store_step l db db'" "codecs_ok l" "run_in l db key r"
  shows "\<exists>r'. run_in l db' key r' \<and> bn_Request r' = bn_Request r \<and> bn_RequestDigest r' = bn_RequestDigest r \<and>
    (RunTerminalState r \<longrightarrow> r' = r \<and> mget (db_runs db') key = mget (db_runs db) key) \<and>
    (bn_State r = ''canceling'' \<longrightarrow> bn_State r' = ''canceling'' \<or> RunTerminalState r')"
  using assms(1)
proof cases
  case (claimed q request requestDigest now latest contents)
  then have "key \<noteq> run_key q" using assms(3) by (auto simp: run_in_def)
  then show ?thesis using run_in_mput [OF assms(2) claimed(6)] claimed(1) assms(3) by auto
next
  case (moved k old q state now contents)
  show ?thesis
  proof (cases "key = k")
    case True
    then have "q = r" using run_in_unique [OF assms(3)] moved(2,3) by (auto simp: run_in_def)
    then show ?thesis using run_in_mput [OF assms(2) moved(7)] moved True by (auto simp: validBrokerTransition_def)
  next
    case False
    then show ?thesis using run_in_mput [OF assms(2) moved(7)] moved(1) assms(3) by auto
  qed
next
  case (appended k old q event bytes now contents)
  have at: "run_in l db' key' r' \<longleftrightarrow> (if key' = k then r' = event_applied l event now q else run_in l db key' r')" for key' r'
    unfolding appended(1)
    using run_in_mput [OF assms(2) appended(8), where db = "db\<lparr>db_events := mput k (mput (be_Sequence event) bytes (events_of db k)) (db_events db)\<rparr>"]
    by simp
  show ?thesis
  proof (cases "key = k")
    case True
    then have q: "q = r" using run_in_unique [OF assms(3)] appended(2,3) by (auto simp: run_in_def)
    have "EventValidate (bk_types l) event = None" using appended(7) by (simp add: encodeCanonical_Inr)
    then have "\<forall>t. be_Terminal event = Some t \<longrightarrow> bt_State t \<in> set terminal_states"
      by (auto simp: EventValidate_def BrokerResultValidate_def split: if_splits option.splits)
    then have "bn_State r = ''canceling'' \<longrightarrow> bn_State (event_applied l event now r) = ''canceling'' \<or> RunTerminalState (event_applied l event now r)"
      by (auto simp: event_applied_def RunTerminalState_def terminal_states_def split: option.splits)
    then show ?thesis using appended(4) q True at by (auto simp: event_applied_def)
  next
    case False
    then show ?thesis using at appended(1) assms(3) by auto
  qed
next
  case (saved k checkpoint old q contents)
  then show ?thesis using assms(3) by auto
qed (use assms(3) in auto)

lemma checkpoints_typed_step:
  assumes "store_step l db db'" "codecs_ok l" "checkpoints_typed l db"
  shows "checkpoints_typed l db'"
proof -
  have kept: "\<exists>k r. decode_checkpoint l c = Inr k \<and> brokerRunKey (ck_BuildID k) (ck_Generation k) = key \<and> run_in l db' key r \<and>
      bn_RequestDigest r = ck_RequestDigest k" if found: "mget (db_checkpoints db) key = Some c" for key c
  proof -
    obtain k r where k: "decode_checkpoint l c = Inr k" "brokerRunKey (ck_BuildID k) (ck_Generation k) = key" "run_in l db key r"
      "bn_RequestDigest r = ck_RequestDigest k" using assms(3) found unfolding checkpoints_typed_def by blast
    then show ?thesis using step_keeps_request [OF assms(1,2) k(3)] by metis
  qed
  from assms(1) show ?thesis
  proof cases
    case (saved key checkpoint old r contents)
    have d: "decode_checkpoint l contents = Inr checkpoint" using decode_encode [OF _ saved(7)] assms(2) by (simp add: codecs_ok_def)
    have r: "run_in l db key r" using saved by (auto simp: run_in_def)
    show ?thesis unfolding checkpoints_typed_def
    proof (intro allI impI)
      fix k c assume c: "mget (db_checkpoints db') k = Some c"
      show "\<exists>q r. decode_checkpoint l c = Inr q \<and> brokerRunKey (ck_BuildID q) (ck_Generation q) = k \<and> run_in l db' k r \<and> bn_RequestDigest r = ck_RequestDigest q"
      proof (cases "k = key")
        case True
        then show ?thesis using c d r saved by auto
      next
        case False
        then show ?thesis using c kept saved(1) by simp
      qed
    qed
  qed (use kept in \<open>simp_all add: checkpoints_typed_def\<close>)
qed

section \<open>Sequences of operations\<close>

datatype broker_op =
  OpClaimRun BuildRequest time
| OpSetRunState string uint64 string time
| OpAppendEvent BuildEvent time
| OpSaveCheckpoint Checkpoint

text \<open>An operation with its cancellation and the outcome of its commit; reading changes nothing.\<close>

fun broker_exec :: "'b broker_lib \<Rightarrow> int \<Rightarrow> int \<Rightarrow> bool \<times> bool \<times> broker_op \<Rightarrow> 'b broker_db \<Rightarrow> 'b broker_db" where
  "broker_exec l maxRuns maxEvents (canceled, commit, OpClaimRun q now) db = snd (StoreClaim l maxRuns canceled commit q now db)"
| "broker_exec l maxRuns maxEvents (canceled, commit, OpSetRunState b g state now) db = snd (StoreSetState l canceled commit b g state now db)"
| "broker_exec l maxRuns maxEvents (canceled, commit, OpAppendEvent e now) db = snd (StoreAppend l maxEvents canceled commit e now db)"
| "broker_exec l maxRuns maxEvents (canceled, commit, OpSaveCheckpoint c) db = snd (SaveCheckpoint l canceled commit c db)"

definition broker_all :: "'b broker_lib \<Rightarrow> int \<Rightarrow> int \<Rightarrow> (bool \<times> bool \<times> broker_op) list \<Rightarrow> 'b broker_db \<Rightarrow> 'b broker_db" where
  "broker_all l maxRuns maxEvents ops db = fold (broker_exec l maxRuns maxEvents) ops db"

definition empty_db :: "'b broker_db" where
  "empty_db = \<lparr>db_runs = [], db_events = [], db_checkpoints = []\<rparr>"

lemma broker_exec_step: "store_step l db (broker_exec l maxRuns maxEvents op db)"
  by (cases "(l, maxRuns, maxEvents, op, db)" rule: broker_exec.cases)
    (simp_all add: StoreClaim_step StoreSetState_step StoreAppend_step SaveCheckpoint_step)

lemma broker_all_steps: "(store_step l)\<^sup>*\<^sup>* db (broker_all l maxRuns maxEvents ops db)"
proof (induction ops arbitrary: db)
  case (Cons op ops)
  then show ?case using broker_exec_step [of l db maxRuns maxEvents op]
    by (simp add: broker_all_def) (metis converse_rtranclp_into_rtranclp)
qed (simp add: broker_all_def)

lemma reachable_typed:
  assumes "(store_step l)\<^sup>*\<^sup>* empty_db db" "codecs_ok l"
  shows "runs_typed l db \<and> events_typed l db \<and> checkpoints_typed l db \<and> one_active l db"
  using assms(1)
proof (induction rule: rtranclp_induct)
  case base
  show ?case
    by (simp add: empty_db_def runs_typed_def events_typed_def checkpoints_typed_def one_active_def run_in_def)
next
  case (step y z)
  then show ?case
    using runs_typed_step events_typed_step checkpoints_typed_step one_active_step assms(2) by metis
qed

lemma run_kept:
  assumes "(store_step l)\<^sup>*\<^sup>* db db'" "codecs_ok l" "run_in l db key r"
  shows "\<exists>r'. run_in l db' key r' \<and> bn_Request r' = bn_Request r \<and>
    (RunTerminalState r \<longrightarrow> r' = r \<and> mget (db_runs db') key = mget (db_runs db) key) \<and>
    (bn_State r = ''canceling'' \<longrightarrow> bn_State r' = ''canceling'' \<or> RunTerminalState r')"
  using assms(1)
proof (induction rule: rtranclp_induct)
  case base
  then show ?case using assms(3) by auto
next
  case (step y z)
  then obtain q where q: "run_in l y key q" "bn_Request q = bn_Request r"
    "RunTerminalState r \<longrightarrow> q = r \<and> mget (db_runs y) key = mget (db_runs db) key" "bn_State r = ''canceling'' \<longrightarrow> bn_State q = ''canceling'' \<or> RunTerminalState q" by blast
  then show ?case using step_keeps_request [OF step(2) assms(2) q(1)] by metis
qed

text \<open>
  C24: whatever operations a broker performs, with whatever cancellations and failed commits, its
  database stays well typed: every run decodes to a valid record under its own key, the events of a
  run are exactly the numbers up to its last, each a valid event of that run, and every checkpoint
  belongs to a run with the same request digest. This uses that decoding undoes encoding.
\<close>

theorem broker_store_typed:
  assumes "codecs_ok l"
  shows "runs_typed l (broker_all l maxRuns maxEvents ops empty_db) \<and> events_typed l (broker_all l maxRuns maxEvents ops empty_db) \<and>
    checkpoints_typed l (broker_all l maxRuns maxEvents ops empty_db)"
  using reachable_typed [OF broker_all_steps assms] by blast

text \<open>
  C5: a build has at most one active generation: in every reachable database, of two runs of the
  same build the one with the smaller generation is terminal.
\<close>

theorem broker_one_active:
  assumes "codecs_ok l" "run_in l (broker_all l maxRuns maxEvents ops empty_db) key r" "run_in l (broker_all l maxRuns maxEvents ops empty_db) key' r'"
    and "bq_BuildID (bn_Request r) = bq_BuildID (bn_Request r')" "bq_Generation (bn_Request r) < bq_Generation (bn_Request r')"
  shows "RunTerminalState r"
  using reachable_typed [OF broker_all_steps assms(1), of maxRuns maxEvents ops] assms(2-5) unfolding one_active_def by blast

text \<open>
  C6: a run ends once: later operations keep its request, leave a terminal run as it is down to its
  bytes, and lead a canceling run nowhere but to an end.
\<close>

theorem broker_run_final:
  assumes "codecs_ok l" "run_in l db key r"
  shows "\<exists>r'. run_in l (broker_all l maxRuns maxEvents ops db) key r' \<and> bn_Request r' = bn_Request r \<and>
    (RunTerminalState r \<longrightarrow> r' = r \<and> mget (db_runs (broker_all l maxRuns maxEvents ops db)) key = mget (db_runs db) key) \<and>
    (bn_State r = ''canceling'' \<longrightarrow> bn_State r' = ''canceling'' \<or> RunTerminalState r')"
  by (rule run_kept [OF broker_all_steps assms])

section \<open>Reading events\<close>

text \<open>The keys of a run's events in order.\<close>

lemma numbered_keys:
  assumes "numbered l r events"
  shows "map (unat \<circ> fst) (sort_key fst events) = [1..<Suc (unat (bn_LastSequence r))]"
proof -
  let ?keys = "map (unat \<circ> fst) (sort_key fst events)"
  have wf: "wf_map events" and dom: "mget events n \<noteq> None \<longleftrightarrow> 1 \<le> n \<and> n \<le> bn_LastSequence r" for n
    using assms by (auto simp: numbered_def)
  have "sorted (map fst (sort_key fst events))" by simp
  then have "sorted ?keys" by (simp add: sorted_iff_nth_mono word_le_nat_alt)
  moreover have "distinct (map fst (sort_key fst events))"
    using wf unfolding wf_map_def distinct_map by simp
  then have "distinct ?keys" by (simp add: distinct_conv_nth word_unat_eq_iff)
  moreover have "set ?keys = set [1..<Suc (unat (bn_LastSequence r))]"
  proof -
    have keys: "fst ` set events = {n. 1 \<le> n \<and> n \<le> bn_LastSequence r}" using dom by (auto simp: map_of_eq_None_iff)
    have "set ?keys = unat ` fst ` set events" by (auto simp: image_comp)
    also have "\<dots> = {n. 1 \<le> n \<and> n \<le> unat (bn_LastSequence r)}"
    proof (intro set_eqI iffI)
      fix n assume n: "n \<in> {n. 1 \<le> n \<and> n \<le> unat (bn_LastSequence r)}"
      have "unat (bn_LastSequence r) < 2 ^ LENGTH(64)" by (rule unsigned_less)
      then have "n < 2 ^ LENGTH(64)" using n by (blast intro: le_less_trans)
      then have "unat (of_nat n :: uint64) = n" by (rule unat_of_nat_small)
      moreover note n
      ultimately have "(of_nat n :: uint64) \<in> fst ` set events" unfolding keys by (simp add: word_le_nat_alt)
      then show "n \<in> unat ` fst ` set events" using \<open>unat (of_nat n :: uint64) = n\<close> by (metis image_eqI)
    qed (auto simp: keys word_le_nat_alt)
    finally show ?thesis by auto
  qed
  ultimately show ?thesis by (intro sorted_distinct_set_unique sorted_upt distinct_upt)
qed

lemma decode_events_all:
  "list_all (\<lambda>c. \<exists>e. decode_event l c = Inr e) cs \<Longrightarrow> \<exists>es. decode_events l cs = Inr es \<and> list_all2 (\<lambda>c e. decode_event l c = Inr e) cs es"
proof (induction cs)
  case (Cons c cs)
  then obtain e es where "decode_event l c = Inr e" "decode_events l cs = Inr es" "list_all2 (\<lambda>c e. decode_event l c = Inr e) cs es" by auto
  then show ?case by auto
qed simp

lemma filter_from: "filter (\<lambda>n. m \<le> n) [i..<j] = [max i m..<j]" for i j m :: nat
  by (induction j) (auto simp: max_def le_Suc_eq)

lemma events_after_numbers:
  assumes "numbered l r events" "after + 1 \<noteq> 0"
  shows "\<exists>es. decode_events l (take n (map snd (filter (\<lambda>(sequence, contents). after + 1 \<le> sequence) (sort_key fst events)))) = Inr es \<and>
    map (unat \<circ> be_Sequence) es = take n [Suc (unat after)..<Suc (unat (bn_LastSequence r))]"
proof -
  define sel where "sel = filter (\<lambda>(sequence, contents). after + 1 \<le> sequence) (sort_key fst events)"
  have u: "unat (after + 1) = Suc (unat after)" using assms(2) unatSuc [of after] by (simp add: add.commute)
  have "map (unat \<circ> fst) sel = filter (\<lambda>n. Suc (unat after) \<le> n) (map (unat \<circ> fst) (sort_key fst events))"
    unfolding sel_def filter_map by (intro arg_cong2 [of _ _ _ _ map] filter_cong) (auto simp: word_le_nat_alt u)
  also have "\<dots> = [Suc (unat after)..<Suc (unat (bn_LastSequence r))]" unfolding numbered_keys [OF assms(1)] filter_from by simp
  finally have keys: "map (unat \<circ> fst) sel = [Suc (unat after)..<Suc (unat (bn_LastSequence r))]" .
  have ok: "\<exists>e. decode_event l c = Inr e \<and> be_Sequence e = k" if "(k, c) \<in> set sel" for k c
  proof -
    have "(k, c) \<in> set events" using that by (simp add: sel_def)
    then have "mget events k = Some c" using assms(1) wf_map_in_set [of events k c] by (simp add: numbered_def)
    then show ?thesis using assms(1) unfolding numbered_def by blast
  qed
  have sub: "set (take n sel) \<subseteq> set sel" by (rule set_take_subset)
  have "list_all (\<lambda>c. \<exists>e. decode_event l c = Inr e) (take n (map snd sel))"
    unfolding list_all_iff take_map using ok sub by fastforce
  from decode_events_all [OF this] obtain es where es: "decode_events l (take n (map snd sel)) = Inr es"
    "list_all2 (\<lambda>c e. decode_event l c = Inr e) (take n (map snd sel)) es" by blast
  have len: "length es = length (take n sel)" using list_all2_lengthD [OF es(2)] by simp
  have "map (unat \<circ> be_Sequence) es = map (unat \<circ> fst) (take n sel)"
  proof (rule nth_equalityI)
    fix i assume "i < length (map (unat \<circ> be_Sequence) es)"
    then have i: "i < length (take n sel)" using len by simp
    obtain k c where kc: "take n sel ! i = (k, c)" by fastforce
    moreover have "take n sel ! i \<in> set sel" using subsetD [OF sub nth_mem [OF i]] .
    ultimately have "(k, c) \<in> set sel" by (simp only:)
    then obtain e where e: "decode_event l c = Inr e" "be_Sequence e = k" using ok by blast
    have "decode_event l (take n (map snd sel) ! i) = Inr (es ! i)" using list_all2_nthD [OF es(2)] i by simp
    moreover have "take n (map snd sel) ! i = c" using kc i by (simp add: take_map)
    ultimately have "es ! i = e" using e(1) by simp
    then show "map (unat \<circ> be_Sequence) es ! i = map (unat \<circ> fst) (take n sel) ! i" using i len kc e(2) by simp
  qed (simp add: len)
  then have "map (unat \<circ> be_Sequence) es = take n [Suc (unat after)..<Suc (unat (bn_LastSequence r))]"
    using keys by (metis take_map)
  then show ?thesis using es(1) by (auto simp: sel_def)
qed

text \<open>
  C23: reading resumes without gaps: after any sequence of operations, the events that follow a
  number are those with the next numbers, in order and without a gap, up to the limit or the last
  event. The number is below 2^64 - 1: the largest one has no successor, and reading from it starts
  over (\<open>events_after_largest\<close>).
\<close>

theorem EventsAfter_gapless:
  assumes "codecs_ok l" "run_in l (broker_all l maxRuns maxEvents ops empty_db) (brokerRunKey buildID generation) r"
    and "validateBrokerIdentity buildID generation = None" "1 \<le> limit" "limit \<le> 1000" "after + 1 \<noteq> 0"
  shows "\<exists>es. EventsAfter l False buildID generation after limit (broker_all l maxRuns maxEvents ops empty_db) = Inr es \<and>
    map (unat \<circ> be_Sequence) es = take (nat limit) [Suc (unat after)..<Suc (unat (bn_LastSequence r))]"
proof -
  have "events_typed l (broker_all l maxRuns maxEvents ops empty_db)" using reachable_typed [OF broker_all_steps assms(1)] by blast
  then have "numbered l r (events_of (broker_all l maxRuns maxEvents ops empty_db) (brokerRunKey buildID generation))"
    using assms(2) by (simp add: events_typed_def)
  from events_after_numbers [OF this assms(6), of "nat limit"] show ?thesis using assms(3-5) by (simp add: EventsAfter_def)
qed

text \<open>The successor wraps: after the largest number, reading starts over at the first event.\<close>

lemma events_after_largest:
  assumes "numbered l r (events_of db (brokerRunKey buildID generation))" "validateBrokerIdentity buildID generation = None" "1 \<le> limit" "limit \<le> 1000"
  shows "EventsAfter l False buildID generation (- 1) limit db =
    decode_events l (take (nat limit) (map snd (sort_key fst (events_of db (brokerRunKey buildID generation)))))"
  using assms by (simp add: EventsAfter_def case_prod_beta)

section \<open>Signed checkpoints\<close>

definition checkpoint_in :: "'b broker_lib \<Rightarrow> 'b broker_db \<Rightarrow> string \<Rightarrow> Checkpoint \<Rightarrow> bool" where
  "checkpoint_in l db key k \<longleftrightarrow> (\<exists>c. mget (db_checkpoints db) key = Some c \<and> decode_checkpoint l c = Inr k)"

lemma checkpoint_step:
  assumes "store_step l db db'" "codecs_ok l" "checkpoint_in l db key k" "pl_BuildID (en_Payload (ck_Envelope k)) \<noteq> []"
    and "inj (bk_envelope l)" "inj (bk_result l)"
  shows "\<exists>k'. checkpoint_in l db' key k' \<and> ck_Envelope k' = ck_Envelope k \<and> ck_Partial k' = ck_Partial k"
  using assms(1)
proof cases
  case (saved q checkpoint old r contents)
  have d: "decode_checkpoint l contents = Inr checkpoint" using decode_encode [OF _ saved(7)] assms(2) by (simp add: codecs_ok_def)
  show ?thesis
  proof (cases "q = key")
    case True
    obtain c where "mget (db_checkpoints db) key = Some c" "decode_checkpoint l c = Inr k" using assms(3) by (auto simp: checkpoint_in_def)
    then have "\<not> signed_differs l k checkpoint" using saved(6) True by blast
    then have "ck_Envelope checkpoint = ck_Envelope k" "ck_Partial checkpoint = ck_Partial k"
      using assms(4-6) by (auto simp: signed_differs_def dest: injD)
    then show ?thesis using saved(1) True d by (auto simp: checkpoint_in_def)
  next
    case False
    then show ?thesis using saved(1) assms(3) by (auto simp: checkpoint_in_def)
  qed
qed (use assms(3) in \<open>auto simp: checkpoint_in_def\<close>)

lemma checkpoint_kept:
  assumes "(store_step l)\<^sup>*\<^sup>* db db'" "codecs_ok l" "checkpoint_in l db key k" "pl_BuildID (en_Payload (ck_Envelope k)) \<noteq> []"
    and "inj (bk_envelope l)" "inj (bk_result l)"
  shows "\<exists>k'. checkpoint_in l db' key k' \<and> ck_Envelope k' = ck_Envelope k \<and> ck_Partial k' = ck_Partial k"
  using assms(1)
proof (induction rule: rtranclp_induct)
  case base
  then show ?case using assms(3) by blast
next
  case (step y z)
  then obtain q where "checkpoint_in l y key q" "ck_Envelope q = ck_Envelope k" "ck_Partial q = ck_Partial k" by blast
  then show ?case using checkpoint_step [OF step(2) assms(2) _ _ assms(5,6), of key q] assms(4) by auto
qed

text \<open>
  C7: a signed assignment is never replaced: once the checkpoint of a run carries one, every later
  checkpoint of the run carries the same envelope and the same partial result, so a recovered broker
  dispatches exactly what was signed. This uses that canonical encodings are injective.
\<close>

theorem checkpoint_immutable:
  assumes "codecs_ok l" "inj (bk_envelope l)" "inj (bk_result l)" "checkpoint_in l db key k" "pl_BuildID (en_Payload (ck_Envelope k)) \<noteq> []"
  shows "\<exists>k'. checkpoint_in l (broker_all l maxRuns maxEvents ops db) key k' \<and> ck_Envelope k' = ck_Envelope k \<and> ck_Partial k' = ck_Partial k"
  by (rule checkpoint_kept [OF broker_all_steps assms(1,4,5,2,3)])

end
