(* ===== verification/Broker_Samples.thy ===== *)
theory Broker_Samples
  imports Broker_Laws Assignment_Laws
begin

text \<open>
  A concrete broker store, in which each kind of record is its own bytes: a build is claimed, ends
  with a canceled result and is claimed again, and the theorems about the store apply.
\<close>

datatype stored =
  BRun BrokerRun | BEvent BuildEvent | BCheckpoint Checkpoint | BRequest BuildRequest | BPayload Payload | BEnvelope Envelope | BResult BrokerResult

definition run_codec :: "(BrokerRun, stored) codec" where
  "run_codec = \<lparr>cd_encode = (\<lambda>r. Some (BRun r)), cd_decode = (\<lambda>s. case s of BRun r \<Rightarrow> Some r | _ \<Rightarrow> None), cd_size = (\<lambda>_. 1)\<rparr>"

definition event_codec :: "(BuildEvent, stored) codec" where
  "event_codec = \<lparr>cd_encode = (\<lambda>r. Some (BEvent r)), cd_decode = (\<lambda>s. case s of BEvent r \<Rightarrow> Some r | _ \<Rightarrow> None), cd_size = (\<lambda>_. 1)\<rparr>"

definition checkpoint_codec :: "(Checkpoint, stored) codec" where
  "checkpoint_codec = \<lparr>cd_encode = (\<lambda>r. Some (BCheckpoint r)), cd_decode = (\<lambda>s. case s of BCheckpoint r \<Rightarrow> Some r | _ \<Rightarrow> None), cd_size = (\<lambda>_. 1)\<rparr>"

definition sample_types :: type_lib where
  "sample_types = \<lparr>tl_url = (\<lambda>_. Some \<lparr>au_Scheme = ''s3'', au_Host = ''bkt'', au_Path = ''/a'', au_User = False, au_RawQuery = [], au_Fragment = []\<rparr>),
     tl_time = (\<lambda>s. Some (if s = ''d'' then unix_epoch + hour else unix_epoch)), tl_format = (\<lambda>_. ''t'')\<rparr>"

definition sample_store_lib :: "stored broker_lib" where
  "sample_store_lib = \<lparr>bk_types = sample_types, bk_request = (\<lambda>q. Some (BRequest q)), bk_payload = (\<lambda>p. Some (BPayload p)),
     bk_envelope = (\<lambda>e. Some (BEnvelope e)), bk_result = (\<lambda>r. Some (BResult r)), bk_run = run_codec, bk_event = event_codec,
     bk_checkpoint = checkpoint_codec, bk_sha256 = (\<lambda>_. replicate 32 0)\<rparr>"

lemma sample_codecs: "codecs_ok sample_store_lib"
  by (simp add: codecs_ok_def codec_ok_def sample_store_lib_def run_codec_def event_codec_def checkpoint_codec_def)

lemma sample_store_digest: "digestBytes sample_store_lib x = sample_digest"
  by (simp add: digestBytes_def sample_store_lib_def hex_encode_zeros sample_digest_def)

definition sample_build_request :: "uint64 \<Rightarrow> BuildRequest" where
  "sample_build_request g = \<lparr>bq_Version = 1, bq_BuildID = sample_id ''bld'', bq_OrganizationID = sample_id ''org'', bq_ProjectID = sample_id ''prj'',
     bq_DeploymentID = sample_id ''dep'', bq_OperationID = sample_id ''op'', bq_Generation = g,
     bq_Source = \<lparr>bs_SnapshotID = sample_id ''snp'', bs_SnapshotDigest = sample_digest, bs_ManifestDigest = sample_digest,
       bs_ArchiveDigest = sample_digest, bs_ArchiveRef = ''s3://bkt/a'', bs_SizeBytes = 1, bs_SelectedRoot = ''.''\<rparr>,
     bq_Configuration = \<lparr>bc_Mode = ''auto'', bc_BuildFile = [], bc_AcceptDetected = True\<rparr>, bq_TargetPlatform = ''linux/amd64'', bq_Deadline = ''d''\<rparr>"

definition sample_end :: BrokerResult where
  "sample_end = \<lparr>bt_Version = 1, bt_BuildID = sample_id ''bld'', bt_Generation = 1, bt_State = ''canceled'', bt_SourceSnapshotID = sample_id ''snp'',
     bt_SourceDigest = sample_digest, bt_DetectionDigest = [], bt_ManifestDigest = [], bt_BuildIRDigest = [], bt_DefinitionDigest = [],
     bt_AssignmentDigest = sample_digest, bt_LogsDigest = [], bt_Outputs = [], bt_Services = [], bt_FailureCode = ''build_canceled'', bt_FailureMessage = ''m'',
     bt_StartedAt = ''t'', bt_FinishedAt = ''t'', bt_WorkerIdentity = [],
     bt_Cleanup = \<lparr>cu_Status = ''clean'', cu_ResidueCount = 0, cu_QuarantineReason = []\<rparr>, bt_CacheHits = 0, bt_CacheMisses = 0,
     bt_DetectorResultRef = [], bt_ManifestRef = [], bt_GeneratedBuildRef = [], bt_BuildIRRef = [], bt_DefinitionLockRef = []\<rparr>"

definition sample_event :: BuildEvent where
  "sample_event = \<lparr>be_Version = 1, be_BuildID = sample_id ''bld'', be_Generation = 1, be_Sequence = 1, be_Attempt = 1, be_Stage = ''canceled'',
     be_Kind = ''terminal'', be_Output = [], be_Vertex = [], be_Name = [], be_Current = 0, be_Total = 0, be_Cached = False, be_Stream = 0,
     be_Line = [], be_Code = [], be_Message = ''m'', be_OccurredAt = ''t'', be_Terminal = Some sample_end\<rparr>"

lemma sample_request_valid: "g \<noteq> 0 \<Longrightarrow> RequestValidate sample_types (sample_build_request g) unix_epoch = None"
  by (simp add: RequestValidate_def sample_build_request_def CurrentRequestVersion_def request_ids_def allowedPrefixes_def valid_source_def
      sample_types_def validRelativePath_def has_prefix_def time_sub_def max_duration_def min_duration_def)

lemma sample_end_valid: "BrokerResultValidate sample_types sample_end = None"
  by (simp add: BrokerResultValidate_def sample_end_def CurrentResultVersion_def terminal_states_def allowedPrefixes_def sample_types_def
      failureCodePattern_def has_prefix_def trim_prefix_def char_classes MaxEventMessageBytes_def Let_def)

lemma sample_event_valid: "EventValidate sample_types sample_event = None"
  using sample_end_valid
  by (simp add: EventValidate_def sample_event_def CurrentEventVersion_def stagePattern_def eventKindPattern_def token_pattern_def char_classes
      MaxEventLineBytes_def MaxEventMessageBytes_def allowedPrefixes_def sample_types_def valid_utf8_def) (simp add: sample_end_def)

section \<open>A build that is claimed, canceled and claimed again\<close>

definition sample_broker_run :: "uint64 \<Rightarrow> BrokerRun" where
  "sample_broker_run g = new_run sample_store_lib (sample_build_request g) sample_digest unix_epoch"

definition sample_ended :: BrokerRun where
  "sample_ended = event_applied sample_store_lib sample_event unix_epoch (sample_broker_run 1)"

abbreviation sample_key :: "uint64 \<Rightarrow> string" where
  "sample_key g \<equiv> brokerRunKey (sample_id ''bld'') g"

lemma sample_no_slash: "CHR ''/'' \<notin> set (sample_id ''bld'')"
  by (rule has_id_prefix_chars(2) [of _ "''bld''"]) (simp add: allowedPrefixes_def)

lemma sample_keys: "sample_key g = sample_key h \<longleftrightarrow> g = h"
  using brokerRunKey_inject [OF sample_no_slash sample_no_slash] by simp

lemma sample_lib_parts:
  "bk_types sample_store_lib = sample_types" "bk_request sample_store_lib q = Some (BRequest q)"
  "tl_time sample_types ''t'' = Some unix_epoch" "tl_format sample_types t = ''t''"
  by (simp_all add: sample_store_lib_def sample_types_def)

lemma sample_run_valid: "g \<noteq> 0 \<Longrightarrow> BrokerRunValidate sample_store_lib (sample_broker_run g) = None"
  using sample_request_valid [of g]
  by (simp add: BrokerRunValidate_def sample_broker_run_def new_run_def BrokerRecordVersion_def sample_lib_parts sample_store_digest
      validateBrokerIdentity_def stagePattern_def token_pattern_def char_classes RunTerminalState_def)
    (simp add: sample_build_request_def allowedPrefixes_def)

lemma sample_ended_parts:
  "bn_Request sample_ended = sample_build_request 1" "bn_State sample_ended = ''canceled''" "bn_LastSequence sample_ended = 1"
  "bn_Result sample_ended = Some sample_end" "RunTerminalState sample_ended"
  by (simp_all add: sample_ended_def event_applied_def sample_broker_run_def new_run_def sample_event_def sample_end_def RunTerminalState_def)

lemma sample_ended_valid: "BrokerRunValidate sample_store_lib sample_ended = None"
  using sample_request_valid [of 1] sample_end_valid
  by (simp add: BrokerRunValidate_def run_result_ok_def sample_ended_parts sample_store_digest sample_lib_parts)
    (simp add: sample_ended_def event_applied_def sample_broker_run_def new_run_def BrokerRecordVersion_def sample_lib_parts sample_event_def sample_end_def
      validateBrokerIdentity_def stagePattern_def token_pattern_def char_classes sample_build_request_def allowedPrefixes_def)

lemma sample_encode_run: "BrokerRunValidate sample_store_lib r = None \<Longrightarrow> encodeCanonical (bk_run sample_store_lib) (BrokerRunValidate sample_store_lib) r = Inr (BRun r)"
  by (simp add: encodeCanonical_Inr sample_store_lib_def run_codec_def)

lemma sample_decode_run: "BrokerRunValidate sample_store_lib r = None \<Longrightarrow> decode_run sample_store_lib (BRun r) = Inr r"
  by (simp add: decodeCanonical_Inr) (simp add: sample_store_lib_def run_codec_def)

definition sample_db1 :: "stored broker_db" where
  "sample_db1 = \<lparr>db_runs = [(sample_key 1, BRun (sample_broker_run 1))], db_events = [], db_checkpoints = []\<rparr>"

definition sample_db2 :: "stored broker_db" where
  "sample_db2 = \<lparr>db_runs = [(sample_key 1, BRun sample_ended)], db_events = [(sample_key 1, [(1, BEvent sample_event)])], db_checkpoints = []\<rparr>"

definition sample_db3 :: "stored broker_db" where
  "sample_db3 = sample_db2\<lparr>db_runs := [(sample_key 1, BRun sample_ended), (sample_key 2, BRun (sample_broker_run 2))]\<rparr>"

lemma sample_request_parts: "bq_BuildID (sample_build_request g) = sample_id ''bld''" "bq_Generation (sample_build_request g) = g"
  by (simp_all add: sample_build_request_def)

lemma sample_claim1: "snd (StoreClaim sample_store_lib 10 False True (sample_build_request 1) unix_epoch empty_db) = sample_db1"
  using sample_request_valid [of 1] sample_encode_run [OF sample_run_valid [of 1]]
  by (simp add: StoreClaim_def sample_lib_parts sample_request_parts sample_store_digest db_update_def empty_db_def latestRun_def put_run_def
      sample_db1_def Let_def flip: sample_broker_run_def)

lemma sample_append: "snd (StoreAppend sample_store_lib 10 False True sample_event unix_epoch sample_db1) = sample_db2"
proof -
  have e: "encodeCanonical (bk_event sample_store_lib) (EventValidate sample_types) sample_event = Inr (BEvent sample_event)"
    using sample_event_valid by (simp add: encodeCanonical_Inr sample_store_lib_def event_codec_def)
  have q: "sample_event\<lparr>be_Sequence := bn_LastSequence (sample_broker_run 1) + 1\<rparr> = sample_event"
    by (simp add: sample_event_def sample_broker_run_def new_run_def)
  have k: "brokerRunKey (be_BuildID sample_event) (be_Generation sample_event) = sample_key 1" "be_Sequence sample_event = 1" by (simp_all add: sample_event_def)
  have w: "event_in_window sample_store_lib sample_event unix_epoch (sample_broker_run 1)"
    by (simp add: event_in_window_def sample_lib_parts sample_event_def sample_broker_run_def new_run_def)
  have t: "\<not> RunTerminalState (sample_broker_run 1)" by (simp add: RunTerminalState_def sample_broker_run_def new_run_def)
  have now: "unix_epoch \<noteq> 0" by (simp add: unix_epoch_def)
  show ?thesis
    using sample_event_valid sample_decode_run [OF sample_run_valid [of 1]] sample_encode_run [OF sample_ended_valid]
    by (simp add: StoreAppend_def sample_lib_parts k db_update_def sample_db1_def w t now q e events_of_def put_run_def sample_db2_def Let_def
        flip: sample_ended_def)
qed

lemma sample_claim2: "snd (StoreClaim sample_store_lib 10 False True (sample_build_request 2) unix_epoch sample_db2) = sample_db3"
proof -
  have p: "has_prefix (sample_key 1) (sample_id ''bld'' @ ''/'')" using brokerRunKey_prefix [OF sample_no_slash sample_no_slash] by simp
  have d: "decode_run sample_store_lib (BRun sample_ended) = Inr sample_ended" by (rule sample_decode_run [OF sample_ended_valid])
  have latest: "latestRun sample_store_lib (db_runs sample_db2) (sample_id ''bld'') = Inr (Some sample_ended)"
    using p d by (simp add: latestRun_def sample_db2_def)
  have newer: "\<not> (2 :: uint64) \<le> 1" by (simp add: word_le_nat_alt)
  have key: "mget (db_runs sample_db2) (sample_key 2) = None" by (simp add: sample_db2_def sample_keys)
  show ?thesis
    using sample_request_valid [of 2] sample_encode_run [OF sample_run_valid [of 2]] latest key
    by (simp add: StoreClaim_def sample_lib_parts sample_request_parts sample_store_digest db_update_def put_run_def sample_ended_parts newer Let_def
        flip: sample_broker_run_def)
      (simp add: sample_db2_def sample_db3_def sample_keys)
qed

abbreviation sample_ops :: "(bool \<times> bool \<times> broker_op) list" where
  "sample_ops \<equiv> [(False, True, OpClaimRun (sample_build_request 1) unix_epoch), (False, True, OpAppendEvent sample_event unix_epoch)]"

lemma sample_all:
  "broker_all sample_store_lib 10 10 sample_ops empty_db = sample_db2"
  "broker_all sample_store_lib 10 10 (sample_ops @ [(False, True, OpClaimRun (sample_build_request 2) unix_epoch)]) empty_db = sample_db3"
  by (simp_all add: broker_all_def sample_claim1 sample_append sample_claim2)

lemma sample_runs_in:
  "run_in sample_store_lib sample_db2 (sample_key 1) sample_ended" "run_in sample_store_lib sample_db3 (sample_key 1) sample_ended"
  "run_in sample_store_lib sample_db3 (sample_key 2) (sample_broker_run 2)"
  using sample_decode_run [OF sample_ended_valid] sample_decode_run [OF sample_run_valid [of 2]]
  by (simp_all add: run_in_def sample_db2_def sample_db3_def sample_keys)

section \<open>The theorems at the sample\<close>

theorem broker_store_typed_witness:
  "runs_typed sample_store_lib sample_db3 \<and> events_typed sample_store_lib sample_db3 \<and> checkpoints_typed sample_store_lib sample_db3 \<and>
   length (db_runs sample_db3) = 2 \<and> codecs_ok sample_store_lib"
  using broker_store_typed [OF sample_codecs, of 10 10 "sample_ops @ [(False, True, OpClaimRun (sample_build_request 2) unix_epoch)]"] sample_codecs
  unfolding sample_all by (simp add: sample_db3_def)

theorem broker_one_active_witness:
  "run_in sample_store_lib sample_db3 (sample_key 1) sample_ended \<and> run_in sample_store_lib sample_db3 (sample_key 2) (sample_broker_run 2) \<and>
   RunTerminalState sample_ended"
proof -
  have "bq_BuildID (bn_Request sample_ended) = bq_BuildID (bn_Request (sample_broker_run 2))"
    "bq_Generation (bn_Request sample_ended) < bq_Generation (bn_Request (sample_broker_run 2))"
    by (simp_all add: sample_ended_parts sample_request_parts sample_broker_run_def new_run_def word_less_nat_alt)
  then show ?thesis
    using broker_one_active [OF sample_codecs, of 10 10 "sample_ops @ [(False, True, OpClaimRun (sample_build_request 2) unix_epoch)]"
        "sample_key 1" sample_ended "sample_key 2" "sample_broker_run 2"] sample_runs_in unfolding sample_all by blast
qed

theorem broker_run_final_witness:
  "run_in sample_store_lib sample_db2 (sample_key 1) sample_ended \<and> RunTerminalState sample_ended \<and>
   mget (db_runs (broker_all sample_store_lib 10 10 [(False, True, OpClaimRun (sample_build_request 2) unix_epoch)] sample_db2)) (sample_key 1) =
     mget (db_runs sample_db2) (sample_key 1)"
  using broker_run_final [OF sample_codecs sample_runs_in(1), of 10 10 "[(False, True, OpClaimRun (sample_build_request 2) unix_epoch)]"]
    sample_runs_in(1) sample_ended_parts(5) by blast

theorem EventsAfter_gapless_witness:
  "\<exists>es. EventsAfter sample_store_lib False (sample_id ''bld'') 1 0 5 sample_db2 = Inr es \<and> map (unat \<circ> be_Sequence) es = [1]"
proof -
  have i: "validateBrokerIdentity (sample_id ''bld'') 1 = None" by (simp add: validateBrokerIdentity_def allowedPrefixes_def)
  have r: "run_in sample_store_lib (broker_all sample_store_lib 10 10 sample_ops empty_db) (sample_key 1) sample_ended"
    unfolding sample_all by (rule sample_runs_in(1))
  have a: "(0 :: uint64) + 1 \<noteq> 0" by simp
  show ?thesis
    using EventsAfter_gapless [OF sample_codecs r i, of 5 0] a unfolding sample_all by (simp add: sample_ended_parts)
qed

definition sample_checkpoint :: Checkpoint where
  "sample_checkpoint = \<lparr>ck_Version = 1, ck_BuildID = sample_id ''bld'', ck_Generation = 1, ck_RequestDigest = sample_digest, ck_StartedAt = ''t'',
     ck_Partial = sample_end, ck_Envelope = sample_envelope, ck_UpdatedAt = ''t''\<rparr>"

lemma sample_checkpoint_valid: "validateCheckpointRecord sample_store_lib sample_checkpoint = None"
proof -
  have "digestCanonicalPayload sample_store_lib sample_payload = sample_digest"
    using sample_store_digest by (simp add: digestCanonicalPayload_def) (simp add: sample_store_lib_def)
  then show ?thesis
    by (simp add: validateCheckpointRecord_def sample_checkpoint_def validateBrokerIdentity_def allowedPrefixes_def sample_lib_parts sample_envelope_def
        sample_end_def) (simp add: sample_payload_def)
qed

theorem checkpoint_immutable_witness:
  "checkpoint_in sample_store_lib (sample_db1\<lparr>db_checkpoints := [(sample_key 1, BCheckpoint sample_checkpoint)]\<rparr>) (sample_key 1) sample_checkpoint \<and>
   (\<exists>k. checkpoint_in sample_store_lib
      (broker_all sample_store_lib 10 10 [(False, True, OpSaveCheckpoint (sample_checkpoint\<lparr>ck_Envelope := sample_envelope\<lparr>en_KeyID := ''other''\<rparr>\<rparr>))]
         (sample_db1\<lparr>db_checkpoints := [(sample_key 1, BCheckpoint sample_checkpoint)]\<rparr>)) (sample_key 1) k \<and> ck_Envelope k = sample_envelope)"
proof -
  have d: "decode_checkpoint sample_store_lib (BCheckpoint sample_checkpoint) = Inr sample_checkpoint"
    using sample_checkpoint_valid by (simp add: decodeCanonical_Inr) (simp add: sample_store_lib_def checkpoint_codec_def)
  then have c: "checkpoint_in sample_store_lib (sample_db1\<lparr>db_checkpoints := [(sample_key 1, BCheckpoint sample_checkpoint)]\<rparr>) (sample_key 1) sample_checkpoint"
    by (simp add: checkpoint_in_def)
  have e: "inj (bk_envelope sample_store_lib)" "inj (bk_result sample_store_lib)" by (simp_all add: inj_def sample_store_lib_def)
  have b: "pl_BuildID (en_Payload (ck_Envelope sample_checkpoint)) \<noteq> []"
    by (simp add: sample_checkpoint_def sample_envelope_def sample_payload_def sample_id_def)
  have s: "ck_Envelope sample_checkpoint = sample_envelope" by (simp add: sample_checkpoint_def)
  show ?thesis using checkpoint_immutable [OF sample_codecs e c b] c s by metis
qed

end
