(* ===== verification/Spec2Isabelle.thy ===== *)
theory Spec2Isabelle
  imports Replay_Store Controller_Live Meter_Laws Target_Laws Edge_Laws Net_Policy Domain_Ownership Broker_Samples
begin

text \<open>
  Verification of the Go core of the layerrail-lrail build platform.

  \<^bold>\<open>The program.\<close> The build plane turns a source tree into signed artifacts. A broker accepts a build
  request and keeps its run, events and checkpoints in a database. The build graph is validated
  (build IR), compiled under a policy (LLB compiler) and signed as an assignment for one cell. The
  cell verifies the assignment, refuses a replay, and hands it to a controller, which claims the run
  in a journal, executes it on disposable workers, and records a result only after cleanup. Around
  the build plane stand four smaller services: the usage meter, the regional cells that accept
  desired-state bundles, the edge configuration compiler, and domain ownership. The destination
  policy guards the egress proxy of the source plane. Paths below are relative to \<^verbatim>\<open>src/\<close>, and \<^verbatim>\<open>BP\<close> is
  \<^verbatim>\<open>services/build-plane/internal\<close>.

  \<^bold>\<open>Theories and sources.\<close>

  \<^item> \<open>Go_Prelude\<close>, \<open>Go_Text\<close>, \<open>Go_Codec\<close>, \<open>Go_Net\<close>, \<open>Go_Sort\<close>: what the sources use of the Go
    language and standard library: machine integers, times, maps, strings, path cleaning, base64,
    RFC 3339, IP addresses and prefixes, sorting. The locale \<open>comparison\<close> is the contract of
    \<open>slices.SortFunc\<close>; it is interpreted on strings, addresses and routes.
  \<^item> \<open>Platform_Id\<close>: \<^verbatim>\<open>internal/platformid/id.go\<close>.
  \<^item> \<open>Worker_Types\<close>: \<^verbatim>\<open>BP/buildworker/types.go\<close> and \<^verbatim>\<open>cleanup.go\<close>.
  \<^item> \<open>Run_Store\<close>, \<open>Run_Laws\<close>: \<^verbatim>\<open>BP/buildcontrol/types.go\<close> and the three run stores \<^verbatim>\<open>store_memory.go\<close>,
    \<^verbatim>\<open>store_file.go\<close>, \<^verbatim>\<open>store_bolt.go\<close>, each as functions on its own state. \<open>run_step\<close> is the abstract
    journal, the locale \<open>run_store\<close> its contract, interpreted on the in-memory store.
  \<^item> \<open>Replay_Store\<close>: \<^verbatim>\<open>BP/buildcell/replay.go\<close>, \<^verbatim>\<open>replay_file.go\<close>, \<^verbatim>\<open>replay_bolt.go\<close>, with the locale
    \<open>replay_store\<close>, interpreted on the in-memory store.
  \<^item> \<open>Build_IR\<close>: \<^verbatim>\<open>BP/buildir/buildir.go\<close>.
  \<^item> \<open>Llb_Policy\<close>, \<open>Llb_Policy_Laws\<close>: \<^verbatim>\<open>types.go\<close>, \<^verbatim>\<open>policy.go\<close>, \<^verbatim>\<open>capabilities.go\<close> and \<^verbatim>\<open>errors.go\<close> of
    \<^verbatim>\<open>BP/llbcompiler\<close>; \<open>Llb_Audit\<close>, \<open>Llb_Audit_Laws\<close>: its \<^verbatim>\<open>audit.go\<close>.
  \<^item> \<open>Assignment\<close>, \<open>Assignment_Laws\<close>: \<^verbatim>\<open>BP/buildcell/assignment.go\<close> and \<^verbatim>\<open>codec.go\<close>.
  \<^item> \<open>Controller\<close>, \<open>Controller_Laws\<close>, \<open>Controller_Live\<close>: \<^verbatim>\<open>BP/buildcontrol/controller.go\<close>, composed
    with the run store, the assignment and the worker types.
  \<^item> \<open>Broker_Types\<close>: \<^verbatim>\<open>BP/buildorchestrator/types.go\<close>; \<open>Broker_Store\<close>, \<open>Broker_Laws\<close>: its
    \<^verbatim>\<open>broker_store.go\<close> and the checkpoint record of \<^verbatim>\<open>orchestrator.go\<close>; \<open>Broker_Samples\<close>: a concrete store
    at which the theorems are applied. The writes of the store are the inductive relation \<open>store_step\<close>.
  \<^item> \<open>Meter\<close>, \<open>Meter_Laws\<close>: \<^verbatim>\<open>services/telemetry/internal/meter/meter.go\<close>.
  \<^item> \<open>Target_Bundle\<close>, \<open>Target_Laws\<close>: \<^verbatim>\<open>services/regional-control/internal/targetbundle/bundle.go\<close>, with
    the locale \<open>generation_store\<close>, interpreted on the in-memory store.
  \<^item> \<open>Edge_Compiler\<close>, \<open>Edge_Laws\<close>: \<^verbatim>\<open>services/edge-control/internal/compiler/compiler.go\<close>.
  \<^item> \<open>Domain_Ownership\<close>: \<^verbatim>\<open>services/dns-certificate/internal/domain/domain.go\<close>.
  \<^item> \<open>Net_Policy\<close>: \<^verbatim>\<open>internal/netpolicy/destination.go\<close>.

  \<^bold>\<open>How code becomes definitions.\<close> A struct is a \<open>record\<close> with prefixed field names, a nil pointer is
  \<open>None\<close>, a Go map is an association list with distinct keys. An operation returns an error or a
  value in a sum or option type, and the new state where it has one. Operations under a mutex, a
  file lock or a Bolt transaction are single steps, so a concurrent history is a sequence of
  operations. A failed commit, a file replacement that fails part way and a cancelled context are
  arguments of the step. Integers keep their width where the code can wrap.

  \<^bold>\<open>Parameters.\<close> JSON encoders (as codecs or functions), SHA-256, Ed25519, HMAC, the protobuf decoder,
  the URL parser, the IDNA conversion, the public suffix list, the resolver and the regular expression
  check are arguments. Where a theorem needs a law of one of them, such as that decoding undoes
  encoding, the law is a hypothesis and the witness of the theorem instantiates it. The controller
  reads the answers of clock, broker, allocator and workers from the record \<open>surroundings\<close>, and other
  parties may use the journal between any two of its calls.

  \<^bold>\<open>What the lemmas show.\<close>

  \<^item> Run journal: over every history records stay valid, the live lease of a run without a cancellation
    excludes other owners and its end lets them in, and a cancellation is never lost; the Bolt store
    refines the in-memory one, and so does the file store as long as its state stays within the size
    it can read back.
  \<^item> Replay: no nonce is accepted twice and the generations of a build increase; the file and Bolt stores refine
    the in-memory one.
  \<^item> Broker store: every reachable database is well typed, has at most one active generation per
    build, never changes a terminal run or a signed checkpoint, and is read without gaps from every cursor
    but the largest.
  \<^item> IR, policy, audit, assignment: an accepted graph is acyclic with confined paths; derived
    capabilities stay within the policy, hide secrets and separate the caches of projects; a
    definition that passes the audit, or is resolved from an assignment, uses only what its lock
    grants; an envelope is accepted only in a bounded window, and signing makes one that verifies.
  \<^item> Controller: leases and workers are handed back, a result is durable before it is reported, a run
    is complete only with proven outputs and cleanup, in surroundings that do not fail it completes
    within the attempts that the stores record, and its log digest determines the events up to bytes
    that are not valid UTF-8.
  \<^item> Meter: every batch returns and each fact is counted once. Target bundles: accepted generations
    form a chain and no bundle takes effect twice. Edge: no host name is served for two organizations, and with distinct identifiers
    and moderate priorities the outcome does not depend on the order of the intents. Domains: a challenge is passed once. Destinations: every pinned
    address avoids the blocked ranges. Identifiers: what is generated parses back.

  \<^bold>\<open>Bounds and termination.\<close> No definition uses fuel. The depth-first search \<open>visit\<close> of the audit ends
  because the operations not yet on its path decrease, \<open>missing_from\<close> of the meter because its counter
  approaches the maximum. The watermark loop \<open>advance\<close> could run for ever on a map with every 64-bit
  key, so it is a \<open>partial_function (option)\<close>, and that it returns is a theorem. Limits of the code
  (entries, attempts, events, sizes) are its own constants or arguments.

  \<^bold>\<open>Not modelled.\<close> Code that only drives other systems has nothing here to compute with: the BuildKit
  graph builder (\<^verbatim>\<open>BP/llbcompiler/compiler.go\<close>), worker execution, the Kubernetes adapter, TLS and gRPC
  transport, object-store access, the OpenBao clients, process wiring, and the opening of database
  files with their path checks. Starlark evaluation (\<^verbatim>\<open>BP/dsl\<close>) is a library. Generated protocol code,
  the Rails control plane, the TypeScript client, the Python detector and the deployment manifests
  are other programs. Some packages do hold rules of their own that this development does not cover:
  the lease store and retention of \<^verbatim>\<open>BP/buildregistry\<close>, the document normalization of \<^verbatim>\<open>BP/buildsupply\<close>,
  the policy and ClientHello parser of \<^verbatim>\<open>BP/buildegress\<close>, the retry loop of \<^verbatim>\<open>BP/residueagent\<close>, the log
  redactor of \<^verbatim>\<open>BP/buildworker\<close>, the stages of \<^verbatim>\<open>BP/buildorchestrator/orchestrator.go\<close>, and the source
  plane with its signed grants. Wiping secrets from memory has no counterpart in the model.
\<close>

end
